(* ===== verification/Prelude.thy ===== *)
theory Prelude
  imports Complex_Main "HOL-Library.AList" "HOL-Library.Char_ord" "HOL-Library.List_Lexorder"
    "HOL-Library.Sublist"
begin

text \<open>
  The vocabulary the component theories share: Python strings, dictionaries and JSON values as
  the sources use them, and the generic facts about them.

  A Python \<open>str\<close> is a \<open>string\<close> holding its UTF-8 bytes. \<open>py_len\<close> and
  \<open>py_take\<close> count code points, as \<open>len\<close> and slicing do; byte order agrees with
  code point order, so \<open>sorted\<close> is \<open>sort\<close> under the lexicographic order. The
  character classes (white space, digits, case) are the ASCII ones. A \<open>dict\<close> is an
  association list in insertion order with distinct keys: \<open>d[k] = v\<close> is
  \<open>AList.update\<close>, \<open>d.get(k)\<close> is \<open>map_of\<close>, \<open>del d[k]\<close> is
  \<open>AList.delete\<close>. A \<open>datetime\<close> is an \<open>int\<close> (microseconds since the
  epoch), a Python \<open>int\<close> an \<open>int\<close>, a \<open>float\<close> a rational.
\<close>

named_theorems dict_simps \<open>lookup, keys and distinctness of updated dictionaries\<close>
named_theorems py_str_simps \<open>Python string operations\<close>

type_synonym time = int
type_synonym ('k, 'v) dict = "('k \<times> 'v) list"


section \<open>Strings\<close>

definition nl :: string where
  "nl = [CHR 0x0A]"

definition arrow :: string where \<comment> \<open>U+2192\<close>
  "arrow = [CHR 0xE2, CHR 0x86, CHR 0x92]"

definition ellipsis :: string where \<comment> \<open>U+2026\<close>
  "ellipsis = [CHR 0xE2, CHR 0x80, CHR 0xA6]"

definition em_dash :: string where \<comment> \<open>U+2014\<close>
  "em_dash = [CHR 0xE2, CHR 0x80, CHR 0x94]"

definition is_cont :: "char \<Rightarrow> bool" where \<comment> \<open>a UTF-8 continuation byte\<close>
  "is_cont c \<longleftrightarrow> (of_char c :: nat) div 64 = 2"

definition py_len :: "string \<Rightarrow> nat" where
  "py_len s = length (filter (\<lambda>c. \<not> is_cont c) s)"

fun py_take :: "nat \<Rightarrow> string \<Rightarrow> string" where
  "py_take n [] = []"
| "py_take n (c # s) =
     (if is_cont c then c # py_take n s
      else (case n of 0 \<Rightarrow> [] | Suc m \<Rightarrow> c # py_take m s))"

definition is_digit :: "char \<Rightarrow> bool" where
  "is_digit c \<longleftrightarrow> CHR ''0'' \<le> c \<and> c \<le> CHR ''9''"

definition is_space :: "char \<Rightarrow> bool" where
  "is_space c \<longleftrightarrow> c \<in> {CHR '' '', CHR 0x09, CHR 0x0A, CHR 0x0B, CHR 0x0C, CHR 0x0D,
     CHR 0x1C, CHR 0x1D, CHR 0x1E, CHR 0x1F}"

definition lower_char :: "char \<Rightarrow> char" where
  "lower_char c = (if CHR ''A'' \<le> c \<and> c \<le> CHR ''Z'' then char_of ((of_char c :: nat) + 32) else c)"

definition upper_char :: "char \<Rightarrow> char" where
  "upper_char c = (if CHR ''a'' \<le> c \<and> c \<le> CHR ''z'' then char_of ((of_char c :: nat) - 32) else c)"

definition py_lower :: "string \<Rightarrow> string" where
  "py_lower = map lower_char"

definition py_upper :: "string \<Rightarrow> string" where
  "py_upper = map upper_char"

text \<open>\<open>str.capitalize\<close>: the first character upper case, the rest lower case.\<close>

definition py_capitalize :: "string \<Rightarrow> string" where
  "py_capitalize s = (case s of [] \<Rightarrow> [] | c # r \<Rightarrow> upper_char c # py_lower r)"

definition py_strip :: "string \<Rightarrow> string" where
  "py_strip s = rev (dropWhile is_space (rev (dropWhile is_space s)))"

definition py_rstrip_char :: "char \<Rightarrow> string \<Rightarrow> string" where
  "py_rstrip_char c s = rev (dropWhile (\<lambda>x. x = c) (rev s))"

definition py_replace_char :: "char \<Rightarrow> char \<Rightarrow> string \<Rightarrow> string" where
  "py_replace_char a b = map (\<lambda>c. if c = a then b else c)"

fun py_join :: "string \<Rightarrow> string list \<Rightarrow> string" where
  "py_join sep [] = []"
| "py_join sep [x] = x"
| "py_join sep (x # y # xs) = x @ sep @ py_join sep (y # xs)"

text \<open>\<open>str.splitlines\<close>: the line boundaries are those of the ASCII range.\<close>

definition is_line_break :: "char \<Rightarrow> bool" where
  "is_line_break c \<longleftrightarrow> c \<in> {CHR 0x0A, CHR 0x0B, CHR 0x0C, CHR 0x0D, CHR 0x1C, CHR 0x1D, CHR 0x1E}"

fun splitlines_acc :: "string \<Rightarrow> string \<Rightarrow> string list" where
  "splitlines_acc acc [] = (if acc = [] then [] else [rev acc])"
| "splitlines_acc acc [c] = (if is_line_break c then [rev acc] else [rev (c # acc)])"
| "splitlines_acc acc (c # d # s) =
     (if c = CHR 0x0D \<and> d = CHR 0x0A then rev acc # splitlines_acc [] s
      else if is_line_break c then rev acc # splitlines_acc [] (d # s)
      else splitlines_acc (c # acc) (d # s))"

definition py_splitlines :: "string \<Rightarrow> string list" where
  "py_splitlines s = splitlines_acc [] s"

text \<open>\<open>xs[-n:]\<close> for a positive \<open>n\<close>.\<close>

definition py_last :: "nat \<Rightarrow> 'a list \<Rightarrow> 'a list" where
  "py_last n xs = drop (length xs - n) xs"


section \<open>Numbers as text\<close>

definition digit :: "nat \<Rightarrow> char" where
  "digit d = char_of (48 + d)"

fun show_nat :: "nat \<Rightarrow> string" where
  "show_nat n = (if n < 10 then [digit n] else show_nat (n div 10) @ [digit (n mod 10)])"

declare show_nat.simps [simp del]

definition show_int :: "int \<Rightarrow> string" where
  "show_int i = (if i < 0 then CHR ''-'' # show_nat (nat (- i)) else show_nat (nat i))"

text \<open>\<open>f"{n:04d}"\<close> and its kin for \<open>n \<ge> 0\<close>.\<close>

definition zero_pad :: "nat \<Rightarrow> string \<Rightarrow> string" where
  "zero_pad w s = replicate (w - length s) (CHR ''0'') @ s"

definition digit_val :: "char \<Rightarrow> nat" where
  "digit_val c = of_char c - 48"

definition nat_of_digits :: "string \<Rightarrow> nat" where
  "nat_of_digits s = foldl (\<lambda>n c. 10 * n + digit_val c) 0 s"

text \<open>\<open>int(text)\<close> on text without underscores: an optional sign and at least one digit.\<close>

definition parse_int :: "string \<Rightarrow> int option" where
  "parse_int text =
     (let s = py_strip text;
          neg = (s \<noteq> [] \<and> hd s = CHR ''-'');
          d = (if s \<noteq> [] \<and> (hd s = CHR ''-'' \<or> hd s = CHR ''+'') then tl s else s)
      in if d \<noteq> [] \<and> list_all is_digit d
         then Some (if neg then - int (nat_of_digits d) else int (nat_of_digits d))
         else None)"

text \<open>\<open>f"{n:,}"\<close> for \<open>n \<ge> 0\<close>.\<close>

fun comma_groups :: "string \<Rightarrow> string" where
  "comma_groups (a # b # c # d # s) = a # b # c # CHR '','' # comma_groups (d # s)"
| "comma_groups s = s"

definition show_commas :: "nat \<Rightarrow> string" where
  "show_commas n = rev (comma_groups (rev (show_nat n)))"

text \<open>
  \<open>f"{x:g}"\<close> of a number: six significant digits, ties to even, without trailing zeros,
  in scientific notation below \<open>1e-4\<close> and from \<open>1e6\<close> on. The exponent is that
  of the leading digit; below 1 it is the least power of ten that is at least \<open>1 / x\<close>.
\<close>

definition round_half_even :: "rat \<Rightarrow> int" where
  "round_half_even x =
     (let f = \<lfloor>x\<rfloor>; d = x - of_int f
      in if d < 1 / 2 then f else if d > 1 / 2 then f + 1 else if even f then f else f + 1)"

definition dec_exp :: "rat \<Rightarrow> int" where
  "dec_exp x =
     (if x \<ge> 1 then int (length (show_nat (nat \<lfloor>x\<rfloor>))) - 1
      else (let m = nat \<lceil>1 / x\<rceil> in - int (length (show_nat (m - 1)))))"

definition strip_zeros :: "string \<Rightarrow> string" where
  "strip_zeros = py_rstrip_char (CHR ''0'')"

definition show_g_pos :: "rat \<Rightarrow> string" where
  "show_g_pos x =
     (let e0 = dec_exp x;
          d0 = round_half_even (if e0 \<le> 5 then x * 10 ^ nat (5 - e0) else x / 10 ^ nat (e0 - 5));
          (d, e) = (if d0 \<ge> 1000000 then (d0 div 10, e0 + 1) else (d0, e0));
          ds = show_nat (nat d);
          dotted = (\<lambda>i f. let g = strip_zeros f in if g = [] then i else i @ ''.'' @ g)
      in if -4 \<le> e \<and> e < 0 then dotted ''0'' (replicate (nat (- e - 1)) (CHR ''0'') @ ds)
         else if 0 \<le> e \<and> e < 6 then dotted (take (nat e + 1) ds) (drop (nat e + 1) ds)
         else dotted (take 1 ds) (drop 1 ds) @ ''e'' @ (if e < 0 then ''-'' else ''+'')
                @ zero_pad 2 (show_nat (nat \<bar>e\<bar>)))"

definition show_g :: "rat \<Rightarrow> string" where
  "show_g x = (if x = 0 then ''0'' else if x < 0 then CHR ''-'' # show_g_pos (- x) else show_g_pos x)"


section \<open>Dates as text\<close>

text \<open>
  A \<open>datetime\<close> in UTC as \<open>f"{t:%Y-%m-%d %H:%M}"\<close> prints it: the proleptic
  Gregorian date of the day number counted from 1970-01-01, and the time of day. Years are
  counted from March so that the leap day is the last of its year.
\<close>

definition civil :: "int \<Rightarrow> int \<times> int \<times> int" where
  "civil days =
     (let z = days + 719468; era = z div 146097; doe = z - era * 146097;
          yoe = (doe - doe div 1460 + doe div 36524 - doe div 146096) div 365;
          doy = doe - (365 * yoe + yoe div 4 - yoe div 100);
          mp = (5 * doy + 2) div 153;
          d = doy - (153 * mp + 2) div 5 + 1;
          m = (if mp < 10 then mp + 3 else mp - 9);
          y = yoe + era * 400 + (if m \<le> 2 then 1 else 0)
      in (y, m, d))"

definition pad_int :: "nat \<Rightarrow> int \<Rightarrow> string" where
  "pad_int w i = zero_pad w (show_nat (nat i))"

definition microseconds_per_hour :: int where
  "microseconds_per_hour = 3600000000"

definition show_hhmm :: "time \<Rightarrow> string" where
  "show_hhmm t = (let minutes = t div 60000000 mod 1440
     in pad_int 2 (minutes div 60) @ '':'' @ pad_int 2 (minutes mod 60))"

definition show_date :: "time \<Rightarrow> string" where
  "show_date t = (let (y, m, d) = civil (t div 86400000000)
     in pad_int 4 y @ ''-'' @ pad_int 2 m @ ''-'' @ pad_int 2 d)"

definition show_minute :: "time \<Rightarrow> string" where
  "show_minute t = show_date t @ '' '' @ show_hhmm t"


section \<open>JSON values\<close>

text \<open>
  \<open>dict[str, Any]\<close> arguments of plan steps. Numbers with a fraction are left out: the
  argument tables of the sources (\<open>slas_hal.primitives._ARG_TYPES\<close>) admit strings,
  integers and arrays of strings only.
\<close>

datatype json =
    JNull
  | JBool bool
  | JInt int
  | JStr string
  | JList "json list"
  | JObj "(string \<times> json) list"

definition py_quote :: "string \<Rightarrow> string" where
  "py_quote s = (let q = (if CHR 0x27 \<in> set s \<and> CHR 0x22 \<notin> set s then CHR 0x22 else CHR 0x27)
     in [q] @ concat (map (\<lambda>c. if c = q \<or> c = CHR 0x5C then [CHR 0x5C, c]
                               else if c = CHR 0x0A then [CHR 0x5C, CHR ''n'']
                               else if c = CHR 0x0D then [CHR 0x5C, CHR ''r'']
                               else if c = CHR 0x09 then [CHR 0x5C, CHR ''t''] else [c]) s) @ [q])"

fun py_repr :: "json \<Rightarrow> string" where
  "py_repr JNull = ''None''"
| "py_repr (JBool b) = (if b then ''True'' else ''False'')"
| "py_repr (JInt i) = show_int i"
| "py_repr (JStr s) = py_quote s"
| "py_repr (JList xs) = ''['' @ py_join '', '' (map py_repr xs) @ '']''"
| "py_repr (JObj kvs) =
     ''{'' @ py_join '', '' (map (\<lambda>kv. py_quote (fst kv) @ '': '' @ py_repr (snd kv)) kvs) @ ''}''"

text \<open>\<open>str(value)\<close>.\<close>

definition py_str :: "json \<Rightarrow> string" where
  "py_str v = (case v of JStr s \<Rightarrow> s | _ \<Rightarrow> py_repr v)"

text \<open>\<open>int(value)\<close>; \<open>None\<close> is the \<open>TypeError\<close> or \<open>ValueError\<close>.\<close>

definition py_int :: "json \<Rightarrow> int option" where
  "py_int v = (case v of JInt i \<Rightarrow> Some i | JBool b \<Rightarrow> Some (if b then 1 else 0)
     | JStr s \<Rightarrow> parse_int s | _ \<Rightarrow> None)"


section \<open>Facts about dictionaries\<close>

definition dict_wf :: "('k, 'v) dict \<Rightarrow> bool" where
  "dict_wf d \<longleftrightarrow> distinct (map fst d)"

lemma dict_wf_Nil [simp, dict_simps]: "dict_wf []"
  by (simp add: dict_wf_def)

lemma dict_wf_update [simp, dict_simps]: "dict_wf d \<Longrightarrow> dict_wf (AList.update k v d)"
  unfolding dict_wf_def by (rule distinct_update)

lemma dict_wf_delete [simp, dict_simps]: "dict_wf d \<Longrightarrow> dict_wf (AList.delete k d)"
  unfolding dict_wf_def by (rule distinct_delete)

lemma dict_get_update [simp, dict_simps]:
  "map_of (AList.update k v d) k' = (if k' = k then Some v else map_of d k')"
  by (simp add: update_conv')

lemma dict_get_delete [simp, dict_simps]:
  "map_of (AList.delete k d) k' = (if k' = k then None else map_of d k')"
  by (simp add: delete_conv')

lemma dict_keys_update [dict_simps]:
  "map fst (AList.update k v d) = (if k \<in> set (map fst d) then map fst d else map fst d @ [k])"
  by (simp add: update_keys)

lemma dict_update_notin [dict_simps]:
  "k \<notin> set (map fst d) \<Longrightarrow> AList.update k v d = d @ [(k, v)]"
  by (induction d) auto

lemma find_snoc [simp]:
  "List.find P (xs @ [y]) = (case List.find P xs of None \<Rightarrow> if P y then Some y else None | Some x \<Rightarrow> Some x)"
  by (induction xs) auto

lemma dict_values_in: "map_of d k = Some v \<Longrightarrow> v \<in> set (map snd d)"
  by (force dest: map_of_SomeD)


section \<open>Facts about strings\<close>

lemma py_len_append [simp]: "py_len (s @ t) = py_len s + py_len t"
  by (simp add: py_len_def)

lemma py_len_Nil [simp]: "py_len [] = 0"
  by (simp add: py_len_def)

lemma py_len_take [simp]: "py_len (py_take n s) = min n (py_len s)"
  by (induction n s rule: py_take.induct) (auto simp: py_len_def split: nat.splits)

lemma py_len_ellipsis [simp]: "py_len ellipsis = 1"
  by (simp add: py_len_def ellipsis_def is_cont_def of_char_def)

lemma py_take_all: "py_len s \<le> n \<Longrightarrow> py_take n s = s"
  by (induction n s rule: py_take.induct) (auto simp: py_len_def split: nat.splits if_splits)

lemma of_char_digit: "d < 10 \<Longrightarrow> (of_char (digit d) :: nat) = 48 + d"
  by (simp add: digit_def of_char_of)

lemma digit_val_digit [simp]: "d < 10 \<Longrightarrow> digit_val (digit d) = d"
  by (simp add: digit_val_def of_char_digit)

lemma is_digit_of_char: "is_digit c \<longleftrightarrow> 48 \<le> (of_char c :: nat) \<and> (of_char c :: nat) \<le> 57"
  by (simp add: is_digit_def less_eq_char_def)

lemma is_digit_digit [simp]: "d < 10 \<Longrightarrow> is_digit (digit d)"
  by (simp add: is_digit_of_char of_char_digit)

lemma show_nat_digits: "list_all is_digit (show_nat n)"
proof (induction n rule: show_nat.induct)
  case (1 n)
  then show ?case by (cases "n < 10") (simp_all add: show_nat.simps [of n])
qed

lemma show_nat_nonempty [simp]: "show_nat n \<noteq> []"
  by (simp add: show_nat.simps [of n])

lemma nat_of_digits_snoc [simp]: "nat_of_digits (s @ [c]) = 10 * nat_of_digits s + digit_val c"
  by (simp add: nat_of_digits_def)

lemma nat_of_digits_show [simp]: "nat_of_digits (show_nat n) = n"
proof (induction n rule: show_nat.induct)
  case (1 n)
  show ?case
  proof (cases "n < 10")
    case True
    then show ?thesis by (simp add: show_nat.simps [of n] nat_of_digits_def)
  next
    case False
    then show ?thesis using 1 by (simp add: show_nat.simps [of n])
  qed
qed

lemma nat_of_digits_zeros [simp]: "nat_of_digits (replicate k (CHR ''0'') @ s) = nat_of_digits s"
  by (induction k) (simp_all add: nat_of_digits_def digit_val_def of_char_def)

lemma nat_of_digits_zero_pad [simp]: "nat_of_digits (zero_pad w s) = nat_of_digits s"
  by (simp add: zero_pad_def)

lemma zero_pad_digits: "list_all is_digit s \<Longrightarrow> list_all is_digit (zero_pad w s)"
  by (auto simp: zero_pad_def list_all_iff is_digit_def)

lemma zero_pad_length: "w \<le> length (zero_pad w s)"
  by (simp add: zero_pad_def)

end
