(* ===== verification/Effects.thy ===== *)
theory Effects
  imports Prelude
begin

text \<open>
  Code with effects. A method that reads and writes its object, the disk or the outside world
  is a \<open>prog\<close>: it maps a state to an outcome and the state it leaves. It returns, it
  raises, or the process is killed on the way (\<open>Crash\<close>), in which case the state holds
  exactly what was durable by then.

  The locale \<open>effect_order\<close> is the proof rule every component uses. A relation between
  the state before and after that is reflexive and transitive holds of a whole method once it
  holds of each call in it: an invariant, a log that only grows, a part of the state that is
  never touched. \<open>steps R m A\<close> says so of \<open>m\<close>, and that a value
  \<open>m\<close> returns satisfies \<open>A\<close>.
\<close>

datatype ('a, 'e) outcome = Ret 'a | Raise 'e | Crash

type_synonym ('s, 'e, 'a) prog = "'s \<Rightarrow> ('a, 'e) outcome \<times> 's"

definition ret :: "'a \<Rightarrow> ('s, 'e, 'a) prog" where
  "ret x s = (Ret x, s)"

definition raise :: "'e \<Rightarrow> ('s, 'e, 'a) prog" where
  "raise e s = (Raise e, s)"

definition bind :: "('s, 'e, 'a) prog \<Rightarrow> ('a \<Rightarrow> ('s, 'e, 'b) prog) \<Rightarrow> ('s, 'e, 'b) prog" where
  "bind m k s = (case m s of (Ret x, s') \<Rightarrow> k x s' | (Raise e, s') \<Rightarrow> (Raise e, s') | (Crash, s') \<Rightarrow> (Crash, s'))"

definition catch :: "('s, 'e, 'a) prog \<Rightarrow> ('e \<Rightarrow> ('s, 'e, 'a) prog) \<Rightarrow> ('s, 'e, 'a) prog" where
  "catch m h s = (case m s of (Raise e, s') \<Rightarrow> h e s' | r \<Rightarrow> r)"

definition gets :: "('s \<Rightarrow> 'a) \<Rightarrow> ('s, 'e, 'a) prog" where
  "gets f s = (Ret (f s), s)"

definition modify :: "('s \<Rightarrow> 's) \<Rightarrow> ('s, 'e, unit) prog" where
  "modify f s = (Ret (), f s)"

text \<open>The value of a computation that may raise, as a step of a method.\<close>

definition lift :: "('x \<Rightarrow> 'e) \<Rightarrow> 'x + 'a \<Rightarrow> ('s, 'e, 'a) prog" where
  "lift f r s = (case r of Inl x \<Rightarrow> (Raise (f x), s) | Inr y \<Rightarrow> (Ret y, s))"

text \<open>A \<open>for\<close> loop whose body has no result.\<close>

fun for_each :: "'i list \<Rightarrow> ('i \<Rightarrow> ('s, 'e, unit) prog) \<Rightarrow> ('s, 'e, unit) prog" where
  "for_each [] f = ret ()"
| "for_each (i # is) f = bind (f i) (\<lambda>_. for_each is f)"

lemmas prog_defs = ret_def raise_def bind_def catch_def gets_def modify_def lift_def

definition steps :: "('s \<Rightarrow> 's \<Rightarrow> bool) \<Rightarrow> ('s, 'e, 'a) prog \<Rightarrow> ('a \<Rightarrow> bool) \<Rightarrow> bool" where
  "steps R m A \<longleftrightarrow> (\<forall>s. R s (snd (m s)) \<and> (\<forall>x. fst (m s) = Ret x \<longrightarrow> A x))"

lemma stepsI: "(\<And>s. R s (snd (m s))) \<Longrightarrow> (\<And>s x. fst (m s) = Ret x \<Longrightarrow> A x) \<Longrightarrow> steps R m A"
  by (simp add: steps_def)

lemma steps_rel: "steps R m A \<Longrightarrow> m s = (r, s') \<Longrightarrow> R s s'"
  unfolding steps_def by (metis snd_conv)

lemma steps_ret_value: "steps R m A \<Longrightarrow> m s = (Ret x, s') \<Longrightarrow> A x"
  unfolding steps_def by (metis fst_conv)

lemma steps_weaken: "steps R m A \<Longrightarrow> (\<And>x. A x \<Longrightarrow> B x) \<Longrightarrow> steps R m B"
  by (auto simp: steps_def)

lemma steps_mono: "steps R m A \<Longrightarrow> (\<And>s t. R s t \<Longrightarrow> Q s t) \<Longrightarrow> steps Q m A"
  by (auto simp: steps_def)

lemma bind_ret [simp]: "bind (ret x) k = k x"
  by (rule ext) (simp add: prog_defs)

lemma bind_raise [simp]: "bind (raise e) k = raise e"
  by (rule ext) (simp add: prog_defs)

lemma bind_assoc: "bind (bind m k) h = bind m (\<lambda>x. bind (k x) h)"
  by (rule ext) (auto simp: bind_def split: prod.splits outcome.splits)

lemma bind_eq_Ret:
  "bind m k s = (Ret y, s') \<longleftrightarrow> (\<exists>x t. m s = (Ret x, t) \<and> k x t = (Ret y, s'))"
  by (auto simp: bind_def split: prod.splits outcome.splits)

lemma bind_step: "m s = (Ret x, t) \<Longrightarrow> bind m k s = k x t"
  by (simp add: bind_def)

text \<open>Two steps in a row, each with a relation of its own.\<close>

lemma steps_seq:
  assumes "steps R m A" and "\<And>x. A x \<Longrightarrow> steps Q (k x) B"
    and "\<And>s t. R s t \<Longrightarrow> T s t" and "\<And>s t u. R s t \<Longrightarrow> Q t u \<Longrightarrow> T s u"
  shows "steps T (bind m k) B"
proof (rule stepsI)
  fix s
  obtain r t where m: "m s = (r, t)" by fastforce
  have st: "R s t" using assms(1) m by (rule steps_rel)
  show "T s (snd (bind m k s))"
  proof (cases r)
    case (Ret x)
    then have "steps Q (k x) B" using assms m steps_ret_value by fast
    then have "Q t (snd (k x t))" by (simp add: steps_def)
    then show ?thesis using st Ret m assms(4) by (simp add: bind_def)
  qed (use st m assms(3) in \<open>simp_all add: bind_def\<close>)
  show "fst (bind m k s) = Ret y \<Longrightarrow> B y" for y
  proof (cases r)
    case (Ret x)
    then have "steps Q (k x) B" using assms m steps_ret_value by fast
    moreover assume "fst (bind m k s) = Ret y"
    ultimately show ?thesis using Ret m by (simp add: bind_def steps_def)
  qed (use m in \<open>simp_all add: bind_def\<close>)
qed

locale effect_order =
  fixes R :: "'s \<Rightarrow> 's \<Rightarrow> bool"
  assumes R_refl: "R s s"
    and R_trans: "R s t \<Longrightarrow> R t u \<Longrightarrow> R s u"
begin

lemma steps_ret: "A x \<Longrightarrow> steps R (ret x) A"
  by (simp add: steps_def prog_defs R_refl)

lemma steps_raise: "steps R (raise e) A"
  by (simp add: steps_def prog_defs R_refl)

lemma steps_gets: "(\<And>s. A (f s)) \<Longrightarrow> steps R (gets f) A"
  by (simp add: steps_def prog_defs R_refl)

lemma steps_gets_any: "steps R (gets f) (\<lambda>_. True)"
  by (simp add: steps_def prog_defs R_refl)

lemma steps_modify: "(\<And>s. R s (f s)) \<Longrightarrow> A () \<Longrightarrow> steps R (modify f) A"
  by (simp add: steps_def prog_defs)

lemma steps_lift: "(\<And>y. r = Inr y \<Longrightarrow> A y) \<Longrightarrow> steps R (lift f r) A"
  by (cases r) (simp_all add: steps_def prog_defs R_refl)

lemma steps_bind: "steps R m A \<Longrightarrow> (\<And>x. A x \<Longrightarrow> steps R (k x) B) \<Longrightarrow> steps R (bind m k) B"
  by (rule steps_seq [of R m A R]) (auto intro: R_trans)

lemma steps_bind_any:
  "steps R m (\<lambda>_. True) \<Longrightarrow> (\<And>x. steps R (k x) B) \<Longrightarrow> steps R (bind m k) B"
  by (rule steps_bind)

lemma steps_catch:
  assumes "steps R m A" and "\<And>e. steps R (h e) A"
  shows "steps R (catch m h) A"
proof (rule stepsI)
  fix s
  obtain r t where m: "m s = (r, t)" by fastforce
  have st: "R s t" using assms(1) m by (rule steps_rel)
  show "R s (snd (catch m h s))"
    using st m assms(2) by (cases r) (auto simp: catch_def steps_def intro: R_trans)
  show "fst (catch m h s) = Ret y \<Longrightarrow> A y" for y
    using m assms(2) steps_ret_value [OF assms(1)] by (cases r) (auto simp: catch_def steps_def)
qed

lemma steps_if: "(b \<Longrightarrow> steps R m A) \<Longrightarrow> (\<not> b \<Longrightarrow> steps R n A) \<Longrightarrow> steps R (if b then m else n) A"
  by simp

lemma steps_for_each: "(\<And>i. i \<in> set is \<Longrightarrow> steps R (f i) (\<lambda>_. True)) \<Longrightarrow> steps R (for_each is f) (\<lambda>_. True)"
proof (induction "is")
  case (Cons i "is")
  then show ?case by (auto intro!: steps_bind_any)
qed (simp add: steps_ret)

lemmas steps_rules = steps_ret steps_raise steps_gets_any steps_lift steps_bind_any steps_if steps_for_each

end

text \<open>An invariant is an effect order.\<close>

definition keeps :: "('s \<Rightarrow> bool) \<Rightarrow> 's \<Rightarrow> 's \<Rightarrow> bool" where
  "keeps I s s' \<longleftrightarrow> (I s \<longrightarrow> I s')"

text \<open>So is a part of the state that does not change.\<close>

definition same :: "('s \<Rightarrow> 'v) \<Rightarrow> 's \<Rightarrow> 's \<Rightarrow> bool" where
  "same f s s' \<longleftrightarrow> f s' = f s"

interpretation keeps: effect_order "keeps I"
  by unfold_locales (auto simp: keeps_def)

interpretation same: effect_order "same f"
  by unfold_locales (auto simp: same_def)

interpretation any: effect_order "\<lambda>_ _. True"
  by unfold_locales auto

lemma steps_any: "steps (\<lambda>_ _. True) m (\<lambda>_. True)"
  by (simp add: steps_def)

lemma steps_conj: "steps R m A \<Longrightarrow> steps (\<lambda>_ _. True) m B \<Longrightarrow> steps R m (\<lambda>x. A x \<and> B x)"
  by (auto simp: steps_def)

lemma steps_drop: "steps R m A \<Longrightarrow> steps (\<lambda>_ _. True) m A"
  by (simp add: steps_def)


text \<open>What a list in the state grows by.\<close>

definition extends :: "('s \<Rightarrow> 'v list) \<Rightarrow> ('v \<Rightarrow> bool) \<Rightarrow> 's \<Rightarrow> 's \<Rightarrow> bool" where
  "extends f P s s' \<longleftrightarrow> (\<exists>new. f s' = f s @ new \<and> list_all P new)"

interpretation extends: effect_order "extends f P"
proof unfold_locales
  show "extends f P s s" for s by (simp add: extends_def)
  show "extends f P s u" if "extends f P s t" "extends f P t u" for s t u
    using that unfolding extends_def by force
qed

lemma extends_same: "f s' = f s \<Longrightarrow> extends f P s s'"
  by (simp add: extends_def)


section \<open>How a method ends\<close>

text \<open>
  \<open>yields P m A E\<close>: from a state with \<open>P\<close> the method \<open>m\<close> ends without
  a crash, with \<open>P\<close> again, and either returns a value with \<open>A\<close> or raises an
  error with \<open>E\<close>. \<open>returns P m A\<close>: it does not raise either.
\<close>

definition yields :: "('s \<Rightarrow> bool) \<Rightarrow> ('s, 'e, 'a) prog \<Rightarrow> ('a \<Rightarrow> bool) \<Rightarrow> ('e \<Rightarrow> bool) \<Rightarrow> bool" where
  "yields P m A E \<longleftrightarrow> (\<forall>s. P s \<longrightarrow> P (snd (m s)) \<and> (case fst (m s) of Ret x \<Rightarrow> A x | Raise e \<Rightarrow> E e | Crash \<Rightarrow> False))"

definition returns :: "('s \<Rightarrow> bool) \<Rightarrow> ('s, 'e, 'a) prog \<Rightarrow> ('a \<Rightarrow> bool) \<Rightarrow> bool" where
  "returns P m A \<longleftrightarrow> (\<forall>s. P s \<longrightarrow> (\<exists>x s'. m s = (Ret x, s') \<and> P s' \<and> A x))"

lemma returns_yields: "returns P m A \<longleftrightarrow> yields P m A (\<lambda>_. False)"
proof -
  have "(\<exists>x s'. m s = (Ret x, s') \<and> P s' \<and> A x) \<longleftrightarrow>
      P (snd (m s)) \<and> (case fst (m s) of Ret x \<Rightarrow> A x | Raise e \<Rightarrow> False | Crash \<Rightarrow> False)" for s
    by (cases "m s") (auto split: outcome.splits)
  then show ?thesis by (simp add: returns_def yields_def)
qed

lemma yieldsD: "yields P m A E \<Longrightarrow> P s \<Longrightarrow> case fst (m s) of Ret x \<Rightarrow> A x | Raise e \<Rightarrow> E e | Crash \<Rightarrow> False"
  by (simp add: yields_def)

lemma yields_ret: "A x \<Longrightarrow> yields P (ret x) A E"
  by (simp add: yields_def prog_defs)

lemma yields_raise: "E e \<Longrightarrow> yields P (raise e) A E"
  by (simp add: yields_def prog_defs)

lemma yields_gets: "(\<And>s. P s \<Longrightarrow> A (f s)) \<Longrightarrow> yields P (gets f) A E"
  by (simp add: yields_def prog_defs)

lemma yields_modify: "(\<And>s. P s \<Longrightarrow> P (f s)) \<Longrightarrow> A () \<Longrightarrow> yields P (modify f) A E"
  by (simp add: yields_def prog_defs)

lemma yields_lift: "(\<And>x. r = Inl x \<Longrightarrow> E (f x)) \<Longrightarrow> (\<And>y. r = Inr y \<Longrightarrow> A y) \<Longrightarrow> yields P (lift f r) A E"
  by (cases r) (simp_all add: yields_def prog_defs)

lemma yields_weaken:
  "yields P m A E \<Longrightarrow> (\<And>x. A x \<Longrightarrow> B x) \<Longrightarrow> (\<And>e. E e \<Longrightarrow> F e) \<Longrightarrow> yields P m B F"
  unfolding yields_def by (fastforce split: outcome.splits)

lemma yields_bind:
  assumes "yields P m A E" and "\<And>x. A x \<Longrightarrow> yields P (k x) B E"
  shows "yields P (bind m k) B E"
  unfolding yields_def
proof (intro allI impI)
  fix s assume s: "P s"
  obtain r t where m: "m s = (r, t)" by fastforce
  show "P (snd (bind m k s)) \<and> (case fst (bind m k s) of Ret x \<Rightarrow> B x | Raise e \<Rightarrow> E e | Crash \<Rightarrow> False)"
    using assms s m unfolding yields_def by (cases r) (fastforce simp: bind_def)+
qed

lemma yields_bind_any: "yields P m (\<lambda>_. True) E \<Longrightarrow> (\<And>x. yields P (k x) B E) \<Longrightarrow> yields P (bind m k) B E"
  by (rule yields_bind)

lemma yields_catch:
  assumes "yields P m A F" and "\<And>e. F e \<Longrightarrow> yields P (h e) A E"
  shows "yields P (catch m h) A E"
  unfolding yields_def
proof (intro allI impI)
  fix s assume s: "P s"
  obtain r t where m: "m s = (r, t)" by fastforce
  show "P (snd (catch m h s)) \<and> (case fst (catch m h s) of Ret x \<Rightarrow> A x | Raise e \<Rightarrow> E e | Crash \<Rightarrow> False)"
    using assms s m unfolding yields_def by (cases r) (fastforce simp: catch_def)+
qed

lemma returns_ret: "Q x \<Longrightarrow> returns P (ret x) Q"
  unfolding returns_yields by (rule yields_ret)

lemma returns_bind: "returns P m A \<Longrightarrow> (\<And>x. A x \<Longrightarrow> returns P (k x) Q) \<Longrightarrow> returns P (bind m k) Q"
  unfolding returns_yields by (rule yields_bind)

lemma returns_gets: "(\<And>s. P s \<Longrightarrow> Q (f s)) \<Longrightarrow> returns P (gets f) Q"
  unfolding returns_yields by (rule yields_gets)

lemma returns_modify: "(\<And>s. P s \<Longrightarrow> P (f s)) \<Longrightarrow> Q () \<Longrightarrow> returns P (modify f) Q"
  unfolding returns_yields by (rule yields_modify)

lemma returns_lift: "r = Inr y \<Longrightarrow> Q y \<Longrightarrow> returns P (lift f r) Q"
  unfolding returns_yields by (rule yields_lift) simp_all

lemma returns_weaken: "returns P m A \<Longrightarrow> (\<And>x. A x \<Longrightarrow> Q x) \<Longrightarrow> returns P m Q"
  unfolding returns_yields by (rule yields_weaken)

lemma returns_bind_any: "returns P m (\<lambda>_. True) \<Longrightarrow> (\<And>x. returns P (k x) Q) \<Longrightarrow> returns P (bind m k) Q"
  by (rule returns_bind)

text \<open>What a method keeps whatever it does, it keeps when it returns.\<close>

lemma returns_steps: "returns P m A \<Longrightarrow> steps (\<lambda>_ _. True) m B \<Longrightarrow> returns P m (\<lambda>x. A x \<and> B x)"
  unfolding returns_def steps_def by (metis fst_conv)

text \<open>What holds between the states when a method returns.\<close>

definition gives :: "('s \<Rightarrow> 's \<Rightarrow> bool) \<Rightarrow> ('s, 'e, 'a) prog \<Rightarrow> bool" where
  "gives R m \<longleftrightarrow> (\<forall>s x s'. m s = (Ret x, s') \<longrightarrow> R s s')"

lemma gives_bind:
  "gives R m \<Longrightarrow> (\<And>x. gives Q (k x)) \<Longrightarrow> (\<And>s t u. R s t \<Longrightarrow> Q t u \<Longrightarrow> T s u) \<Longrightarrow> gives T (bind m k)"
  unfolding gives_def bind_eq_Ret by blast

lemma steps_gives: "steps R m A \<Longrightarrow> gives R m"
  by (auto simp: gives_def dest: steps_rel)

end
