(* ===== verification/Schemas.thy ===== *)
theory Schemas
  imports Prelude
begin

text \<open>
  The data every part of the platform exchanges (\<open>packages/slas-schemas\<close>): jobs,
  plans, votes, findings, tickets with their state machine, and ticket identifiers.

  A Pydantic model is a record with the source's fields (prefixed, since selectors share one
  name space); its field constraints and validators are the \<open>_ok\<close> predicates and
  \<open>plan_validate\<close>. Enumerations are datatypes; their wire names are the
  \<open>_value\<close> functions. A raise is a value of \<open>schema_error\<close>.
\<close>

section \<open>Literals\<close>

datatype agent_name = Coding | Validation | Factory | Null

definition agent_value :: "agent_name \<Rightarrow> string" where
  "agent_value a = (case a of Coding \<Rightarrow> ''coding'' | Validation \<Rightarrow> ''validation''
     | Factory \<Rightarrow> ''factory'' | Null \<Rightarrow> ''null'')"

datatype risk = Safe | Caution | Destructive

definition risk_value :: "risk \<Rightarrow> string" where
  "risk_value r = (case r of Safe \<Rightarrow> ''safe'' | Caution \<Rightarrow> ''caution''
     | Destructive \<Rightarrow> ''destructive'')"

datatype severity = S1 | S2 | S3 | S4

definition severity_value :: "severity \<Rightarrow> string" where
  "severity_value s = (case s of S1 \<Rightarrow> ''S1'' | S2 \<Rightarrow> ''S2'' | S3 \<Rightarrow> ''S3'' | S4 \<Rightarrow> ''S4'')"

datatype vote_verdict = Approve | Concern | Reject

datatype consensus_rule = Unanimous | Majority | Majority_per_field

datatype ticket_state = Open | Planned | Approved | Running | Analysing | Needs_review | Done | Failed

definition state_value :: "ticket_state \<Rightarrow> string" where
  "state_value s = (case s of Open \<Rightarrow> ''Open'' | Planned \<Rightarrow> ''Planned'' | Approved \<Rightarrow> ''Approved''
     | Running \<Rightarrow> ''Running'' | Analysing \<Rightarrow> ''Analysing'' | Needs_review \<Rightarrow> ''Needs review''
     | Done \<Rightarrow> ''Done'' | Failed \<Rightarrow> ''Failed'')"

datatype step_status = Pending | InProgress | Finished | StepFailed | Skipped

definition status_value :: "step_status \<Rightarrow> string" where
  "status_value s = (case s of Pending \<Rightarrow> ''pending'' | InProgress \<Rightarrow> ''running''
     | Finished \<Rightarrow> ''done'' | StepFailed \<Rightarrow> ''failed'' | Skipped \<Rightarrow> ''skipped'')"

datatype step_outcome = OutcomeOk | OutcomeFail | OutcomeRetry

datatype export_kind = ExZip | ExSop | ExReport | ExBundle | ExBackup

datatype target_kind = TkSandbox | TkServer | TkStation

datatype input_kind = InUpload | InMesTicket | InInline

datatype schema_error =
    ValidationError string
  | IllegalTransition string ticket_state ticket_state
  | NotATicketId string
  | BadSequence
  | KeyError string


text \<open>\<open>ThreePartMessage\<close>: what an error tells a person.\<close>

record three_part =
  tp_what_happened :: string
  tp_likely_cause :: string
  tp_what_to_do :: string


section \<open>Jobs, plans, votes, findings\<close>

record upload =
  up_filename :: string
  up_uploaded_by :: string
  up_content_type :: string
  up_path :: "string option"
  up_content :: "string option"
  up_size_bytes :: "int option"

record mes_ticket =
  mt_ticket_no :: string
  mt_station :: string
  mt_unit_sn :: string
  mt_requested_by :: string
  mt_payload :: "(string, string) dict"

datatype raw_input = RawUpload upload | RawMes mes_ticket

record input_ref =
  ir_name :: string
  ir_kind :: input_kind
  ir_path :: "string option"
  ir_sha256 :: "string option"
  ir_size_bytes :: "int option"

record target_ref =
  tr_kind :: target_kind
  tr_ref :: string

record job =
  j_id :: string
  j_agent :: agent_name
  j_user :: string
  j_title :: string
  j_inputs :: "input_ref list"
  j_target :: "target_ref option"
  j_created_at :: time

definition job_ok :: "job \<Rightarrow> bool" where
  "job_ok j \<longleftrightarrow> j_id j \<noteq> [] \<and> j_user j \<noteq> [] \<and> 1 \<le> py_len (j_title j) \<and> py_len (j_title j) \<le> 200"

record step =
  s_id :: string
  s_n :: int
  s_primitive :: string
  s_title :: string
  s_args :: "(string, json) dict"
  s_risk :: risk
  s_when :: "string option"

definition needs_approval :: "step \<Rightarrow> bool" where
  "needs_approval s \<longleftrightarrow> s_risk s = Destructive"

text \<open>The pattern \<open>^[a-z][a-z0-9_-]*$\<close> of a step id.\<close>

definition is_lower :: "char \<Rightarrow> bool" where
  "is_lower c \<longleftrightarrow> CHR ''a'' \<le> c \<and> c \<le> CHR ''z''"

definition step_id_ok :: "string \<Rightarrow> bool" where
  "step_id_ok s \<longleftrightarrow> (case s of [] \<Rightarrow> False | c # r \<Rightarrow> is_lower c \<and>
     list_all (\<lambda>x. is_lower x \<or> is_digit x \<or> x = CHR ''_'' \<or> x = CHR ''-'') r)"

definition step_ok :: "step \<Rightarrow> bool" where
  "step_ok s \<longleftrightarrow> step_id_ok (s_id s) \<and> 1 \<le> s_n s \<and> s_primitive s \<noteq> []
     \<and> 1 \<le> py_len (s_title s) \<and> py_len (s_title s) \<le> 200"

record plan =
  p_id :: string
  p_job_id :: string
  p_summary :: string
  p_steps :: "step list"
  p_created_at :: time

definition MAX_STEPS :: nat where
  "MAX_STEPS = 200"

fun numbered_from :: "int \<Rightarrow> step list \<Rightarrow> schema_error option" where
  "numbered_from i [] = None"
| "numbered_from i (s # ss) =
     (if s_n s \<noteq> i then Some (ValidationError (''step '' @ s_id s @ '' is numbered '' @ show_int (s_n s)))
      else numbered_from (i + 1) ss)"

text \<open>\<open>Plan\<close> with its field constraints and the validator \<open>_steps_are_numbered_and_unique\<close>.\<close>

definition plan_validate :: "plan \<Rightarrow> schema_error + plan" where
  "plan_validate p =
     (if p_id p = [] \<or> p_job_id p = [] \<or> p_summary p = [] then Inl (ValidationError ''min_length'')
      else if p_steps p = [] \<or> length (p_steps p) > MAX_STEPS then Inl (ValidationError ''steps'')
      else if \<not> list_all step_ok (p_steps p) then Inl (ValidationError ''step'')
      else if \<not> distinct (map s_id (p_steps p)) then Inl (ValidationError ''step ids must be unique'')
      else (case numbered_from 1 (p_steps p) of Some e \<Rightarrow> Inl e | None \<Rightarrow> Inr p))"

definition destructive_steps :: "plan \<Rightarrow> step list" where
  "destructive_steps p = filter needs_approval (p_steps p)"

definition destructive :: "plan \<Rightarrow> bool" where
  "destructive p \<longleftrightarrow> list_ex needs_approval (p_steps p)"

text \<open>\<open>Plan.step\<close>: the step with this id, or \<open>KeyError\<close>.\<close>

definition plan_step :: "plan \<Rightarrow> string \<Rightarrow> schema_error + step" where
  "plan_step p i = (case List.find (\<lambda>s. s_id s = i) (p_steps p) of
     None \<Rightarrow> Inl (KeyError i) | Some s \<Rightarrow> Inr s)"

definition plan_sentence :: "plan \<Rightarrow> string" where
  "plan_sentence p =
     (let count = length (p_steps p);
          noun = (if count = 1 then ''step'' else ''steps'');
          ds = destructive_steps p
      in if ds = [] then show_nat count @ '' '' @ noun @ '', none destructive.''
         else show_nat count @ '' '' @ noun @ ''; '' @ show_nat (length ds) @ '' ''
              @ (if length ds = 1 then ''needs'' else ''need'') @ '' your approval: ''
              @ py_join '', '' (map s_title ds) @ ''.'')"

record vote =
  v_voter :: string
  v_verdict :: vote_verdict
  v_fields :: "(string, string) dict"
  v_reason :: string
  v_confidence :: rat

record consensus_verdict =
  cv_decision :: string
  cv_rule :: consensus_rule
  cv_votes :: "vote list"
  cv_agreed :: bool
  cv_degraded :: bool
  cv_sentence :: string
  cv_concerns :: "string list"
  cv_undecided_fields :: "string list"
  cv_unavailable_voters :: "string list"

record finding =
  f_id :: string
  f_fingerprint :: string
  f_issue :: string
  f_owner :: "string option"
  f_severity :: "severity option"
  f_component :: "string option"
  f_evidence :: "string list"
  f_ticket_id :: "string option"

definition headline :: "finding \<Rightarrow> string" where
  "headline f = ''[Issue] '' @ f_issue f @ '' | [Owner] ''
     @ (case f_owner f of None \<Rightarrow> ''unassigned'' | Some w \<Rightarrow> if w = [] then ''unassigned'' else w)"


section \<open>Tickets\<close>

record state_change =
  sc_from :: ticket_state
  sc_to :: ticket_state
  sc_at :: time
  sc_reason :: string

record approval =
  ap_step_id :: string
  ap_requested_at :: time
  ap_decided_at :: "time option"
  ap_decided_by :: "string option"
  ap_approved :: "bool option"
  ap_note :: string

definition ap_pending :: "approval \<Rightarrow> bool" where
  "ap_pending a \<longleftrightarrow> ap_approved a = None"

record export =
  ex_kind :: export_kind
  ex_path :: string
  ex_sha256 :: "string option"

record observation =
  o_exit_code :: "int option"
  o_stdout :: string
  o_stderr :: string
  o_screenshots :: "string list"
  o_summary :: string
  o_votes :: "vote list"
  o_exports :: "export list"
  o_findings :: "finding list"

record step_verdict =
  sv_outcome :: step_outcome
  sv_sentence :: string

record step_record =
  r_step_id :: string
  r_n :: int
  r_title :: string
  r_status :: step_status
  r_started_at :: "time option"
  r_finished_at :: "time option"
  r_observation :: "observation option"
  r_verdict :: "step_verdict option"

record log_bundle =
  lb_stdout_path :: "string option"
  lb_stderr_path :: "string option"
  lb_console_path :: "string option"
  lb_screenshots :: "string list"
  lb_line_counts :: "(string, nat) dict"

record rca =
  rc_cause :: string
  rc_evidence :: "string list"
  rc_confidence :: rat
  rc_uncertain :: bool
  rc_fingerprint :: "string option"

record sop_refs =
  so_en :: string
  so_zh :: string
  so_data :: string

record ticket =
  t_id :: string
  t_agent :: agent_name
  t_user :: string
  t_title :: string
  t_state :: ticket_state
  t_job :: job
  t_plan :: "plan option"
  t_approvals :: "approval list"
  t_votes :: "vote list"
  t_steps :: "step_record list"
  t_logs :: "log_bundle option"
  t_findings :: "finding list"
  t_rca :: "rca option"
  t_sop :: "sop_refs option"
  t_exports :: "export list"
  t_parent :: "string option"
  t_created_at :: time
  t_updated_at :: time
  t_history :: "state_change list"

definition TRANSITIONS :: "ticket_state \<Rightarrow> ticket_state list" where
  "TRANSITIONS s = (case s of
       Open \<Rightarrow> [Planned, Failed]
     | Planned \<Rightarrow> [Approved, Failed]
     | Approved \<Rightarrow> [Running, Failed]
     | Running \<Rightarrow> [Analysing, Failed]
     | Analysing \<Rightarrow> [Needs_review, Done, Failed]
     | Needs_review \<Rightarrow> [Done, Failed]
     | Done \<Rightarrow> []
     | Failed \<Rightarrow> [])"

definition TERMINAL_STATES :: "ticket_state list" where
  "TERMINAL_STATES = [Done, Failed]"

definition can_transition :: "ticket_state \<Rightarrow> ticket_state \<Rightarrow> bool" where
  "can_transition current target \<longleftrightarrow> target \<in> set (TRANSITIONS current)"

definition transition :: "ticket_state \<Rightarrow> time \<Rightarrow> string \<Rightarrow> ticket \<Rightarrow> schema_error + ticket \<times> state_change" where
  "transition target now reason t =
     (if \<not> can_transition (t_state t) target then Inl (IllegalTransition (t_id t) (t_state t) target)
      else if reason = [] then Inl (ValidationError ''reason'')
      else (let change = \<lparr>sc_from = t_state t, sc_to = target, sc_at = now, sc_reason = reason\<rparr>
            in Inr (t\<lparr>t_history := t_history t @ [change], t_state := target, t_updated_at := now\<rparr>, change)))"

text \<open>\<open>Ticket.step_record\<close>: the first record with this step id.\<close>

definition find_record :: "ticket \<Rightarrow> string \<Rightarrow> step_record option" where
  "find_record t i = List.find (\<lambda>r. r_step_id r = i) (t_steps t)"

definition pending_approvals :: "ticket \<Rightarrow> approval list" where
  "pending_approvals t = filter ap_pending (t_approvals t)"

definition finished :: "ticket \<Rightarrow> bool" where
  "finished t \<longleftrightarrow> t_state t \<in> set TERMINAL_STATES"

definition ticket_sentence :: "ticket \<Rightarrow> string" where
  "ticket_sentence t =
     (let total = (case t_plan t of None \<Rightarrow> 0 | Some p \<Rightarrow> length (p_steps p));
          done = length (filter (\<lambda>r. r_status r = Finished) (t_steps t));
          progress = show_nat done @ '' of '' @ show_nat total
      in if t_state t = Running then
           t_id t @ '' is running: ''
           @ (case List.find (\<lambda>r. r_status r = InProgress) (t_steps t) of
                Some r \<Rightarrow> ''step '' @ show_int (r_n r) @ '' of '' @ show_nat total
              | None \<Rightarrow> progress @ '' steps done'') @ ''.''
         else if t_state t = Planned \<and> pending_approvals t \<noteq> [] then
           t_id t @ '' is planned and waiting: '' @ show_nat (length (pending_approvals t)) @ '' ''
           @ (if length (pending_approvals t) = 1 then ''step needs'' else ''steps need'') @ '' your approval.''
         else if t_state t = Needs_review then
           t_id t @ '' needs your review: '' @ progress @ '' steps finished.''
         else t_id t @ '' is '' @ py_lower (state_value (t_state t)) @ ''.'')"


section \<open>Ticket identifiers\<close>

definition make_ticket_id :: "agent_name \<Rightarrow> int \<Rightarrow> schema_error + string" where
  "make_ticket_id a n =
     (if n < 1 then Inl BadSequence
      else Inr (''T-'' @ agent_value a @ ''-'' @ zero_pad 4 (show_nat (nat n))))"

fun drop_prefix :: "string \<Rightarrow> string \<Rightarrow> string option" where
  "drop_prefix [] s = Some s"
| "drop_prefix (c # p) [] = None"
| "drop_prefix (c # p) (d # s) = (if c = d then drop_prefix p s else None)"

text \<open>
  \<open>parse_ticket_id\<close>: \<open>re.match\<close> with \<open>^T-(coding|validation|factory|null)-\d{4,}$\<close>,
  where \<open>$\<close> also matches before one final newline, then \<open>int\<close> of what follows
  the last dash, which ignores that newline.
\<close>

definition strip_final_newline :: "string \<Rightarrow> string" where
  "strip_final_newline s = (if s \<noteq> [] \<and> last s = CHR 0x0A then butlast s else s)"

definition parse_seq :: "agent_name \<Rightarrow> string \<Rightarrow> (agent_name \<times> nat) option" where
  "parse_seq a rest =
     (case drop_prefix (agent_value a @ ''-'') rest of
        None \<Rightarrow> None
      | Some d \<Rightarrow> (let ds = strip_final_newline d
                  in if 4 \<le> length ds \<and> list_all is_digit ds then Some (a, nat_of_digits ds) else None))"

fun first_some :: "('a \<Rightarrow> 'b option) \<Rightarrow> 'a list \<Rightarrow> 'b option" where
  "first_some f [] = None"
| "first_some f (x # xs) = (case f x of Some y \<Rightarrow> Some y | None \<Rightarrow> first_some f xs)"

definition parse_ticket_id :: "string \<Rightarrow> schema_error + agent_name \<times> nat" where
  "parse_ticket_id s =
     (case drop_prefix ''T-'' s of
        None \<Rightarrow> Inl (NotATicketId s)
      | Some rest \<Rightarrow> (case first_some (\<lambda>a. parse_seq a rest) [Coding, Validation, Factory, Null] of
            None \<Rightarrow> Inl (NotATicketId s) | Some r \<Rightarrow> Inr r))"


section \<open>Legal histories\<close>

text \<open>
  \<open>follows a cs b\<close>: the changes \<open>cs\<close> lead from \<open>a\<close> to
  \<open>b\<close> along \<open>TRANSITIONS\<close>, each with a reason. A ticket is well formed when
  its history leads from \<open>Open\<close>, where it is created, to its state.
\<close>

fun follows :: "ticket_state \<Rightarrow> state_change list \<Rightarrow> ticket_state \<Rightarrow> bool" where
  "follows a [] b \<longleftrightarrow> a = b"
| "follows a (c # cs) b \<longleftrightarrow>
     sc_from c = a \<and> can_transition a (sc_to c) \<and> sc_reason c \<noteq> [] \<and> follows (sc_to c) cs b"

definition ticket_wf :: "ticket \<Rightarrow> bool" where
  "ticket_wf t \<longleftrightarrow> follows Open (t_history t) (t_state t)"

text \<open>How many changes a ticket in this state can still go through.\<close>

definition rank :: "ticket_state \<Rightarrow> nat" where
  "rank s = (case s of Open \<Rightarrow> 6 | Planned \<Rightarrow> 5 | Approved \<Rightarrow> 4 | Running \<Rightarrow> 3 | Analysing \<Rightarrow> 2
     | Needs_review \<Rightarrow> 1 | Done \<Rightarrow> 0 | Failed \<Rightarrow> 0)"

lemmas transition_tables = can_transition_def TRANSITIONS_def TERMINAL_STATES_def

lemma can_transition_rank: "can_transition a b \<Longrightarrow> rank b < rank a"
  by (cases a) (auto simp: transition_tables rank_def)

lemma terminal_is_stuck: "a \<in> set TERMINAL_STATES \<Longrightarrow> \<not> can_transition a b"
  by (auto simp: transition_tables)

lemma nonterminal_moves: "a \<notin> set TERMINAL_STATES \<Longrightarrow> \<exists>b. can_transition a b"
  by (cases a) (auto simp: transition_tables)

lemma follows_rank: "follows a cs b \<Longrightarrow> length cs + rank b \<le> rank a"
  by (induction a cs b rule: follows.induct) (auto dest!: can_transition_rank)

lemma follows_append: "follows a (cs @ ds) b \<longleftrightarrow> (\<exists>m. follows a cs m \<and> follows m ds b)"
  by (induction cs arbitrary: a) auto

lemma transition_cases:
  assumes "transition target now reason t = Inr (t', c)"
  shows "can_transition (t_state t) target" "reason \<noteq> []"
    "c = \<lparr>sc_from = t_state t, sc_to = target, sc_at = now, sc_reason = reason\<rparr>"
    "t' = t\<lparr>t_history := t_history t @ [c], t_state := target, t_updated_at := now\<rparr>"
  using assms by (auto simp: transition_def Let_def split: if_splits)

lemma transition_wf: "transition target now reason t = Inr (t', c) \<Longrightarrow> ticket_wf t \<Longrightarrow> ticket_wf t'"
  by (frule transition_cases(1), frule transition_cases(2), frule transition_cases(3),
      drule transition_cases(4)) (auto simp: ticket_wf_def follows_append)

lemma transition_ok:
  "can_transition (t_state t) target \<Longrightarrow> reason \<noteq> [] \<Longrightarrow>
   \<exists>t' c. transition target now reason t = Inr (t', c)"
  by (simp add: transition_def Let_def)


section \<open>Validated plans\<close>

lemma numbered_from_nth:
  "numbered_from i ss = None \<Longrightarrow> k < length ss \<Longrightarrow> s_n (ss ! k) = i + int k"
proof (induction ss arbitrary: i k)
  case (Cons s ss)
  then show ?case by (cases k) (auto split: if_splits)
qed simp

lemma plan_validate_Inr:
  assumes "plan_validate p = Inr q"
  shows "q = p" "p_steps p \<noteq> []" "length (p_steps p) \<le> MAX_STEPS" "list_all step_ok (p_steps p)"
    "distinct (map s_id (p_steps p))" "numbered_from 1 (p_steps p) = None"
  using assms by (auto simp: plan_validate_def split: if_splits option.splits)

lemma find_distinct_key:
  "distinct (map f xs) \<Longrightarrow> x \<in> set xs \<Longrightarrow> List.find (\<lambda>y. f y = f x) xs = Some x"
  by (induction xs) (auto simp: image_iff)

lemma find_key_None: "List.find (\<lambda>y. f y = k) xs = None \<longleftrightarrow> k \<notin> f ` set xs"
  by (induction xs) auto

lemma find_Some_in: "List.find P xs = Some x \<Longrightarrow> x \<in> set xs \<and> P x"
  by (induction xs) (auto split: if_splits)

lemma plan_step_found:
  "plan_validate p = Inr q \<Longrightarrow> s \<in> set (p_steps p) \<Longrightarrow> plan_step p (s_id s) = Inr s"
  by (simp add: plan_step_def find_distinct_key plan_validate_Inr)

lemma destructive_iff: "destructive p \<longleftrightarrow> destructive_steps p \<noteq> []"
  by (induction "p_steps p") (auto simp: destructive_def destructive_steps_def list_ex_iff filter_empty_conv)

lemma plan_sentence_nonempty: "plan_sentence p \<noteq> []"
  by (simp add: plan_sentence_def Let_def)


section \<open>Identifiers\<close>

lemma drop_prefix_append [simp]: "drop_prefix p (p @ s) = Some s"
  by (induction p) auto

lemma drop_prefix_Some: "drop_prefix p s = Some r \<longleftrightarrow> s = p @ r"
  by (induction p s rule: drop_prefix.induct) auto

lemma last_digit: "list_all is_digit s \<Longrightarrow> s \<noteq> [] \<Longrightarrow> last s \<noteq> CHR 0x0A"
  using last_in_set by (fastforce simp: list_all_iff is_digit_def less_eq_char_def)

lemma strip_final_newline_digits: "list_all is_digit s \<Longrightarrow> strip_final_newline s = s"
  using last_digit [of s] by (auto simp: strip_final_newline_def)

lemma parse_seq_hit:
  assumes "list_all is_digit d" "4 \<le> length d"
  shows "parse_seq a (agent_value a @ ''-'' @ d) = Some (a, nat_of_digits d)"
proof -
  have "drop_prefix (agent_value a @ ''-'') ((agent_value a @ ''-'') @ d) = Some d"
    by (rule drop_prefix_append)
  then show ?thesis
    using assms by (simp add: parse_seq_def strip_final_newline_digits)
qed

lemma parse_seq_other: "a \<noteq> b \<Longrightarrow> parse_seq b (agent_value a @ ''-'' @ d) = None"
  by (cases a; cases b) (simp_all add: parse_seq_def agent_value_def)

lemma first_agent_hit:
  "parse_seq a r = Some x \<Longrightarrow> (\<And>b. b \<noteq> a \<Longrightarrow> parse_seq b r = None) \<Longrightarrow>
   first_some (\<lambda>b. parse_seq b r) [Coding, Validation, Factory, Null] = Some x"
  by (cases a) auto

lemma parse_ticket_id_digits:
  assumes "list_all is_digit d" "4 \<le> length d"
  shows "parse_ticket_id (''T-'' @ agent_value a @ ''-'' @ d) = Inr (a, nat_of_digits d)"
proof -
  have "first_some (\<lambda>b. parse_seq b (agent_value a @ ''-'' @ d)) [Coding, Validation, Factory, Null]
      = Some (a, nat_of_digits d)"
    by (rule first_agent_hit [OF parse_seq_hit [OF assms]]) (rule parse_seq_other, simp)
  then show ?thesis
    unfolding parse_ticket_id_def by (subst drop_prefix_append) simp
qed

lemma make_ticket_id_digits:
  "make_ticket_id a n = Inr s \<Longrightarrow>
   \<exists>d. s = ''T-'' @ agent_value a @ ''-'' @ d \<and> list_all is_digit d \<and> 4 \<le> length d \<and> nat_of_digits d = nat n"
  by (force simp: make_ticket_id_def zero_pad_length intro: zero_pad_digits show_nat_digits
      split: if_splits)

lemma parse_make: "make_ticket_id a n = Inr s \<Longrightarrow> parse_ticket_id s = Inr (a, nat n)"
  by (auto dest!: make_ticket_id_digits simp: parse_ticket_id_digits simp del: append.simps)

lemma make_ticket_id_inject:
  assumes "make_ticket_id a n = Inr s" "make_ticket_id b m = Inr s"
  shows "a = b \<and> n = m"
proof -
  have "1 \<le> n" "1 \<le> m"
    using assms by (auto simp: make_ticket_id_def split: if_splits)
  moreover have "(a, nat n) = (b, nat m)"
    using parse_make [OF assms(1)] parse_make [OF assms(2)] by simp
  ultimately show ?thesis by auto
qed

end
