(* ===== verification/Durable.thy ===== *)
theory Durable
  imports Schemas
begin

text \<open>
  What survives a restart (\<open>packages/slas-kernel\<close>: \<open>journal.py\<close>,
  \<open>store.py\<close>, \<open>leases.py\<close>): the write-ahead journal of a ticket, the ticket
  stores, and the lease table. A journal file is the list of its entries, a JSON file the
  dictionary it holds; a payload is a value of \<open>payload\<close> with the keys each entry is
  written with.
\<close>

section \<open>The journal\<close>

datatype journal_kind = KIntent | KAction | KObservation | KState | KNote

datatype journal_note =
    NSkillGate string string
  | NPlanCrossCheck string bool
  | NApprovalsRequested "string list"
  | NApproved string string
  | NLogs log_bundle
  | NRca rca
  | NRcaFull rca string "string list" nat "string list"
  | NBugTickets "string list"
  | NSop sop_refs bool "string list"

datatype payload =
    PIngested ticket_state
  | PChange ticket_state ticket_state string
  | PIntent string "(string, json) dict" risk bool
  | PObservation observation
  | PNote journal_note

record journal_entry =
  je_seq :: nat
  je_at :: time
  je_ticket_id :: string
  je_kind :: journal_kind
  je_step_id :: "string option"
  je_payload :: payload
  je_trace_id :: "string option"

type_synonym journal = "journal_entry list"

definition append_entry :: "journal \<Rightarrow> time \<Rightarrow> string option \<Rightarrow> journal_kind \<Rightarrow> string \<Rightarrow> payload \<Rightarrow> string option \<Rightarrow> journal" where
  "append_entry j now trace kind tid pl sid =
     j @ [\<lparr>je_seq = length j + 1, je_at = now, je_ticket_id = tid, je_kind = kind, je_step_id = sid,
           je_payload = pl, je_trace_id = trace\<rparr>]"

definition is_observation :: "journal_entry \<Rightarrow> bool" where
  "is_observation e \<longleftrightarrow> je_kind e = KObservation \<and> je_step_id e \<noteq> None"

text \<open>The dictionary comprehension of \<open>completed_steps\<close>: a later observation replaces an earlier one.\<close>

definition completed_steps :: "journal \<Rightarrow> (string, journal_entry) dict" where
  "completed_steps j = foldl (\<lambda>d e. AList.update (the (je_step_id e)) e d) [] (filter is_observation j)"

definition interrupted_scan :: "string option \<Rightarrow> journal_entry \<Rightarrow> string option" where
  "interrupted_scan open_intent e =
     (if je_step_id e = None then open_intent
      else if je_kind e = KIntent then je_step_id e
      else if je_kind e = KObservation \<and> je_step_id e = open_intent then None
      else open_intent)"

definition interrupted_step :: "journal \<Rightarrow> string option" where
  "interrupted_step j = foldl interrupted_scan None j"

definition step_entries :: "journal \<Rightarrow> string \<Rightarrow> journal" where
  "step_entries j sid = filter (\<lambda>e. je_step_id e = Some sid) j"


section \<open>Ticket stores\<close>

text \<open>\<open>MemoryTicketStore\<close>: two dictionaries.\<close>

record memory_store =
  ms_tickets :: "(string, ticket) dict"
  ms_sequence :: "(agent_name, int) dict"

definition next_seq :: "(agent_name, int) dict \<Rightarrow> agent_name \<Rightarrow> int" where
  "next_seq q a = (case map_of q a of None \<Rightarrow> 0 | Some n \<Rightarrow> n) + 1"

definition mem_next_ticket_id :: "agent_name \<Rightarrow> memory_store \<Rightarrow> (schema_error + string) \<times> memory_store" where
  "mem_next_ticket_id a s =
     (let n = next_seq (ms_sequence s) a
      in (make_ticket_id a n, s\<lparr>ms_sequence := AList.update a n (ms_sequence s)\<rparr>))"

definition mem_save :: "ticket \<Rightarrow> memory_store \<Rightarrow> memory_store" where
  "mem_save t s = s\<lparr>ms_tickets := AList.update (t_id t) t (ms_tickets s)\<rparr>"

definition mem_load :: "memory_store \<Rightarrow> string \<Rightarrow> ticket option" where
  "mem_load s i = map_of (ms_tickets s) i"

definition mem_list_ids :: "memory_store \<Rightarrow> string list" where
  "mem_list_ids s = sort (map fst (ms_tickets s))"

text \<open>
  \<open>FileTicketStore\<close>: one directory per ticket, which holds \<open>ticket.json\<close> once
  the ticket was saved (the journal may create the directory before), and the sequence file.
\<close>

record file_store =
  fs_dirs :: "(string, ticket option) dict"
  fs_sequence :: "(agent_name, int) dict"

definition file_next_ticket_id :: "agent_name \<Rightarrow> file_store \<Rightarrow> (schema_error + string) \<times> file_store" where
  "file_next_ticket_id a s =
     (let n = next_seq (fs_sequence s) a
      in (make_ticket_id a n, s\<lparr>fs_sequence := AList.update a n (fs_sequence s)\<rparr>))"

definition file_save :: "ticket \<Rightarrow> file_store \<Rightarrow> file_store" where
  "file_save t s = s\<lparr>fs_dirs := AList.update (t_id t) (Some t) (fs_dirs s)\<rparr>"

definition file_load :: "file_store \<Rightarrow> string \<Rightarrow> ticket option" where
  "file_load s i = (case map_of (fs_dirs s) i of None \<Rightarrow> None | Some t \<Rightarrow> t)"

definition file_list_ids :: "file_store \<Rightarrow> string list" where
  "file_list_ids s = sort (map fst (filter (\<lambda>(i, t). t \<noteq> None) (fs_dirs s)))"

text \<open>\<open>path.parent.mkdir(exist_ok=True)\<close> for a path below the ticket's directory.\<close>

definition file_mkdir :: "string \<Rightarrow> file_store \<Rightarrow> file_store" where
  "file_mkdir i s = (case map_of (fs_dirs s) i of
     None \<Rightarrow> s\<lparr>fs_dirs := AList.update i None (fs_dirs s)\<rparr> | Some _ \<Rightarrow> s)"


section \<open>Leases\<close>

record lease =
  le_target :: string
  le_ticket_id :: string
  le_user :: string
  le_since :: time
  le_until :: time

definition lease_sentence :: "lease \<Rightarrow> string" where
  "lease_sentence l = le_target l @ '' is leased to '' @ le_ticket_id l @ '' ('' @ le_user l
     @ '') until '' @ show_minute (le_until l) @ ''.''"

type_synonym lease_table = "(string, lease) dict"

datatype lease_error = LeaseBusy string lease

definition holder :: "lease_table \<Rightarrow> string \<Rightarrow> time \<Rightarrow> lease option" where
  "holder items target now = (case map_of items target of
     None \<Rightarrow> None | Some l \<Rightarrow> if le_until l \<le> now then None else Some l)"

definition acquire :: "string \<Rightarrow> string \<Rightarrow> string \<Rightarrow> time \<Rightarrow> int \<Rightarrow> lease_table \<Rightarrow> lease_error + lease \<times> lease_table" where
  "acquire target tid user now max_hours items =
     (let current = map_of items target in
      case current of
        Some l \<Rightarrow>
          if le_until l > now \<and> le_ticket_id l \<noteq> tid then Inl (LeaseBusy target l)
          else (let new = \<lparr>le_target = target, le_ticket_id = tid, le_user = user,
                           le_since = (if le_ticket_id l = tid then le_since l else now),
                           le_until = now + max_hours * microseconds_per_hour\<rparr>
                in Inr (new, AList.update target new items))
      | None \<Rightarrow>
          (let new = \<lparr>le_target = target, le_ticket_id = tid, le_user = user, le_since = now,
                      le_until = now + max_hours * microseconds_per_hour\<rparr>
           in Inr (new, AList.update target new items)))"

definition release :: "string \<Rightarrow> string \<Rightarrow> lease_table \<Rightarrow> bool \<times> lease_table" where
  "release target tid items = (case map_of items target of
     None \<Rightarrow> (False, items)
   | Some l \<Rightarrow> if le_ticket_id l \<noteq> tid then (False, items) else (True, AList.delete target items))"

definition free_targets :: "lease_table \<Rightarrow> string list \<Rightarrow> time \<Rightarrow> string list" where
  "free_targets items candidates now = filter (\<lambda>t. holder items t now = None) candidates"

text \<open>What runs do to the table over time: the calls, with the moment of each.\<close>

datatype lease_call =
    CallAcquire string string string time int
  | CallRelease string string

definition lease_step :: "lease_table \<Rightarrow> lease_call \<Rightarrow> lease_table" where
  "lease_step items c = (case c of
     CallAcquire target tid user now hours \<Rightarrow>
       (case acquire target tid user now hours items of Inl _ \<Rightarrow> items | Inr (_, items') \<Rightarrow> items')
   | CallRelease target tid \<Rightarrow> snd (release target tid items))"

definition lease_run :: "lease_table \<Rightarrow> lease_call list \<Rightarrow> lease_table" where
  "lease_run items cs = foldl lease_step items cs"


section \<open>Facts about the journal\<close>

definition journal_wf :: "journal \<Rightarrow> bool" where
  "journal_wf j \<longleftrightarrow> map je_seq j = [1..<length j + 1]"

lemma journal_wf_Nil [simp]: "journal_wf []"
  by (simp add: journal_wf_def)

lemma journal_wf_append [simp]: "journal_wf j \<Longrightarrow> journal_wf (append_entry j now tr k tid pl sid)"
  by (simp add: journal_wf_def append_entry_def)

lemma completed_fold_keys:
  "map_of (foldl (\<lambda>d e. AList.update (the (je_step_id e)) e d) d0 es) k =
   (case List.find (\<lambda>e. the (je_step_id e) = k) (rev es) of None \<Rightarrow> map_of d0 k | Some e \<Rightarrow> Some e)"
  by (induction es arbitrary: d0) (auto split: option.splits)

lemma completed_steps_last:
  "map_of (completed_steps j) k = List.find (\<lambda>e. the (je_step_id e) = k) (rev (filter is_observation j))"
  by (simp add: completed_steps_def completed_fold_keys split: option.splits)

lemma completed_steps_iff:
  "map_of (completed_steps j) k \<noteq> None \<longleftrightarrow> (\<exists>e \<in> set j. is_observation e \<and> je_step_id e = Some k)"
  by (auto simp: completed_steps_last find_key_None is_observation_def image_iff)

lemma completed_steps_Some:
  "map_of (completed_steps j) k = Some e \<Longrightarrow> e \<in> set j \<and> je_kind e = KObservation \<and> je_step_id e = Some k"
  by (auto simp: completed_steps_last is_observation_def dest: find_Some_in)

lemma completed_append_intent [simp]:
  "completed_steps (append_entry j now tr k tid pl sid) =
   (case sid of Some i \<Rightarrow> if k = KObservation
      then AList.update i \<lparr>je_seq = length j + 1, je_at = now, je_ticket_id = tid, je_kind = k,
             je_step_id = sid, je_payload = pl, je_trace_id = tr\<rparr> (completed_steps j)
      else completed_steps j | None \<Rightarrow> completed_steps j)"
  by (auto simp: completed_steps_def append_entry_def is_observation_def split: option.splits)

lemma interrupted_append:
  "interrupted_step (append_entry j now tr k tid pl (Some i)) =
   (if k = KIntent then Some i
    else if k = KObservation \<and> interrupted_step j = Some i then None else interrupted_step j)"
  by (auto simp: interrupted_step_def append_entry_def interrupted_scan_def)


section \<open>The interface of a ticket store\<close>

text \<open>
  The protocol \<open>TicketStore\<close> as the kernel uses it: what was saved is loaded back, a
  save touches no other ticket, and identifiers are never issued twice. \<open>issued\<close> is the
  set of identifiers handed out so far.
\<close>

locale ticket_store =
  fixes next_id :: "agent_name \<Rightarrow> 's \<Rightarrow> (schema_error + string) \<times> 's"
    and save :: "ticket \<Rightarrow> 's \<Rightarrow> 's"
    and load :: "'s \<Rightarrow> string \<Rightarrow> ticket option"
    and list_ids :: "'s \<Rightarrow> string list"
    and issued :: "'s \<Rightarrow> string set"
    and invar :: "'s \<Rightarrow> bool"
  assumes load_save: "load (save t s) i = (if i = t_id t then Some t else load s i)"
    and load_next: "load (snd (next_id a s)) i = load s i"
    and next_total: "invar s \<Longrightarrow> \<exists>i. fst (next_id a s) = Inr i"
    and next_fresh: "invar s \<Longrightarrow> fst (next_id a s) = Inr i \<Longrightarrow> i \<notin> issued s"
    and issued_next: "invar s \<Longrightarrow> fst (next_id a s) = Inr i \<Longrightarrow> issued (snd (next_id a s)) = insert i (issued s)"
    and issued_save: "issued (save t s) = issued s"
    and invar_save: "invar s \<Longrightarrow> invar (save t s)"
    and invar_next: "invar s \<Longrightarrow> invar (snd (next_id a s))"
    and ids_loadable: "invar s \<Longrightarrow> set (list_ids s) = {i. load s i \<noteq> None}"
    and ids_sorted: "invar s \<Longrightarrow> sorted (list_ids s) \<and> distinct (list_ids s)"
begin

fun allocate :: "agent_name list \<Rightarrow> 's \<Rightarrow> string list \<times> 's" where
  "allocate [] s = ([], s)"
| "allocate (a # as) s = (case next_id a s of
     (Inr i, s') \<Rightarrow> (let (is, s'') = allocate as s' in (i # is, s'')) | (Inl _, s') \<Rightarrow> ([], s'))"

lemma allocate_distinct:
  "invar s \<Longrightarrow> allocate as s = (is, s') \<Longrightarrow>
   distinct is \<and> set is \<inter> issued s = {} \<and> issued s' = issued s \<union> set is \<and> length is = length as \<and> invar s'"
proof (induction as arbitrary: s "is" s')
  case (Cons a as)
  obtain i where i: "fst (next_id a s) = Inr i" using next_total Cons.prems(1) by blast
  let ?t = "snd (next_id a s)"
  obtain js u where js: "allocate as ?t = (js, u)" by fastforce
  have "is = i # js" "s' = u"
    using Cons.prems(2) i js by (auto simp: Let_def split: prod.splits)
  moreover have "issued ?t = insert i (issued s)" "i \<notin> issued s" "invar ?t"
    using Cons.prems(1) i issued_next next_fresh invar_next by blast+
  ultimately show ?case using Cons.IH [OF \<open>invar ?t\<close> js] by auto
qed simp

lemma save_twice: "load (save t (save u s)) i = load (if t_id t = t_id u then save t s else save u (save t s)) i"
  by (simp add: load_save)

end

definition seq_ok :: "(agent_name, int) dict \<Rightarrow> bool" where
  "seq_ok q \<longleftrightarrow> (\<forall>a n. map_of q a = Some n \<longrightarrow> 1 \<le> n)"

definition issued_ids :: "(agent_name, int) dict \<Rightarrow> string set" where
  "issued_ids q = {i. \<exists>a n m. map_of q a = Some m \<and> 1 \<le> n \<and> n \<le> m \<and> make_ticket_id a n = Inr i}"

lemma next_seq_pos: "seq_ok q \<Longrightarrow> 1 \<le> next_seq q a"
  by (force simp: seq_ok_def next_seq_def split: option.splits)

lemma seq_ok_update: "seq_ok q \<Longrightarrow> seq_ok (AList.update a (next_seq q a) q)"
  using next_seq_pos [of q a] by (simp add: seq_ok_def)

lemma make_next_total: "seq_ok q \<Longrightarrow> \<exists>i. make_ticket_id a (next_seq q a) = Inr i"
  using next_seq_pos [of q a] by (simp add: make_ticket_id_def)

lemma issued_idsI: "map_of q a = Some m \<Longrightarrow> 1 \<le> n \<Longrightarrow> n \<le> m \<Longrightarrow> make_ticket_id a n = Inr i \<Longrightarrow> i \<in> issued_ids q"
  by (auto simp: issued_ids_def)

lemma issued_idsE:
  assumes "i \<in> issued_ids q"
  obtains a n m where "map_of q a = Some m" "1 \<le> n" "n \<le> m" "make_ticket_id a n = Inr i"
  using assms by (auto simp: issued_ids_def)

lemma make_next_fresh:
  assumes "make_ticket_id a (next_seq q a) = Inr i"
  shows "i \<notin> issued_ids q"
proof
  assume "i \<in> issued_ids q"
  then obtain b n m where b: "map_of q b = Some m" "n \<le> m" "make_ticket_id b n = Inr i"
    by (rule issued_idsE)
  then have "a = b \<and> next_seq q a = n" using assms make_ticket_id_inject by blast
  with b show False by (auto simp: next_seq_def)
qed

lemma issued_update:
  assumes "seq_ok q" "make_ticket_id a (next_seq q a) = Inr i"
  shows "issued_ids (AList.update a (next_seq q a) q) = insert i (issued_ids q)"
proof (intro set_eqI iffI)
  fix x assume "x \<in> issued_ids (AList.update a (next_seq q a) q)"
  then obtain b n m where b: "map_of (AList.update a (next_seq q a) q) b = Some m" "1 \<le> n" "n \<le> m"
    "make_ticket_id b n = Inr x" by (rule issued_idsE)
  show "x \<in> insert i (issued_ids q)"
  proof (cases "b = a \<and> n = next_seq q a")
    case True
    then show ?thesis using assms b by simp
  next
    case False
    have "\<exists>m'. map_of q b = Some m' \<and> n \<le> m'"
      using False b by (cases "b = a") (auto simp: next_seq_def split: option.splits)
    then show ?thesis using b by (auto intro: issued_idsI)
  qed
next
  fix x assume "x \<in> insert i (issued_ids q)"
  then show "x \<in> issued_ids (AList.update a (next_seq q a) q)"
  proof
    assume "x = i"
    then show ?thesis using assms next_seq_pos [of q a] by (intro issued_idsI [of _ a]) auto
  next
    assume "x \<in> issued_ids q"
    then obtain b n m where b: "map_of q b = Some m" "1 \<le> n" "n \<le> m" "make_ticket_id b n = Inr x"
      by (rule issued_idsE)
    then show ?thesis
      by (intro issued_idsI [of _ b "if b = a then next_seq q a else m" n]) (auto simp: next_seq_def)
  qed
qed

definition memory_ok :: "memory_store \<Rightarrow> bool" where
  "memory_ok s \<longleftrightarrow> seq_ok (ms_sequence s) \<and> dict_wf (ms_tickets s)"

definition file_ok :: "file_store \<Rightarrow> bool" where
  "file_ok s \<longleftrightarrow> seq_ok (fs_sequence s) \<and> dict_wf (fs_dirs s)"

interpretation memory: ticket_store mem_next_ticket_id mem_save mem_load mem_list_ids
  "\<lambda>s. issued_ids (ms_sequence s)" memory_ok
proof unfold_locales
  fix s a i
  show "memory_ok s \<Longrightarrow> fst (mem_next_ticket_id a s) = Inr i \<Longrightarrow> i \<notin> issued_ids (ms_sequence s)"
    by (simp add: mem_next_ticket_id_def Let_def make_next_fresh)
  show "memory_ok s \<Longrightarrow> set (mem_list_ids s) = {i. mem_load s i \<noteq> None}"
    by (auto simp: mem_list_ids_def mem_load_def map_of_eq_None_iff)
qed (auto simp: mem_next_ticket_id_def mem_save_def mem_load_def memory_ok_def mem_list_ids_def Let_def
    make_next_total issued_update seq_ok_update dict_wf_def distinct_update)

lemma distinct_filter_keys: "distinct (map fst d) \<Longrightarrow> distinct (map fst (filter P d))"
  by (induction d) auto

lemma file_ids_loadable:
  assumes "dict_wf (fs_dirs s)"
  shows "set (file_list_ids s) = {i. file_load s i \<noteq> None}"
proof -
  have "file_load s i \<noteq> None \<longleftrightarrow> (\<exists>t. map_of (fs_dirs s) i = Some (Some t))" for i
    by (auto simp: file_load_def split: option.splits)
  moreover have "map_of (fs_dirs s) i = Some v \<longleftrightarrow> (i, v) \<in> set (fs_dirs s)" for i v
    using assms by (simp add: dict_wf_def map_of_eq_Some_iff)
  moreover have "i \<in> set (file_list_ids s) \<longleftrightarrow> (\<exists>t. (i, Some t) \<in> set (fs_dirs s))" for i
    by (force simp: file_list_ids_def)
  ultimately show ?thesis by blast
qed

interpretation files: ticket_store file_next_ticket_id file_save file_load file_list_ids
  "\<lambda>s. issued_ids (fs_sequence s)" file_ok
proof unfold_locales
  fix s a i
  show "file_ok s \<Longrightarrow> fst (file_next_ticket_id a s) = Inr i \<Longrightarrow> i \<notin> issued_ids (fs_sequence s)"
    by (simp add: file_next_ticket_id_def Let_def make_next_fresh)
  show "file_ok s \<Longrightarrow> set (file_list_ids s) = {i. file_load s i \<noteq> None}"
    by (simp add: file_ok_def file_ids_loadable)
qed (auto simp: file_next_ticket_id_def file_save_def file_load_def file_ok_def file_list_ids_def Let_def
    make_next_total issued_update seq_ok_update dict_wf_def distinct_update distinct_filter_keys)

lemma load_mkdir [simp]: "file_load (file_mkdir i s) j = file_load s j"
  by (auto simp: file_load_def file_mkdir_def split: option.splits)


section \<open>Facts about leases\<close>

text \<open>Calls of other runs on the target before the lease ends: none of them is the holder's.\<close>

fun foreign_before :: "string \<Rightarrow> string \<Rightarrow> time \<Rightarrow> lease_call \<Rightarrow> bool" where
  "foreign_before target tid u (CallAcquire tg t user now hours) \<longleftrightarrow> tg \<noteq> target \<or> (t \<noteq> tid \<and> now < u)"
| "foreign_before target tid u (CallRelease tg t) \<longleftrightarrow> tg \<noteq> target \<or> t \<noteq> tid"

lemma lease_step_foreign:
  assumes "map_of items target = Some l" "foreign_before target (le_ticket_id l) (le_until l) c"
  shows "map_of (lease_step items c) target = Some l"
  using assms
  by (cases c) (auto simp: lease_step_def acquire_def release_def Let_def split: option.splits sum.splits if_splits)

lemma lease_run_foreign:
  assumes "map_of items target = Some l"
    and "list_all (foreign_before target (le_ticket_id l) (le_until l)) cs"
  shows "map_of (lease_run items cs) target = Some l"
  using assms
  by (induction cs arbitrary: items) (auto simp: lease_run_def lease_step_foreign)

lemma acquire_Inr:
  assumes "acquire target tid user now hours items = Inr (l, items')"
  shows "map_of items' target = Some l" "le_ticket_id l = tid" "le_until l = now + hours * microseconds_per_hour"
    "le_target l = target" "\<And>t. t \<noteq> target \<Longrightarrow> map_of items' t = map_of items t"
  using assms by (auto simp: acquire_def Let_def split: option.splits if_splits)

lemma acquire_busy:
  "holder items target now = Some l \<Longrightarrow> le_ticket_id l \<noteq> tid \<Longrightarrow>
   acquire target tid user now hours items = Inl (LeaseBusy target l)"
  by (auto simp: holder_def acquire_def Let_def split: option.splits if_splits)

lemma acquire_free:
  "holder items target now = None \<or> (\<exists>l. holder items target now = Some l \<and> le_ticket_id l = tid) \<Longrightarrow>
   \<exists>l items'. acquire target tid user now hours items = Inr (l, items')"
  by (auto simp: holder_def acquire_def Let_def split: option.splits if_splits)

end
