(* ===== verification/Stdlib.thy ===== *)
theory Stdlib
  imports Prelude "HOL-Library.Word"
begin

text \<open>
  What the sources use of Python's standard library beyond strings: \<open>re\<close> and
  \<open>hashlib.sha256\<close>.

  A compiled pattern is an \<open>rx\<close>. \<open>rx_match\<close> is the backtracking matcher of
  \<open>re\<close>: from a position it gives every way to match, in the order the engine tries
  them, so its head is what \<open>re.match\<close> returns. A position is a pair of the text
  before it, reversed, and the text after it. The flag \<open>IGNORECASE\<close> is compiled into
  the literals (\<open>lit_ci\<close>).
\<close>

unbundle bit_operations_syntax

section \<open>Regular expressions\<close>

datatype rx =
    Eps
  | Cls "char \<Rightarrow> bool"
  | Seq rx rx
  | Alt rx rx
  | Star rx
  | LazyStar rx
  | WordB
  | Bol
  | Eol

type_synonym rpos = "string \<times> string"

definition is_word :: "char \<Rightarrow> bool" where
  "is_word c \<longleftrightarrow> is_digit c \<or> (CHR ''a'' \<le> c \<and> c \<le> CHR ''z'') \<or> (CHR ''A'' \<le> c \<and> c \<le> CHR ''Z'') \<or> c = CHR ''_''"

definition at_word :: "string \<Rightarrow> bool" where
  "at_word s \<longleftrightarrow> (case s of [] \<Rightarrow> False | c # _ \<Rightarrow> is_word c)"

text \<open>
  Zero or more rounds of \<open>f\<close>, most rounds first (greedy) or fewest first (lazy). A round
  that consumes nothing ends the repetition, so \<open>length rest\<close> rounds are enough.
\<close>

definition progress :: "rpos \<Rightarrow> rpos \<Rightarrow> bool" where
  "progress p q \<longleftrightarrow> length (snd q) < length (snd p)"

fun rounds :: "nat \<Rightarrow> (rpos \<Rightarrow> rpos list) \<Rightarrow> rpos \<Rightarrow> rpos list" where
  "rounds 0 f p = [p]"
| "rounds (Suc n) f p = concat (map (rounds n f) (filter (progress p) (f p))) @ [p]"

fun lazy_rounds :: "nat \<Rightarrow> (rpos \<Rightarrow> rpos list) \<Rightarrow> rpos \<Rightarrow> rpos list" where
  "lazy_rounds 0 f p = [p]"
| "lazy_rounds (Suc n) f p = p # concat (map (lazy_rounds n f) (filter (progress p) (f p)))"

fun rx_match :: "rx \<Rightarrow> rpos \<Rightarrow> rpos list" where
  "rx_match Eps p = [p]"
| "rx_match (Cls P) p = (case snd p of [] \<Rightarrow> [] | c # s \<Rightarrow> if P c then [(c # fst p, s)] else [])"
| "rx_match (Seq r q) p = concat (map (rx_match q) (rx_match r p))"
| "rx_match (Alt r q) p = rx_match r p @ rx_match q p"
| "rx_match (Star r) p = rounds (length (snd p)) (rx_match r) p"
| "rx_match (LazyStar r) p = lazy_rounds (length (snd p)) (rx_match r) p"
| "rx_match WordB p = (if at_word (fst p) \<noteq> at_word (snd p) then [p] else [])"
| "rx_match Bol p = (if fst p = [] then [p] else [])"
| "rx_match Eol p = (if snd p = [] \<or> snd p = [CHR 0x0A] then [p] else [])"

definition lit :: "string \<Rightarrow> rx" where
  "lit s = foldr (\<lambda>c. Seq (Cls (\<lambda>x. x = c))) s Eps"

definition lit_ci :: "string \<Rightarrow> rx" where
  "lit_ci s = foldr (\<lambda>c. Seq (Cls (\<lambda>x. lower_char x = lower_char c))) s Eps"

definition rplus :: "rx \<Rightarrow> rx" where
  "rplus r = Seq r (Star r)"

definition ropt :: "rx \<Rightarrow> rx" where
  "ropt r = Alt r Eps"

fun rtimes :: "nat \<Rightarrow> rx \<Rightarrow> rx" where
  "rtimes 0 r = Eps"
| "rtimes (Suc n) r = Seq r (rtimes n r)"

fun ralts :: "rx list \<Rightarrow> rx" where
  "ralts [] = Cls (\<lambda>_. False)"
| "ralts [r] = r"
| "ralts (r # q # rs) = Alt r (ralts (q # rs))"

fun rseq :: "rx list \<Rightarrow> rx" where
  "rseq [] = Eps"
| "rseq (r # rs) = Seq r (rseq rs)"

definition any_char :: rx where \<comment> \<open>\<open>.\<close> without \<open>DOTALL\<close>\<close>
  "any_char = Cls (\<lambda>c. c \<noteq> CHR 0x0A)"

definition rdigit :: rx where
  "rdigit = Cls is_digit"

definition rspace :: rx where
  "rspace = Cls is_space"

text \<open>\<open>re.match\<close>, \<open>re.search\<close> (the start and the end of the leftmost match) and \<open>re.sub\<close>.\<close>

definition re_match :: "rx \<Rightarrow> string \<Rightarrow> rpos option" where
  "re_match r s = (case rx_match r ([], s) of [] \<Rightarrow> None | m # _ \<Rightarrow> Some m)"

fun search_from :: "rx \<Rightarrow> string \<Rightarrow> string \<Rightarrow> (rpos \<times> rpos) option" where
  "search_from r l [] = (case rx_match r (l, []) of [] \<Rightarrow> None | m # _ \<Rightarrow> Some ((l, []), m))"
| "search_from r l (c # s) = (case rx_match r (l, c # s) of
     m # _ \<Rightarrow> Some ((l, c # s), m) | [] \<Rightarrow> search_from r (c # l) s)"

definition re_search :: "rx \<Rightarrow> string \<Rightarrow> bool" where
  "re_search r s \<longleftrightarrow> search_from r [] s \<noteq> None"

text \<open>
  \<open>re.sub\<close> for patterns that match no empty text, which all the patterns the sources
  substitute are.
\<close>

function sub_from :: "rx \<Rightarrow> string \<Rightarrow> string \<Rightarrow> string \<Rightarrow> string" where
  "sub_from r w l s = (case s of [] \<Rightarrow> [] | c # s' \<Rightarrow>
     (case rx_match r (l, s) of
        [] \<Rightarrow> c # sub_from r w (c # l) s'
      | m # _ \<Rightarrow> if length (snd m) < length s then w @ sub_from r w (fst m) (snd m)
                 else c # sub_from r w (c # l) s'))"
  by pat_completeness auto
termination
  by (relation "measure (\<lambda>(r, w, l, s). length s)") auto

declare sub_from.simps [simp del]

definition re_sub :: "rx \<Rightarrow> string \<Rightarrow> string \<Rightarrow> string" where
  "re_sub r w s = sub_from r w [] s"


section \<open>SHA-256\<close>

type_synonym u32 = "32 word"

definition sha_k :: "u32 list" where
  "sha_k = [
      0x428A2F98, 0x71374491, 0xB5C0FBCF, 0xE9B5DBA5, 0x3956C25B, 0x59F111F1, 0x923F82A4, 0xAB1C5ED5,
      0xD807AA98, 0x12835B01, 0x243185BE, 0x550C7DC3, 0x72BE5D74, 0x80DEB1FE, 0x9BDC06A7, 0xC19BF174,
      0xE49B69C1, 0xEFBE4786, 0x0FC19DC6, 0x240CA1CC, 0x2DE92C6F, 0x4A7484AA, 0x5CB0A9DC, 0x76F988DA,
      0x983E5152, 0xA831C66D, 0xB00327C8, 0xBF597FC7, 0xC6E00BF3, 0xD5A79147, 0x06CA6351, 0x14292967,
      0x27B70A85, 0x2E1B2138, 0x4D2C6DFC, 0x53380D13, 0x650A7354, 0x766A0ABB, 0x81C2C92E, 0x92722C85,
      0xA2BFE8A1, 0xA81A664B, 0xC24B8B70, 0xC76C51A3, 0xD192E819, 0xD6990624, 0xF40E3585, 0x106AA070,
      0x19A4C116, 0x1E376C08, 0x2748774C, 0x34B0BCB5, 0x391C0CB3, 0x4ED8AA4A, 0x5B9CCA4F, 0x682E6FF3,
      0x748F82EE, 0x78A5636F, 0x84C87814, 0x8CC70208, 0x90BEFFFA, 0xA4506CEB, 0xBEF9A3F7, 0xC67178F2]"

definition sha_init :: "u32 list" where
  "sha_init = [
      0x6A09E667, 0xBB67AE85, 0x3C6EF372, 0xA54FF53A, 0x510E527F, 0x9B05688C, 0x1F83D9AB, 0x5BE0CD19]"

definition rotr :: "nat \<Rightarrow> u32 \<Rightarrow> u32" where
  "rotr n x = (drop_bit n x) OR (push_bit (32 - n) x)"

text \<open>The padded message: a 1 bit, zeros, and the length in bits as a 64-bit number.\<close>

definition sha_bytes :: "string \<Rightarrow> nat list" where
  "sha_bytes s = map of_char s"

definition sha_pad :: "nat list \<Rightarrow> nat list" where
  "sha_pad m = m @ [128] @ replicate ((119 - length m mod 64) mod 64) 0
     @ map (\<lambda>i. (8 * length m) div 256 ^ i mod 256) [7, 6, 5, 4, 3, 2, 1, 0]"

fun be_words :: "nat list \<Rightarrow> u32 list" where
  "be_words (a # b # c # d # r) = word_of_nat (((a * 256 + b) * 256 + c) * 256 + d) # be_words r"
| "be_words _ = []"

text \<open>The message schedule, newest word first.\<close>

fun sha_extend :: "nat \<Rightarrow> u32 list \<Rightarrow> u32 list" where
  "sha_extend 0 w = w"
| "sha_extend (Suc n) w =
     (let w2 = w ! 1; w7 = w ! 6; w15 = w ! 14; w16 = w ! 15;
          s0 = rotr 7 w15 XOR rotr 18 w15 XOR drop_bit 3 w15;
          s1 = rotr 17 w2 XOR rotr 19 w2 XOR drop_bit 10 w2
      in sha_extend n ((w16 + s0 + w7 + s1) # w))"

definition sha_schedule :: "u32 list \<Rightarrow> u32 list" where
  "sha_schedule block = rev (sha_extend 48 (rev block))"

fun sha_round :: "u32 list \<Rightarrow> u32 \<times> u32 \<Rightarrow> u32 list" where
  "sha_round [a, b, c, d, e, f, g, h] (k, w) =
     (let s1 = rotr 6 e XOR rotr 11 e XOR rotr 25 e;
          ch = (e AND f) XOR ((NOT e) AND g);
          t1 = h + s1 + ch + k + w;
          s0 = rotr 2 a XOR rotr 13 a XOR rotr 22 a;
          maj = (a AND b) XOR (a AND c) XOR (b AND c)
      in [t1 + (s0 + maj), a, b, c, d + t1, e, f, g])"
| "sha_round v _ = v"

definition sha_block :: "u32 list \<Rightarrow> u32 list \<Rightarrow> u32 list" where
  "sha_block hs block = map2 (+) hs (foldl sha_round hs (zip sha_k (sha_schedule block)))"

fun sha_blocks :: "nat \<Rightarrow> u32 list \<Rightarrow> u32 list \<Rightarrow> u32 list" where
  "sha_blocks 0 ws hs = hs"
| "sha_blocks (Suc n) ws hs = sha_blocks n (drop 16 ws) (sha_block hs (take 16 ws))"

definition hex_digit :: "nat \<Rightarrow> char" where
  "hex_digit d = (if d < 10 then digit d else char_of (87 + d))"

definition hex_word :: "u32 \<Rightarrow> string" where
  "hex_word w = map (\<lambda>i. hex_digit (unat w div 16 ^ i mod 16)) [7, 6, 5, 4, 3, 2, 1, 0]"

text \<open>\<open>hashlib.sha256(text.encode("utf-8")).hexdigest()\<close>.\<close>

definition sha256_hex :: "string \<Rightarrow> string" where
  "sha256_hex s = (let ws = be_words (sha_pad (sha_bytes s))
     in concat (map hex_word (sha_blocks (length ws div 16) ws sha_init)))"


section \<open>What a match consumes\<close>

lemma rounds_le:
  assumes "\<And>p m. m \<in> set (f p) \<Longrightarrow> length (snd m) \<le> length (snd p)"
  shows "m \<in> set (rounds n f p) \<Longrightarrow> length (snd m) \<le> length (snd p)"
  using assms by (induction n f p arbitrary: m rule: rounds.induct) (auto simp: progress_def, fastforce)

lemma lazy_rounds_le:
  assumes "\<And>p m. m \<in> set (f p) \<Longrightarrow> length (snd m) \<le> length (snd p)"
  shows "m \<in> set (lazy_rounds n f p) \<Longrightarrow> length (snd m) \<le> length (snd p)"
  using assms by (induction n f p arbitrary: m rule: lazy_rounds.induct) (auto simp: progress_def, fastforce)

lemma rx_match_le: "m \<in> set (rx_match r p) \<Longrightarrow> length (snd m) \<le> length (snd p)"
proof (induction r arbitrary: p m)
  case (Seq r q)
  from Seq.prems obtain x where "x \<in> set (rx_match r p)" "m \<in> set (rx_match q x)" by auto
  then show ?case using Seq.IH le_trans by blast
next
  case (Star r)
  then show ?case using rounds_le [of "rx_match r"] by simp
next
  case (LazyStar r)
  then show ?case using lazy_rounds_le [of "rx_match r"] by simp
qed (auto split: list.splits if_splits)

text \<open>The patterns that match no empty text.\<close>

fun consumes :: "rx \<Rightarrow> bool" where
  "consumes (Cls P) \<longleftrightarrow> True"
| "consumes (Seq r q) \<longleftrightarrow> consumes r \<or> consumes q"
| "consumes (Alt r q) \<longleftrightarrow> consumes r \<and> consumes q"
| "consumes _ \<longleftrightarrow> False"

lemma rx_match_less: "consumes r \<Longrightarrow> m \<in> set (rx_match r p) \<Longrightarrow> length (snd m) < length (snd p)"
proof (induction r arbitrary: p m)
  case (Seq r q)
  from Seq.prems obtain x where x: "x \<in> set (rx_match r p)" "m \<in> set (rx_match q x)" by auto
  have "length (snd m) \<le> length (snd x)" "length (snd x) \<le> length (snd p)"
    using x rx_match_le by blast+
  moreover have "length (snd m) < length (snd x) \<or> length (snd x) < length (snd p)"
    using Seq.IH(1) [OF _ x(1)] Seq.IH(2) [OF _ x(2)] Seq.prems(1) by auto
  ultimately show ?case by linarith
qed (auto split: list.splits if_splits)

text \<open>A character that can be matched from wherever it stands never survives \<open>re.sub\<close>.\<close>

lemma sub_from_removes:
  assumes hit: "\<And>l c s. P c \<Longrightarrow> rx_match r (l, c # s) \<noteq> []"
    and "consumes r" and w: "\<forall>c \<in> set w. \<not> P c"
  shows "\<forall>c \<in> set (sub_from r w l s). \<not> P c"
  using assms
proof (induction r w l s rule: sub_from.induct)
  case (1 r w l s)
  show ?case
  proof (cases s)
    case Nil
    then show ?thesis by (simp add: sub_from.simps [of r w l "[]"])
  next
    case (Cons c s')
    show ?thesis
    proof (cases "rx_match r (l, c # s')")
      case Nil
      moreover from Nil have "\<not> P c" using "1.prems"(1) by blast
      moreover have "\<forall>x \<in> set (sub_from r w (c # l) s'). \<not> P x"
        using "1.IH"(1) [OF Cons] Cons Nil "1.prems" by blast
      ultimately show ?thesis using Cons by (simp add: sub_from.simps [of r w l "c # s'"])
    next
      case (Cons m ms)
      then have m: "length (snd m) < length s"
        using rx_match_less [OF "1.prems"(2), of m "(l, c # s')"] \<open>s = c # s'\<close> by simp
      have "\<forall>x \<in> set (sub_from r w (fst m) (snd m)). \<not> P x"
        using "1.IH"(2) [OF \<open>s = c # s'\<close>] Cons m \<open>s = c # s'\<close> "1.prems" by blast
      then show ?thesis using Cons m \<open>s = c # s'\<close> "1.prems"(3)
        by (auto simp: sub_from.simps [of r w l "c # s'"])
    qed
  qed
qed

lemma rplus_digit_hits: "is_digit c \<Longrightarrow> rx_match (rplus rdigit) (l, c # s) \<noteq> []"
proof -
  have "rounds n f p \<noteq> []" for n f p by (cases n) simp_all
  then show "is_digit c \<Longrightarrow> rx_match (rplus rdigit) (l, c # s) \<noteq> []"
    by (simp add: rplus_def rdigit_def)
qed


section \<open>The shape of a digest\<close>

definition is_hex :: "char \<Rightarrow> bool" where
  "is_hex c \<longleftrightarrow> is_digit c \<or> (CHR ''a'' \<le> c \<and> c \<le> CHR ''f'')"

lemma is_hex_digit: "d < 16 \<Longrightarrow> is_hex (hex_digit d)"
  by (auto simp: is_hex_def hex_digit_def less_eq_char_def of_char_of)

lemma hex_word_hex: "list_all is_hex (hex_word w)"
  by (simp add: hex_word_def is_hex_digit)

lemma length_sha_round [simp]: "length (sha_round v kw) = length v"
  by (induction v kw rule: sha_round.induct) (simp_all add: Let_def)

lemma length_sha_rounds [simp]: "length (foldl sha_round v kws) = length v"
  by (induction kws arbitrary: v) simp_all

lemma length_sha_blocks [simp]: "length (sha_blocks n ws hs) = length hs"
  by (induction n arbitrary: ws hs) (simp_all add: sha_block_def)

lemma sha256_hex_hex: "list_all is_hex (sha256_hex s)"
  using hex_word_hex by (auto simp: sha256_hex_def Let_def list_all_iff)

lemma sha256_hex_length: "length (sha256_hex s) = 64"
proof -
  have "length (hex_word w) = 8" for w by (simp add: hex_word_def)
  then have "length (concat (map hex_word hs)) = 8 * length hs" for hs
    by (induction hs) simp_all
  then show ?thesis by (simp add: sha256_hex_def Let_def sha_init_def)
qed

end
