(* ===== verification/Triage.thy ===== *)
theory Triage
  imports Schemas Stdlib
begin

text \<open>
  Deterministic triage of findings (\<open>packages/slas-triage\<close>): the fingerprint that
  identifies a failure, the owner routing table, deduplication, and the index of bug tickets.
  A pattern of a routing rule is the pair of its source text and its compiled form.
\<close>

section \<open>Fingerprints\<close>

definition hex_char :: rx where
  "hex_char = Cls (\<lambda>c. is_digit c \<or> (CHR ''a'' \<le> c \<and> c \<le> CHR ''f'') \<or> (CHR ''A'' \<le> c \<and> c \<le> CHR ''F''))"

definition NOISE :: rx where
  "NOISE = ralts
     [rseq [WordB, rtimes 4 hex_char, lit '':'', rtimes 2 hex_char, lit '':'', rtimes 2 hex_char,
            ropt (rseq [lit ''.'', Cls (\<lambda>c. CHR ''0'' \<le> c \<and> c \<le> CHR ''7'')]), WordB],
      rseq [lit ''0x'', rplus hex_char],
      rplus rdigit]"

definition normalise :: "string \<Rightarrow> string" where
  "normalise text = py_lower (py_strip (re_sub NOISE ''#'' text))"

definition fingerprint :: "string \<Rightarrow> string" where
  "fingerprint text = take 16 (sha256_hex (normalise text))"

definition fingerprint_ok :: "string \<Rightarrow> bool" where
  "fingerprint_ok s \<longleftrightarrow> 16 \<le> length s \<and> length s \<le> 64 \<and> list_all is_hex s"


section \<open>Owner routing\<close>

record owner_rule =
  or_id :: string
  or_owner :: string
  or_component :: string
  or_severity :: severity
  or_description :: string
  or_patterns :: "(string \<times> rx) list"

record owner_routing =
  ow_version :: int
  ow_owners :: "(string, string) dict"
  ow_rules :: "owner_rule list"

record routing_decision =
  rd_owner :: "string option"
  rd_component :: "string option"
  rd_severity :: "severity option"
  rd_rule_id :: "string option"
  rd_matched :: "string option"

fun first_pattern :: "(string \<times> rx) list \<Rightarrow> string \<Rightarrow> string option" where
  "first_pattern [] text = None"
| "first_pattern (p # ps) text = (if re_search (snd p) text then Some (fst p) else first_pattern ps text)"

text \<open>\<open>OwnerRule.matches\<close>.\<close>

definition rule_matches :: "owner_rule \<Rightarrow> string \<Rightarrow> string option" where
  "rule_matches r text = first_pattern (or_patterns r) text"

fun route_rules :: "owner_rule list \<Rightarrow> string \<Rightarrow> routing_decision" where
  "route_rules [] text = \<lparr>rd_owner = None, rd_component = None, rd_severity = None, rd_rule_id = None, rd_matched = None\<rparr>"
| "route_rules (r # rs) text = (case rule_matches r text of
     Some m \<Rightarrow> \<lparr>rd_owner = Some (or_owner r), rd_component = Some (or_component r),
                rd_severity = Some (or_severity r), rd_rule_id = Some (or_id r), rd_matched = Some m\<rparr>
   | None \<Rightarrow> route_rules rs text)"

definition route_owner :: "owner_routing \<Rightarrow> string \<Rightarrow> routing_decision" where
  "route_owner routing text = route_rules (ow_rules routing) text"

definition opt_text :: "string option \<Rightarrow> string" where \<comment> \<open>an optional string in an f-string\<close>
  "opt_text s = (case s of None \<Rightarrow> ''None'' | Some x \<Rightarrow> x)"

definition routing_sentence :: "routing_decision \<Rightarrow> string" where
  "routing_sentence d = (case rd_owner d of
     None \<Rightarrow> ''No routing rule matched; the owner is your call.''
   | Some w \<Rightarrow> ''Routed to '' @ w @ '' ('' @ opt_text (rd_component d) @ '', ''
       @ opt_text (map_option severity_value (rd_severity d)) @ '') by rule '' @ opt_text (rd_rule_id d) @ ''.'')"

definition rule_id_ok :: "string \<Rightarrow> bool" where
  "rule_id_ok s \<longleftrightarrow> (case s of [] \<Rightarrow> False | c # r \<Rightarrow> is_lower c \<and>
     list_all (\<lambda>x. is_lower x \<or> is_digit x \<or> x = CHR ''-'') r)"

definition rule_ok :: "owner_rule \<Rightarrow> bool" where
  "rule_ok r \<longleftrightarrow> rule_id_ok (or_id r) \<and> or_owner r \<noteq> [] \<and> or_component r \<noteq> []
     \<and> or_description r \<noteq> [] \<and> or_patterns r \<noteq> []"

text \<open>The validator \<open>_rules_name_known_owners\<close>: \<open>ids\<close> are the rule ids seen so far.\<close>

fun check_rules :: "string list \<Rightarrow> (string, string) dict \<Rightarrow> owner_rule list \<Rightarrow> schema_error option" where
  "check_rules ids owners [] = None"
| "check_rules ids owners (r # rs) =
     (if map_of owners (or_owner r) = None then Some (ValidationError (or_owner r))
      else if or_id r \<in> set ids then Some (ValidationError (or_id r))
      else check_rules (or_id r # ids) owners rs)"

definition routing_from_mapping :: "owner_routing \<Rightarrow> schema_error + owner_routing" where
  "routing_from_mapping d =
     (if \<not> list_all rule_ok (ow_rules d) then Inl (ValidationError ''rules'')
      else (case check_rules [] (ow_owners d) (ow_rules d) of Some e \<Rightarrow> Inl e | None \<Rightarrow> Inr d))"


section \<open>The default routing table\<close>

definition backslash :: string where
  "backslash = [CHR 0x5C]"

definition pat :: "string \<Rightarrow> string \<times> rx" where \<comment> \<open>literal text\<close>
  "pat s = (s, lit_ci s)"

definition pat_word :: "string \<Rightarrow> string \<times> rx" where \<comment> \<open>a whole word\<close>
  "pat_word s = (backslash @ ''b'' @ s @ backslash @ ''b'', rseq [WordB, lit_ci s, WordB])"

definition pat_word_digit :: "string \<Rightarrow> string \<times> rx" where \<comment> \<open>a word start, then a digit\<close>
  "pat_word_digit s = (backslash @ ''b'' @ s @ backslash @ ''d'', rseq [WordB, lit_ci s, rdigit])"

definition pat_one_of :: "string \<Rightarrow> string list \<Rightarrow> string \<times> rx" where \<comment> \<open>text, then one of several\<close>
  "pat_one_of s alts = (s @ ''(?:'' @ py_join ''|'' alts @ '')'', Seq (lit_ci s) (ralts (map lit_ci alts)))"

definition owner_rule_of :: "string \<Rightarrow> string \<Rightarrow> string \<Rightarrow> severity \<Rightarrow> string \<Rightarrow> (string \<times> rx) list \<Rightarrow> owner_rule" where
  "owner_rule_of i w c sv d ps = \<lparr>or_id = i, or_owner = w, or_component = c, or_severity = sv,
     or_description = d, or_patterns = ps\<rparr>"

definition DEFAULT_OWNER_ROUTING :: owner_routing where
  "DEFAULT_OWNER_ROUTING = \<lparr>ow_version = 1,
     ow_owners = [
       (''EE'', ''Electrical engineering: boards, PCIe, power, memory hardware.''),
       (''FW'', ''Firmware: BMC, BIOS, device firmware.''),
       (''SW'', ''Software: drivers, test tools, agent code.''),
       (''ME'', ''Mechanical and thermal.''),
       (''TE'', ''Test engineering: suites, stations, fixtures.'')],
     ow_rules = [
       owner_rule_of ''pcie-link'' ''EE'' ''PCIe'' S2
         ''A PCIe link came up narrower or slower than the baseline, or dropped.''
         [pat ''pcie link'', pat ''lnksta'',
          pat_one_of ''link '' [''lost'', ''down'', ''width'', ''speed'', ''degraded''], pat_word ''aer''],
       owner_rule_of ''gpu-xid'' ''SW'' ''GPU driver'' S2
         ''The GPU driver reported an Xid; the driver team triages before hardware does.''
         [pat_word ''xid'', pat_word ''nvrm'', pat ''nvidia-smi''],
       owner_rule_of ''memory'' ''EE'' ''Memory'' S2
         ''Correctable or uncorrectable memory errors from EDAC or a machine-check.''
         [pat_word ''edac'', pat_word ''mce'', pat ''uncorrectable'', pat_word ''dimm''],
       owner_rule_of ''boot'' ''FW'' ''Boot'' S1
         ''The target did not reach the OS after a power action.''
         [pat ''boot timeout'', pat ''failed to boot'', pat ''did not boot'',
          (''no post'' @ backslash @ ''b'', rseq [lit_ci ''no post'', WordB]), pat ''post code''],
       owner_rule_of ''power'' ''EE'' ''Power'' S1
         ''Power delivery: PSU, PDU, voltage rails, unexpected power loss.''
         [pat_one_of ''power '' [''loss'', ''fail'', ''fault''], pat_word ''psu'', pat_word ''pdu'', pat ''voltage''],
       owner_rule_of ''thermal'' ''ME'' ''Thermal'' S2
         ''Temperatures, throttling or fan faults.''
         [pat ''thermal'', pat ''overheat'', pat ''throttl'', pat_word ''fan''],
       owner_rule_of ''bmc'' ''FW'' ''BMC'' S3
         ''The BMC, Redfish, IPMI or the SEL misbehaved.''
         [pat_word ''bmc'', pat ''redfish'', pat_word ''ipmi'', pat_word ''sel''],
       owner_rule_of ''storage'' ''FW'' ''Storage'' S3
         ''NVMe, SMART, RAID or block I/O errors.''
         [pat_word ''nvme'', pat_word ''smart'', pat_word ''raid'', pat ''i/o error''],
       owner_rule_of ''network'' ''EE'' ''Network'' S3
         ''NIC or fabric link problems.''
         [pat_word ''nic'', pat ''link flap'', pat_word_digit ''eth'', pat_word_digit ''mlx'', pat_word_digit ''ib''],
       owner_rule_of ''station'' ''TE'' ''Test station'' S3
         ''The station GUI, runner or fixture did not behave.''
         [pat ''station'', pat ''burnin'', pat_word ''mes'', pat ''fixture'',
          (''window .* not found'', rseq [lit_ci ''window '', Star any_char, lit_ci '' not found''])],
       owner_rule_of ''software'' ''SW'' ''Test software'' S3
         ''A tool or script failed on its own: tracebacks, bad exits, missing commands.''
         [pat ''traceback'', pat ''segfault'',
          (''exit(?:ed with)? code'', rseq [lit_ci ''exit'', ropt (lit_ci ''ed with''), lit_ci '' code'']),
          pat ''command not found'', pat ''assertion'']]\<rparr>"

definition default_routing :: "schema_error + owner_routing" where
  "default_routing = routing_from_mapping DEFAULT_OWNER_ROUTING"


section \<open>Deduplication and triage\<close>

text \<open>
  One entry of the loop shared by \<open>dedup_findings\<close> and \<open>Kernel._attach\<close>: the
  first finding per fingerprint stays, a repeat adds evidence the first does not have, and the
  merged evidence is cut to twenty lines.
\<close>

definition add_evidence :: "finding \<Rightarrow> finding \<Rightarrow> finding" where
  "add_evidence first f = first\<lparr>f_evidence :=
     take 20 (f_evidence first @ filter (\<lambda>e. e \<notin> set (f_evidence first)) (f_evidence f))\<rparr>"

definition merge_finding :: "(string, finding) dict \<Rightarrow> finding \<Rightarrow> (string, finding) dict" where
  "merge_finding seen f = (case map_of seen (f_fingerprint f) of
     None \<Rightarrow> AList.update (f_fingerprint f) f seen
   | Some first \<Rightarrow> AList.update (f_fingerprint f) (add_evidence first f) seen)"

definition dedup_findings :: "finding list \<Rightarrow> finding list" where
  "dedup_findings fs = map snd (foldl merge_finding [] fs)"

definition or_else :: "string option \<Rightarrow> string option \<Rightarrow> string option" where \<comment> \<open>Python's \<open>a or b\<close>\<close>
  "or_else a b = (case a of None \<Rightarrow> b | Some s \<Rightarrow> if s = [] then b else a)"

definition triage_one :: "owner_routing \<Rightarrow> finding \<Rightarrow> finding" where
  "triage_one routing f =
     (if f_owner f = None \<or> f_severity f = None
      then (let d = route_owner routing (f_issue f @ nl @ py_join nl (f_evidence f))
            in f\<lparr>f_owner := or_else (f_owner f) (rd_owner d),
                 f_severity := (case f_severity f of None \<Rightarrow> rd_severity d | Some s \<Rightarrow> Some s),
                 f_component := or_else (f_component f) (rd_component d)\<rparr>)
      else f)"

definition triage :: "owner_routing \<Rightarrow> finding list \<Rightarrow> finding list" where
  "triage routing fs = map (triage_one routing) (dedup_findings fs)"

definition finding_from_sentence :: "string \<Rightarrow> string list \<Rightarrow> string option \<Rightarrow> severity option \<Rightarrow> string option \<Rightarrow> schema_error + finding" where
  "finding_from_sentence issue evidence owner sev component =
     (let d = fingerprint issue; text = py_rstrip_char (CHR ''.'') issue
      in if text = [] then Inl (ValidationError ''issue'')
         else Inr \<lparr>f_id = ''F-'' @ take 8 d, f_fingerprint = d, f_issue = text, f_owner = owner,
                   f_severity = sev, f_component = component, f_evidence = evidence, f_ticket_id = None\<rparr>)"


section \<open>The index of bug tickets\<close>

record bug_entry =
  be_fingerprint :: string
  be_ticket_id :: string
  be_first_seen_in :: string
  be_seen :: nat

type_synonym bug_index = "(string, bug_entry) dict"

definition index_lookup :: "bug_index \<Rightarrow> string \<Rightarrow> bug_entry option" where
  "index_lookup items digest = map_of items digest"

definition index_record :: "string \<Rightarrow> string \<Rightarrow> string \<Rightarrow> bug_index \<Rightarrow> bug_index" where
  "index_record digest tid seen_in items =
     AList.update digest (case map_of items digest of
         None \<Rightarrow> \<lparr>be_fingerprint = digest, be_ticket_id = tid, be_first_seen_in = seen_in, be_seen = 1\<rparr>
       | Some e \<Rightarrow> e\<lparr>be_seen := be_seen e + 1\<rparr>) items"

definition index_sentence :: "bug_index \<Rightarrow> string \<Rightarrow> string" where
  "index_sentence items digest = (case index_lookup items digest of
     None \<Rightarrow> ''This is the first time this failure was seen.''
   | Some e \<Rightarrow> ''Seen '' @ show_nat (be_seen e) @ '' '' @ (if be_seen e = 1 then ''time'' else ''times'')
       @ ''; tracked as '' @ be_ticket_id e @ '' since '' @ be_first_seen_in e @ ''.'')"


section \<open>Facts about fingerprints\<close>

lemma fingerprint_shape: "length (fingerprint t) = 16 \<and> list_all is_hex (fingerprint t)"
  using sha256_hex_hex [of "normalise t"] set_take_subset [of 16 "sha256_hex (normalise t)"]
  by (auto simp: fingerprint_def sha256_hex_length list_all_iff)

lemma NOISE_consumes: "consumes NOISE"
  by (simp add: NOISE_def rplus_def rdigit_def lit_def hex_char_def numeral_eq_Suc)

lemma NOISE_hits_digit: "is_digit c \<Longrightarrow> rx_match NOISE (l, c # s) \<noteq> []"
  using rplus_digit_hits [of c l s] by (simp add: NOISE_def)

lemma digit_lower_char [simp]: "is_digit (lower_char c) \<longleftrightarrow> is_digit c"
  by (auto simp: lower_char_def is_digit_of_char less_eq_char_def of_char_of)

lemma set_py_strip: "set (py_strip s) \<subseteq> set s"
  unfolding py_strip_def by (metis set_dropWhileD set_rev subsetI)

lemma normalise_no_digit: "c \<in> set (normalise t) \<Longrightarrow> \<not> is_digit c"
proof -
  assume "c \<in> set (normalise t)"
  then obtain d where "d \<in> set (sub_from NOISE ''#'' [] t)" and c: "c = lower_char d"
    using set_py_strip by (fastforce simp: normalise_def py_lower_def re_sub_def)
  moreover have "\<forall>x \<in> set (sub_from NOISE ''#'' [] t). \<not> is_digit x"
    by (rule sub_from_removes [OF NOISE_hits_digit NOISE_consumes]) (simp_all add: is_digit_def less_eq_char_def)
  ultimately show ?thesis by simp
qed

lemma finding_from_sentence_ok:
  assumes "finding_from_sentence issue ev w sv c = Inr f"
  shows "fingerprint_ok (f_fingerprint f)" "f_issue f \<noteq> []" "f_ticket_id f = None"
    "f_fingerprint f = fingerprint issue"
  using assms fingerprint_shape [of issue]
  by (auto simp: finding_from_sentence_def fingerprint_ok_def Let_def split: if_splits)


section \<open>Facts about routing\<close>

lemma first_pattern_None: "first_pattern ps t = None \<longleftrightarrow> (\<forall>p \<in> set ps. \<not> re_search (snd p) t)"
  by (induction ps) auto

lemma route_rules_None: "rd_owner (route_rules rs t) = None \<longleftrightarrow> (\<forall>r \<in> set rs. rule_matches r t = None)"
  by (induction rs) (auto split: option.splits)

lemma route_rules_first:
  assumes "\<forall>q \<in> set pre. rule_matches q t = None" "rule_matches r t = Some m"
  shows "route_rules (pre @ r # post) t = \<lparr>rd_owner = Some (or_owner r), rd_component = Some (or_component r),
    rd_severity = Some (or_severity r), rd_rule_id = Some (or_id r), rd_matched = Some m\<rparr>"
  using assms by (induction pre) simp_all

lemma check_rules_owner: "check_rules ids w rs = None \<Longrightarrow> r \<in> set rs \<Longrightarrow> map_of w (or_owner r) \<noteq> None"
  by (induction ids w rs rule: check_rules.induct) (auto split: if_splits)

lemma check_rules_ids: "check_rules ids w rs = None \<Longrightarrow> distinct (map or_id rs) \<and> set ids \<inter> set (map or_id rs) = {}"
  by (induction ids w rs rule: check_rules.induct) (auto split: if_splits)

lemma routing_from_mapping_Inr:
  assumes "routing_from_mapping d = Inr routing"
  shows "routing = d" "list_all rule_ok (ow_rules d)" "check_rules [] (ow_owners d) (ow_rules d) = None"
  using assms by (auto simp: routing_from_mapping_def split: if_splits option.splits)

lemma route_rules_owner_in: "rd_owner (route_rules rs t) = Some w \<Longrightarrow> \<exists>r \<in> set rs. or_owner r = w"
  by (induction rs) (auto split: option.splits)

lemma route_owner_known:
  "routing_from_mapping d = Inr routing \<Longrightarrow> rd_owner (route_owner routing t) = Some w \<Longrightarrow>
   map_of (ow_owners routing) w \<noteq> None"
  using check_rules_owner routing_from_mapping_Inr route_rules_owner_in unfolding route_owner_def by metis

lemma default_routing_ok: "default_routing = Inr DEFAULT_OWNER_ROUTING"
  unfolding default_routing_def routing_from_mapping_def DEFAULT_OWNER_ROUTING_def
  by (simp add: owner_rule_of_def rule_ok_def rule_id_ok_def is_lower_def is_digit_def less_eq_char_def of_char_def)


section \<open>Facts about deduplication\<close>

fun first_occurrences :: "'a list \<Rightarrow> 'a list" where
  "first_occurrences [] = []"
| "first_occurrences (x # xs) = x # filter (\<lambda>y. y \<noteq> x) (first_occurrences xs)"

lemma set_first_occurrences [simp]: "set (first_occurrences xs) = set xs"
  by (induction xs) auto

lemma distinct_first_occurrences [simp]: "distinct (first_occurrences xs)"
  by (induction xs) auto

lemma first_occurrences_distinct: "distinct xs \<Longrightarrow> first_occurrences xs = xs"
  by (induction xs) (auto simp: filter_id_conv)

definition keyed :: "(string, finding) dict \<Rightarrow> bool" where
  "keyed seen \<longleftrightarrow> dict_wf seen \<and> (\<forall>(k, f) \<in> set seen. f_fingerprint f = k)"

lemma add_evidence_simps [simp]:
  "f_fingerprint (add_evidence a b) = f_fingerprint a" "f_ticket_id (add_evidence a b) = f_ticket_id a"
  "f_issue (add_evidence a b) = f_issue a" "f_owner (add_evidence a b) = f_owner a"
  "f_severity (add_evidence a b) = f_severity a" "f_id (add_evidence a b) = f_id a"
  by (simp_all add: add_evidence_def)

lemma update_in: "(k, v) \<in> set (AList.update a b d) \<Longrightarrow> (k, v) = (a, b) \<or> (k, v) \<in> set d"
  by (induction d) (auto split: if_splits)

lemma keyed_merge [simp]: "keyed seen \<Longrightarrow> keyed (merge_finding seen f)"
  by (fastforce simp: keyed_def merge_finding_def split: option.splits dest: update_in map_of_SomeD)

lemma keyed_fold: "keyed seen \<Longrightarrow> keyed (foldl merge_finding seen fs)"
  by (induction fs arbitrary: seen) simp_all

lemma keyed_values: "keyed seen \<Longrightarrow> map f_fingerprint (map snd seen) = map fst seen"
  by (auto simp: keyed_def)

lemma keys_merge:
  "map fst (merge_finding seen f) =
   (if f_fingerprint f \<in> set (map fst seen) then map fst seen else map fst seen @ [f_fingerprint f])"
  by (auto simp: merge_finding_def dict_keys_update split: option.splits)

lemma keys_fold:
  "map fst (foldl merge_finding seen fs) =
   map fst seen @ filter (\<lambda>k. k \<notin> set (map fst seen)) (first_occurrences (map f_fingerprint fs))"
proof (induction fs arbitrary: seen)
  case (Cons f fs)
  show ?case
    by (cases "f_fingerprint f \<in> set (map fst seen)")
      (auto simp: Cons keys_merge simp del: set_map intro!: filter_cong)
qed simp

lemma dedup_fingerprints:
  "map f_fingerprint (dedup_findings fs) = first_occurrences (map f_fingerprint fs)"
  using keyed_values [OF keyed_fold, of "[]" fs] keys_fold [of "[]" fs]
  by (simp add: dedup_findings_def keyed_def)

lemma merge_fresh:
  assumes "map_of seen (f_fingerprint f) = None"
  shows "merge_finding seen f = seen @ [(f_fingerprint f, f)]"
proof -
  have "f_fingerprint f \<notin> set (map fst seen)" using assms by (simp add: map_of_eq_None_iff)
  then show ?thesis using assms by (simp add: merge_finding_def dict_update_notin)
qed

lemma fold_fresh:
  "distinct (map f_fingerprint fs) \<Longrightarrow> set (map fst seen) \<inter> set (map f_fingerprint fs) = {} \<Longrightarrow>
   foldl merge_finding seen fs = seen @ map (\<lambda>f. (f_fingerprint f, f)) fs"
proof (induction fs arbitrary: seen)
  case (Cons f fs)
  then have "merge_finding seen f = seen @ [(f_fingerprint f, f)]"
    by (intro merge_fresh) (auto simp: map_of_eq_None_iff)
  with Cons show ?case by (auto simp: disjoint_iff)
qed simp

lemma dedup_distinct: "distinct (map f_fingerprint fs) \<Longrightarrow> dedup_findings fs = fs"
  by (simp add: dedup_findings_def fold_fresh comp_def)

lemma dedup_idem: "dedup_findings (dedup_findings fs) = dedup_findings fs"
  by (simp add: dedup_distinct dedup_fingerprints)

text \<open>What the first finding of a fingerprint says is kept; only its evidence grows.\<close>

lemma merge_keeps:
  "map_of seen k = Some g \<Longrightarrow> \<exists>ev. map_of (merge_finding seen f) k = Some (g\<lparr>f_evidence := ev\<rparr>)"
proof -
  have "\<exists>ev. g = g\<lparr>f_evidence := ev\<rparr>" by (rule exI [of _ "f_evidence g"]) simp
  then show "map_of seen k = Some g \<Longrightarrow> ?thesis"
    by (auto simp: merge_finding_def add_evidence_def split: option.splits)
qed

lemma fold_keeps:
  "map_of seen k = Some g \<Longrightarrow> \<exists>ev. map_of (foldl merge_finding seen fs) k = Some (g\<lparr>f_evidence := ev\<rparr>)"
proof (induction fs arbitrary: seen g)
  case Nil
  have "g = g\<lparr>f_evidence := f_evidence g\<rparr>" by simp
  with Nil show ?case by (metis foldl_Nil)
next
  case (Cons f fs)
  from merge_keeps [OF Cons.prems, of f] obtain ev where
    "map_of (merge_finding seen f) k = Some (g\<lparr>f_evidence := ev\<rparr>)" ..
  from Cons.IH [OF this] show ?case by simp
qed

lemma dedup_first_kept:
  assumes "f_fingerprint f \<notin> set (map f_fingerprint pre)"
  shows "\<exists>ev. f\<lparr>f_evidence := ev\<rparr> \<in> set (dedup_findings (pre @ f # post))"
proof -
  let ?seen = "foldl merge_finding [] pre"
  have "map_of ?seen (f_fingerprint f) = None"
    using assms keys_fold [of "[]" pre] by (simp add: map_of_eq_None_iff flip: set_map)
  then have "map_of (merge_finding ?seen f) (f_fingerprint f) = Some f"
    by (simp add: merge_finding_def)
  from fold_keeps [OF this, of post] show ?thesis
    unfolding dedup_findings_def foldl_append foldl_Cons by (blast dest: dict_values_in)
qed

lemma triage_one_simps [simp]:
  "f_fingerprint (triage_one routing f) = f_fingerprint f" "f_ticket_id (triage_one routing f) = f_ticket_id f"
  "f_issue (triage_one routing f) = f_issue f" "f_evidence (triage_one routing f) = f_evidence f"
  by (simp_all add: triage_one_def Let_def)

lemma triage_fingerprints: "map f_fingerprint (triage routing fs) = first_occurrences (map f_fingerprint fs)"
  by (simp add: triage_def comp_def flip: dedup_fingerprints)


section \<open>The interface of the bug index\<close>

text \<open>
  What the kernel relies on: recording a fingerprint makes it known, and a fingerprint that is
  known stays tracked by the ticket it was first recorded with.
\<close>

locale bug_tracker =
  fixes look :: "'i \<Rightarrow> string \<Rightarrow> 'e option"
    and enter :: "string \<Rightarrow> string \<Rightarrow> string \<Rightarrow> 'i \<Rightarrow> 'i"
    and tracked :: "'e \<Rightarrow> string"
  assumes look_new: "look i d = None \<Longrightarrow> \<exists>e. look (enter d t w i) d = Some e \<and> tracked e = t"
    and look_known: "look i d = Some e \<Longrightarrow> \<exists>e'. look (enter d t w i) d = Some e' \<and> tracked e' = tracked e"
    and look_other: "d' \<noteq> d \<Longrightarrow> look (enter d t w i) d' = look i d'"
begin

lemma entered_known: "look (enter d t w i) d \<noteq> None"
  using look_new [of i d t w] look_known [of i d _ t w] by (cases "look i d") auto

lemma tracked_stable:
  "look i d = Some e \<Longrightarrow> \<exists>e'. look (enter d' t w i) d = Some e' \<and> tracked e' = tracked e"
  using look_known [of i d e t w] look_other [of d d' t w i] by (cases "d = d'") auto

end

interpretation bugs: bug_tracker index_lookup index_record be_ticket_id
  by unfold_locales (auto simp: index_lookup_def index_record_def)

end
