(* ===== verification/Rca.thy ===== *)
theory Rca
  imports Triage
begin

text \<open>
  Root-cause analysis (\<open>packages/slas-kernel/slas_kernel/rca.py\<close>): log
  normalisation, the pipeline, and the placeholder used without one.

  The drafting model, the Consensus Router and the retrieval index are the protocols
  \<open>Drafter\<close>, \<open>CrossChecker\<close> and \<open>Retriever\<close>: functions the
  pipeline is given. A drafter that raises is a drafter that returns \<open>Inl\<close> with the
  text of its exception; a retrieved passage is its citation and its text.
\<close>

section \<open>Log normalisation\<close>

definition TIMESTAMP :: rx where
  "TIMESTAMP = (let d = rdigit; two = rtimes 2 rdigit; clock = rseq [two, lit '':'', two, lit '':'', two];
       oneof = (\<lambda>cs. Cls (\<lambda>c. c \<in> set cs))
     in ralts
      [rseq [Bol, ropt (lit ''[''), rtimes 4 d, lit ''-'', two, lit ''-'', two, oneof ''T '', clock,
             ropt (Seq (oneof ''.,'') (rplus d)),
             ropt (Alt (lit ''Z'') (rseq [oneof ''+-'', two, ropt (lit '':''), two])),
             ropt (lit '']''), Star rspace],
       rseq [Bol, lit ''['', Star rspace, rplus d, lit ''.'', rplus d, lit '']'', Star rspace],
       rseq [Bol, Cls (\<lambda>c. CHR ''A'' \<le> c \<and> c \<le> CHR ''Z''), rtimes 2 (Cls is_lower), lit '' '',
             ropt (lit '' ''), d, ropt d, lit '' '', clock, lit '' '']])"

definition FENCE :: rx where
  "FENCE = rseq [Bol, lit ''--- step '', rplus (Cls (\<lambda>c. \<not> is_space c)), lit '': '', Star any_char,
     lit '' ---'', Eol]"

definition ERROR_LINE :: rx where
  "ERROR_LINE = (let word = (\<lambda>s. rseq [WordB, lit_ci s, WordB]) in ralts
     [lit_ci ''error'', lit_ci ''fail'', lit_ci ''fatal'', lit_ci ''panic'', word ''xid'', word ''mce'',
      word ''edac'', word ''aer'', lit_ci ''timeout'', lit_ci ''timed out'', lit_ci ''lost'',
      lit_ci ''degraded'', lit_ci ''critical'', lit_ci ''uncorrectable'', lit_ci ''traceback'',
      lit_ci ''segfault'', lit_ci ''not found'', lit_ci ''denied'', lit_ci ''exited with''])"

definition MAX_SIGNATURE_LINES :: nat where
  "MAX_SIGNATURE_LINES = 5"

definition MAX_LOG_LINES :: nat where
  "MAX_LOG_LINES = 200"

record normalised_log =
  nl_lines :: "string list"
  nl_counts :: "(string, nat) dict"
  nl_error_lines :: "string list"
  nl_total_lines :: nat

definition log_signature :: "normalised_log \<Rightarrow> string" where
  "log_signature l =
     (let errs = take MAX_SIGNATURE_LINES (nl_error_lines l)
      in py_join nl (if errs \<noteq> [] then errs else py_last MAX_SIGNATURE_LINES (nl_lines l)))"

definition clean_line :: "string \<Rightarrow> string" where
  "clean_line s = py_strip (re_sub (rplus rspace) '' '' (re_sub TIMESTAMP [] s))"

definition normalise_line :: "normalised_log \<Rightarrow> string \<Rightarrow> normalised_log" where
  "normalise_line l raw =
     (let stripped = py_strip raw in
      if stripped = [] \<or> re_match FENCE stripped \<noteq> None then l
      else (let line = clean_line stripped; l' = l\<lparr>nl_total_lines := nl_total_lines l + 1\<rparr> in
        if line = [] then l'
        else (case map_of (nl_counts l) line of
                Some n \<Rightarrow> l'\<lparr>nl_counts := AList.update line (n + 1) (nl_counts l)\<rparr>
              | None \<Rightarrow> l'\<lparr>nl_counts := AList.update line 1 (nl_counts l), nl_lines := nl_lines l @ [line],
                          nl_error_lines := nl_error_lines l @ (if re_search ERROR_LINE line then [line] else [])\<rparr>)))"

definition normalise_log :: "string \<Rightarrow> normalised_log" where
  "normalise_log text = foldl normalise_line
     \<lparr>nl_lines = [], nl_counts = [], nl_error_lines = [], nl_total_lines = 0\<rparr> (py_splitlines text)"

definition failed_records :: "ticket \<Rightarrow> step_record list" where
  "failed_records t = filter (\<lambda>r. r_status r = StepFailed) (t_steps t)"

definition record_parts :: "bool \<Rightarrow> step_record \<Rightarrow> string list" where
  "record_parts failed r = (case r_observation r of None \<Rightarrow> []
     | Some obs \<Rightarrow> o_stderr obs # (if failed
         then o_stdout obs # (case r_verdict r of None \<Rightarrow> [] | Some v \<Rightarrow> [sv_sentence v]) else []))"

definition normalise_ticket :: "ticket \<Rightarrow> normalised_log" where
  "normalise_ticket t =
     (let failed = failed_records t
      in normalise_log (py_join nl (concat (map (record_parts (failed \<noteq> []))
           (if failed \<noteq> [] then failed else t_steps t)))))"


section \<open>The pipeline\<close>

record rca_request =
  rq_ticket_id :: string
  rq_title :: string
  rq_failed_step :: "string option"
  rq_signature :: string
  rq_log_lines :: "string list"
  rq_retrieved :: "string list"

record rca_draft =
  dr_cause :: string
  dr_evidence :: "string list"
  dr_component :: "string option"
  dr_confidence :: rat

record hit =
  h_citation :: string
  h_text :: string

record rca_result =
  rr_rca :: rca
  rr_findings :: "finding list"
  rr_votes :: "vote list"
  rr_verdict :: "consensus_verdict option"
  rr_citations :: "string list"
  rr_routing :: "routing_decision option"
  rr_sentence :: string

type_synonym cross_checker = "string \<Rightarrow> string list \<Rightarrow> consensus_verdict"

record rca_pipeline =
  rp_drafter :: "rca_request \<Rightarrow> string + rca_draft"
  rp_cross_checker :: "cross_checker option"
  rp_retriever :: "(string \<Rightarrow> nat \<Rightarrow> hit list) option"
  rp_routing :: owner_routing
  rp_retrieve_limit :: nat

text \<open>The match of \<open>\s*(.+?[.!?])(?:\s|$)\<close> under \<open>DOTALL\<close>: the first group.\<close>

definition sentence_group :: "string \<Rightarrow> string option" where
  "sentence_group text =
     (let dot = Cls (\<lambda>_. True);
          body = Seq (Seq dot (LazyStar dot)) (Cls (\<lambda>c. c \<in> set ''.!?''));
          tries = concat (map (\<lambda>p. map (\<lambda>q. (p, q))
                    (filter (\<lambda>q. rx_match (Alt rspace Eol) q \<noteq> []) (rx_match body p)))
                  (rx_match (Star rspace) ([], text)))
      in case tries of [] \<Rightarrow> None
         | (p, q) # _ \<Rightarrow> Some (rev (take (length (fst q) - length (fst p)) (fst q))))"

definition first_sentence :: "string \<Rightarrow> string" where
  "first_sentence text =
     (let sentence = py_strip (case sentence_group text of Some g \<Rightarrow> g | None \<Rightarrow> text)
      in if py_len sentence \<le> 160 then py_rstrip_char (CHR ''.'') sentence
         else rev (dropWhile is_space (rev (py_take 157 sentence))) @ ellipsis)"

definition placeholder_rca :: "ticket \<Rightarrow> rca" where
  "placeholder_rca t =
     (case failed_records t of
        [] \<Rightarrow> (case t_findings t of
             f # fs \<Rightarrow> \<lparr>rc_cause = ''Every step finished, but VERIFY reported '' @ show_nat (length (t_findings t))
                  @ '' '' @ (if length (t_findings t) = 1 then ''finding'' else ''findings'')
                  @ ''. No root-cause pipeline is configured for this kernel, so the cause has not been analysed.'',
                rc_evidence = map f_issue (take MAX_SIGNATURE_LINES (t_findings t)),
                rc_confidence = 0, rc_uncertain = True, rc_fingerprint = Some (f_fingerprint f)\<rparr>
           | [] \<Rightarrow> \<lparr>rc_cause = ''Every step finished as expected; there is nothing to analyse.'',
                rc_evidence = [show_nat (length (t_steps t)) @ '' steps finished with exit code 0.''],
                rc_confidence = 1, rc_uncertain = False, rc_fingerprint = Some (fingerprint ''no failure'')\<rparr>)
      | first # _ \<Rightarrow>
          (let stderr = (case r_observation first of None \<Rightarrow> [] | Some obs \<Rightarrow> o_stderr obs);
               step = ''Step '' @ show_int (r_n first) @ '' ('' @ r_title first @ '')''
           in \<lparr>rc_cause = step @ '' did not finish as expected. No root-cause pipeline ''
                 @ ''is configured for this kernel, so the cause has not been analysed.'',
               rc_evidence = (step @ '' failed.'') # (if py_strip stderr \<noteq> []
                 then [''stderr: '' @ last (py_splitlines (py_strip stderr))] else []),
               rc_confidence = 0, rc_uncertain = True,
               rc_fingerprint = Some (fingerprint (if stderr \<noteq> [] then stderr else r_title first))\<rparr>))"

definition rca_signature :: "ticket \<Rightarrow> string \<times> string \<times> string" where
  \<comment> \<open>steps 1 and 2: the signature, its fingerprint, and the line naming the failed step\<close>
  "rca_signature t =
     (case failed_records t of
        first # _ \<Rightarrow>
          (let sig0 = log_signature (normalise_ticket t);
               sig = (if sig0 \<noteq> [] then sig0 else r_title first @ '' failed'')
           in (sig, fingerprint sig, ''Step '' @ show_int (r_n first) @ '' ('' @ r_title first @ '')''))
      | [] \<Rightarrow> (case t_findings t of
             lead # _ \<Rightarrow> (py_join nl (f_issue lead # take (MAX_SIGNATURE_LINES - 1) (f_evidence lead)),
                          f_fingerprint lead, ''No step failed; VERIFY reported findings'')
           | [] \<Rightarrow> ([], [], [])))"

definition rca_finding :: "string \<Rightarrow> rca_draft \<Rightarrow> routing_decision \<Rightarrow> string \<Rightarrow> string list \<Rightarrow> schema_error + finding" where
  "rca_finding digest draft routing sig citations =
     (let issue = first_sentence (dr_cause draft)
      in if issue = [] then Inl (ValidationError ''issue'')
         else Inr \<lparr>f_id = ''F-'' @ take 8 digest, f_fingerprint = digest, f_issue = issue,
                   f_owner = rd_owner routing, f_severity = rd_severity routing,
                   f_component = or_else (rd_component routing) (dr_component draft),
                   f_evidence = (case py_splitlines sig of [] \<Rightarrow> [] | l # _ \<Rightarrow> [l]) @ citations,
                   f_ticket_id = None\<rparr>)"

text \<open>
  Step 4, the draft: the drafter's, or the placeholder's words when the drafter raised.
  Step 5, the cross-check of a draft.
\<close>

definition draft_or_placeholder :: "ticket \<Rightarrow> string + rca_draft \<Rightarrow> rca_draft" where
  "draft_or_placeholder t answer = (case answer of Inr d \<Rightarrow> d
     | Inl _ \<Rightarrow> \<lparr>dr_cause = rc_cause (placeholder_rca t), dr_evidence = rc_evidence (placeholder_rca t),
                 dr_component = None, dr_confidence = 0\<rparr>)"

definition check_draft :: "rca_pipeline \<Rightarrow> string \<Rightarrow> string + rca_draft \<Rightarrow> consensus_verdict option" where
  "check_draft p sig answer = (case answer of
     Inl _ \<Rightarrow> None
   | Inr draft \<Rightarrow> (case rp_cross_checker p of
        None \<Rightarrow> None
      | Some check \<Rightarrow> Some (check ''rca_conclusion''
          ([''Failure signature:'' @ nl @ sig, ''Proposed cause: '' @ dr_cause draft] @ dr_evidence draft))))"

definition verdict_agreed :: "consensus_verdict option \<Rightarrow> bool" where
  "verdict_agreed verdict = (case verdict of None \<Rightarrow> False | Some v \<Rightarrow> cv_agreed v)"

definition draft_failure :: "string + rca_draft \<Rightarrow> string option" where
  "draft_failure answer = (case answer of Inl e \<Rightarrow> Some e | Inr _ \<Rightarrow> None)"

definition rca_of_draft :: "string \<Rightarrow> rca_draft \<Rightarrow> string option \<Rightarrow> consensus_verdict option \<Rightarrow> string list \<Rightarrow> rca" where
  "rca_of_draft digest draft draft_failed verdict citations =
     \<lparr>rc_cause = dr_cause draft,
      rc_evidence = dr_evidence draft @ map (\<lambda>c. ''See '' @ c) citations
        @ (case verdict of None \<Rightarrow> [] | Some v \<Rightarrow> [''Cross-check: '' @ cv_sentence v])
        @ (case draft_failed of None \<Rightarrow> [] | Some e \<Rightarrow> [''The drafting model did not answer: '' @ e]),
      rc_confidence = (if verdict_agreed verdict then dr_confidence draft else min (dr_confidence draft) (1 / 2)),
      rc_uncertain = (draft_failed \<noteq> None \<or> \<not> verdict_agreed verdict), rc_fingerprint = Some digest\<rparr>"

definition rca_sentence :: "rca_draft \<Rightarrow> string option \<Rightarrow> consensus_verdict option \<Rightarrow> routing_decision \<Rightarrow> bool \<Rightarrow> string" where
  "rca_sentence draft draft_failed verdict routing known =
     py_join '' '' ([''Root cause: '' @ dr_cause draft]
       @ [case verdict of Some v \<Rightarrow> cv_sentence v
          | None \<Rightarrow> if draft_failed = None
             then ''Not cross-checked: no voters are configured, so treat this as one model'' @ [CHR 0x27] @ ''s view.''
             else ''Root-cause analysis could not be drafted; the failure is attached for review.'']
       @ [routing_sentence routing]
       @ (if known then [''This failure matches a finding already on the ticket; no new finding was added.''] else []))"

definition rca_request_of :: "ticket \<Rightarrow> string \<Rightarrow> string \<Rightarrow> hit list \<Rightarrow> rca_request" where
  "rca_request_of t sig failed_step hits = \<lparr>rq_ticket_id = t_id t, rq_title = t_title t, rq_failed_step = Some failed_step,
     rq_signature = sig, rq_log_lines = take MAX_LOG_LINES (nl_lines (normalise_ticket t)),
     rq_retrieved = map (\<lambda>h. h_citation h @ '': '' @ h_text h) hits\<rparr>"

definition analyse :: "rca_pipeline \<Rightarrow> ticket \<Rightarrow> schema_error + rca_result" where
  "analyse p t =
     (if failed_records t = [] \<and> t_findings t = []
      then (let r = placeholder_rca t
            in Inr \<lparr>rr_rca = r, rr_findings = [], rr_votes = [], rr_verdict = None, rr_citations = [],
                    rr_routing = None, rr_sentence = rc_cause r\<rparr>)
      else
     (let (sig, digest, failed_step) = rca_signature t;
          hits = (case rp_retriever p of None \<Rightarrow> [] | Some search \<Rightarrow> search sig (rp_retrieve_limit p));
          citations = map h_citation hits;
          answer = rp_drafter p (rca_request_of t sig failed_step hits);
          draft_failed = draft_failure answer;
          draft = draft_or_placeholder t answer;
          verdict = check_draft p sig answer;
          routing = route_owner (rp_routing p) (sig @ nl @ dr_cause draft @ nl
             @ (case dr_component draft of None \<Rightarrow> [] | Some c \<Rightarrow> c));
          known = (digest \<in> set (map f_fingerprint (t_findings t)));
          result = (\<lambda>fs. \<lparr>rr_rca = rca_of_draft digest draft draft_failed verdict citations, rr_findings = fs,
             rr_votes = (case verdict of None \<Rightarrow> [] | Some v \<Rightarrow> cv_votes v), rr_verdict = verdict,
             rr_citations = citations, rr_routing = Some routing,
             rr_sentence = rca_sentence draft draft_failed verdict routing known\<rparr>)
      in if \<not> known \<and> draft_failed = None
         then (case rca_finding digest draft routing sig citations of
                 Inl e \<Rightarrow> Inl e | Inr f \<Rightarrow> Inr (result [f]))
         else Inr (result [])))"


section \<open>Facts about the analysis\<close>

text \<open>A result for a ticket with something to analyse is assembled from the draft and its verdict.\<close>

lemma analyse_assembled:
  assumes "analyse p t = Inr r" "failed_records t \<noteq> [] \<or> t_findings t \<noteq> []"
  obtains digest draft answer citations sig routing where
    "rr_rca r = rca_of_draft digest draft (draft_failure answer) (check_draft p sig answer) citations"
    "rr_verdict r = check_draft p sig answer"
    "rr_findings r = [] \<or> (\<exists>f. rr_findings r = [f] \<and> digest \<notin> set (map f_fingerprint (t_findings t))
        \<and> rca_finding digest draft routing sig citations = Inr f)"
proof -
  obtain sig digest failed_step where sig: "rca_signature t = (sig, digest, failed_step)" by (cases "rca_signature t")
  have some: "(failed_records t = [] \<and> t_findings t = []) = False" using assms(2) by blast
  note whole = assms(1) [unfolded analyse_def sig some if_False Let_def prod.case]
  define hits where "hits = (case rp_retriever p of None \<Rightarrow> [] | Some search \<Rightarrow> search sig (rp_retrieve_limit p))"
  define answer where "answer = rp_drafter p (rca_request_of t sig failed_step hits)"
  define draft where "draft = draft_or_placeholder t answer"
  define routing where "routing = route_owner (rp_routing p) (sig @ nl @ dr_cause draft @ nl
     @ (case dr_component draft of None \<Rightarrow> [] | Some c \<Rightarrow> c))"
  note r = whole [folded hits_def, folded answer_def, folded draft_def, folded routing_def]
  show ?thesis
    by (rule that [of digest draft answer sig "map h_citation hits" routing])
      (use r in \<open>auto split: sum.splits if_splits\<close>)
qed

lemma check_draft_failed: "draft_failure answer \<noteq> None \<Longrightarrow> check_draft p sig answer = None"
  by (auto simp: draft_failure_def check_draft_def split: sum.splits)

lemma rca_finding_digest: "rca_finding digest draft routing sig citations = Inr f \<Longrightarrow> f_fingerprint f = digest"
  by (auto simp: rca_finding_def Let_def split: if_splits)

lemma analyse_total:
  assumes "\<And>rq d. rp_drafter p rq = Inr d \<Longrightarrow> first_sentence (dr_cause d) \<noteq> []"
  shows "\<exists>r. analyse p t = Inr r"
proof -
  have never: "rca_finding digest (draft_or_placeholder t (rp_drafter p rq)) routing sig citations \<noteq> Inl e"
    if "draft_failure (rp_drafter p rq) = None" for digest rq routing sig citations e
    using assms that by (auto simp: rca_finding_def draft_or_placeholder_def draft_failure_def Let_def split: sum.splits)
  show ?thesis
    unfolding analyse_def by (auto simp: Let_def never split: prod.splits sum.splits)
qed

end
