(* ===== verification/Kernel.thy ===== *)
theory Kernel
  imports Effects Durable Rca
begin

text \<open>
  The Agent Kernel (\<open>packages/slas-kernel/slas_kernel\<close>: \<open>kernel.py\<close>,
  \<open>logs.py\<close>, \<open>sop.py\<close>): the lifecycle
  INGEST, TICKET, PLAN, approval, ACT, COLLECT, RCA, SOP, CLOSE.

  \<open>kernel\<close> holds what the constructor is given: the agent, the executor, the clock,
  the optional collaborators. \<open>kstate\<close> is everything outside the process that a method
  reads and writes: the ticket store, the journals, the bug index, the log files, the metrics,
  and the world the executor acts on. \<open>k_executed\<close> records each call of the executor
  with the ticket's journal as it stood at the call. A ticket object is passed along and
  returned changed; only \<open>store_save\<close> makes it durable.

  Every durable write goes through \<open>durable\<close>, which counts down \<open>k_lives\<close>: a
  process that is to be killed before its \<open>n\<close>-th next write starts with
  \<open>Some n\<close>, one that is not killed with \<open>None\<close>. A crash between any two
  writes of any method is therefore a value of \<open>k_lives\<close>.
\<close>

section \<open>Collaborators\<close>

datatype kernel_error =
    SchemaError schema_error
  | ApprovalPending ticket
  | TicketNotFound string
  | NoPendingApproval string string
  | PlanOfOtherJob string string string
  | NoStepRecord string string
  | NoPlan string
  | AgentRaised string
  | ExecutorRaised string
  | HookRaised string

datatype sop_kind = CodeWalkthrough | Verification | ProductionLine | Placeholder

record sop_template =
  st_agent :: agent_name
  st_kind :: sop_kind
  st_purpose :: string
  st_checks :: "string list"

record sop_step =
  ss_n :: int
  ss_action :: string
  ss_expected :: string
  ss_evidence :: "string list"

record sop_model =
  sm_title :: string
  sm_purpose :: string
  sm_prerequisites :: "string list"
  sm_steps :: "sop_step list"
  sm_checks :: "string list"
  sm_results :: "(string, string) dict"
  sm_findings :: "string list"
  sm_next_actions :: "string list"
  sm_glossary_refs :: "string list"

record rendered_sop =
  rs_refs :: sop_refs
  rs_translated :: bool
  rs_notes :: "string list"

record agent =
  ag_name :: agent_name
  ag_ingest :: "raw_input \<Rightarrow> string + job"
  ag_plan :: "job \<Rightarrow> string + plan"
  ag_verify :: "step \<Rightarrow> observation \<Rightarrow> step_verdict"
  ag_sop_template :: sop_template

record execution_context =
  ec_ticket_id :: string
  ec_job_id :: string
  ec_agent :: agent_name
  ec_user :: string
  ec_trace_id :: "string option"

record 'w kernel =
  kn_data_root :: string
  kn_agent :: agent
  kn_execute :: "step \<Rightarrow> execution_context \<Rightarrow> 'w \<Rightarrow> (string + observation) \<times> 'w"
  kn_clock :: "nat \<Rightarrow> time"
  kn_after_step :: "(ticket \<Rightarrow> step \<Rightarrow> string option) option"
  kn_rca_pipeline :: "rca_pipeline option"
  kn_render_sop :: "sop_model \<Rightarrow> string \<Rightarrow> rendered_sop"
  kn_plan_checker :: "cross_checker option"
  kn_skill_gate :: "(plan \<Rightarrow> agent_name \<Rightarrow> (step \<times> three_part) + plan) option"
  kn_trace_id :: string

datatype metric = Counter | Gauge | Histogram

record 'w kstate =
  k_store :: file_store
  k_journals :: "(string, journal) dict"
  k_index :: bug_index
  k_files :: "(string, string) dict"
  k_metrics :: "(metric \<times> string \<times> string list, rat) dict"
  k_ticks :: nat
  k_world :: 'w
  k_executed :: "(string \<times> string \<times> journal) list"
  k_lives :: "nat option"


section \<open>Effects\<close>

type_synonym ('w, 'a) kprog = "('w kstate, kernel_error, 'a) prog"

definition durable :: "('w kstate \<Rightarrow> 'w kstate) \<Rightarrow> ('w, unit) kprog" where
  "durable f s = (case k_lives s of
     None \<Rightarrow> (Ret (), f s)
   | Some 0 \<Rightarrow> (Crash, s)
   | Some (Suc n) \<Rightarrow> (Ret (), (f s)\<lparr>k_lives := Some n\<rparr>))"

definition clock_now :: "'w kernel \<Rightarrow> ('w, time) kprog" where
  "clock_now K = bind (gets (\<lambda>s. kn_clock K (k_ticks s)))
     (\<lambda>now. bind (modify (\<lambda>s. s\<lparr>k_ticks := k_ticks s + 1\<rparr>)) (\<lambda>_. ret now))"

definition journal_of :: "'w kstate \<Rightarrow> string \<Rightarrow> journal" where
  "journal_of s tid = (case map_of (k_journals s) tid of None \<Rightarrow> [] | Some j \<Rightarrow> j)"

text \<open>\<open>Journal.append\<close>.\<close>

definition journal_append :: "'w kernel \<Rightarrow> journal_kind \<Rightarrow> string \<Rightarrow> payload \<Rightarrow> string option \<Rightarrow> ('w, unit) kprog" where
  "journal_append K kind tid pl sid =
     bind (durable (\<lambda>s. s\<lparr>k_store := file_mkdir tid (k_store s)\<rparr>)) (\<lambda>_.
     bind (clock_now K) (\<lambda>now.
     durable (\<lambda>s. s\<lparr>k_journals := AList.update tid
       (append_entry (journal_of s tid) now (Some (kn_trace_id K)) kind tid pl sid) (k_journals s)\<rparr>)))"

definition store_save :: "ticket \<Rightarrow> ('w, unit) kprog" where
  "store_save t = durable (\<lambda>s. s\<lparr>k_store := file_save t (k_store s)\<rparr>)"

definition store_load :: "string \<Rightarrow> ('w, ticket) kprog" where
  "store_load tid = bind (gets (\<lambda>s. file_load (k_store s) tid)) (\<lambda>t.
     case t of None \<Rightarrow> raise (TicketNotFound tid) | Some t \<Rightarrow> ret t)"

definition next_ticket_id :: "agent_name \<Rightarrow> ('w, string) kprog" where
  "next_ticket_id a = bind (gets (\<lambda>s. fst (file_next_ticket_id a (k_store s)))) (\<lambda>r.
     bind (durable (\<lambda>s. s\<lparr>k_store := snd (file_next_ticket_id a (k_store s))\<rparr>)) (\<lambda>_. lift SchemaError r))"

definition write_file :: "string \<Rightarrow> string \<Rightarrow> ('w, unit) kprog" where
  "write_file path text = durable (\<lambda>s. s\<lparr>k_files := AList.update path text (k_files s)\<rparr>)"

definition metric_value :: "'w kstate \<Rightarrow> metric \<times> string \<times> string list \<Rightarrow> rat" where
  "metric_value s k = (case map_of (k_metrics s) k of None \<Rightarrow> 0 | Some v \<Rightarrow> v)"

text \<open>\<open>metrics.inc\<close> and \<open>metrics.add_gauge\<close>, the label values in the catalogue's order.\<close>

definition metric_inc :: "string \<Rightarrow> string list \<Rightarrow> ('w, unit) kprog" where
  "metric_inc name labels = modify (\<lambda>s. s\<lparr>k_metrics :=
     AList.update (Counter, name, labels) (metric_value s (Counter, name, labels) + 1) (k_metrics s)\<rparr>)"

definition metric_add_gauge :: "string \<Rightarrow> rat \<Rightarrow> string list \<Rightarrow> ('w, unit) kprog" where
  "metric_add_gauge name delta labels = modify (\<lambda>s. s\<lparr>k_metrics :=
     AList.update (Gauge, name, labels) (max 0 (metric_value s (Gauge, name, labels) + delta)) (k_metrics s)\<rparr>)"

definition metric_observe :: "string \<Rightarrow> rat \<Rightarrow> string list \<Rightarrow> ('w, unit) kprog" where
  \<comment> \<open>the sum of a histogram\<close>
  "metric_observe name v labels = modify (\<lambda>s. s\<lparr>k_metrics :=
     AList.update (Histogram, name, labels) (metric_value s (Histogram, name, labels) + v) (k_metrics s)\<rparr>)"

definition call_executor :: "'w kernel \<Rightarrow> step \<Rightarrow> execution_context \<Rightarrow> ('w, observation) kprog" where
  "call_executor K st ctx s =
     (let (r, w) = kn_execute K st ctx (k_world s);
          s' = s\<lparr>k_world := w, k_executed := k_executed s @ [(ec_ticket_id ctx, s_id st, journal_of s (ec_ticket_id ctx))]\<rparr>
      in case r of Inl e \<Rightarrow> (Raise (ExecutorRaised e), s') | Inr obs \<Rightarrow> (Ret obs, s'))"


section \<open>Tickets and plans\<close>

definition PLAN_CHECKED_AGENTS :: "agent_name list" where
  "PLAN_CHECKED_AGENTS = [Validation, Factory]"

definition create_ticket :: "'w kernel \<Rightarrow> job \<Rightarrow> ('w, ticket) kprog" where
  "create_ticket K job =
     bind (clock_now K) (\<lambda>now.
     bind (next_ticket_id (j_agent job)) (\<lambda>tid.
     let t = \<lparr>t_id = tid, t_agent = j_agent job, t_user = j_user job, t_title = j_title job, t_state = Open,
              t_job = job, t_plan = None, t_approvals = [], t_votes = [], t_steps = [], t_logs = None,
              t_findings = [], t_rca = None, t_sop = None, t_exports = [], t_parent = None,
              t_created_at = now, t_updated_at = now, t_history = []\<rparr>
     in bind (store_save t) (\<lambda>_. ret t)))"

definition new_record :: "step \<Rightarrow> step_record" where
  "new_record st = \<lparr>r_step_id = s_id st, r_n = s_n st, r_title = s_title st, r_status = Pending,
     r_started_at = None, r_finished_at = None, r_observation = None, r_verdict = None\<rparr>"

definition attach_plan :: "ticket \<Rightarrow> plan \<Rightarrow> kernel_error + ticket" where
  "attach_plan t p =
     (if p_job_id p \<noteq> j_id (t_job t) then Inl (PlanOfOtherJob (p_id p) (p_job_id p) (j_id (t_job t)))
      else Inr (t\<lparr>t_plan := Some p, t_steps := map new_record (p_steps p)\<rparr>))"

definition transition_to :: "'w kernel \<Rightarrow> ticket \<Rightarrow> ticket_state \<Rightarrow> string \<Rightarrow> ('w, ticket) kprog" where
  \<comment> \<open>\<open>Kernel._transition\<close>\<close>
  "transition_to K t target reason =
     bind (clock_now K) (\<lambda>now.
     bind (lift SchemaError (transition target now reason t)) (\<lambda>(t', change).
     bind (journal_append K KState (t_id t') (PChange (sc_from change) (sc_to change) reason) None) (\<lambda>_.
     bind (store_save t') (\<lambda>_.
     bind (metric_inc ''slas_ticket_state_changes_total'' [agent_value (t_agent t'), state_value target]) (\<lambda>_.
     bind (metric_add_gauge ''slas_tickets_in_state'' (-1) [agent_value (t_agent t'), state_value (sc_from change)]) (\<lambda>_.
     bind (metric_add_gauge ''slas_tickets_in_state'' 1 [agent_value (t_agent t'), state_value target]) (\<lambda>_.
     ret t')))))))"


section \<open>ACT\<close>

fun map_first :: "('a \<Rightarrow> bool) \<Rightarrow> ('a \<Rightarrow> 'a) \<Rightarrow> 'a list \<Rightarrow> 'a list" where
  "map_first P f [] = []"
| "map_first P f (x # xs) = (if P x then f x # xs else x # map_first P f xs)"

text \<open>Assignments to the record object that \<open>step_record\<close> returned.\<close>

definition update_record :: "string \<Rightarrow> (step_record \<Rightarrow> step_record) \<Rightarrow> ticket \<Rightarrow> ticket" where
  "update_record sid f t = t\<lparr>t_steps := map_first (\<lambda>r. r_step_id r = sid) f (t_steps t)\<rparr>"

definition attach_findings :: "finding list \<Rightarrow> finding list \<Rightarrow> finding list" where
  "attach_findings old new = (if new = [] then old
     else map snd (foldl merge_finding (foldl (\<lambda>d f. AList.update (f_fingerprint f) f d) [] old) new))"

text \<open>\<open>Kernel._attach\<close>.\<close>

definition attach :: "ticket \<Rightarrow> observation \<Rightarrow> ticket" where
  "attach t obs = t\<lparr>
     t_votes := t_votes t @ filter (\<lambda>v. (v_voter v, v_reason v) \<notin> set (map (\<lambda>v. (v_voter v, v_reason v)) (t_votes t))) (o_votes obs),
     t_exports := t_exports t @ filter (\<lambda>e. ex_path e \<notin> set (map ex_path (t_exports t))) (o_exports obs),
     t_findings := attach_findings (t_findings t) (o_findings obs)\<rparr>"

definition status_of_verdict :: "step_verdict \<Rightarrow> step_status" where
  "status_of_verdict v = (if sv_outcome v = OutcomeOk then Finished else StepFailed)"

text \<open>\<open>Kernel._perform\<close>: the ticket, and whether the step failed.\<close>

definition perform :: "'w kernel \<Rightarrow> ticket \<Rightarrow> step \<Rightarrow> bool \<Rightarrow> ('w, ticket \<times> bool) kprog" where
  "perform K t st resumed =
     bind (clock_now K) (\<lambda>started.
     let t1 = update_record (s_id st) (\<lambda>r. r\<lparr>r_status := InProgress, r_started_at := Some started,
                r_observation := None, r_verdict := None\<rparr>) t in
     bind (store_save t1) (\<lambda>_.
     bind (journal_append K KIntent (t_id t1) (PIntent (s_primitive st) (s_args st) (s_risk st) resumed) (Some (s_id st))) (\<lambda>_.
     let ctx = \<lparr>ec_ticket_id = t_id t1, ec_job_id = j_id (t_job t1), ec_agent = t_agent t1,
                ec_user = t_user t1, ec_trace_id = Some (kn_trace_id K)\<rparr> in
     bind (call_executor K st ctx) (\<lambda>obs.
     bind (journal_append K KObservation (t_id t1) (PObservation obs) (Some (s_id st))) (\<lambda>_.
     let verdict = ag_verify (kn_agent K) st obs in
     bind (clock_now K) (\<lambda>finished_at.
     let status = status_of_verdict verdict;
         t2 = update_record (s_id st) (\<lambda>r. r\<lparr>r_observation := Some obs, r_verdict := Some verdict,
                r_finished_at := Some finished_at, r_status := status\<rparr>) t1;
         t3 = (attach t2 obs)\<lparr>t_updated_at := finished_at\<rparr> in
     bind (store_save t3) (\<lambda>_.
     bind (metric_inc ''slas_agent_turns_total'' [agent_value (t_agent t3), status_value status]) (\<lambda>_.
     bind (metric_observe ''slas_step_seconds'' (of_int (finished_at - started) / 1000000) [agent_value (t_agent t3)]) (\<lambda>_.
     bind (case kn_after_step K of None \<Rightarrow> ret ()
             | Some hook \<Rightarrow> (case hook t3 st of None \<Rightarrow> ret () | Some e \<Rightarrow> raise (HookRaised e))) (\<lambda>_.
     ret (t3, status = StepFailed)))))))))))"

text \<open>\<open>Kernel._restore_from_journal\<close>.\<close>

definition restore_from_journal :: "'w kernel \<Rightarrow> ticket \<Rightarrow> step_record \<Rightarrow> payload \<Rightarrow> ('w, ticket) kprog" where
  "restore_from_journal K t r pl =
     (case t_plan t of None \<Rightarrow> raise (NoPlan (t_id t)) | Some p \<Rightarrow>
     (case pl of
        PObservation obs \<Rightarrow>
          bind (lift SchemaError (plan_step p (r_step_id r))) (\<lambda>st.
          let verdict = ag_verify (kn_agent K) st obs in
          bind (case r_finished_at r of Some f \<Rightarrow> ret f | None \<Rightarrow> clock_now K) (\<lambda>finished_at.
          ret (attach (update_record (r_step_id r) (\<lambda>r. r\<lparr>r_observation := Some obs, r_verdict := Some verdict,
                 r_status := status_of_verdict verdict, r_finished_at := Some finished_at\<rparr>) t) obs)))
      | _ \<Rightarrow> raise (SchemaError (ValidationError ''observation''))))"

fun act_loop :: "'w kernel \<Rightarrow> (string, journal_entry) dict \<Rightarrow> string option \<Rightarrow> step list \<Rightarrow> ticket \<Rightarrow> ('w, ticket \<times> bool) kprog" where
  "act_loop K completed interrupted [] t = ret (t, False)"
| "act_loop K completed interrupted (st # sts) t =
     (case find_record t (s_id st) of
        None \<Rightarrow> raise (NoStepRecord (t_id t) (s_id st))
      | Some r \<Rightarrow>
          if r_status r = StepFailed then ret (t, True)
          else (case map_of completed (s_id st) of
              Some e \<Rightarrow> if r_status r \<noteq> Finished
                 then bind (restore_from_journal K t r (je_payload e)) (\<lambda>t'. act_loop K completed interrupted sts t')
                 else act_loop K completed interrupted sts t
            | None \<Rightarrow> if r_status r = Skipped then act_loop K completed interrupted sts t
                 else bind (perform K t st (interrupted = Some (s_id st))) (\<lambda>(t', failed).
                   if failed then ret (t', True) else act_loop K completed interrupted sts t')))"

text \<open>\<open>Kernel._act\<close>.\<close>

definition act :: "'w kernel \<Rightarrow> ticket \<Rightarrow> ('w, ticket \<times> bool) kprog" where
  "act K t = (case t_plan t of None \<Rightarrow> raise (NoPlan (t_id t)) | Some p \<Rightarrow>
     bind (gets (\<lambda>s. journal_of s (t_id t))) (\<lambda>j.
     act_loop K (completed_steps j) (interrupted_step j) (p_steps p) t))"


section \<open>COLLECT, SOP, bug tickets\<close>

definition log_fence :: "string \<Rightarrow> string \<Rightarrow> string" where
  "log_fence sid title = ''--- step '' @ sid @ '': '' @ title @ '' ---'' @ nl"

definition log_text :: "(observation \<Rightarrow> string) \<Rightarrow> step_record list \<Rightarrow> string" where
  "log_text f rs = concat (map (\<lambda>r. case r_observation r of None \<Rightarrow> []
     | Some obs \<Rightarrow> log_fence (r_step_id r) (r_title r) @ f obs) rs)"

definition newlines :: "string \<Rightarrow> nat" where
  "newlines s = length (filter (\<lambda>c. c = CHR 0x0A) s)"

definition collect_logs :: "ticket \<Rightarrow> string \<Rightarrow> ('w, log_bundle) kprog" where
  "collect_logs t logs_dir =
     (let stdout_text = log_text o_stdout (t_steps t);
          stderr_text = log_text o_stderr (t_steps t);
          screenshots = concat (map (\<lambda>r. case r_observation r of None \<Rightarrow> [] | Some obs \<Rightarrow> o_screenshots obs) (t_steps t));
          stdout_path = logs_dir @ ''/stdout.log''; stderr_path = logs_dir @ ''/stderr.log''
      in bind (write_file stdout_path stdout_text) (\<lambda>_.
         bind (write_file stderr_path stderr_text) (\<lambda>_.
         ret \<lparr>lb_stdout_path = Some stdout_path, lb_stderr_path = Some stderr_path, lb_console_path = None,
              lb_screenshots = screenshots,
              lb_line_counts = [(''stdout'', newlines stdout_text), (''stderr'', newlines stderr_text)]\<rparr>)))"

definition build_sop_model :: "ticket \<Rightarrow> sop_template \<Rightarrow> ticket_state \<Rightarrow> sop_model" where
  "build_sop_model t template final_state =
     (let findings = map headline (t_findings t) in
      \<lparr>sm_title = t_title t @ '' '' @ em_dash @ '' '' @ t_id t, sm_purpose = st_purpose template,
       sm_prerequisites = [''Agent: '' @ agent_value (t_agent t), ''Requested by: '' @ t_user t],
       sm_steps = map (\<lambda>r. \<lparr>ss_n = r_n r, ss_action = r_title r,
          ss_expected = (case r_verdict r of None \<Rightarrow> [] | Some v \<Rightarrow> sv_sentence v),
          ss_evidence = (''step '' @ r_step_id r) # (case r_observation r of None \<Rightarrow> []
             | Some obs \<Rightarrow> [''exit '' @ (case o_exit_code obs of None \<Rightarrow> ''None'' | Some c \<Rightarrow> show_int c)])\<rparr>) (t_steps t),
       sm_checks = st_checks template,
       sm_results = [(''ticket'', t_id t), (''state'', state_value final_state)]
          @ (case t_rca t of None \<Rightarrow> [] | Some r \<Rightarrow> (''rca'', rc_cause r) #
               (case rc_fingerprint r of None \<Rightarrow> [] | Some f \<Rightarrow> if f = [] then [] else [(''fingerprint'', f)])),
       sm_findings = findings,
       sm_next_actions = (if findings = [] then []
          else [''Review the findings and decide whether a bug ticket is needed.'']
            @ (case t_rca t of Some r \<Rightarrow> if rc_uncertain r
                 then [''The root cause is marked uncertain; confirm it before acting on it.''] else [] | None \<Rightarrow> [])),
       sm_glossary_refs = []\<rparr>)"

definition bug_title :: "finding \<Rightarrow> string" where
  "bug_title f = (if py_len (headline f) \<le> 200 then headline f else py_take 197 (headline f) @ ellipsis)"

definition child_job :: "ticket \<Rightarrow> finding \<Rightarrow> time \<Rightarrow> job" where
  "child_job t f now = \<lparr>j_id = j_id (t_job t) @ ''#bug-'' @ take 8 (f_fingerprint f), j_agent = t_agent t,
     j_user = t_user t, j_title = bug_title f, j_inputs = [], j_target = j_target (t_job t), j_created_at = now\<rparr>"

definition child_ticket :: "ticket \<Rightarrow> finding \<Rightarrow> time \<Rightarrow> string \<Rightarrow> vote list \<Rightarrow> ticket" where
  "child_ticket t f now child_id votes = \<lparr>t_id = child_id, t_agent = t_agent t, t_user = t_user t,
     t_title = bug_title f, t_state = Open, t_job = child_job t f now, t_plan = None, t_approvals = [],
     t_votes = votes, t_steps = [], t_logs = None, t_findings = [f\<lparr>f_ticket_id := Some child_id\<rparr>],
     t_rca = t_rca t, t_sop = None, t_exports = [], t_parent = Some (t_id t), t_created_at = now,
     t_updated_at = now, t_history = []\<rparr>"

definition record_bug :: "string \<Rightarrow> string \<Rightarrow> string \<Rightarrow> ('w, unit) kprog" where
  "record_bug fp tid seen_in = durable (\<lambda>s. s\<lparr>k_index := index_record fp tid seen_in (k_index s)\<rparr>)"

text \<open>One pass of the loop: the ticket ids spawned and the findings with their tickets so far.\<close>

definition spawn_one :: "'w kernel \<Rightarrow> ticket \<Rightarrow> vote list \<Rightarrow> finding \<Rightarrow> string list \<times> finding list \<Rightarrow> ('w, string list \<times> finding list) kprog" where
  "spawn_one K t votes f acc =
     (if f_ticket_id f \<noteq> None then ret (fst acc, snd acc @ [f])
      else bind (gets (\<lambda>s. index_lookup (k_index s) (f_fingerprint f))) (\<lambda>known.
       case known of
         Some e \<Rightarrow> bind (record_bug (f_fingerprint f) (be_ticket_id e) (t_id t)) (\<lambda>_.
           ret (fst acc, snd acc @ [f\<lparr>f_ticket_id := Some (be_ticket_id e)\<rparr>]))
       | None \<Rightarrow>
           bind (clock_now K) (\<lambda>now.
           bind (next_ticket_id (t_agent t)) (\<lambda>child_id.
           if \<not> job_ok (child_job t f now) then raise (SchemaError (ValidationError ''job''))
           else bind (store_save (child_ticket t f now child_id votes)) (\<lambda>_.
           bind (record_bug (f_fingerprint f) child_id (t_id t)) (\<lambda>_.
           ret (fst acc @ [child_id], snd acc @ [f\<lparr>f_ticket_id := Some child_id\<rparr>])))))))"

fun spawn_loop :: "'w kernel \<Rightarrow> ticket \<Rightarrow> vote list \<Rightarrow> finding list \<Rightarrow> string list \<times> finding list \<Rightarrow> ('w, string list \<times> finding list) kprog" where
  "spawn_loop K t votes [] acc = ret acc"
| "spawn_loop K t votes (f # fs) acc = bind (spawn_one K t votes f acc) (\<lambda>acc'. spawn_loop K t votes fs acc')"

text \<open>\<open>Kernel._spawn_bug_tickets\<close>: the ticket with its findings updated, and the new ticket ids.\<close>

definition spawn_bug_tickets :: "'w kernel \<Rightarrow> ticket \<Rightarrow> vote list \<Rightarrow> ('w, ticket \<times> string list) kprog" where
  "spawn_bug_tickets K t votes =
     bind (lift SchemaError default_routing) (\<lambda>routing.
     bind (spawn_loop K t votes (triage routing (t_findings t)) ([], [])) (\<lambda>(spawned, updated).
     ret (t\<lparr>t_findings := updated\<rparr>, spawned)))"


section \<open>CLOSE\<close>

definition review_reason :: "ticket \<Rightarrow> string" where
  "review_reason t = ''Every step finished, but '' @ show_nat (length (t_findings t)) @ '' ''
     @ (if length (t_findings t) = 1 then ''finding needs'' else ''findings need'')
     @ '' your review; the logs, the analysis and the SOP are attached.''"

definition run_rca :: "'w kernel \<Rightarrow> ticket \<Rightarrow> ('w, ticket \<times> vote list) kprog" where
  \<comment> \<open>the RCA part of \<open>_analyse_and_close\<close>\<close>
  "run_rca K t = (case kn_rca_pipeline K of
     None \<Rightarrow>
       (let t' = t\<lparr>t_rca := Some (placeholder_rca t)\<rparr> in
        bind (journal_append K KNote (t_id t') (PNote (NRca (placeholder_rca t))) None) (\<lambda>_. ret (t', [])))
   | Some p \<Rightarrow>
       bind (lift SchemaError (analyse p t)) (\<lambda>result.
       let t' = t\<lparr>t_rca := Some (rr_rca result), t_votes := t_votes t @ rr_votes result,
                  t_findings := t_findings t @ filter (\<lambda>f. f_fingerprint f \<notin> set (map f_fingerprint (t_findings t))) (rr_findings result)\<rparr> in
       bind (journal_append K KNote (t_id t') (PNote (NRcaFull (rr_rca result) (rr_sentence result)
          (map headline (rr_findings result)) (length (rr_votes result)) (rr_citations result))) None) (\<lambda>_.
       ret (t', rr_votes result))))"

definition analyse_and_close :: "'w kernel \<Rightarrow> ticket \<Rightarrow> ('w, ticket) kprog" where
  "analyse_and_close K t0 =
     bind (collect_logs t0 (kn_data_root K @ ''/Tickets/'' @ t_id t0 @ ''/logs'')) (\<lambda>bundle.
     let t1 = t0\<lparr>t_logs := Some bundle\<rparr> in
     bind (journal_append K KNote (t_id t1) (PNote (NLogs bundle)) None) (\<lambda>_.
     bind (run_rca K t1) (\<lambda>(t2, rca_votes).
     bind (spawn_bug_tickets K t2 rca_votes) (\<lambda>(t3, spawned).
     bind (if spawned \<noteq> [] then journal_append K KNote (t_id t3) (PNote (NBugTickets spawned)) None else ret ()) (\<lambda>_.
     let failed = list_ex (\<lambda>r. r_status r = StepFailed) (t_steps t3);
         needs_review = (failed \<or> t_findings t3 \<noteq> []);
         final_state = (if needs_review then Needs_review else Done);
         rendered = kn_render_sop K (build_sop_model t3 (ag_sop_template (kn_agent K)) final_state)
                      (kn_data_root K @ ''/SOP/'' @ t_id t3);
         t4 = t3\<lparr>t_sop := Some (rs_refs rendered)\<rparr> in
     bind (journal_append K KNote (t_id t4) (PNote (NSop (rs_refs rendered) (rs_translated rendered) (rs_notes rendered))) None) (\<lambda>_.
     bind (store_save t4) (\<lambda>_.
     if failed then transition_to K t4 Needs_review
         ''A step failed; the logs, the analysis and the SOP are attached for review.''
     else if needs_review then transition_to K t4 Needs_review (review_reason t4)
     else transition_to K t4 Done ''Every step finished; the logs, the analysis and the SOP are attached.'')))))))"

definition act_and_close :: "'w kernel \<Rightarrow> ticket \<Rightarrow> ('w, ticket) kprog" where
  "act_and_close K t =
     bind (if t_state t = Approved then transition_to K t Running ''Starting the steps.'' else ret t) (\<lambda>t1.
     bind (act K t1) (\<lambda>(t2, stopped_early).
     bind (transition_to K t2 Analysing
       (if stopped_early then ''A step did not finish as expected; collecting logs.''
        else ''Every step finished; collecting logs.'')) (\<lambda>t3.
     analyse_and_close K t3)))"


section \<open>The public methods\<close>

definition check_plan_votes :: "'w kernel \<Rightarrow> ticket \<Rightarrow> plan \<Rightarrow> ('w, ticket) kprog" where
  \<comment> \<open>the plan cross-check of \<open>_run\<close>\<close>
  "check_plan_votes K t p = (case kn_plan_checker K of
     None \<Rightarrow> ret t
   | Some check \<Rightarrow>
       if ag_name (kn_agent K) \<in> set PLAN_CHECKED_AGENTS
       then (let verdict = check ''plan_approval'' (p_summary p # map (\<lambda>s. show_int (s_n s) @ ''. '' @ s_title s
                   @ '' ['' @ risk_value (s_risk s) @ '']'') (p_steps p));
                 t' = t\<lparr>t_votes := t_votes t @ cv_votes verdict\<rparr>
             in bind (journal_append K KNote (t_id t') (PNote (NPlanCrossCheck (cv_sentence verdict) (cv_agreed verdict))) None)
                  (\<lambda>_. ret t'))
       else ret t)"

definition request_approvals :: "'w kernel \<Rightarrow> ticket \<Rightarrow> plan \<Rightarrow> ('w, ticket) kprog" where
  \<comment> \<open>the branch of \<open>_run\<close> for a plan with a destructive step\<close>
  "request_approvals K t p =
     bind (clock_now K) (\<lambda>now.
     let t' = t\<lparr>t_approvals := map (\<lambda>st. \<lparr>ap_step_id = s_id st, ap_requested_at = now, ap_decided_at = None,
                  ap_decided_by = None, ap_approved = None, ap_note = []\<rparr>) (destructive_steps p)\<rparr> in
     bind (journal_append K KNote (t_id t') (PNote (NApprovalsRequested (map ap_step_id (t_approvals t')))) None) (\<lambda>_.
     bind (store_save t') (\<lambda>_. ret t')))"

definition continue_plan :: "'w kernel \<Rightarrow> ticket \<Rightarrow> plan \<Rightarrow> ('w, ticket) kprog" where
  \<comment> \<open>\<open>_run\<close> from \<open>_attach_plan\<close> on\<close>
  "continue_plan K t p =
     bind (lift id (attach_plan t p)) (\<lambda>t1.
     bind (check_plan_votes K t1 p) (\<lambda>t2.
     bind (transition_to K t2 Planned (plan_sentence p)) (\<lambda>t3.
     if destructive p then request_approvals K t3 p
     else bind (transition_to K t3 Approved ''No step needs approval.'') (\<lambda>t4. act_and_close K t4))))"

definition run :: "'w kernel \<Rightarrow> raw_input \<Rightarrow> ('w, ticket) kprog" where
  "run K raw =
     bind (lift AgentRaised (ag_ingest (kn_agent K) raw)) (\<lambda>job.
     bind (create_ticket K job) (\<lambda>t.
     bind (journal_append K KState (t_id t) (PIngested (t_state t)) None) (\<lambda>_.
     bind (metric_add_gauge ''slas_tickets_in_state'' 1 [agent_value (t_agent t), state_value (t_state t)]) (\<lambda>_.
     bind (lift AgentRaised (ag_plan (kn_agent K) job)) (\<lambda>p.
     case kn_skill_gate K of
       None \<Rightarrow> continue_plan K t p
     | Some expand \<Rightarrow> (case expand p (ag_name (kn_agent K)) of
           Inr p' \<Rightarrow> continue_plan K t p'
         | Inl (st, msg) \<Rightarrow>
             bind (journal_append K KNote (t_id t) (PNote (NSkillGate (tp_what_happened msg) (s_id st))) (Some (s_id st)))
               (\<lambda>_. transition_to K t Failed (tp_what_happened msg))))))))"

definition decide_approval :: "time \<Rightarrow> string \<Rightarrow> string \<Rightarrow> approval \<Rightarrow> approval" where
  "decide_approval now decided_by note a = a\<lparr>ap_decided_at := Some now, ap_decided_by := Some decided_by,
     ap_approved := Some True, ap_note := note\<rparr>"

definition approve_ticket :: "'w kernel \<Rightarrow> ticket \<Rightarrow> string \<Rightarrow> string \<Rightarrow> string \<Rightarrow> ('w, ticket) kprog" where
  "approve_ticket K t sid decided_by note =
     (if list_ex (\<lambda>a. ap_step_id a = sid \<and> ap_pending a) (t_approvals t) then
        bind (clock_now K) (\<lambda>now.
        let t' = t\<lparr>t_approvals := map_first (\<lambda>a. ap_step_id a = sid \<and> ap_pending a)
                     (decide_approval now decided_by note) (t_approvals t)\<rparr> in
        bind (journal_append K KNote (t_id t') (PNote (NApproved sid decided_by)) (Some sid)) (\<lambda>_.
        bind (store_save t') (\<lambda>_. ret t')))
      else raise (NoPendingApproval (t_id t) sid))"

definition approve :: "'w kernel \<Rightarrow> string \<Rightarrow> string \<Rightarrow> string \<Rightarrow> string \<Rightarrow> ('w, ticket) kprog" where
  "approve K tid sid decided_by note = bind (store_load tid) (\<lambda>t. approve_ticket K t sid decided_by note)"

text \<open>\<open>Kernel._resume\<close> on the ticket it loads.\<close>

definition resume_ticket :: "'w kernel \<Rightarrow> ticket \<Rightarrow> ('w, ticket) kprog" where
  "resume_ticket K t =
     (if finished t then ret t
      else if t_state t = Planned \<and> pending_approvals t \<noteq> [] then raise (ApprovalPending t)
      else bind (if t_state t = Planned
                 then transition_to K t Approved ''Every destructive step was approved.'' else ret t) (\<lambda>t1.
           if t_state t1 = Approved \<or> t_state t1 = Running then act_and_close K t1
           else if t_state t1 = Analysing then analyse_and_close K t1
           else ret t1))"

definition resume :: "'w kernel \<Rightarrow> string \<Rightarrow> ('w, ticket) kprog" where
  "resume K tid = bind (store_load tid) (\<lambda>t. resume_ticket K t)"

end
