(* ===== verification/Lifecycle.thy ===== *)
theory Lifecycle
  imports Kernel
begin

text \<open>
  What the kernel's methods do to the state, on every path and at every crash point.

  The locale \<open>kernel_writes\<close> states what a relation between states has to allow: the
  writes the kernel makes, each with the tickets it may save. Its lemmas lift the relation from
  the writes to the methods that do not act on a target; \<open>kernel_acts\<close> adds the call of
  the executor between its intent and its observation, and lifts the relation to the rest of the
  kernel. Each invariant is then one interpretation, whose proof looks at single writes only.
\<close>

section \<open>Tickets along the lifecycle\<close>

text \<open>What a method may change of a ticket without changing where it stands.\<close>

definition ticket_core :: "ticket \<Rightarrow> string \<times> string \<times> ticket_state \<times> state_change list \<times> plan option \<times> string list" where
  "ticket_core t = (t_id t, t_user t, t_state t, t_history t, t_plan t, map r_step_id (t_steps t))"

lemma map_first_map: "(\<And>x. g (f x) = g x) \<Longrightarrow> map g (map_first P f xs) = map g xs"
  by (induction xs) auto

lemma core_update_record [simp]:
  "(\<And>r. r_step_id (f r) = r_step_id r) \<Longrightarrow> ticket_core (update_record i f t) = ticket_core t"
  by (simp add: ticket_core_def update_record_def map_first_map)

lemma core_attach [simp]: "ticket_core (attach t obs) = ticket_core t"
  by (simp add: ticket_core_def attach_def)

lemma core_fields [simp]:
  "ticket_core (t\<lparr>t_updated_at := a\<rparr>) = ticket_core t"
  "ticket_core (t\<lparr>t_approvals := b\<rparr>) = ticket_core t"
  "ticket_core (t\<lparr>t_votes := c\<rparr>) = ticket_core t"
  "ticket_core (t\<lparr>t_logs := d\<rparr>) = ticket_core t"
  "ticket_core (t\<lparr>t_findings := e\<rparr>) = ticket_core t"
  "ticket_core (t\<lparr>t_rca := f\<rparr>) = ticket_core t"
  "ticket_core (t\<lparr>t_sop := g\<rparr>) = ticket_core t"
  by (simp_all add: ticket_core_def)

lemma t_id_update [simp]: "t_id (update_record i f t) = t_id t" "t_id (attach t obs) = t_id t"
  by (simp_all add: update_record_def attach_def)

lemma core_id: "ticket_core t' = ticket_core t \<Longrightarrow> t_id t' = t_id t"
  by (simp add: ticket_core_def)

definition fresh_ticket :: "ticket \<Rightarrow> bool" where
  "fresh_ticket t \<longleftrightarrow> t_state t = Open \<and> t_history t = [] \<and> t_plan t = None"


text \<open>The core of \<open>perform\<close>.\<close>

definition observe_step :: "'w kernel \<Rightarrow> ticket \<Rightarrow> step \<Rightarrow> bool \<Rightarrow> ('w, observation) kprog" where
  "observe_step K t st resumed =
     bind (journal_append K KIntent (t_id t) (PIntent (s_primitive st) (s_args st) (s_risk st) resumed) (Some (s_id st))) (\<lambda>_.
     bind (call_executor K st \<lparr>ec_ticket_id = t_id t, ec_job_id = j_id (t_job t), ec_agent = t_agent t,
             ec_user = t_user t, ec_trace_id = Some (kn_trace_id K)\<rparr>) (\<lambda>obs.
     bind (journal_append K KObservation (t_id t) (PObservation obs) (Some (s_id st))) (\<lambda>_. ret obs)))"

lemma perform_split:
  "perform K t st resumed =
     bind (clock_now K) (\<lambda>started.
     let t1 = update_record (s_id st) (\<lambda>r. r\<lparr>r_status := InProgress, r_started_at := Some started,
                r_observation := None, r_verdict := None\<rparr>) t in
     bind (store_save t1) (\<lambda>_.
     bind (observe_step K t1 st resumed) (\<lambda>obs.
     let verdict = ag_verify (kn_agent K) st obs in
     bind (clock_now K) (\<lambda>finished_at.
     let status = status_of_verdict verdict;
         t2 = update_record (s_id st) (\<lambda>r. r\<lparr>r_observation := Some obs, r_verdict := Some verdict,
                r_finished_at := Some finished_at, r_status := status\<rparr>) t1;
         t3 = (attach t2 obs)\<lparr>t_updated_at := finished_at\<rparr> in
     bind (store_save t3) (\<lambda>_.
     bind (metric_inc ''slas_agent_turns_total'' [agent_value (t_agent t3), status_value status]) (\<lambda>_.
     bind (metric_observe ''slas_step_seconds'' (of_int (finished_at - started) / 1000000) [agent_value (t_agent t3)]) (\<lambda>_.
     bind (case kn_after_step K of None \<Rightarrow> ret ()
             | Some hook \<Rightarrow> (case hook t3 st of None \<Rightarrow> ret () | Some e \<Rightarrow> raise (HookRaised e))) (\<lambda>_.
     ret (t3, status = StepFailed)))))))))"
  by (simp add: perform_def observe_step_def bind_assoc Let_def)


section \<open>Writes\<close>

locale kernel_writes = effect_order R
  for R :: "'w kstate \<Rightarrow> 'w kstate \<Rightarrow> bool" +
  fixes G :: "ticket \<Rightarrow> bool"
    and P :: "plan \<Rightarrow> bool"
  assumes R_lives: "R s (s\<lparr>k_lives := l\<rparr>)"
    and R_tick: "R s (s\<lparr>k_ticks := n\<rparr>)"
    and R_metrics: "R s (s\<lparr>k_metrics := m\<rparr>)"
    and R_files: "R s (s\<lparr>k_files := fs\<rparr>)"
    and R_index: "R s (s\<lparr>k_index := index_record fp i w (k_index s)\<rparr>)"
    and R_mkdir: "R s (s\<lparr>k_store := file_mkdir i (k_store s)\<rparr>)"
    and R_next: "R s (s\<lparr>k_store := snd (file_next_ticket_id a (k_store s))\<rparr>)"
    and R_save: "G t \<Longrightarrow> R s (s\<lparr>k_store := file_save t (k_store s)\<rparr>)"
    and R_journal: "kind = KState \<or> kind = KNote \<Longrightarrow>
          R s (s\<lparr>k_journals := AList.update i (append_entry (journal_of s i) now tr kind i pl sid) (k_journals s)\<rparr>)"
    and G_core: "G t \<Longrightarrow> ticket_core t' = ticket_core t \<Longrightarrow> G t'"
    and G_fresh: "fresh_ticket t \<Longrightarrow> G t"
    and G_transition: "G t \<Longrightarrow> transition target now reason t = Inr (t', c) \<Longrightarrow>
          (target = Planned \<Longrightarrow> t_plan t \<noteq> None) \<Longrightarrow> G t'"
    and G_plan: "G t \<Longrightarrow> P p \<Longrightarrow> G (t\<lparr>t_plan := Some p, t_steps := map new_record (p_steps p)\<rparr>)"
begin

lemma G_parts [simp]:
  "G t \<Longrightarrow> G (attach t obs)"
  "G t \<Longrightarrow> G (t\<lparr>t_updated_at := a\<rparr>)"
  "G t \<Longrightarrow> G (t\<lparr>t_approvals := b\<rparr>)"
  "G t \<Longrightarrow> G (t\<lparr>t_votes := c\<rparr>)"
  "G t \<Longrightarrow> G (t\<lparr>t_logs := d\<rparr>)"
  "G t \<Longrightarrow> G (t\<lparr>t_findings := e\<rparr>)"
  "G t \<Longrightarrow> G (t\<lparr>t_rca := f\<rparr>)"
  "G t \<Longrightarrow> G (t\<lparr>t_sop := g\<rparr>)"
  by (erule G_core, simp)+

lemma G_update_record [simp]: "(\<And>r. r_step_id (f r) = r_step_id r) \<Longrightarrow> G t \<Longrightarrow> G (update_record i f t)"
  by (erule G_core) simp

lemma steps_durable: "(\<And>s. R s (f s)) \<Longrightarrow> steps R (durable f) (\<lambda>_. True)"
  by (rule stepsI) (auto simp: durable_def R_refl intro: R_trans R_lives split: option.splits nat.splits)

lemma steps_clock: "steps R (clock_now K) (\<lambda>_. True)"
  unfolding clock_now_def by (intro steps_bind_any steps_gets_any steps_modify steps_ret R_tick TrueI)

lemma steps_journal:
  "kind = KState \<or> kind = KNote \<Longrightarrow> steps R (journal_append K kind i pl sid) (\<lambda>_. True)"
  unfolding journal_append_def by (intro steps_bind_any steps_durable steps_clock R_mkdir R_journal)

lemma steps_save: "G t \<Longrightarrow> steps R (store_save t) (\<lambda>_. True)"
  unfolding store_save_def by (intro steps_durable R_save)

lemma steps_next_id: "steps R (next_ticket_id a) (\<lambda>_. True)"
  unfolding next_ticket_id_def by (intro steps_bind_any steps_gets_any steps_durable R_next steps_lift TrueI)

lemma steps_write_file: "steps R (write_file path text) (\<lambda>_. True)"
  unfolding write_file_def by (intro steps_durable R_files)

lemma steps_metrics:
  "steps R (metric_inc n ls) (\<lambda>_. True)" "steps R (metric_add_gauge n d ls) (\<lambda>_. True)"
  "steps R (metric_observe n d ls) (\<lambda>_. True)"
  unfolding metric_inc_def metric_add_gauge_def metric_observe_def by (intro steps_modify R_metrics TrueI)+

lemma steps_record_bug: "steps R (record_bug fp i w) (\<lambda>_. True)"
  unfolding record_bug_def by (intro steps_durable R_index)

lemmas write_steps = steps_clock steps_journal steps_save steps_next_id steps_write_file steps_metrics
  steps_record_bug steps_gets_any steps_raise

lemma steps_create: "steps R (create_ticket K job) G"
  unfolding create_ticket_def Let_def
  by (intro steps_bind_any write_steps steps_ret G_fresh) (simp_all add: fresh_ticket_def)

lemma steps_transition_to:
  "G t \<Longrightarrow> (target = Planned \<Longrightarrow> t_plan t \<noteq> None) \<Longrightarrow> steps R (transition_to K t target reason) G"
  unfolding transition_to_def
  apply (rule steps_bind_any [OF steps_clock])
  apply (rule steps_bind [where A = "\<lambda>(t', c). G t'"])
   apply (auto intro!: steps_lift intro: G_transition) []
  apply (clarsimp, intro steps_bind_any write_steps steps_ret; simp)
  done

lemma steps_collect: "steps R (collect_logs t d) (\<lambda>_. True)"
  unfolding collect_logs_def Let_def by (intro steps_bind_any write_steps steps_ret TrueI)

lemma steps_run_rca: "G t \<Longrightarrow> steps R (run_rca K t) (\<lambda>(t', vs). G t')"
  unfolding run_rca_def Let_def
  by (auto split: option.splits intro!: steps_bind_any write_steps steps_ret steps_lift)

lemma G_child: "G (child_ticket t f now i vs)"
  by (rule G_fresh) (simp add: child_ticket_def fresh_ticket_def)

lemma steps_spawn_one: "steps R (spawn_one K t vs f acc) (\<lambda>_. True)"
  unfolding spawn_one_def
  by (auto split: option.splits intro!: steps_bind_any write_steps steps_ret G_child)

lemma steps_spawn_loop: "steps R (spawn_loop K t vs fs acc) (\<lambda>_. True)"
  by (induction fs arbitrary: acc) (auto intro!: steps_bind_any steps_ret steps_spawn_one)

lemma steps_spawn: "G t \<Longrightarrow> steps R (spawn_bug_tickets K t vs) (\<lambda>(t', is). G t')"
  unfolding spawn_bug_tickets_def
  by (auto intro!: steps_bind_any steps_lift steps_spawn_loop steps_ret)

lemma steps_analyse_and_close: "G t \<Longrightarrow> steps R (analyse_and_close K t) G"
  unfolding analyse_and_close_def Let_def
  apply (rule steps_bind_any [OF steps_collect])
  apply (rule steps_bind_any, rule steps_journal, simp)
  apply (rule steps_bind [OF steps_run_rca], simp, clarsimp)
  apply (rule steps_bind [OF steps_spawn], assumption, clarsimp)
  apply (auto intro!: steps_bind_any write_steps steps_ret steps_transition_to)
  done

lemma steps_check_plan: "G t \<Longrightarrow> steps R (check_plan_votes K t p) (\<lambda>t'. G t' \<and> t_plan t' = t_plan t)"
  unfolding check_plan_votes_def Let_def
  by (auto split: option.splits intro!: steps_bind_any write_steps steps_ret)

lemma steps_request_approvals: "G t \<Longrightarrow> steps R (request_approvals K t p) G"
  unfolding request_approvals_def Let_def
  by (auto intro!: steps_bind_any write_steps steps_ret)

lemma steps_approve_ticket: "G t \<Longrightarrow> steps R (approve_ticket K t sid who note) G"
  unfolding approve_ticket_def Let_def
  by (auto intro!: steps_bind_any write_steps steps_ret)

lemma steps_restore: "G t \<Longrightarrow> steps R (restore_from_journal K t r pl) G"
  unfolding restore_from_journal_def Let_def
  by (auto split: option.splits payload.splits intro!: steps_bind_any write_steps steps_ret steps_lift)

lemma steps_hook:
  "steps R (case h of None \<Rightarrow> ret () | Some hook \<Rightarrow> (case hook t st of None \<Rightarrow> ret () | Some e \<Rightarrow> raise (HookRaised e))) (\<lambda>_. True)"
  by (auto split: option.splits intro!: steps_ret steps_raise)

lemma steps_call_executor:
  "(\<And>s w e. R s (s\<lparr>k_world := w, k_executed := k_executed s @ [e]\<rparr>)) \<Longrightarrow> steps R (call_executor K st ctx) (\<lambda>_. True)"
  by (rule stepsI) (simp_all add: call_executor_def Let_def split: prod.splits sum.splits)

text \<open>A relation that looks neither at the kinds of entries nor at the executor's calls.\<close>

lemma steps_observe_blind:
  assumes "\<And>s i now tr kind pl sid. R s (s\<lparr>k_journals := AList.update i (append_entry (journal_of s i) now tr kind i pl sid) (k_journals s)\<rparr>)"
    and "\<And>s w e. R s (s\<lparr>k_world := w, k_executed := k_executed s @ [e]\<rparr>)"
  shows "steps R (observe_step K t st resumed) (\<lambda>_. True)"
  unfolding observe_step_def journal_append_def
  by (intro steps_bind_any steps_call_executor steps_durable steps_clock steps_ret assms R_mkdir TrueI)

text \<open>
  \<open>perform\<close> around its core, the intent, the call and the observation: what the core
  does to the state is what \<open>perform\<close> does, up to writes.
\<close>

lemma steps_perform_via:
  assumes "G t" and core: "\<And>t'. ticket_core t' = ticket_core t \<Longrightarrow> steps Q (observe_step K t' st resumed) (\<lambda>_. True)"
    and "\<And>s u. R s u \<Longrightarrow> Q s u" "\<And>s u v. R s u \<Longrightarrow> Q u v \<Longrightarrow> Q s v" "\<And>s u v. Q s u \<Longrightarrow> R u v \<Longrightarrow> Q s v"
  shows "steps Q (perform K t st resumed) (\<lambda>(t', failed). G t')"
  unfolding perform_split Let_def
  apply (rule steps_seq [of R _ "\<lambda>_. True" Q])
     apply (rule steps_clock)
    apply (rule steps_seq [of R _ "\<lambda>_. True" Q])
       apply (rule steps_save, use assms(1) in simp)
      apply (rule steps_seq [of Q _ "\<lambda>_. True" R])
         apply (rule core, simp)
        apply (intro steps_bind_any write_steps steps_ret steps_hook; use assms(1) in simp)
       apply (use assms(3-) in blast)+
  done

end

section \<open>Acting\<close>

text \<open>The plans an agent and the skill gate hand to the kernel: each is a validated \<open>Plan\<close>.\<close>

definition plans_ok :: "(plan \<Rightarrow> bool) \<Rightarrow> 'w kernel \<Rightarrow> bool" where
  "plans_ok P K \<longleftrightarrow> (\<forall>job p. ag_plan (kn_agent K) job = Inr p \<longrightarrow> P p) \<and>
     (\<forall>expand p p'. kn_skill_gate K = Some expand \<longrightarrow> P p \<longrightarrow> expand p (ag_name (kn_agent K)) = Inr p' \<longrightarrow> P p')"

locale kernel_acts = kernel_writes R G P
  for R :: "'w kstate \<Rightarrow> 'w kstate \<Rightarrow> bool" and G :: "ticket \<Rightarrow> bool" and P :: "plan \<Rightarrow> bool" +
  assumes R_act: "G t \<Longrightarrow> steps R (act K t) (\<lambda>(t', stopped). G t')"
begin

lemma steps_act_and_close: "G t \<Longrightarrow> steps R (act_and_close K t) G"
  unfolding act_and_close_def
  apply (rule steps_bind [where A = G])
   apply (auto intro!: steps_transition_to steps_ret) []
  apply (rule steps_bind [OF R_act], assumption)
  apply (auto intro!: steps_bind [OF steps_transition_to] steps_analyse_and_close)
  done

lemma steps_continue_plan: "G t \<Longrightarrow> P p \<Longrightarrow> steps R (continue_plan K t p) G"
  unfolding continue_plan_def
  apply (rule steps_bind [where A = "\<lambda>t'. G t' \<and> t_plan t' \<noteq> None"])
   apply (rule steps_lift, auto simp: attach_plan_def intro: G_plan split: if_splits) []
  apply (rule steps_bind [OF steps_check_plan], erule conjunct1)
  apply (rule steps_bind [OF steps_transition_to], simp, simp)
  apply (auto intro!: steps_request_approvals steps_bind [OF steps_transition_to] steps_act_and_close)
  done

lemma steps_run:
  assumes K: "plans_ok P K"
  shows "steps R (run K raw) G"
  unfolding run_def
  apply (rule steps_bind_any, rule steps_lift, rule TrueI)
  apply (rule steps_bind [OF steps_create])
  apply (rule steps_bind_any, rule steps_journal, simp)
  apply (rule steps_bind_any, rule steps_metrics)
  apply (rule steps_bind [where A = P])
   apply (rule steps_lift, use K in \<open>simp add: plans_ok_def\<close>)
  apply (use K in \<open>auto split: option.splits sum.splits simp: plans_ok_def
     intro!: steps_continue_plan steps_bind_any steps_journal steps_transition_to\<close>)
  done

lemma steps_resume_ticket: "G t \<Longrightarrow> steps R (resume_ticket K t) G"
  unfolding resume_ticket_def
  by (auto intro!: steps_ret steps_raise steps_bind [OF steps_transition_to] steps_act_and_close
      steps_analyse_and_close)

end

text \<open>A relation that allows one step's intent, call and observation allows the whole of ACT.\<close>

locale kernel_performs = kernel_writes R G P
  for R :: "'w kstate \<Rightarrow> 'w kstate \<Rightarrow> bool" and G :: "ticket \<Rightarrow> bool" and P :: "plan \<Rightarrow> bool" +
  assumes R_observe: "G t \<Longrightarrow> steps R (observe_step K t st resumed) (\<lambda>_. True)"
begin

lemma steps_perform: "G t \<Longrightarrow> steps R (perform K t st resumed) (\<lambda>(t', failed). G t')"
  by (rule steps_perform_via) (auto intro: R_observe G_core R_trans)

lemma steps_act_loop: "G t \<Longrightarrow> steps R (act_loop K completed interrupted sts t) (\<lambda>(t', stopped). G t')"
proof (induction sts arbitrary: t)
  case (Cons st sts)
  then show ?case
    by (auto split: option.splits intro!: steps_ret steps_raise steps_bind [OF steps_restore]
        steps_bind [OF steps_perform] steps_if)
qed (simp add: steps_ret)

lemma steps_act: "G t \<Longrightarrow> steps R (act K t) (\<lambda>(t', stopped). G t')"
  unfolding act_def by (auto split: option.splits intro!: steps_raise steps_bind_any steps_gets_any steps_act_loop)

end

sublocale kernel_performs \<subseteq> kernel_acts
  by unfold_locales (rule steps_act)


section \<open>Reachable states\<close>

text \<open>
  What a deployment goes through: kernels that share the data root run, approve and resume
  tickets, each method ending by itself or killed before its \<open>n\<close>-th durable write, while
  the outside world changes on its own.
\<close>

definition initial_state :: "'w \<Rightarrow> 'w kstate" where
  "initial_state w = \<lparr>k_store = \<lparr>fs_dirs = [], fs_sequence = []\<rparr>, k_journals = [], k_index = [], k_files = [],
     k_metrics = [], k_ticks = 0, k_world = w, k_executed = [], k_lives = None\<rparr>"

inductive reached :: "('w kernel \<Rightarrow> bool) \<Rightarrow> 'w kstate \<Rightarrow> bool" for Ks where
  start: "reached Ks (initial_state w)"
| run: "reached Ks s \<Longrightarrow> Ks K \<Longrightarrow> reached Ks (snd (run K raw (s\<lparr>k_lives := n\<rparr>)))"
| approve: "reached Ks s \<Longrightarrow> Ks K \<Longrightarrow> reached Ks (snd (approve K tid sid who note (s\<lparr>k_lives := n\<rparr>)))"
| resume: "reached Ks s \<Longrightarrow> Ks K \<Longrightarrow> reached Ks (snd (resume K tid (s\<lparr>k_lives := n\<rparr>)))"
| outside: "reached Ks s \<Longrightarrow> reached Ks (s\<lparr>k_world := w\<rparr>)"

lemma store_load_eq:
  "store_load tid s = (case file_load (k_store s) tid of None \<Rightarrow> (Raise (TicketNotFound tid), s) | Some t \<Rightarrow> (Ret t, s))"
  by (simp add: store_load_def prog_defs split: option.splits)

lemma resume_loaded:
  "resume K tid s = (case file_load (k_store s) tid of
     None \<Rightarrow> (Raise (TicketNotFound tid), s) | Some t \<Rightarrow> resume_ticket K t s)"
  by (simp add: resume_def bind_def store_load_eq split: option.splits)

lemma approve_loaded:
  "approve K tid sid who note s = (case file_load (k_store s) tid of
     None \<Rightarrow> (Raise (TicketNotFound tid), s) | Some t \<Rightarrow> approve_ticket K t sid who note s)"
  by (simp add: approve_def bind_def store_load_eq split: option.splits)

locale kernel_invariant = kernel_acts "keeps I" G P
  for I :: "'w kstate \<Rightarrow> bool" and G :: "ticket \<Rightarrow> bool" and P :: "plan \<Rightarrow> bool" +
  assumes I_initial: "I (initial_state w)"
    and I_world: "I s \<Longrightarrow> I (s\<lparr>k_world := w\<rparr>)"
    and I_load: "I s \<Longrightarrow> file_load (k_store s) i = Some t \<Longrightarrow> G t"
begin

lemma kept: "steps (keeps I) m A \<Longrightarrow> I s \<Longrightarrow> I (snd (m s))"
  by (simp add: steps_def keeps_def)

lemma I_lives: "I s \<Longrightarrow> I (s\<lparr>k_lives := l\<rparr>)"
  using R_lives by (simp add: keeps_def)

lemma reached_invariant:
  assumes "reached Ks s" and Ks: "\<And>K. Ks K \<Longrightarrow> plans_ok P K"
  shows "I s"
  using assms(1)
proof induction
  case (run s K raw n)
  then show ?case using Ks steps_run kept I_lives by blast
next
  case (approve s K tid sid who why n)
  then show ?case
    by (auto simp: approve_loaded I_lives split: option.splits
        intro!: kept [OF steps_approve_ticket] dest: I_load)
next
  case (resume s K tid n)
  then show ?case
    by (auto simp: resume_loaded I_lives split: option.splits
        intro!: kept [OF steps_resume_ticket] dest: I_load)
qed (auto intro: I_initial I_world)

end

end
