(* ===== verification/Safety.thy ===== *)
theory Safety
  imports Lifecycle
begin

text \<open>
  The kernel's safety properties, each an interpretation of the locales of \<open>Lifecycle\<close>
  and its consequences for \<open>run\<close>, \<open>approve\<close> and \<open>resume\<close>: stored
  tickets are well formed in every reachable state, journals are append-only and numbered
  without gaps, every call of the executor follows its intent and precedes its observation, and
  no observed step is performed again (INV-6).
\<close>

section \<open>Stored tickets\<close>

definition plan_ids_ok :: "plan \<Rightarrow> bool" where
  "plan_ids_ok p \<longleftrightarrow> distinct (map s_id (p_steps p))"

definition ticket_ok :: "ticket \<Rightarrow> bool" where
  "ticket_ok t \<longleftrightarrow> ticket_wf t
     \<and> (t_state t \<noteq> Open \<and> t_state t \<noteq> Failed \<longrightarrow> t_plan t \<noteq> None)
     \<and> (\<forall>p. t_plan t = Some p \<longrightarrow> plan_ids_ok p \<and> map r_step_id (t_steps t) = map s_id (p_steps p))"

definition tickets_ok :: "'w kstate \<Rightarrow> bool" where
  "tickets_ok s \<longleftrightarrow> (\<forall>i t. file_load (k_store s) i = Some t \<longrightarrow> t_id t = i \<and> ticket_ok t)"

lemma ticket_ok_core: "ticket_ok t \<Longrightarrow> ticket_core t' = ticket_core t \<Longrightarrow> ticket_ok t'"
  by (auto simp: ticket_ok_def ticket_core_def ticket_wf_def)

lemma ticket_ok_fresh: "fresh_ticket t \<Longrightarrow> ticket_ok t"
  by (auto simp: ticket_ok_def fresh_ticket_def ticket_wf_def)

lemma ticket_ok_transition:
  assumes "ticket_ok t" "transition target now reason t = Inr (t', c)" "target = Planned \<Longrightarrow> t_plan t \<noteq> None"
  shows "ticket_ok t'"
proof -
  have t': "t_state t' = target" "t_plan t' = t_plan t" "t_steps t' = t_steps t"
    using transition_cases(4) [OF assms(2)] by simp_all
  have "target \<noteq> Failed \<Longrightarrow> t_plan t \<noteq> None"
    using transition_cases(1) [OF assms(2)] assms(1,3)
    by (cases "t_state t") (auto simp: ticket_ok_def transition_tables)
  moreover have "ticket_wf t'" using assms transition_wf by (auto simp: ticket_ok_def)
  ultimately show ?thesis using t' assms(1) by (auto simp: ticket_ok_def)
qed

lemma ticket_ok_plan:
  "ticket_ok t \<Longrightarrow> plan_ids_ok p \<Longrightarrow> ticket_ok (t\<lparr>t_plan := Some p, t_steps := map new_record (p_steps p)\<rparr>)"
  by (auto simp: ticket_ok_def ticket_wf_def new_record_def comp_def)

lemmas ticket_ok_laws = ticket_ok_core ticket_ok_fresh ticket_ok_transition ticket_ok_plan

interpretation tickets: kernel_writes "keeps tickets_ok" ticket_ok plan_ids_ok
  by unfold_locales
    (auto simp: keeps_def tickets_ok_def files.load_next files.load_save intro: ticket_ok_laws split: if_splits)

interpretation tickets: kernel_performs "keeps tickets_ok" ticket_ok plan_ids_ok
  by unfold_locales (rule tickets.steps_observe_blind, auto simp: keeps_def tickets_ok_def)

interpretation tickets: kernel_invariant tickets_ok ticket_ok plan_ids_ok
  by unfold_locales (auto simp: tickets_ok_def initial_state_def file_load_def)


section \<open>Journals\<close>

lemma journal_of_update:
  "journal_of (s\<lparr>k_journals := AList.update i j (k_journals s)\<rparr>) i' = (if i' = i then j else journal_of s i')"
  by (simp add: journal_of_def)

lemma journal_of_fields [simp]:
  "journal_of (s\<lparr>k_lives := a\<rparr>) = journal_of s" "journal_of (s\<lparr>k_ticks := b\<rparr>) = journal_of s"
  "journal_of (s\<lparr>k_metrics := c\<rparr>) = journal_of s" "journal_of (s\<lparr>k_files := d\<rparr>) = journal_of s"
  "journal_of (s\<lparr>k_index := e\<rparr>) = journal_of s" "journal_of (s\<lparr>k_store := f\<rparr>) = journal_of s"
  "journal_of (s\<lparr>k_world := g\<rparr>) = journal_of s" "journal_of (s\<lparr>k_executed := h\<rparr>) = journal_of s"
  by (simp_all add: journal_of_def fun_eq_iff)

text \<open>Entries are numbered from 1 without a gap and carry the journal's ticket; an observation entry holds an observation.\<close>

definition entry_ok :: "string \<Rightarrow> journal_entry \<Rightarrow> bool" where
  "entry_ok tid e \<longleftrightarrow> je_ticket_id e = tid \<and> (je_kind e = KObservation \<longrightarrow> (\<exists>obs. je_payload e = PObservation obs))"

definition journals_ok :: "'w kstate \<Rightarrow> bool" where
  "journals_ok s \<longleftrightarrow> (\<forall>tid. journal_wf (journal_of s tid) \<and> list_all (entry_ok tid) (journal_of s tid))"

lemma journals_ok_append:
  "journals_ok s \<Longrightarrow> (kind = KObservation \<longrightarrow> (\<exists>obs. pl = PObservation obs)) \<Longrightarrow>
   journals_ok (s\<lparr>k_journals := AList.update i (append_entry (journal_of s i) now tr kind i pl sid) (k_journals s)\<rparr>)"
  by (auto simp: journals_ok_def journal_of_update)
    (auto simp: append_entry_def entry_ok_def)

interpretation journals: kernel_writes "keeps journals_ok" "\<lambda>_. True" "\<lambda>_. True"
proof unfold_locales
  fix s :: "'a kstate" and kind i now tr pl sid
  assume "kind = KState \<or> kind = KNote"
  then show "keeps journals_ok s (s\<lparr>k_journals := AList.update i (append_entry (journal_of s i) now tr kind i pl sid) (k_journals s)\<rparr>)"
    by (auto simp: keeps_def intro: journals_ok_append)
qed (auto simp: keeps_def journals_ok_def)

lemma journals_observe: "steps (keeps journals_ok) (observe_step K t st resumed) (\<lambda>_. True)"
  unfolding observe_step_def journal_append_def
  by (intro keeps.steps_bind_any journals.steps_call_executor journals.steps_durable journals.steps_clock
        keeps.steps_ret journals.R_mkdir TrueI)
    (auto simp: keeps_def intro: journals_ok_append, auto simp: journals_ok_def)

interpretation journals: kernel_performs "keeps journals_ok" "\<lambda>_. True" "\<lambda>_. True"
  by unfold_locales (rule journals_observe)

interpretation journals: kernel_invariant journals_ok "\<lambda>_. True" "\<lambda>_. True"
  by unfold_locales (auto simp: journals_ok_def initial_state_def journal_of_def)

definition journals_grow :: "'w kstate \<Rightarrow> 'w kstate \<Rightarrow> bool" where
  "journals_grow s s' \<longleftrightarrow> (\<forall>tid. prefix (journal_of s tid) (journal_of s' tid))"

interpretation growing: kernel_writes journals_grow "\<lambda>_. True" "\<lambda>_. True"
  by unfold_locales (auto simp: journals_grow_def journal_of_update append_entry_def intro: prefix_order.trans)

interpretation growing: kernel_performs journals_grow "\<lambda>_. True" "\<lambda>_. True"
  by unfold_locales
    (rule growing.steps_observe_blind, auto simp: journals_grow_def journal_of_update append_entry_def)

definition index_stable :: "'w kstate \<Rightarrow> 'w kstate \<Rightarrow> bool" where
  "index_stable s s' \<longleftrightarrow> (\<forall>fp e. index_lookup (k_index s) fp = Some e \<longrightarrow>
     (\<exists>e'. index_lookup (k_index s') fp = Some e' \<and> be_ticket_id e' = be_ticket_id e))"

lemma index_stable_trans: "index_stable s t \<Longrightarrow> index_stable t u \<Longrightarrow> index_stable s u"
  unfolding index_stable_def by metis

interpretation index: kernel_writes index_stable "\<lambda>_. True" "\<lambda>_. True"
proof unfold_locales
  show "index_stable s t \<Longrightarrow> index_stable t u \<Longrightarrow> index_stable s u" for s t u :: "'a kstate"
    by (rule index_stable_trans)
qed (auto simp: index_stable_def intro: bugs.tracked_stable)

interpretation index: kernel_performs index_stable "\<lambda>_. True" "\<lambda>_. True"
  by unfold_locales (rule index.steps_observe_blind, auto simp: index_stable_def)


section \<open>Calls of the executor\<close>

text \<open>
  \<open>quiet\<close> writes call no executor and observe no step. \<open>performed xs\<close> holds
  between two states when the executor was called, in this order, for some of the pairs
  \<open>xs\<close> of a ticket and a step.
\<close>

definition quiet :: "'w kstate \<Rightarrow> 'w kstate \<Rightarrow> bool" where
  "quiet s s' \<longleftrightarrow> k_executed s' = k_executed s
     \<and> (\<forall>tid. completed_steps (journal_of s' tid) = completed_steps (journal_of s tid))"

definition called :: "string \<times> string \<times> journal \<Rightarrow> string \<times> string" where
  "called c = (fst c, fst (snd c))"

definition performed :: "(string \<times> string) list \<Rightarrow> 'w kstate \<Rightarrow> 'w kstate \<Rightarrow> bool" where
  "performed xs s s' \<longleftrightarrow> (\<exists>new. k_executed s' = k_executed s @ new \<and> subseq (map called new) xs)"

interpretation quiet: kernel_writes quiet "\<lambda>_. True" "\<lambda>_. True"
  by unfold_locales (auto simp: quiet_def journal_of_update split: option.splits)

lemma performed_Nil [simp]: "performed [] s s' \<longleftrightarrow> k_executed s' = k_executed s"
  by (auto simp: performed_def dest: list_emb_Nil2)

lemma quiet_performed: "quiet s s' \<Longrightarrow> performed xs s s'"
  by (auto simp: quiet_def performed_def)

lemma performed_quiet: "performed xs s u \<Longrightarrow> quiet u s' \<Longrightarrow> performed xs s s'"
  by (auto simp: quiet_def performed_def)

lemma quiet_then_performed: "quiet s u \<Longrightarrow> performed xs u s' \<Longrightarrow> performed xs s s'"
  by (auto simp: quiet_def performed_def)

lemma performed_append: "performed xs s u \<Longrightarrow> performed ys u s' \<Longrightarrow> performed (xs @ ys) s s'"
  unfolding performed_def by (force intro: list_emb_append_mono)

lemma performed_prefix: "performed xs s s' \<Longrightarrow> performed (xs @ ys) s s'"
  unfolding performed_def by (metis list_emb_append_mono list_emb_Nil append_Nil2)

text \<open>The intent and the call, as one step of the state.\<close>

lemma journal_append_executed:
  "steps (same k_executed) (journal_append K kind i pl sid) (\<lambda>_. True)"
  by (rule stepsI) (auto simp: journal_append_def clock_now_def durable_def same_def prog_defs
      split: option.splits nat.splits prod.splits outcome.splits)

lemma call_executor_performed: "ec_ticket_id ctx = i \<Longrightarrow> steps (performed [(i, s_id st)]) (call_executor K st ctx) (\<lambda>_. True)"
  by (rule stepsI) (auto simp: call_executor_def performed_def called_def Let_def split: prod.splits sum.splits)

lemma observe_step_performed: "t_id t = i \<Longrightarrow> steps (performed [(i, s_id st)]) (observe_step K t st resumed) (\<lambda>_. True)"
  unfolding observe_step_def
  apply (rule steps_seq [of "same k_executed" _ "\<lambda>_. True" "performed [(i, s_id st)]", OF journal_append_executed])
    apply (rule steps_seq [of "performed [(i, s_id st)]" _ "\<lambda>_. True" "same k_executed"])
       apply (simp add: call_executor_performed)
      apply (intro same.steps_bind_any same.steps_ret journal_append_executed TrueI)
     apply (auto simp: same_def performed_def)
  done

lemma perform_performed: "steps (performed [(t_id t, s_id st)]) (perform K t st resumed) (\<lambda>_. True)"
  apply (rule steps_weaken)
   apply (rule quiet.steps_perform_via)
       apply (rule TrueI)
      apply (rule observe_step_performed, erule core_id)
      apply (auto intro: quiet_performed performed_quiet quiet_then_performed)
  done

text \<open>The ticket a method of ACT hands on stands where it stood.\<close>

lemma perform_core: "steps (\<lambda>_ _. True) (perform K t st resumed) (\<lambda>(t', failed). ticket_core t' = ticket_core t)"
  unfolding perform_def Let_def by (intro any.steps_bind_any steps_any any.steps_ret) simp

lemma restore_core: "steps (\<lambda>_ _. True) (restore_from_journal K t r pl) (\<lambda>t'. ticket_core t' = ticket_core t)"
  unfolding restore_from_journal_def Let_def
  by (auto split: option.splits payload.splits intro!: any.steps_bind_any steps_any any.steps_ret any.steps_raise)

definition unobserved :: "(string, journal_entry) dict \<Rightarrow> step list \<Rightarrow> step list" where
  "unobserved completed sts = filter (\<lambda>st. map_of completed (s_id st) = None) sts"

lemma unobserved_Cons:
  "unobserved completed (st # sts) = (if map_of completed (s_id st) = None then [st] else []) @ unobserved completed sts"
  by (simp add: unobserved_def)

lemma performed_refl: "performed xs s s"
  by (simp add: performed_def)

lemma performed_Cons: "performed xs s s' \<Longrightarrow> performed (x # xs) s s'"
  by (auto simp: performed_def)

lemma act_loop_performed:
  "t_id t = i \<Longrightarrow> steps (performed (map (\<lambda>st. (i, s_id st)) (unobserved completed sts)))
     (act_loop K completed interrupted sts t) (\<lambda>_. True)"
proof (induction sts arbitrary: t)
  case (Cons st sts)
  let ?xs = "map (\<lambda>st. (i, s_id st)) (unobserved completed sts)"
  let ?go = "act_loop K completed interrupted sts"
  have restore: "steps (performed ?xs) (bind (restore_from_journal K t r pl) ?go) (\<lambda>_. True)" for r pl
    by (rule steps_seq [OF steps_conj [OF quiet.steps_restore restore_core], where Q = "performed ?xs"])
      (use Cons in \<open>auto dest: core_id intro: quiet_performed quiet_then_performed\<close>)
  have perform: "steps (performed ((i, s_id st) # ?xs)) (bind (perform K t st b) (\<lambda>(t', failed).
      if failed then ret (t', True) else ?go t')) (\<lambda>_. True)" for b
    by (rule steps_seq [OF steps_conj [OF perform_performed perform_core], where Q = "performed ?xs"])
      (use Cons performed_prefix [of "[(i, s_id st)]" _ _ ?xs] performed_append [of "[(i, s_id st)]" _ _ ?xs] in
        \<open>auto dest: core_id simp: steps_def prog_defs performed_refl\<close>)
  show ?case
    using Cons restore perform
    by (auto simp: unobserved_Cons performed_refl steps_def raise_def ret_def intro: performed_Cons split: option.splits)
qed (simp add: steps_def prog_defs performed_refl)

definition plan_calls :: "ticket \<Rightarrow> 'w kstate \<Rightarrow> (string \<times> string) list" where
  "plan_calls t s = (case t_plan t of None \<Rightarrow> [] | Some p \<Rightarrow>
     map (\<lambda>st. (t_id t, s_id st)) (unobserved (completed_steps (journal_of s (t_id t))) (p_steps p)))"

lemma act_performed: "performed (plan_calls t s) s (snd (act K t s))"
  using act_loop_performed [of t "t_id t", THEN steps_rel, OF refl prod.collapse [symmetric]]
  by (auto simp: act_def plan_calls_def bind_def gets_def raise_def performed_refl split: option.splits)

text \<open>What a quiet method before ACT leaves: the ticket's plan and its calls are the same.\<close>

lemma transition_to_core:
  "steps (\<lambda>_ _. True) (transition_to K t target reason)
     (\<lambda>t'. t_id t' = t_id t \<and> t_user t' = t_user t \<and> t_plan t' = t_plan t \<and> t_steps t' = t_steps t \<and> t_findings t' = t_findings t \<and> t_state t' = target)"
  unfolding transition_to_def
  apply (rule any.steps_bind_any [OF steps_any])
  apply (rule any.steps_bind [where A = "\<lambda>(t', c). t_id t' = t_id t \<and> t_user t' = t_user t \<and> t_plan t' = t_plan t \<and> t_steps t' = t_steps t \<and> t_findings t' = t_findings t \<and> t_state t' = target"])
   apply (rule any.steps_lift, clarsimp, frule transition_cases(4), simp)
  apply (clarsimp, intro any.steps_bind_any steps_any any.steps_ret, simp)
  done

lemma plan_calls_quiet:
  "quiet s s' \<Longrightarrow> t_id t' = t_id t \<Longrightarrow> t_plan t' = t_plan t \<Longrightarrow> plan_calls t' s' = plan_calls t s"
  by (simp add: plan_calls_def quiet_def split: option.splits)

text \<open>A method that is quiet up to ACT and after it calls the executor for the plan's open steps only.\<close>

lemma bind_plan_calls:
  assumes m: "steps quiet m (\<lambda>t'. t_id t' = t_id t \<and> t_plan t' = t_plan t)"
    and k: "\<And>t' u. t_id t' = t_id t \<Longrightarrow> t_plan t' = t_plan t \<Longrightarrow> performed (plan_calls t' u) u (snd (k t' u))"
  shows "performed (plan_calls t s) s (snd (bind m k s))"
proof -
  obtain r u where mu: "m s = (r, u)" by fastforce
  have q: "quiet s u" using m mu by (rule steps_rel)
  show ?thesis
  proof (cases r)
    case (Ret t')
    then have t': "t_id t' = t_id t" "t_plan t' = t_plan t" using steps_ret_value [OF m] mu by auto
    have "performed (plan_calls t s) u (snd (k t' u))"
      using k [OF t', of u] plan_calls_quiet [OF q t'] by simp
    then show ?thesis using Ret mu q by (auto simp: bind_def intro: quiet_then_performed)
  qed (use mu q in \<open>auto simp: bind_def intro: quiet_performed\<close>)
qed

lemma act_and_close_performed: "performed (plan_calls t s) s (snd (act_and_close K t s))"
  unfolding act_and_close_def
proof (rule bind_plan_calls)
  show "steps quiet (if t_state t = Approved then transition_to K t Running ''Starting the steps.'' else ret t)
      (\<lambda>t'. t_id t' = t_id t \<and> t_plan t' = t_plan t)"
    using steps_conj [OF quiet.steps_transition_to transition_to_core [of K t Running]]
    by (auto intro: steps_weaken quiet.steps_ret)
next
  fix t' u
  let ?rest = "\<lambda>(t2, stopped). bind (transition_to K t2 Analysing (if stopped
      then ''A step did not finish as expected; collecting logs.'' else ''Every step finished; collecting logs.''))
      (analyse_and_close K)"
  have rest: "steps quiet (?rest x) (\<lambda>_. True)" for x
    by (auto split: prod.splits intro!: quiet.steps_bind_any quiet.steps_transition_to quiet.steps_analyse_and_close)
  obtain r v where a: "act K t' u = (r, v)" by fastforce
  have "performed (plan_calls t' u) u v" using act_performed [of t' u K] a by simp
  then show "performed (plan_calls t' u) u (snd (bind (act K t') ?rest u))"
    using a rest by (cases r) (auto simp: bind_def steps_def intro: performed_quiet)
qed

lemma resume_ticket_performed: "performed (plan_calls t s) s (snd (resume_ticket K t s))"
proof -
  have quiet: "steps quiet m A \<Longrightarrow> performed xs s (snd (m s))" for m :: "('a, ticket) kprog" and A xs s
    by (auto simp: steps_def intro: quiet_performed)
  show ?thesis
    unfolding resume_ticket_def
    by (auto simp: ret_def raise_def performed_refl intro!: bind_plan_calls act_and_close_performed
        quiet [OF quiet.steps_analyse_and_close] quiet.steps_ret
        steps_weaken [OF steps_conj [OF quiet.steps_transition_to transition_to_core]])
qed


section \<open>Write-ahead\<close>

text \<open>
  A call in order: when the executor was called, the ticket's journal ended with the intent of
  that step and held no observation of it.
\<close>

definition call_ok :: "string \<times> string \<times> journal \<Rightarrow> bool" where
  "call_ok c = (case c of (tid, sid, j) \<Rightarrow>
     j \<noteq> [] \<and> je_kind (last j) = KIntent \<and> je_step_id (last j) = Some sid \<and> map_of (completed_steps j) sid = None)"

definition calls_ok :: "'w kstate \<Rightarrow> bool" where
  "calls_ok s \<longleftrightarrow> tickets_ok s \<and> list_all call_ok (k_executed s)"

interpretation calls: kernel_writes "keeps calls_ok" ticket_ok plan_ids_ok
  by unfold_locales
    (auto simp: keeps_def calls_ok_def tickets_ok_def files.load_next files.load_save intro: ticket_ok_laws split: if_splits)

text \<open>While the steps \<open>sids\<close> of \<open>tid\<close> have no observation.\<close>

definition calls_open :: "string \<Rightarrow> string set \<Rightarrow> 'w kstate \<Rightarrow> bool" where
  "calls_open tid sids s \<longleftrightarrow> calls_ok s \<and> (\<forall>sid\<in>sids. map_of (completed_steps (journal_of s tid)) sid = None)"

definition closes :: "string \<Rightarrow> string set \<Rightarrow> string set \<Rightarrow> 'w kstate \<Rightarrow> 'w kstate \<Rightarrow> bool" where
  "closes tid sids sids' s s' \<longleftrightarrow> (calls_open tid sids s \<longrightarrow> calls_open tid sids' s')"

lemma closes_quiet: "keeps calls_ok s s' \<Longrightarrow> quiet s s' \<Longrightarrow> closes tid sids sids s s'"
  by (simp add: closes_def calls_open_def keeps_def quiet_def)

lemma closes_trans: "closes tid a b s u \<Longrightarrow> closes tid b c u v \<Longrightarrow> closes tid a c s v"
  by (simp add: closes_def)

lemmas closes_laws = calls.R_lives calls.R_tick calls.R_metrics calls.R_files calls.R_index calls.R_mkdir
  calls.R_next calls.R_save calls.R_journal
  quiet.R_lives quiet.R_tick quiet.R_metrics quiet.R_files quiet.R_index quiet.R_mkdir
  quiet.R_next quiet.R_save quiet.R_journal

definition calm :: "'w kstate \<Rightarrow> 'w kstate \<Rightarrow> bool" where
  "calm s s' \<longleftrightarrow> keeps calls_ok s s' \<and> quiet s s'"

interpretation calm: kernel_writes calm ticket_ok plan_ids_ok
  by (unfold_locales; (unfold calm_def, rule conjI; rule closes_laws; simp)?;
      (rule ticket_ok_laws; assumption)?; simp add: calm_def keeps_def quiet_def)

interpretation opened: kernel_writes "closes tid sids sids" ticket_ok plan_ids_ok
  by (unfold_locales; (rule closes_quiet; rule closes_laws; simp)?;
      (rule ticket_ok_laws; assumption)?; simp add: closes_def)

lemma call_ok_intent:
  "map_of (completed_steps j) sid = None \<Longrightarrow> call_ok (tid, sid, append_entry j now tr KIntent tid' pl (Some sid))"
  by (simp add: call_ok_def) (simp add: append_entry_def)

lemma intent_then_call:
  assumes "s_id st \<in> sids" "ec_ticket_id ctx = tid"
  shows "steps (closes tid sids sids) (bind (durable (\<lambda>s. s\<lparr>k_journals := AList.update tid
      (append_entry (journal_of s tid) now tr KIntent tid pl (Some (s_id st))) (k_journals s)\<rparr>)) (\<lambda>_. call_executor K st ctx)) (\<lambda>_. True)"
proof (rule stepsI)
  fix s
  let ?intent = "\<lambda>s. s\<lparr>k_journals := AList.update tid
      (append_entry (journal_of s tid) now tr KIntent tid pl (Some (s_id st))) (k_journals s)\<rparr>"
  have intent: "calls_open tid sids u \<Longrightarrow> calls_open tid sids (?intent u\<lparr>k_lives := n\<rparr>) \<and>
      call_ok (tid, s_id st, journal_of (?intent u\<lparr>k_lives := n\<rparr>) tid)" for u :: "'a kstate" and n
    using assms(1) by (auto simp: calls_open_def calls_ok_def tickets_ok_def journal_of_update call_ok_intent)
  have call: "calls_open tid sids u \<Longrightarrow> call_ok (tid, s_id st, journal_of u tid) \<Longrightarrow>
      calls_open tid sids (snd (call_executor K st ctx u))" for u :: "'a kstate"
    using assms(2) by (auto simp: calls_open_def calls_ok_def tickets_ok_def call_executor_def Let_def split: prod.splits sum.splits)
  show "closes tid sids sids s (snd (bind (durable ?intent) (\<lambda>_. call_executor K st ctx) s))"
    using intent [of s] intent [of s "k_lives s"] call
    by (auto simp: closes_def bind_def durable_def split: option.splits nat.splits)
qed simp

lemma observation_closes:
  "steps (closes tid sids (sids - {sid})) (journal_append K KObservation tid pl (Some sid)) (\<lambda>_. True)"
  unfolding journal_append_def
proof (rule steps_seq [of "closes tid sids sids" _ "\<lambda>_. True" "closes tid sids (sids - {sid})"])
  show "steps (closes tid sids sids) (durable (\<lambda>s. s\<lparr>k_store := file_mkdir tid (k_store s)\<rparr>)) (\<lambda>_. True)"
    by (intro opened.steps_durable opened.R_mkdir)
  let ?add = "\<lambda>now (s :: 'a kstate). s\<lparr>k_journals := AList.update tid
      (append_entry (journal_of s tid) now (Some (kn_trace_id K)) KObservation tid pl (Some sid)) (k_journals s)\<rparr>"
  have add: "calls_open tid sids u \<Longrightarrow> calls_open tid (sids - {sid}) (?add now u\<lparr>k_lives := n\<rparr>)" for u :: "'a kstate" and n now
    by (auto simp: calls_open_def calls_ok_def tickets_ok_def journal_of_update)
  have "steps (closes tid sids (sids - {sid})) (durable (?add now)) (\<lambda>_. True)" for now
  proof (rule stepsI)
    show "closes tid sids (sids - {sid}) s (snd (durable (?add now) s))" for s
      using add [of s _ now] add [of s "k_lives s" now]
      by (auto simp: closes_def durable_def split: option.splits nat.splits) (auto simp: calls_open_def)
  qed simp
  then show "steps (closes tid sids (sids - {sid})) (bind (clock_now K) (\<lambda>now. durable (?add now))) (\<lambda>_. True)"
    by (intro steps_seq [OF opened.steps_clock [of tid sids], where Q = "closes tid sids (sids - {sid})"])
      (auto simp: closes_def calls_open_def)
qed (auto simp: closes_def calls_open_def)

lemma observe_step_closes:
  assumes "s_id st \<in> sids" "t_id t = tid"
  shows "steps (closes tid sids (sids - {s_id st})) (observe_step K t st resumed) (\<lambda>_. True)"
proof -
  let ?ctx = "\<lparr>ec_ticket_id = t_id t, ec_job_id = j_id (t_job t), ec_agent = t_agent t,
             ec_user = t_user t, ec_trace_id = Some (kn_trace_id K)\<rparr>"
  have call: "steps (closes tid sids sids)
      (bind (journal_append K KIntent tid pl (Some (s_id st))) (\<lambda>_. call_executor K st ?ctx)) (\<lambda>_. True)" for pl
    unfolding journal_append_def bind_assoc
    by (intro opened.steps_bind_any opened.steps_durable opened.R_mkdir opened.steps_clock intent_then_call)
      (use assms in simp_all)
  have observe: "steps (closes tid sids (sids - {s_id st}))
      (bind (journal_append K KObservation tid pl (Some (s_id st))) (\<lambda>_. ret obs)) (\<lambda>_. True)" for pl obs
    by (rule steps_seq [OF observation_closes, where Q = "closes tid (sids - {s_id st}) (sids - {s_id st})"])
      (auto intro: opened.steps_ret closes_trans)
  show ?thesis
    unfolding observe_step_def
    unfolding bind_assoc [symmetric]
    unfolding assms(2)
    by (rule steps_seq [OF call [unfolded assms(2)] observe [unfolded bind_assoc]])
      (auto simp: closes_def calls_open_def)
qed

lemma perform_closes:
  assumes "ticket_ok t" "s_id st \<in> sids" "t_id t = tid"
  shows "steps (closes tid sids (sids - {s_id st})) (perform K t st resumed) (\<lambda>(t', failed). ticket_ok t')"
proof (rule calm.steps_perform_via)
  show "steps (closes tid sids (sids - {s_id st})) (observe_step K t' st resumed) (\<lambda>_. True)"
    if "ticket_core t' = ticket_core t" for t'
    using assms core_id [OF that] by (intro observe_step_closes) auto
qed (use assms in \<open>auto simp: calm_def closes_def calls_open_def keeps_def quiet_def\<close>)

lemma restore_closes:
  assumes "ticket_ok t"
  shows "steps (closes tid sids sids) (restore_from_journal K t r pl) ticket_ok"
  by (rule opened.steps_restore) (rule assms)

text \<open>ACT calls the executor for steps that had no observation when it started, each once.\<close>

lemma act_loop_closes:
  assumes "distinct (map s_id sts)" "ticket_ok t" "t_id t = tid"
  shows "steps (closes tid (s_id ` set (unobserved completed sts)) {})
    (act_loop K completed interrupted sts t) (\<lambda>(t', stopped). ticket_ok t')"
  using assms
proof (induction sts arbitrary: t)
  case (Cons st sts)
  let ?S = "s_id ` set (unobserved completed sts)"
  let ?go = "act_loop K completed interrupted sts"
  have st: "s_id st \<notin> ?S" using Cons.prems(1) by (auto simp: unobserved_def)
  have go: "steps (closes tid ?S {}) (?go t') (\<lambda>(t', stopped). ticket_ok t')"
    if "ticket_ok t'" "t_id t' = tid" for t'
    using Cons.IH Cons.prems(1) that by simp
  have restore: "steps (closes tid ?S {}) (bind (restore_from_journal K t r pl) ?go) (\<lambda>(t', stopped). ticket_ok t')" for r pl
    by (rule steps_seq [OF steps_conj [OF opened.steps_restore [of t tid ?S] restore_core], where Q = "closes tid ?S {}"])
      (use Cons.prems go in \<open>auto dest: core_id simp: closes_def calls_open_def\<close>)
  have stop: "steps (closes tid ?S {}) (ret (t', True) :: ('a, ticket \<times> bool) kprog) (\<lambda>(t', stopped). ticket_ok t')" if "ticket_ok t'" for t'
    using that by (simp add: steps_def prog_defs closes_def calls_open_def)
  have perform: "steps (closes tid (insert (s_id st) ?S) {}) (bind (perform K t st b) (\<lambda>(t', failed).
      if failed then ret (t', True) else ?go t')) (\<lambda>(t', stopped). ticket_ok t')" for b
  proof (rule steps_seq)
    show "steps (closes tid (insert (s_id st) ?S) ?S) (perform K t st b) (\<lambda>x. ticket_ok (fst x) \<and> t_id (fst x) = tid)"
      using steps_conj [OF perform_closes [of t st "insert (s_id st) ?S" tid K b] perform_core] Cons.prems(2,3) st
      by (auto elim!: steps_weaken dest: core_id)
    show "steps (closes tid ?S {}) (case x of (t', failed) \<Rightarrow> if failed then ret (t', True) else ?go t') (\<lambda>(t', stopped). ticket_ok t')"
      if "ticket_ok (fst x) \<and> t_id (fst x) = tid" for x
      using that go stop by (cases x) simp
  qed (auto simp: closes_def calls_open_def)
  have weaker: "closes tid ?S {} s s' \<Longrightarrow> closes tid (insert (s_id st) ?S) {} s s'" for s s' :: "'a kstate"
    by (simp add: closes_def calls_open_def)
  show ?case
    using Cons.prems go [of t] restore perform weaker
    by (auto simp: unobserved_Cons steps_def raise_def ret_def split: option.splits)
      (auto simp: closes_def calls_open_def)
qed (simp add: steps_def prog_defs closes_def calls_open_def)

lemma act_keeps_calls: "ticket_ok t \<Longrightarrow> steps (keeps calls_ok) (act K t) (\<lambda>(t', stopped). ticket_ok t')"
proof (cases "t_plan t")
  case (Some p)
  assume ok: "ticket_ok t"
  then have ids: "distinct (map s_id (p_steps p))" using Some by (simp add: ticket_ok_def plan_ids_ok_def)
  have loop: "steps (closes (t_id t) (s_id ` set (unobserved c (p_steps p))) {})
      (act_loop K c i (p_steps p) t) (\<lambda>(t', stopped). ticket_ok t')" for c i
    by (rule act_loop_closes [OF ids ok refl])
  have start: "calls_ok s \<Longrightarrow> calls_open (t_id t) (s_id ` set (unobserved (completed_steps (journal_of s (t_id t))) (p_steps p))) s" for s
    by (auto simp: calls_open_def unobserved_def)
  show ?thesis
  proof (rule stepsI)
    show "keeps calls_ok s (snd (act K t s))" for s
      using loop [of "completed_steps (journal_of s (t_id t))"] start [of s] Some
      by (auto simp: act_def steps_def closes_def calls_open_def keeps_def bind_def gets_def)
    show "fst (act K t s) = Ret x \<Longrightarrow> case x of (t', stopped) \<Rightarrow> ticket_ok t'" for s x
      using loop [of "completed_steps (journal_of s (t_id t))"] Some
      by (auto simp: act_def steps_def bind_def gets_def)
  qed
qed (simp add: act_def keeps.steps_raise)

interpretation calls: kernel_acts "keeps calls_ok" ticket_ok plan_ids_ok
  by unfold_locales (rule act_keeps_calls)

interpretation calls: kernel_invariant calls_ok ticket_ok plan_ids_ok
  by unfold_locales (auto simp: calls_ok_def tickets_ok_def initial_state_def file_load_def)

end
