(* ===== verification/Progress.thy ===== *)
theory Progress
  imports Safety
begin

text \<open>
  What a kernel that is not killed brings about. A kernel works when its executor, its hook and its root-cause pipeline do not raise.
  Then a ticket that may act reaches \<open>Done\<close> or \<open>Needs_review\<close>, whatever an
  earlier process left behind.
\<close>

section \<open>The writes return\<close>

definition healthy :: "'w kstate \<Rightarrow> bool" where
  "healthy s \<longleftrightarrow> k_lives s = None \<and> seq_ok (fs_sequence (k_store s)) \<and> journals_ok s"

lemma seq_store [simp]:
  "fs_sequence (file_mkdir i st) = fs_sequence st" "fs_sequence (file_save t st) = fs_sequence st"
  by (simp_all add: file_mkdir_def file_save_def split: option.splits)

lemma seq_ok_next: "seq_ok (fs_sequence st) \<Longrightarrow> seq_ok (fs_sequence (snd (file_next_ticket_id a st)))"
  by (simp add: file_next_ticket_id_def Let_def seq_ok_update)

lemma healthy_fields [simp]:
  "healthy (s\<lparr>k_ticks := b\<rparr>) = healthy s" "healthy (s\<lparr>k_metrics := c\<rparr>) = healthy s"
  "healthy (s\<lparr>k_files := d\<rparr>) = healthy s" "healthy (s\<lparr>k_index := e\<rparr>) = healthy s"
  "healthy (s\<lparr>k_world := g, k_executed := h\<rparr>) = healthy s"
  by (simp_all add: healthy_def journals_ok_def)

lemma returns_durable: "(\<And>s. healthy s \<Longrightarrow> healthy (f s)) \<Longrightarrow> returns healthy (durable f) (\<lambda>_. True)"
  by (auto simp: returns_def durable_def healthy_def)

lemma returns_clock: "returns healthy (clock_now K) (\<lambda>_. True)"
  unfolding clock_now_def by (intro returns_bind_any returns_gets returns_modify returns_ret) simp_all

lemma returns_journal:
  "(kind = KObservation \<longrightarrow> (\<exists>obs. pl = PObservation obs)) \<Longrightarrow> returns healthy (journal_append K kind i pl sid) (\<lambda>_. True)"
  unfolding journal_append_def
  apply (intro returns_bind_any returns_durable returns_clock)
   apply (simp add: healthy_def journals_ok_def)
  apply (simp add: healthy_def journals_ok_append)
  done

lemma returns_save: "returns healthy (store_save t) (\<lambda>_. True)"
  unfolding store_save_def by (intro returns_durable) (simp add: healthy_def journals_ok_def)

lemma returns_next_id: "returns healthy (next_ticket_id a) (\<lambda>_. True)"
proof -
  have "\<exists>i. fst (file_next_ticket_id a (k_store s)) = Inr i" if "healthy s" for s :: "'a kstate"
    using that make_next_total by (auto simp: healthy_def file_next_ticket_id_def Let_def)
  then have "returns healthy (gets (\<lambda>s :: 'a kstate. fst (file_next_ticket_id a (k_store s)))) (\<lambda>r. \<exists>i. r = Inr i)"
    by (intro returns_gets)
  then show ?thesis
    unfolding next_ticket_id_def
    by (rule returns_bind)
      (auto intro!: returns_bind_any returns_durable returns_lift simp: healthy_def seq_ok_next journals_ok_def)
qed

lemma returns_write_file: "returns healthy (write_file path text) (\<lambda>_. True)"
  unfolding write_file_def by (intro returns_durable) simp

lemma returns_metrics:
  "returns healthy (metric_inc n ls) (\<lambda>_. True)" "returns healthy (metric_add_gauge n d ls) (\<lambda>_. True)"
  "returns healthy (metric_observe n d ls) (\<lambda>_. True)"
  unfolding metric_inc_def metric_add_gauge_def metric_observe_def by (intro returns_modify; simp)+

lemma returns_record_bug: "returns healthy (record_bug fp i w) (\<lambda>_. True)"
  unfolding record_bug_def by (intro returns_durable) simp

lemmas write_returns = returns_clock returns_journal returns_save returns_next_id returns_write_file returns_metrics
  returns_record_bug

lemma returns_transition_to:
  assumes "can_transition (t_state t) target" "reason \<noteq> []"
  shows "returns healthy (transition_to K t target reason)
    (\<lambda>t'. t_id t' = t_id t \<and> t_user t' = t_user t \<and> t_plan t' = t_plan t \<and> t_steps t' = t_steps t \<and> t_findings t' = t_findings t \<and> t_state t' = target)"
proof -
  have "returns healthy (lift SchemaError (transition target now reason t) :: ('a, _) kprog) (\<lambda>_. True)" for now
    using transition_ok [OF assms] by (auto intro: returns_lift)
  then have "returns healthy (transition_to K t target reason) (\<lambda>_. True)"
    unfolding transition_to_def
    by (intro returns_bind_any returns_clock)
      (auto intro!: returns_bind_any write_returns returns_ret split: prod.splits)
  then show ?thesis
    by (rule returns_weaken [OF returns_steps [OF _ transition_to_core]]) simp
qed


text \<open>Every reachable state, given a process that is not killed, is healthy.\<close>

abbreviation sequences_ok :: "'w kstate \<Rightarrow> bool" where
  "sequences_ok s \<equiv> seq_ok (fs_sequence (k_store s))"

interpretation sequences: kernel_writes "keeps sequences_ok" "\<lambda>_. True" "\<lambda>_. True"
  by unfold_locales (auto simp: keeps_def seq_ok_next)

interpretation sequences: kernel_performs "keeps sequences_ok" "\<lambda>_. True" "\<lambda>_. True"
  by unfold_locales (rule sequences.steps_observe_blind, auto simp: keeps_def)

interpretation sequences: kernel_invariant sequences_ok "\<lambda>_. True" "\<lambda>_. True"
  by unfold_locales (auto simp: initial_state_def seq_ok_def)

lemma reached_healthy:
  assumes "reached Ks s"
  shows "healthy (s\<lparr>k_lives := None\<rparr>)"
proof -
  have "plans_ok (\<lambda>_. True) K" for K :: "'a kernel" by (simp add: plans_ok_def)
  then have "sequences_ok s" "journals_ok s"
    using assms sequences.reached_invariant journals.reached_invariant by blast+
  then show ?thesis by (simp add: healthy_def journals_ok_def)
qed


section \<open>The collaborators\<close>

definition drafter_speaks :: "rca_pipeline \<Rightarrow> bool" where
  "drafter_speaks p \<longleftrightarrow> (\<forall>rq d. rp_drafter p rq = Inr d \<longrightarrow> first_sentence (dr_cause d) \<noteq> [])"

definition kernel_works :: "'w kernel \<Rightarrow> bool" where
  "kernel_works K \<longleftrightarrow> (\<forall>st ctx w. \<exists>obs w'. kn_execute K st ctx w = (Inr obs, w'))
     \<and> (\<forall>hook t st. kn_after_step K = Some hook \<longrightarrow> hook t st = None)
     \<and> (\<forall>p. kn_rca_pipeline K = Some p \<longrightarrow> drafter_speaks p)"

lemma speaking_drafter_analysed: "drafter_speaks p \<Longrightarrow> \<exists>r. analyse p t = Inr r"
  by (rule analyse_total) (auto simp: drafter_speaks_def)

lemma returns_executor: "kernel_works K \<Longrightarrow> returns healthy (call_executor K st ctx) (\<lambda>_. True)"
  unfolding returns_def call_executor_def kernel_works_def Let_def
  by (auto split: prod.splits sum.splits) (metis Inl_Inr_False prod.inject)

lemma bug_title_ok: "1 \<le> py_len (bug_title f) \<and> py_len (bug_title f) \<le> 200"
proof -
  obtain r where "headline f = CHR ''['' # r" by (simp add: headline_def)
  moreover have "\<not> is_cont (CHR ''['')" by (simp add: is_cont_def of_char_def)
  ultimately have "1 \<le> py_len (headline f)" by (simp add: py_len_def)
  then show ?thesis by (auto simp: bug_title_def)
qed

lemma child_job_ok: "t_user t \<noteq> [] \<Longrightarrow> job_ok (child_job t f now)"
  using bug_title_ok [of f] by (simp add: job_ok_def child_job_def)


section \<open>The methods return\<close>

lemma returns_perform:
  assumes "kernel_works K"
  shows "returns healthy (perform K t st resumed) (\<lambda>(t', failed). ticket_core t' = ticket_core t)"
proof -
  have hook: "returns healthy ((case kn_after_step K of None \<Rightarrow> ret () | Some hook \<Rightarrow>
      (case hook t' st of None \<Rightarrow> ret () | Some e \<Rightarrow> raise (HookRaised e))) :: ('a, unit) kprog) (\<lambda>_. True)" for t'
    using assms by (auto simp: kernel_works_def intro: returns_ret split: option.splits)
  have "returns healthy (perform K t st resumed) (\<lambda>_. True)"
    unfolding perform_def Let_def
    by (intro returns_bind_any write_returns returns_executor [OF assms] hook returns_ret) simp_all
  then show ?thesis
    by (rule returns_weaken [OF returns_steps [OF _ perform_core]]) simp
qed

lemma returns_restore:
  assumes "t_plan t = Some p" "r_step_id r \<in> set (map s_id (p_steps p))" "\<exists>obs. pl = PObservation obs"
  shows "returns healthy (restore_from_journal K t r pl) (\<lambda>t'. ticket_core t' = ticket_core t)"
proof -
  have "\<exists>st. plan_step p (r_step_id r) = Inr st"
    using assms(2) find_key_None [of s_id "r_step_id r" "p_steps p"] by (auto simp: plan_step_def split: option.splits)
  then have "returns healthy (restore_from_journal K t r pl) (\<lambda>_. True)"
    using assms by (auto simp: restore_from_journal_def Let_def split: option.splits
        intro!: returns_bind_any returns_clock returns_ret returns_lift)
  then show ?thesis
    by (rule returns_weaken [OF returns_steps [OF _ restore_core]]) simp
qed

text \<open>The observations ACT restores from are those of the journal.\<close>

definition restorable :: "(string, journal_entry) dict \<Rightarrow> bool" where
  "restorable completed \<longleftrightarrow> (\<forall>i e. map_of completed i = Some e \<longrightarrow> (\<exists>obs. je_payload e = PObservation obs))"

lemma completed_restorable: "journals_ok s \<Longrightarrow> restorable (completed_steps (journal_of s tid))"
  by (fastforce simp: restorable_def journals_ok_def list_all_iff entry_ok_def dest!: completed_steps_Some)

lemma find_record_core:
  "ticket_core t' = ticket_core t \<Longrightarrow> find_record t' i = None \<longleftrightarrow> find_record t i = None"
  by (simp add: ticket_core_def find_record_def find_key_None) (metis set_map)

lemma returns_act_loop:
  assumes "kernel_works K" "restorable completed" "t_plan t = Some p"
    and "map r_step_id (t_steps t) = map s_id (p_steps p)" "set sts \<subseteq> set (p_steps p)"
  shows "returns healthy (act_loop K completed interrupted sts t) (\<lambda>(t', stopped). ticket_core t' = ticket_core t)"
  using assms(3-)
proof (induction sts arbitrary: t)
  case (Cons st sts)
  have "s_id st \<in> set (map r_step_id (t_steps t))" using Cons.prems by auto
  then obtain r where r: "find_record t (s_id st) = Some r" "r_step_id r = s_id st"
    using find_key_None [of r_step_id "s_id st" "t_steps t"] find_Some_in
    by (fastforce simp: find_record_def)
  have go: "returns healthy (act_loop K completed interrupted sts t') (\<lambda>(t', stopped). ticket_core t' = ticket_core t)"
    if "ticket_core t' = ticket_core t" for t'
    using Cons.IH [of t'] Cons.prems that by (simp add: ticket_core_def)
  have restore: "returns healthy (restore_from_journal K t r (je_payload e)) (\<lambda>t'. ticket_core t' = ticket_core t)"
    if "map_of completed (s_id st) = Some e" for e
    using Cons.prems r(2) assms(2) that by (intro returns_restore) (auto simp: restorable_def)
  show ?case
    using r go restore by (auto intro!: returns_ret returns_bind [OF returns_perform [OF assms(1)]] returns_bind [OF restore] split: option.splits)
qed (simp add: returns_ret)

lemma returns_act:
  assumes "kernel_works K" "ticket_ok t" "t_plan t \<noteq> None"
  shows "returns healthy (act K t) (\<lambda>(t', stopped). ticket_core t' = ticket_core t)"
proof -
  obtain p where p: "t_plan t = Some p" using assms(3) by blast
  have ids: "map r_step_id (t_steps t) = map s_id (p_steps p)" using assms(2) p by (simp add: ticket_ok_def)
  have "returns healthy (gets (\<lambda>s. journal_of s (t_id t)) :: ('a, journal) kprog) (\<lambda>j. restorable (completed_steps j))"
    by (rule returns_gets) (simp add: healthy_def completed_restorable)
  then show ?thesis
    unfolding act_def using p ids
    by (auto intro!: returns_bind [OF \<open>returns healthy (gets _) _\<close>] returns_act_loop [OF assms(1)])
qed

lemma returns_run_rca:
  assumes "kernel_works K"
  shows "returns healthy (run_rca K t) (\<lambda>(t', vs). ticket_core t' = ticket_core t)"
proof -
  have "returns healthy (lift SchemaError (analyse p t) :: ('a, rca_result) kprog) (\<lambda>_. True)"
    if "kn_rca_pipeline K = Some p" for p
  proof -
    have "drafter_speaks p" using assms that by (simp add: kernel_works_def)
    then obtain r where "analyse p t = Inr r" using speaking_drafter_analysed by blast
    then show ?thesis by (auto intro: returns_lift)
  qed
  then show ?thesis
    unfolding run_rca_def Let_def
    by (auto split: option.splits intro!: returns_bind_any write_returns returns_ret)
qed

lemma returns_spawn_one: "t_user t \<noteq> [] \<Longrightarrow> returns healthy (spawn_one K t vs f acc) (\<lambda>_. True)"
  unfolding spawn_one_def
  by (auto split: option.splits intro!: returns_bind_any write_returns returns_ret returns_gets simp: child_job_ok)

lemma returns_spawn_loop: "t_user t \<noteq> [] \<Longrightarrow> returns healthy (spawn_loop K t vs fs acc) (\<lambda>_. True)"
  by (induction fs arbitrary: acc) (auto intro!: returns_bind_any returns_ret returns_spawn_one)

lemma returns_spawn: "t_user t \<noteq> [] \<Longrightarrow> returns healthy (spawn_bug_tickets K t vs) (\<lambda>(t', is). ticket_core t' = ticket_core t)"
  unfolding spawn_bug_tickets_def default_routing_ok
  by (auto intro!: returns_bind_any returns_lift [OF refl] returns_spawn_loop returns_ret)

lemma review_reason_nonempty: "review_reason t \<noteq> []"
  by (simp add: review_reason_def)

text \<open>The ticket closes as its steps and findings say.\<close>

definition closes_as :: "ticket \<Rightarrow> bool" where
  "closes_as t \<longleftrightarrow> t_state t = (if list_ex (\<lambda>r. r_status r = StepFailed) (t_steps t) \<or> t_findings t \<noteq> []
     then Needs_review else Done)"

lemma returns_analyse_and_close:
  assumes "kernel_works K" "t_user t \<noteq> []" "t_state t = Analysing"
  shows "returns healthy (analyse_and_close K t) (\<lambda>t'. t_state t' = Needs_review \<or> t_state t' = Done)"
proof -
  have collect: "returns healthy (collect_logs t d :: ('a, log_bundle) kprog) (\<lambda>_. True)" for d
    unfolding collect_logs_def Let_def by (intro returns_bind_any write_returns returns_ret TrueI)
  have close: "returns healthy (transition_to K u target reason) (\<lambda>t'. t_state t' = target)"
    if "t_state u = Analysing" "target = Needs_review \<or> target = Done" "reason \<noteq> []" for u target reason
    using that by (intro returns_weaken [OF returns_transition_to]) (auto simp: transition_tables)
  show ?thesis
    unfolding analyse_and_close_def Let_def
    apply (rule returns_bind_any [OF collect])
    apply (rule returns_bind_any, rule returns_journal, simp)
    apply (rule returns_bind [OF returns_run_rca [OF assms(1)]], clarsimp)
    apply (rule returns_bind [OF returns_spawn], use assms(2) in \<open>simp add: ticket_core_def\<close>, clarsimp)
    apply (intro returns_bind_any write_returns conjI impI, auto intro!: write_returns returns_ret) []
      apply (auto intro!: returns_weaken [OF close] simp: review_reason_nonempty ticket_core_def assms(3))
    done
qed

lemma analyse_and_close_verdict: "steps (\<lambda>_ _. True) (analyse_and_close K t) closes_as"
proof -
  have close: "steps (\<lambda>_ _. True) (transition_to K u target reason) closes_as"
    if "target = (if list_ex (\<lambda>r. r_status r = StepFailed) (t_steps u) \<or> t_findings u \<noteq> [] then Needs_review else Done)"
    for u target reason
    by (rule steps_weaken [OF transition_to_core]) (use that in \<open>simp add: closes_as_def\<close>)
  show ?thesis
    unfolding analyse_and_close_def Let_def
    by (rule any.steps_bind_any [OF steps_any], rule any.steps_bind_any [OF steps_any])
      (auto split: prod.splits intro!: any.steps_bind_any steps_any close)
qed

lemma returns_act_and_close:
  assumes "kernel_works K" "ticket_ok t" "t_user t \<noteq> []" "t_state t = Approved \<or> t_state t = Running"
  shows "returns healthy (act_and_close K t) closes_as"
proof -
  have plan: "t_plan t \<noteq> None" using assms(2,4) by (auto simp: ticket_ok_def)
  have start: "returns healthy (if t_state t = Approved then transition_to K t Running ''Starting the steps.'' else ret t)
      (\<lambda>t'. t_state t' = Running \<and> t_user t' = t_user t \<and> t_plan t' = t_plan t \<and> ticket_ok t')"
  proof -
    have "returns healthy (transition_to K t Running ''Starting the steps.'')
        (\<lambda>t'. t_state t' = Running \<and> t_user t' = t_user t \<and> t_plan t' = t_plan t \<and> ticket_ok t')"
      if "t_state t = Approved"
    proof -
      have "returns healthy (transition_to K t Running ''Starting the steps.'') (\<lambda>t'. t_id t' = t_id t
          \<and> t_user t' = t_user t \<and> t_plan t' = t_plan t \<and> t_steps t' = t_steps t \<and> t_findings t' = t_findings t \<and> t_state t' = Running)"
        using that by (intro returns_transition_to) (auto simp: transition_tables)
      moreover have "steps (\<lambda>_ _. True) (transition_to K t Running ''Starting the steps.'') ticket_ok"
        by (rule steps_drop [OF tickets.steps_transition_to]) (use assms(2) in simp_all)
      ultimately show ?thesis by (rule returns_weaken [OF returns_steps]) simp
    qed
    then show ?thesis using assms by (auto intro: returns_ret)
  qed
  have close: "returns healthy (bind (transition_to K u Analysing reason) (analyse_and_close K)) closes_as"
    if "t_state u = Running" "t_user u \<noteq> []" "reason \<noteq> []" for u reason
    using that assms(1)
    by (intro returns_bind [OF returns_transition_to] returns_weaken [OF returns_steps [OF returns_analyse_and_close
          analyse_and_close_verdict]]) (auto simp: transition_tables)
  show ?thesis
    unfolding act_and_close_def
    by (rule returns_bind [OF start], rule returns_bind [OF returns_act])
      (use assms plan in \<open>auto intro!: close simp: ticket_core_def split: prod.splits\<close>)
qed

definition resumable :: "ticket \<Rightarrow> bool" where
  "resumable t \<longleftrightarrow> t_state t \<in> {Planned, Approved, Running, Analysing} \<and> (t_state t = Planned \<longrightarrow> pending_approvals t = [])"

lemma returns_resume_ticket:
  assumes "kernel_works K" "ticket_ok t" "t_user t \<noteq> []" "resumable t"
  shows "returns healthy (resume_ticket K t) closes_as"
proof (cases "t_state t = Planned")
  case True
  have approve: "returns healthy (transition_to K t Approved ''Every destructive step was approved.'')
      (\<lambda>t'. (t_user t' = t_user t \<and> t_state t' = Approved) \<and> ticket_ok t')"
    by (rule returns_steps [OF returns_weaken [OF returns_transition_to] steps_drop [OF tickets.steps_transition_to]])
      (use True assms(2) in \<open>auto simp: transition_tables\<close>)
  show ?thesis
    using True assms unfolding resume_ticket_def
    by (auto simp: finished_def TERMINAL_STATES_def resumable_def intro!: returns_bind [OF approve] returns_act_and_close)
next
  case False
  then show ?thesis
    using assms unfolding resume_ticket_def
    by (auto simp: finished_def TERMINAL_STATES_def resumable_def intro!: returns_act_and_close
        returns_weaken [OF returns_steps [OF returns_analyse_and_close analyse_and_close_verdict]])
qed


section \<open>Running a job\<close>

text \<open>The job the agent makes of the input, and the plan the kernel gets for it, past the skill gate.\<close>

definition planned :: "'w kernel \<Rightarrow> raw_input \<Rightarrow> job \<Rightarrow> plan \<Rightarrow> bool" where
  "planned K raw job p \<longleftrightarrow> ag_ingest (kn_agent K) raw = Inr job \<and>
     (\<exists>p0. ag_plan (kn_agent K) job = Inr p0 \<and>
       (case kn_skill_gate K of None \<Rightarrow> p = p0 | Some expand \<Rightarrow> expand p0 (ag_name (kn_agent K)) = Inr p))"

definition ticket_of :: "job \<Rightarrow> ticket \<Rightarrow> bool" where
  "ticket_of job t \<longleftrightarrow> fresh_ticket t \<and> t_job t = job \<and> t_user t = j_user job \<and> t_approvals t = []"

lemma returns_create: "returns healthy (create_ticket K job) (ticket_of job)"
  unfolding create_ticket_def Let_def
  by (intro returns_bind_any write_returns returns_ret) (simp add: ticket_of_def fresh_ticket_def)

lemma create_ticket_of: "steps (\<lambda>_ _. True) (create_ticket K job) (ticket_of job)"
  unfolding create_ticket_def Let_def
  by (intro any.steps_bind_any steps_any any.steps_ret) (simp add: ticket_of_def fresh_ticket_def)

text \<open>A run is the creation of the ticket followed by the plan.\<close>

lemma run_planned:
  assumes "planned K raw job p"
  shows "run K raw = bind (create_ticket K job) (\<lambda>t.
     bind (journal_append K KState (t_id t) (PIngested (t_state t)) None) (\<lambda>_.
     bind (metric_add_gauge ''slas_tickets_in_state'' 1 [agent_value (t_agent t), state_value (t_state t)]) (\<lambda>_.
     continue_plan K t p)))"
proof -
  have lift_Inr: "lift f (Inr x) = ret x" for f :: "string \<Rightarrow> kernel_error" and x :: 'c
    by (rule ext) (simp add: prog_defs)
  show ?thesis
    using assms by (cases "kn_skill_gate K") (auto simp: run_def planned_def lift_Inr)
qed

lemma returns_check_plan: "returns healthy (check_plan_votes K t p) (\<lambda>t'. ticket_core t' = ticket_core t)"
  unfolding check_plan_votes_def Let_def
  by (auto split: option.splits intro!: returns_bind_any write_returns returns_ret)

lemma attach_plan_Inr:
  "p_job_id p = j_id (t_job t) \<Longrightarrow>
   attach_plan t p = Inr (t\<lparr>t_plan := Some p, t_steps := map new_record (p_steps p)\<rparr>)"
  by (simp add: attach_plan_def)

lemma returns_planned:
  assumes "ticket_of job t" "p_job_id p = j_id job" "plan_ids_ok p"
  shows "returns healthy (bind (lift id (attach_plan t p)) (\<lambda>t1. bind (check_plan_votes K t1 p) (\<lambda>t2.
     transition_to K t2 Planned (plan_sentence p))))
     (\<lambda>t'. t_state t' = Planned \<and> t_user t' = j_user job \<and> t_plan t' = Some p \<and> ticket_ok t')"
proof -
  let ?t1 = "t\<lparr>t_plan := Some p, t_steps := map new_record (p_steps p)\<rparr>"
  have ok: "ticket_ok ?t1" using assms(1,3) by (intro ticket_ok_plan ticket_ok_fresh) (auto simp: ticket_of_def)
  have t1: "t_state ?t1 = Open" "t_user ?t1 = j_user job" using assms(1) by (auto simp: ticket_of_def fresh_ticket_def)
  have go: "returns healthy (transition_to K t2 Planned (plan_sentence p))
      (\<lambda>t'. (t_state t' = Planned \<and> t_user t' = j_user job \<and> t_plan t' = Some p) \<and> ticket_ok t')"
    if c: "ticket_core t2 = ticket_core ?t1" for t2
  proof (rule returns_steps [OF returns_weaken [OF returns_transition_to] steps_drop [OF tickets.steps_transition_to]])
    show "ticket_ok t2" using ok c by (rule ticket_ok_core)
  qed (use c t1 in \<open>auto simp: ticket_core_def transition_tables plan_sentence_nonempty\<close>)
  have "p_job_id p = j_id (t_job t)" using assms(1,2) by (simp add: ticket_of_def)
  then show ?thesis
    by (auto simp: attach_plan_Inr intro!: returns_bind [OF returns_lift [OF refl, where Q = "\<lambda>x. x = ?t1"]]
        returns_bind [OF returns_check_plan] returns_weaken [OF go])
qed

lemma continue_plan_split:
  "continue_plan K t p = bind (bind (lift id (attach_plan t p)) (\<lambda>t1. bind (check_plan_votes K t1 p) (\<lambda>t2.
     transition_to K t2 Planned (plan_sentence p)))) (\<lambda>t3.
     if destructive p then request_approvals K t3 p
     else bind (transition_to K t3 Approved ''No step needs approval.'') (act_and_close K))"
  by (simp add: continue_plan_def bind_assoc)

lemma returns_run:
  assumes "planned K raw job p" "p_job_id p = j_id job" "plan_ids_ok p" "\<not> destructive p" "j_user job \<noteq> []" "kernel_works K"
  shows "returns healthy (run K raw) closes_as"
proof -
  have approve: "returns healthy (transition_to K t Approved ''No step needs approval.'')
      (\<lambda>t'. (t_user t' = t_user t \<and> t_state t' = Approved) \<and> ticket_ok t')" if "t_state t = Planned" "ticket_ok t" for t
    by (rule returns_steps [OF returns_weaken [OF returns_transition_to] steps_drop [OF tickets.steps_transition_to]])
      (use that in \<open>auto simp: transition_tables\<close>)
  have "returns healthy (continue_plan K t p) closes_as" if "ticket_of job t" for t
    unfolding continue_plan_split
    by (rule returns_bind [OF returns_planned [OF that assms(2,3)]])
      (use assms(4-) in \<open>auto intro!: returns_bind [OF approve] returns_act_and_close\<close>)
  then show ?thesis
    unfolding run_planned [OF assms(1)]
    by (intro returns_bind [OF returns_create] returns_bind_any write_returns) simp_all
qed


section \<open>Approvals\<close>

lemma transition_quiet: "steps quiet (transition_to K t target reason) (\<lambda>_. True)"
  unfolding transition_to_def
  by (intro quiet.steps_bind_any quiet.steps_clock quiet.steps_lift)
    (auto split: prod.splits intro!: quiet.steps_bind_any quiet.write_steps quiet.steps_ret)

lemma run_destructive_quiet:
  assumes "planned K raw job p" "destructive p"
  shows "steps quiet (run K raw) (\<lambda>_. True)"
proof -
  have "steps quiet (continue_plan K t p) (\<lambda>_. True)" for t
    unfolding continue_plan_split using assms(2)
    by (auto intro!: quiet.steps_bind_any quiet.steps_lift steps_weaken [OF quiet.steps_check_plan]
        transition_quiet quiet.steps_request_approvals)
  then show ?thesis
    unfolding run_planned [OF assms(1)]
    by (intro quiet.steps_bind_any steps_weaken [OF quiet.steps_create] quiet.write_steps) simp_all
qed

text \<open>The approvals a ticket asks for: one per destructive step, all pending.\<close>

definition awaits :: "plan \<Rightarrow> ticket \<Rightarrow> bool" where
  "awaits p t \<longleftrightarrow> t_state t = Planned \<and> pending_approvals t = t_approvals t
     \<and> map ap_step_id (t_approvals t) = map s_id (destructive_steps p)"

lemma request_approvals_Ret:
  assumes "request_approvals K t p s = (Ret t', s')" "t_state t = Planned"
  shows "awaits p t' \<and> file_load (k_store s') (t_id t') = Some t'"
proof -
  have "file_load (k_store s1) (t_id u) = Some u" if "store_save u s0 = (Ret (), s1)" for u and s0 s1 :: "'a kstate"
    using that by (auto simp: store_save_def durable_def files.load_save split: option.splits nat.splits)
  then show ?thesis
    using assms by (auto simp: request_approvals_def Let_def bind_eq_Ret ret_def awaits_def pending_approvals_def
        filter_map comp_def ap_pending_def intro!: filter_True)
qed

lemma run_destructive_Ret:
  assumes "planned K raw job p" "destructive p" "run K raw s = (Ret t, s')"
  shows "awaits p t \<and> file_load (k_store s') (t_id t) = Some t"
proof -
  have planned: "t_state u = Planned" if "transition_to K v Planned r s0 = (Ret u, s1)" for u v r s0 s1
    using steps_ret_value [OF transition_to_core that] by simp
  obtain u s1 where "request_approvals K u p s1 = (Ret t, s')" "t_state u = Planned"
    using assms(2,3) planned unfolding run_planned [OF assms(1)] continue_plan_split
    by (auto simp: bind_eq_Ret)
  then show ?thesis by (rule request_approvals_Ret)
qed

lemma returns_run_destructive:
  assumes "planned K raw job p" "p_job_id p = j_id job" "plan_ids_ok p" "destructive p"
  shows "returns healthy (run K raw) (\<lambda>_. True)"
proof -
  have ask: "returns healthy (request_approvals K t p) (\<lambda>_. True)" for t
    unfolding request_approvals_def Let_def by (intro returns_bind_any write_returns returns_ret) simp_all
  have "returns healthy (continue_plan K t p) (\<lambda>_. True)" if "ticket_of job t" for t
    unfolding continue_plan_split using assms(4)
    by (intro returns_bind [OF returns_planned [OF that assms(2,3)]]) (simp add: ask)
  then show ?thesis
    unfolding run_planned [OF assms(1)]
    by (intro returns_bind [OF returns_create] returns_bind_any write_returns) simp_all
qed

lemma returns_approve_ticket:
  assumes "sid \<in> set (map ap_step_id (pending_approvals t))"
  shows "returns healthy (approve_ticket K t sid who why) (\<lambda>_. True)"
proof -
  have "list_ex (\<lambda>a. ap_step_id a = sid \<and> ap_pending a) (t_approvals t)"
    using assms by (auto simp: pending_approvals_def list_ex_iff)
  then show ?thesis
    unfolding approve_ticket_def Let_def
    by (simp only: if_True) (intro returns_bind_any write_returns returns_ret; simp)
qed

lemma pending_map_first:
  assumes "\<And>a. Q a \<Longrightarrow> ap_pending a" "\<And>a. Q a \<Longrightarrow> \<not> ap_pending (f a)" "list_ex Q as"
  shows "\<exists>xs a ys. filter ap_pending as = xs @ a # ys \<and> Q a \<and> (\<forall>x\<in>set xs. \<not> Q x)
    \<and> filter ap_pending (map_first Q f as) = xs @ ys"
  using assms(3)
proof (induction as)
  case (Cons b bs)
  show ?case
  proof (cases "Q b")
    case True
    then show ?thesis using assms by (intro exI [of _ "[]"]) auto
  next
    case False
    then obtain xs a ys where "filter ap_pending bs = xs @ a # ys \<and> Q a \<and> (\<forall>x\<in>set xs. \<not> Q x)
        \<and> filter ap_pending (map_first Q f bs) = xs @ ys" using Cons by auto
    then show ?thesis using False by (intro exI [of _ "if ap_pending b then b # xs else xs"]) auto
  qed
qed simp

lemma approve_Ret:
  assumes "approve_ticket K t sid who why s = (Ret t', s')"
  shows "map ap_step_id (pending_approvals t') = remove1 sid (map ap_step_id (pending_approvals t))
    \<and> sid \<in> set (map ap_step_id (pending_approvals t)) \<and> file_load (k_store s') (t_id t) = Some t'"
proof -
  have saved: "file_load (k_store s1) (t_id u) = Some u" if "store_save u s0 = (Ret (), s1)" for u and s0 s1 :: "'a kstate"
    using that by (auto simp: store_save_def durable_def files.load_save split: option.splits nat.splits)
  let ?Q = "\<lambda>a. ap_step_id a = sid \<and> ap_pending a"
  from assms obtain now where t': "t' = t\<lparr>t_approvals := map_first ?Q (decide_approval now who why) (t_approvals t)\<rparr>"
      and ex: "list_ex ?Q (t_approvals t)" and st: "file_load (k_store s') (t_id t') = Some t'"
    by (auto simp: approve_ticket_def Let_def bind_eq_Ret ret_def raise_def dest!: saved split: if_splits)
  obtain xs a ys where "pending_approvals t = xs @ a # ys" "?Q a" "\<forall>x\<in>set xs. \<not> ?Q x" "pending_approvals t' = xs @ ys"
    using pending_map_first [of ?Q "decide_approval now who why" "t_approvals t"] ex t'
    by (auto simp: pending_approvals_def decide_approval_def ap_pending_def)
  moreover have "\<forall>x\<in>set (pending_approvals t). ap_pending x" by (simp add: pending_approvals_def)
  ultimately show ?thesis using st t' by (auto simp: remove1_append)
qed


section \<open>ACT on a new ticket\<close>

definition status_of :: "ticket \<Rightarrow> string \<Rightarrow> step_status option" where
  "status_of t sid = map_option r_status (find_record t sid)"

lemma find_map_first:
  "(\<And>r. r_step_id (f r) = r_step_id r) \<Longrightarrow>
   List.find (\<lambda>r. r_step_id r = i) (map_first (\<lambda>r. r_step_id r = j) f rs) =
   (if i = j then map_option f (List.find (\<lambda>r. r_step_id r = i) rs) else List.find (\<lambda>r. r_step_id r = i) rs)"
  by (induction rs) auto

lemma status_update [simp]:
  "(\<And>r. r_step_id (f r) = r_step_id r) \<Longrightarrow> status_of (update_record j f t) i =
   (if i = j then map_option (\<lambda>r. r_status (f r)) (find_record t i) else status_of t i)"
  by (simp add: status_of_def find_record_def update_record_def find_map_first option.map_comp comp_def)

lemma find_record_update:
  "(\<And>r. r_step_id (f r) = r_step_id r) \<Longrightarrow> find_record (update_record j f t) i =
   (if i = j then map_option f (find_record t i) else find_record t i)"
  by (simp add: find_record_def update_record_def find_map_first)

lemma status_fields [simp]:
  "status_of (attach t obs) i = status_of t i" "status_of (t\<lparr>t_updated_at := a\<rparr>) i = status_of t i"
  by (simp_all add: status_of_def find_record_def attach_def)

text \<open>A step that was performed is done or failed; the other records are as before.\<close>

lemma perform_status:
  "steps (\<lambda>_ _. True) (perform K t st resumed) (\<lambda>(t', failed). \<forall>r. find_record t (s_id st) = Some r \<longrightarrow>
     status_of t' (s_id st) = Some (if failed then StepFailed else Finished) \<and>
     (\<forall>i. i \<noteq> s_id st \<longrightarrow> status_of t' i = status_of t i))"
  unfolding perform_def Let_def
  by (intro any.steps_bind_any steps_any any.steps_ret)
    (auto simp: find_record_update status_of_verdict_def)

text \<open>The executor is called exactly once by a \<open>perform\<close> that returns, for its step.\<close>

definition called_once :: "string \<Rightarrow> string \<Rightarrow> 'w kstate \<Rightarrow> 'w kstate \<Rightarrow> bool" where
  "called_once tid sid s s' \<longleftrightarrow> (\<exists>j. k_executed s' = k_executed s @ [(tid, sid, j)])"

lemma called_once_around:
  "same k_executed s t \<Longrightarrow> called_once i j t u \<Longrightarrow> called_once i j s u"
  "called_once i j s t \<Longrightarrow> same k_executed t u \<Longrightarrow> called_once i j s u"
  by (auto simp: called_once_def same_def)

lemma quiet_same: "steps quiet m A \<Longrightarrow> steps (same k_executed) m A"
  by (erule steps_mono) (simp add: quiet_def same_def)

lemma observe_step_called: "t_id t = i \<Longrightarrow> gives (called_once i (s_id st)) (observe_step K t st resumed)"
  unfolding observe_step_def
  apply (rule gives_bind [OF steps_gives [OF journal_append_executed], where Q = "called_once i (s_id st)"])
   apply (rule gives_bind [where R = "called_once i (s_id st)" and Q = "same k_executed"])
     apply (auto simp: gives_def called_once_def call_executor_def Let_def split: prod.splits sum.splits) []
    apply (intro steps_gives [where A = "\<lambda>_. True"] same.steps_bind_any journal_append_executed same.steps_ret TrueI)
   apply (erule (1) called_once_around)+
  done

lemma perform_called: "gives (called_once (t_id t) (s_id st)) (perform K t st resumed)"
  unfolding perform_split Let_def
  apply (rule gives_bind [OF steps_gives [OF quiet_same [OF quiet.steps_clock]], where Q = "called_once (t_id t) (s_id st)"])
   apply (rule gives_bind [OF steps_gives [OF quiet_same [OF quiet.steps_save]], where Q = "called_once (t_id t) (s_id st)"], rule TrueI)
    apply (rule gives_bind [OF observe_step_called, where Q = "same k_executed"], simp)
     apply (intro steps_gives [where A = "\<lambda>_. True"] quiet_same quiet.steps_bind_any quiet.write_steps quiet.steps_hook quiet.steps_ret TrueI)
    apply (erule (1) called_once_around)+
  done

text \<open>
  ACT on records that are all pending and a journal without observations: the steps run in the
  plan's order up to the first that fails; the rest stay pending.
\<close>

definition acted :: "ticket \<Rightarrow> step list \<Rightarrow> ticket \<Rightarrow> bool \<Rightarrow> step list \<Rightarrow> bool" where
  "acted t sts t' stopped ran_steps \<longleftrightarrow> (\<exists>rest. sts = ran_steps @ rest \<and> (\<not> stopped \<longrightarrow> rest = []) \<and> (stopped \<longrightarrow> ran_steps \<noteq> [])
     \<and> (\<forall>st\<in>set ran_steps. status_of t' (s_id st) = Some (if stopped \<and> st = last ran_steps then StepFailed else Finished))
     \<and> (\<forall>i. i \<notin> s_id ` set ran_steps \<longrightarrow> status_of t' i = status_of t i))"

lemma act_loop_new:
  assumes "distinct (map s_id sts)" "\<And>st. st \<in> set sts \<Longrightarrow> status_of t (s_id st) = Some Pending"
    and "\<And>st. st \<in> set sts \<Longrightarrow> map_of completed (s_id st) = None" "t_id t = i"
    and "act_loop K completed interrupted sts t s = (Ret (t', stopped), s')"
  shows "\<exists>new ran_steps. k_executed s' = k_executed s @ new \<and> map called new = map (\<lambda>st. (i, s_id st)) ran_steps
    \<and> acted t sts t' stopped ran_steps"
  using assms
proof (induction sts arbitrary: t s)
  case Nil
  then show ?case by (auto simp: ret_def acted_def)
next
  case (Cons st sts)
  obtain r where r: "find_record t (s_id st) = Some r" "r_status r = Pending"
    using Cons.prems(2) [of st] by (auto simp: status_of_def)
  have "bind (perform K t st (interrupted = Some (s_id st))) (\<lambda>(t', failed).
      if failed then ret (t', True) else act_loop K completed interrupted sts t') s = (Ret (t', stopped), s')"
    using Cons.prems(3,5) r by simp
  then obtain u failed s1 where p: "perform K t st (interrupted = Some (s_id st)) s = (Ret (u, failed), s1)"
    and rest: "(if failed then ret (u, True) else act_loop K completed interrupted sts u) s1 = (Ret (t', stopped), s')"
    by (auto simp: bind_eq_Ret)
  have u: "status_of u (s_id st) = Some (if failed then StepFailed else Finished)"
    "\<And>k. k \<noteq> s_id st \<Longrightarrow> status_of u k = status_of t k" "t_id u = i"
    using steps_ret_value [OF perform_status p] steps_ret_value [OF perform_core p] r Cons.prems(4)
    by (auto dest: core_id)
  obtain c where c: "k_executed s1 = k_executed s @ [c]" "called c = (i, s_id st)"
    using perform_called p Cons.prems(4) by (fastforce simp: gives_def called_once_def called_def)
  show ?case
  proof (cases failed)
    case True
    then have "acted t (st # sts) t' stopped [st]" using rest u by (auto simp: acted_def ret_def)
    then show ?thesis using rest True c by (intro exI [of _ "[c]"] exI [of _ "[st]"]) (auto simp: ret_def)
  next
    case False
    have "\<exists>new ran_steps. k_executed s' = k_executed s1 @ new \<and> map called new = map (\<lambda>st. (i, s_id st)) ran_steps
        \<and> acted u sts t' stopped ran_steps"
      using rest False Cons.prems(1-3) u by (intro Cons.IH) (auto simp: image_iff)
    then obtain new ran_steps where n: "k_executed s' = k_executed s1 @ new"
      "map called new = map (\<lambda>st. (i, s_id st)) ran_steps" "acted u sts t' stopped ran_steps" by blast
    have "st \<notin> set ran_steps" "s_id st \<notin> s_id ` set ran_steps" using n(3) Cons.prems(1) by (auto simp: acted_def)
    then have "acted t (st # sts) t' stopped (st # ran_steps)"
      using n(3) u False unfolding acted_def by auto
    then show ?thesis using n c by (intro exI [of _ "c # new"] exI [of _ "st # ran_steps"]) auto
  qed
qed

end
