(* ===== verification/Rehearsal.thy ===== *)
theory Rehearsal
  imports Progress
begin

text \<open>
  The null agent and the fake executor (\<open>packages/slas-kernel/slas_kernel\<close>:
  \<open>null_agent.py\<close>, \<open>executor.py\<close>): five steps that exercise the whole
  lifecycle and change nothing. They are a complete instance of the kernel's collaborators, on
  which the kernel's properties are witnessed. \<open>datetime.now\<close> is a parameter.
\<close>

section \<open>The null agent\<close>

definition null_digest :: "raw_input \<Rightarrow> string" where
  "null_digest raw = (case raw of
     RawUpload u \<Rightarrow> sha256_hex (case up_content u of None \<Rightarrow> up_filename u
        | Some c \<Rightarrow> if c = [] then up_filename u else c)
   | RawMes m \<Rightarrow> sha256_hex (mt_ticket_no m))"

definition null_job :: "time \<Rightarrow> raw_input \<Rightarrow> string \<Rightarrow> job" where
  "null_job now raw digest = (case raw of
     RawUpload u \<Rightarrow> \<lparr>j_id = ''job-'' @ take 12 digest, j_agent = Null, j_user = up_uploaded_by u,
        j_title = ''Rehearsal for '' @ up_filename u,
        j_inputs = [\<lparr>ir_name = up_filename u, ir_kind = InUpload, ir_path = up_path u, ir_sha256 = Some digest,
          ir_size_bytes = up_size_bytes u\<rparr>], j_target = None, j_created_at = now\<rparr>
   | RawMes m \<Rightarrow> \<lparr>j_id = ''job-'' @ take 12 digest, j_agent = Null, j_user = mt_requested_by m,
        j_title = ''Rehearsal for MES ticket '' @ mt_ticket_no m,
        j_inputs = [\<lparr>ir_name = mt_ticket_no m, ir_kind = InMesTicket, ir_path = None, ir_sha256 = Some digest,
          ir_size_bytes = None\<rparr>], j_target = None, j_created_at = now\<rparr>)"

definition null_ingest :: "time \<Rightarrow> raw_input \<Rightarrow> string + job" where
  "null_ingest now raw =
     (let job = null_job now raw (null_digest raw) in if job_ok job then Inr job else Inl ''ValidationError'')"

definition null_step :: "int \<Rightarrow> string \<Rightarrow> string \<Rightarrow> (string, json) dict \<Rightarrow> step" where
  "null_step n sid title args = \<lparr>s_id = sid, s_n = n, s_primitive = ''fake'', s_title = title, s_args = args,
     s_risk = Safe, s_when = None\<rparr>"

definition null_steps :: "string \<Rightarrow> step list" where
  "null_steps names =
     [null_step 1 ''s1'' ''Say hello'' [(''stdout'', JStr (''hello from the null agent'' @ nl))],
      null_step 2 ''s2'' ''List the inputs'' [(''stdout'', JStr (''inputs: '' @ names @ nl))],
      null_step 3 ''s3'' ''Count to three'' [(''stdout'', JStr (''1'' @ nl @ ''2'' @ nl @ ''3'' @ nl))],
      null_step 4 ''s4'' ''Warn on stderr'' [(''stderr'', JStr (''warning: this is only a rehearsal'' @ nl))],
      null_step 5 ''s5'' ''Finish'' [(''stdout'', JStr (''done'' @ nl))]]"

definition null_plan :: "time \<Rightarrow> job \<Rightarrow> plan" where
  "null_plan now job =
     (let joined = py_join '', '' (map ir_name (j_inputs job));
          names = (if joined = [] then ''nothing'' else joined)
      in \<lparr>p_id = ''plan-'' @ j_id job, p_job_id = j_id job,
          p_summary = ''Five fake steps that produce output and change nothing.'',
          p_steps = null_steps names, p_created_at = now\<rparr>)"

definition null_verify :: "step \<Rightarrow> observation \<Rightarrow> step_verdict" where
  "null_verify st obs =
     (if o_exit_code obs = Some 0 then \<lparr>sv_outcome = OutcomeOk, sv_sentence = s_title st @ '' finished as expected.''\<rparr>
      else \<lparr>sv_outcome = OutcomeFail, sv_sentence = s_title st @ '' exited with code ''
              @ (case o_exit_code obs of None \<Rightarrow> ''None'' | Some c \<Rightarrow> show_int c) @ ''.''\<rparr>)"

definition null_sop_template :: sop_template where
  "null_sop_template = \<lparr>st_agent = Null, st_kind = Placeholder,
     st_purpose = ''Rehearse the kernel lifecycle end to end without touching any machine.'',
     st_checks = [''Every step has an observation.'', ''The journal has one observation per step.'']\<rparr>"

definition NullAgent :: "time \<Rightarrow> agent" where
  "NullAgent now = \<lparr>ag_name = Null, ag_ingest = null_ingest now,
     ag_plan = (\<lambda>job. map_sum (\<lambda>_. ''ValidationError'') id (plan_validate (null_plan now job))),
     ag_verify = null_verify, ag_sop_template = null_sop_template\<rparr>"


section \<open>The fake executor\<close>

record fake_executor =
  fx_executed :: "string list"
  fx_contexts :: "execution_context list"
  fx_fail_before_observing :: "string list"

definition fake_execute :: "step \<Rightarrow> execution_context \<Rightarrow> fake_executor \<Rightarrow> (string + observation) \<times> fake_executor" where
  "fake_execute st ctx x =
     (if s_primitive st \<noteq> ''fake''
      then (Inl (''Step '' @ s_id st @ '' uses the primitive '' @ py_repr (JStr (s_primitive st))
              @ '', which this executor does not know.''), x)
      else
        (let x1 = x\<lparr>fx_executed := fx_executed x @ [s_id st], fx_contexts := fx_contexts x @ [ctx]\<rparr> in
         if s_id st \<in> set (fx_fail_before_observing x)
         then (Inl (''simulated crash while performing '' @ s_id st),
               x1\<lparr>fx_fail_before_observing := removeAll (s_id st) (fx_fail_before_observing x)\<rparr>)
         else (case py_int (case map_of (s_args st) ''exit_code'' of None \<Rightarrow> JInt 0 | Some v \<Rightarrow> v) of
             None \<Rightarrow> (Inl ''ValueError'', x1)
           | Some code \<Rightarrow> (Inr \<lparr>o_exit_code = Some code,
               o_stdout = py_str (case map_of (s_args st) ''stdout'' of None \<Rightarrow> JStr [] | Some v \<Rightarrow> v),
               o_stderr = py_str (case map_of (s_args st) ''stderr'' of None \<Rightarrow> JStr [] | Some v \<Rightarrow> v),
               o_screenshots = [], o_summary = s_title st @ '': exit '' @ show_int code @ ''.'',
               o_votes = [], o_exports = [], o_findings = []\<rparr>, x1))))"


section \<open>The null agent's plans\<close>

lemma null_steps_ids: "map s_id (null_steps names) = [''s1'', ''s2'', ''s3'', ''s4'', ''s5'']"
  by (simp add: null_steps_def null_step_def)

lemma null_steps_ok: "list_all step_ok (null_steps names)"
  by (simp add: null_steps_def null_step_def step_ok_def) code_simp

lemma null_plan_valid:
  "j_id job \<noteq> [] \<Longrightarrow> plan_validate (null_plan now job) = Inr (null_plan now job)"
  using null_steps_ok null_steps_ids
  by (auto simp: plan_validate_def null_plan_def Let_def MAX_STEPS_def) (auto simp: null_steps_def null_step_def)

lemma null_plan_safe: "\<not> destructive (null_plan now job)"
  by (simp add: null_plan_def Let_def destructive_def null_steps_def null_step_def needs_approval_def)


section \<open>A kernel to try\<close>

text \<open>
  The null agent's kernel with a plan of two fake steps of a given risk, the first of which exits
  with code 1, on an empty data root.
\<close>

definition demo_steps :: "risk \<Rightarrow> step list" where
  "demo_steps r =
     [\<lparr>s_id = ''s1'', s_n = 1, s_primitive = ''fake'', s_title = ''Wipe the disk'', s_args = [(''exit_code'', JInt 1)],
       s_risk = r, s_when = None\<rparr>,
      \<lparr>s_id = ''s2'', s_n = 2, s_primitive = ''fake'', s_title = ''Go on'', s_args = [], s_risk = r, s_when = None\<rparr>]"

definition demo_job :: job where
  "demo_job = \<lparr>j_id = ''job-1'', j_agent = Null, j_user = ''ana'', j_title = ''demo'', j_inputs = [], j_target = None, j_created_at = 0\<rparr>"

definition demo_plan :: "risk \<Rightarrow> plan" where
  "demo_plan r = \<lparr>p_id = ''plan-1'', p_job_id = ''job-1'', p_summary = ''demo'', p_steps = demo_steps r, p_created_at = 0\<rparr>"

definition demo_kernel :: "risk \<Rightarrow> fake_executor kernel" where
  "demo_kernel r = \<lparr>kn_data_root = ''/data'',
     kn_agent = (NullAgent 0)\<lparr>ag_ingest := (\<lambda>_. Inr demo_job), ag_plan := (\<lambda>_. Inr (demo_plan r))\<rparr>,
     kn_execute = fake_execute, kn_clock = int, kn_after_step = None, kn_rca_pipeline = None,
     kn_render_sop = (\<lambda>m d. \<lparr>rs_refs = \<lparr>so_en = d, so_zh = d, so_data = d\<rparr>, rs_translated = True, rs_notes = []\<rparr>),
     kn_plan_checker = None, kn_skill_gate = None, kn_trace_id = ''trace''\<rparr>"

definition demo_start :: "fake_executor kstate" where
  "demo_start = initial_state \<lparr>fx_executed = [], fx_contexts = [], fx_fail_before_observing = []\<rparr>"

definition demo_raw :: raw_input where
  "demo_raw = RawMes \<lparr>mt_ticket_no = ''M1'', mt_station = ''st'', mt_unit_sn = ''u'', mt_requested_by = ''ana'', mt_payload = []\<rparr>"

text \<open>
  The kernel with a plan of safe steps, killed after the observation of the first step was
  journaled and before the ticket was saved; and with a plan of destructive steps, killed after
  the ticket was saved as \<open>Planned\<close> and before its approvals were.
\<close>

definition observed_not_saved :: "fake_executor kstate" where
  "observed_not_saved = snd (run (demo_kernel Safe) demo_raw (demo_start\<lparr>k_lives := Some 18\<rparr>))"

definition crashed_before_approvals :: "fake_executor kstate" where
  "crashed_before_approvals = snd (run (demo_kernel Destructive) demo_raw (demo_start\<lparr>k_lives := Some 7\<rparr>))"

lemma demo_planned: "planned (demo_kernel r) demo_raw demo_job (demo_plan r)"
  by (simp add: planned_def demo_kernel_def)

lemma demo_plans_ok: "plans_ok plan_ids_ok (demo_kernel r)"
  by (simp add: plans_ok_def demo_kernel_def plan_ids_ok_def demo_plan_def demo_steps_def)

lemma demo_reached: "reached (\<lambda>K. K = demo_kernel Safe) observed_not_saved"
  unfolding observed_not_saved_def demo_start_def by (intro reached.run reached.start refl)

end
