(* ===== verification/Kernel_Theorems.thy ===== *)
theory Kernel_Theorems
  imports Rehearsal
begin

text \<open>
  The kernel's properties over \<open>run\<close>, \<open>approve\<close> and \<open>resume\<close>, each
  with an instance on the null agent's kernel.
\<close>

section \<open>Crash safety\<close>

text \<open>
  C1. Resuming a ticket, at whatever point the process is killed again, calls the executor only
  for steps of the ticket's plan that had no observation in the journal when it was resumed, in
  the plan's order: a step that was observed is never performed again (INV-6).
\<close>

theorem resume_performs_open_steps:
  assumes "file_load (k_store s) tid = Some t" "t_id t = tid" "t_plan t = Some p"
  shows "\<exists>new. k_executed (snd (resume K tid s)) = k_executed s @ new \<and>
    subseq (map (\<lambda>(i, sid, j). (i, sid)) new)
      (map (\<lambda>st. (tid, s_id st)) (filter (\<lambda>st. map_of (completed_steps (journal_of s tid)) (s_id st) = None) (p_steps p)))"
proof -
  have "performed (plan_calls t s) s (snd (resume K tid s))"
    using assms(1) resume_ticket_performed [of t s K] by (simp add: resume_loaded)
  moreover have "called = (\<lambda>(i, sid, j). (i, sid))" by (auto simp: called_def)
  ultimately show ?thesis
    using assms(2,3) by (simp add: performed_def plan_calls_def unobserved_def)
qed

lemma demo_stored:
  "map_option (\<lambda>t. (t_id t, t_plan t, t_state t, t_user t)) (file_load (k_store observed_not_saved) ''T-null-0001'')
     = Some (''T-null-0001'', Some (demo_plan Safe), Running, ''ana'')"
  "map_of (completed_steps (journal_of observed_not_saved ''T-null-0001'')) ''s1'' \<noteq> None"
  "map_of (completed_steps (journal_of observed_not_saved ''T-null-0001'')) ''s2'' = None"
  by code_simp+

theorem resume_performs_open_steps_witness:
  "\<exists>new. k_executed (snd (resume (demo_kernel Safe) ''T-null-0001'' observed_not_saved)) = k_executed observed_not_saved @ new \<and>
     subseq (map (\<lambda>(i, sid, j). (i, sid)) new) [(''T-null-0001'', ''s2'')]"
proof -
  obtain t where "file_load (k_store observed_not_saved) ''T-null-0001'' = Some t" "t_id t = ''T-null-0001''"
      "t_plan t = Some (demo_plan Safe)"
    using demo_stored(1) by (cases "file_load (k_store observed_not_saved) ''T-null-0001''") auto
  from resume_performs_open_steps [OF this, of "demo_kernel Safe"] show ?thesis
    using demo_stored(2,3) by (simp add: demo_plan_def demo_steps_def)
qed

text \<open>
  C2. In every state a deployment can reach, through any sequence of runs, approvals, resumes and
  crashes, each call of the executor was made when the ticket's journal ended with the intent of
  that step and held no observation of it: the intent is written ahead of the action, and an
  observed step is not performed a second time.
\<close>

theorem executor_calls_write_ahead:
  assumes "reached Ks s" "\<And>K. Ks K \<Longrightarrow> plans_ok plan_ids_ok K" "(tid, sid, j) \<in> set (k_executed s)"
  shows "j \<noteq> [] \<and> je_kind (last j) = KIntent \<and> je_step_id (last j) = Some sid \<and> map_of (completed_steps j) sid = None"
proof -
  have "calls_ok s" using assms(1,2) by (rule calls.reached_invariant)
  then show ?thesis using assms(3) by (auto simp: calls_ok_def call_ok_def list_all_iff)
qed

theorem executor_calls_write_ahead_witness:
  "\<exists>j. k_executed observed_not_saved = [(''T-null-0001'', ''s1'', j)] \<and> j \<noteq> [] \<and> je_kind (last j) = KIntent
     \<and> je_step_id (last j) = Some ''s1'' \<and> map_of (completed_steps j) ''s1'' = None"
proof -
  have "map called (k_executed observed_not_saved) = [(''T-null-0001'', ''s1'')]" by code_simp
  then obtain j where "k_executed observed_not_saved = [(''T-null-0001'', ''s1'', j)]"
    by (auto simp: called_def map_eq_Cons_conv)
  then show ?thesis using executor_calls_write_ahead [OF demo_reached] demo_plans_ok by auto
qed

text \<open>
  C3. In every reachable state each stored ticket is stored under its own id; its history leads
  from \<open>Open\<close> to its state along the transition table, every change with a reason; it has a
  plan unless it is \<open>Open\<close> or \<open>Failed\<close>; and it has one step record per step of the
  plan, in the plan's order, so the lookups of ACT never fail.
\<close>

theorem stored_tickets_wf:
  assumes "reached Ks s" "\<And>K. Ks K \<Longrightarrow> plans_ok plan_ids_ok K" "file_load (k_store s) i = Some t"
  shows "t_id t = i \<and> follows Open (t_history t) (t_state t)
    \<and> (t_plan t = None \<longrightarrow> t_state t = Open \<or> t_state t = Failed)
    \<and> (\<forall>p. t_plan t = Some p \<longrightarrow> map r_step_id (t_steps t) = map s_id (p_steps p))"
proof -
  have "tickets_ok s" using assms(1,2) by (rule tickets.reached_invariant)
  then have "t_id t = i" "ticket_ok t" using assms(3) by (auto simp: tickets_ok_def)
  then show ?thesis by (cases "t_plan t") (auto simp: ticket_ok_def ticket_wf_def)
qed

theorem stored_tickets_wf_witness:
  "\<exists>t. file_load (k_store observed_not_saved) ''T-null-0001'' = Some t \<and> follows Open (t_history t) (t_state t)
     \<and> t_plan t \<noteq> None"
proof -
  obtain t where t: "file_load (k_store observed_not_saved) ''T-null-0001'' = Some t" "t_state t = Running"
    using demo_stored(1) by (cases "file_load (k_store observed_not_saved) ''T-null-0001''") auto
  then show ?thesis using stored_tickets_wf [OF demo_reached _ t(1)] demo_plans_ok by auto
qed

text \<open>
  A journal only grows: whatever \<open>run\<close>, \<open>approve\<close> and \<open>resume\<close> do, and
  wherever they are killed, the journal of every ticket before is a prefix of the journal after.
\<close>

theorem journal_append_only:
  "prefix (journal_of s i) (journal_of (snd (run K raw s)) i) \<and>
   prefix (journal_of s i) (journal_of (snd (approve K tid sid who why s)) i) \<and>
   prefix (journal_of s i) (journal_of (snd (resume K tid s)) i)"
proof -
  have grows: "steps journals_grow m A \<Longrightarrow> prefix (journal_of s i) (journal_of (snd (m s)) i)"
    for m :: "('a, ticket) kprog" and A
    by (simp add: steps_def journals_grow_def)
  have "plans_ok (\<lambda>_. True) K" by (simp add: plans_ok_def)
  then show ?thesis
    using grows [OF growing.steps_run] grows [OF growing.steps_approve_ticket] grows [OF growing.steps_resume_ticket]
    by (simp add: approve_loaded resume_loaded split: option.splits)
qed

text \<open>
  In every reachable state the entries of a journal are numbered from 1 without a gap and
  belong to the journal's ticket, and each observation entry holds an observation to restore.
\<close>

theorem journal_numbered:
  assumes "reached Ks s"
  shows "map je_seq (journal_of s tid) = [1..<length (journal_of s tid) + 1]
    \<and> (\<forall>e \<in> set (journal_of s tid). je_ticket_id e = tid \<and>
         (je_kind e = KObservation \<longrightarrow> (\<exists>obs. je_payload e = PObservation obs)))"
proof -
  have "plans_ok (\<lambda>_. True) K" for K :: "'a kernel" by (simp add: plans_ok_def)
  then have "journals_ok s" using assms journals.reached_invariant by blast
  then show ?thesis by (auto simp: journals_ok_def journal_wf_def list_all_iff entry_ok_def)
qed

theorem journal_numbered_witness:
  "length (journal_of observed_not_saved ''T-null-0001'') = 6 \<and>
   map je_seq (journal_of observed_not_saved ''T-null-0001'') = [1, 2, 3, 4, 5, 6]"
proof -
  have "length (journal_of observed_not_saved ''T-null-0001'') = 6" by code_simp
  then show ?thesis using journal_numbered [OF demo_reached, of "''T-null-0001''"] by (simp add: upt_rec)
qed


section \<open>Approval\<close>

text \<open>
  C7. A run of a plan with a destructive step performs no step at all, wherever it is killed. When
  it returns, the ticket is \<open>Planned\<close>, it asks for one approval per destructive step, all
  of them pending, and it is the ticket that is stored; a run that is not killed does return.
\<close>

theorem run_waits_for_approval:
  assumes "planned K raw job p" "destructive p"
  shows "k_executed (snd (run K raw s)) = k_executed s \<and>
    (\<forall>t. fst (run K raw s) = Ret t \<longrightarrow> t_state t = Planned
       \<and> map ap_step_id (pending_approvals t) = map s_id (filter needs_approval (p_steps p))
       \<and> file_load (k_store (snd (run K raw s))) (t_id t) = Some t) \<and>
    (p_job_id p = j_id job \<and> plan_ids_ok p \<and> healthy s \<longrightarrow> (\<exists>t. fst (run K raw s) = Ret t))"
proof -
  have "steps quiet (run K raw) (\<lambda>_. True)" using assms by (rule run_destructive_quiet)
  moreover have "awaits p t \<and> file_load (k_store (snd (run K raw s))) (t_id t) = Some t"
    if "fst (run K raw s) = Ret t" for t
    using run_destructive_Ret [OF assms, of s t "snd (run K raw s)"] that by (metis prod.collapse)
  moreover have "\<exists>t. fst (run K raw s) = Ret t" if "p_job_id p = j_id job" "plan_ids_ok p" "healthy s"
    using returns_run_destructive [OF assms(1) that(1,2) assms(2)] that(3) unfolding returns_def by (metis fst_conv)
  ultimately show ?thesis
    by (auto simp: steps_def quiet_def awaits_def destructive_steps_def)
qed

lemma demo_start_healthy: "healthy demo_start"
  by (simp add: healthy_def demo_start_def initial_state_def seq_ok_def journals_ok_def journal_of_def)

theorem run_waits_for_approval_witness:
  "k_executed (snd (run (demo_kernel Destructive) demo_raw demo_start)) = [] \<and>
   (\<exists>t. fst (run (demo_kernel Destructive) demo_raw demo_start) = Ret t \<and>
     map ap_step_id (pending_approvals t) = [''s1'', ''s2''])"
proof -
  have "destructive (demo_plan Destructive)"
    by (simp add: destructive_def demo_plan_def demo_steps_def needs_approval_def)
  moreover have "p_job_id (demo_plan Destructive) = j_id demo_job" "plan_ids_ok (demo_plan Destructive)"
    by (simp_all add: demo_plan_def demo_job_def plan_ids_ok_def demo_steps_def)
  ultimately show ?thesis
    using run_waits_for_approval [OF demo_planned, of Destructive demo_start] demo_start_healthy
    by (auto simp: demo_plan_def demo_steps_def needs_approval_def demo_start_def initial_state_def)
qed

text \<open>
  C10. While a \<open>Planned\<close> ticket has a pending approval, \<open>resume\<close> raises
  \<open>ApprovalPendingError\<close> and changes nothing: no state, no journal, no file, no call.
\<close>

theorem resume_needs_approvals:
  assumes "file_load (k_store s) tid = Some t" "t_state t = Planned" "pending_approvals t \<noteq> []"
  shows "resume K tid s = (Raise (ApprovalPending t), s)"
  using assms by (simp add: resume_loaded resume_ticket_def finished_def TERMINAL_STATES_def raise_def)

definition demo_waiting :: ticket where
  "demo_waiting = \<lparr>t_id = ''T-null-0001'', t_agent = Null, t_user = ''ana'', t_title = ''demo'', t_state = Planned,
     t_job = demo_job, t_plan = Some (demo_plan Destructive),
     t_approvals = map (\<lambda>i. \<lparr>ap_step_id = i, ap_requested_at = 0, ap_decided_at = None, ap_decided_by = None,
        ap_approved = None, ap_note = []\<rparr>) [''s1'', ''s2''],
     t_votes = [], t_steps = map new_record (demo_steps Destructive), t_logs = None, t_findings = [], t_rca = None,
     t_sop = None, t_exports = [], t_parent = None, t_created_at = 0, t_updated_at = 0, t_history = []\<rparr>"

definition demo_waiting_state :: "fake_executor kstate" where
  "demo_waiting_state = demo_start\<lparr>k_store := file_save demo_waiting (k_store demo_start)\<rparr>"

lemma demo_waiting_loaded: "file_load (k_store demo_waiting_state) ''T-null-0001'' = Some demo_waiting"
  by (simp add: demo_waiting_state_def files.load_save demo_waiting_def)

theorem resume_needs_approvals_witness:
  "resume (demo_kernel Destructive) ''T-null-0001'' demo_waiting_state = (Raise (ApprovalPending demo_waiting), demo_waiting_state)"
  by (rule resume_needs_approvals [OF demo_waiting_loaded])
    (simp_all add: demo_waiting_def pending_approvals_def ap_pending_def)

text \<open>
  \<open>approve\<close> performs no step. It returns only for a step whose approval is pending;
  then exactly one pending approval of that step is decided, the others stay as they were, and
  the stored ticket says so. For such a step it does return when it is not killed.
\<close>

theorem approve_decides_one:
  assumes "file_load (k_store s) tid = Some t" "t_id t = tid"
  shows "k_executed (snd (approve K tid sid who why s)) = k_executed s \<and>
    (\<forall>t'. fst (approve K tid sid who why s) = Ret t' \<longrightarrow>
       sid \<in> set (map ap_step_id (pending_approvals t))
       \<and> map ap_step_id (pending_approvals t') = remove1 sid (map ap_step_id (pending_approvals t))
       \<and> file_load (k_store (snd (approve K tid sid who why s))) tid = Some t') \<and>
    (sid \<in> set (map ap_step_id (pending_approvals t)) \<and> healthy s \<longrightarrow> (\<exists>t'. fst (approve K tid sid who why s) = Ret t'))"
proof -
  have eq: "approve K tid sid who why s = approve_ticket K t sid who why s" using assms by (simp add: approve_loaded)
  have "steps quiet (approve_ticket K t sid who why) (\<lambda>_. True)" by (rule quiet.steps_approve_ticket) simp
  moreover have "\<exists>t'. fst (approve_ticket K t sid who why s) = Ret t'"
    if "sid \<in> set (map ap_step_id (pending_approvals t))" "healthy s"
    using returns_approve_ticket [OF that(1), of K who why] that(2) unfolding returns_def by (metis fst_conv)
  ultimately show ?thesis
    using approve_Ret [of K t sid who why s _ "snd (approve K tid sid who why s)"] assms(2)
    unfolding eq by (auto simp: steps_def quiet_def prod_eq_iff)
qed

theorem approve_decides_one_witness:
  "\<exists>t'. fst (approve (demo_kernel Destructive) ''T-null-0001'' ''s1'' ''bo'' [] demo_waiting_state) = Ret t' \<and>
     map ap_step_id (pending_approvals t') = [''s2'']"
proof -
  have "healthy demo_waiting_state" using demo_start_healthy
    by (simp add: demo_waiting_state_def healthy_def journals_ok_def journal_of_def)
  then show ?thesis
    using approve_decides_one [OF demo_waiting_loaded, of "demo_kernel Destructive" "''s1''" "''bo''" "[]"]
    by (auto simp: demo_waiting_def pending_approvals_def ap_pending_def)
qed


section \<open>Progress\<close>


text \<open>An executor that always answers.\<close>

definition steady_kernel :: "fake_executor kernel" where
  "steady_kernel = (demo_kernel Safe)\<lparr>kn_execute := (\<lambda>st ctx w. (Inr \<lparr>o_exit_code = Some 0, o_stdout = [], o_stderr = [],
     o_screenshots = [], o_summary = [], o_votes = [], o_exports = [], o_findings = []\<rparr>, w))\<rparr>"

lemma steady_works: "kernel_works steady_kernel"
  by (simp add: kernel_works_def steady_kernel_def demo_kernel_def)





section \<open>Order of the steps\<close>

text \<open>
  C6. ACT on a new ticket, one whose records are all pending and whose journal has no
  observation, performs the plan's steps in order, each once, and stops after the first that
  fails: that one is marked failed, those before it done, those after it stay pending and are
  never handed to the executor.
\<close>

theorem act_stops_at_first_failure:
  assumes "t_plan t = Some p" "distinct (map s_id (p_steps p))" "t_steps t = map new_record (p_steps p)"
    and "completed_steps (journal_of s (t_id t)) = []" "act K t s = (Ret (t', stopped), s')"
  shows "\<exists>new did rest. p_steps p = did @ rest \<and> k_executed s' = k_executed s @ new
    \<and> map (\<lambda>(i, sid, j). (i, sid)) new = map (\<lambda>st. (t_id t, s_id st)) did
    \<and> (stopped \<longrightarrow> did \<noteq> []) \<and> (\<not> stopped \<longrightarrow> rest = [])
    \<and> (\<forall>st\<in>set did. status_of t' (s_id st) = Some (if stopped \<and> st = last did then StepFailed else Finished))
    \<and> (\<forall>st\<in>set rest. status_of t' (s_id st) = Some Pending)"
proof -
  have ids: "map r_step_id (t_steps t) = map s_id (p_steps p)" by (simp add: assms(3) new_record_def)
  have pending: "status_of t (s_id st) = Some Pending" if st: "st \<in> set (p_steps p)" for st
  proof -
    have "s_id st \<in> r_step_id ` set (t_steps t)" using ids st by (metis image_eqI set_map)
    then obtain r where "find_record t (s_id st) = Some r"
      using find_key_None [of r_step_id "s_id st" "t_steps t"] by (auto simp: find_record_def)
    moreover have "r \<in> set (t_steps t)" using calculation by (auto simp: find_record_def dest: find_Some_in)
    then have "r_status r = Pending" by (auto simp: assms(3) new_record_def)
    ultimately show ?thesis by (simp add: status_of_def)
  qed
  have "act_loop K [] (interrupted_step (journal_of s (t_id t))) (p_steps p) t s = (Ret (t', stopped), s')"
    using assms(1,4,5) by (simp add: act_def bind_def gets_def)
  from act_loop_new [OF assms(2) pending _ refl this] obtain new did
    where n: "k_executed s' = k_executed s @ new" "map called new = map (\<lambda>st. (t_id t, s_id st)) did"
      "acted t (p_steps p) t' stopped did" by auto
  then obtain rest where r: "p_steps p = did @ rest" "\<not> stopped \<longrightarrow> rest = []" "stopped \<longrightarrow> did \<noteq> []"
      "\<forall>st\<in>set did. status_of t' (s_id st) = Some (if stopped \<and> st = last did then StepFailed else Finished)"
      "\<forall>i. i \<notin> s_id ` set did \<longrightarrow> status_of t' i = status_of t i" by (auto simp: acted_def)
  have "status_of t' (s_id st) = Some Pending" if "st \<in> set rest" for st
  proof -
    have "s_id st \<notin> s_id ` set did" using assms(2) r(1) that by auto
    then show ?thesis using r(1,5) pending that by auto
  qed
  moreover have "called = (\<lambda>(i, sid, j). (i, sid))" by (auto simp: called_def)
  ultimately show ?thesis using n r by (intro exI [of _ new] exI [of _ did] exI [of _ rest]) auto
qed

definition demo_running :: ticket where
  "demo_running = demo_waiting\<lparr>t_state := Running, t_plan := Some (demo_plan Safe), t_approvals := [],
     t_steps := map new_record (demo_steps Safe)\<rparr>"

theorem act_stops_at_first_failure_witness:
  "\<exists>t' s' new. act (demo_kernel Safe) demo_running demo_start = (Ret (t', True), s') \<and> k_executed s' = new
     \<and> map (\<lambda>(i, sid, j). (i, sid)) new = [(''T-null-0001'', ''s1'')] \<and> status_of t' ''s2'' = Some Pending"
proof -
  have "case fst (act (demo_kernel Safe) demo_running demo_start) of Ret (t', stopped) \<Rightarrow> stopped \<and> status_of t' ''s2'' \<noteq> Some StepFailed | _ \<Rightarrow> False"
    by code_simp
  then obtain t' s' where a: "act (demo_kernel Safe) demo_running demo_start = (Ret (t', True), s')" "status_of t' ''s2'' \<noteq> Some StepFailed"
    by (cases "act (demo_kernel Safe) demo_running demo_start") (auto split: outcome.splits)
  have t: "t_plan demo_running = Some (demo_plan Safe)" "distinct (map s_id (p_steps (demo_plan Safe)))"
    "t_steps demo_running = map new_record (p_steps (demo_plan Safe))" "t_id demo_running = ''T-null-0001''"
    "completed_steps (journal_of demo_start (t_id demo_running)) = []" "k_executed demo_start = []"
    by (simp_all add: demo_running_def demo_waiting_def demo_plan_def demo_steps_def demo_start_def initial_state_def
        journal_of_def completed_steps_def)
  from act_stops_at_first_failure [OF t(1-3,5) a(1)] obtain new did rest where
    "demo_steps Safe = did @ rest" "k_executed s' = new" "did \<noteq> []"
    "map (\<lambda>(i, sid, j). (i, sid)) new = map (\<lambda>st. (''T-null-0001'', s_id st)) did"
    "\<forall>st\<in>set did. status_of t' (s_id st) = Some (if st = last did then StepFailed else Finished)"
    "\<forall>st\<in>set rest. status_of t' (s_id st) = Some Pending"
    using t(4,6) by (auto simp: demo_plan_def)
  then show ?thesis using a by (auto simp: demo_steps_def append_eq_Cons_conv Cons_eq_append_conv)
qed


section \<open>Bug tickets\<close>

lemma spawn_one_ticketed:
  "steps (\<lambda>_ _. True) (spawn_one K t vs f acc) (\<lambda>(is, fs). \<exists>g. fs = snd acc @ [g] \<and> f_fingerprint g = f_fingerprint f \<and> f_ticket_id g \<noteq> None)"
  unfolding spawn_one_def
  by (auto split: option.splits intro!: any.steps_bind_any steps_any any.steps_ret any.steps_raise)

lemma spawn_loop_ticketed:
  "steps (\<lambda>_ _. True) (spawn_loop K t vs fs acc) (\<lambda>(is, gs). \<exists>new. gs = snd acc @ new \<and>
     map f_fingerprint new = map f_fingerprint fs \<and> list_all (\<lambda>g. f_ticket_id g \<noteq> None) new)"
proof (induction fs arbitrary: acc)
  case (Cons f fs)
  show ?case
    apply (simp del: split_paired_All)
    apply (rule any.steps_bind [OF spawn_one_ticketed])
    apply (rule steps_weaken [OF Cons.IH])
    apply (force simp: split_beta)
    done
qed (auto intro!: any.steps_ret)

text \<open>
  When the bug tickets of a ticket were spawned, each of its findings carries the id of a bug
  ticket, and the findings are those of triage: one per fingerprint, in the order of first
  occurrence.
\<close>

theorem spawned_findings_have_tickets:
  assumes "fst (spawn_bug_tickets K t vs s) = Ret (t', spawned)"
  shows "(\<forall>f \<in> set (t_findings t'). f_ticket_id f \<noteq> None)
    \<and> map f_fingerprint (t_findings t') = first_occurrences (map f_fingerprint (t_findings t))"
proof -
  have "steps (\<lambda>_ _. True) (spawn_bug_tickets K t vs) (\<lambda>(t', is). \<exists>new. t_findings t' = new \<and>
      map f_fingerprint new = map f_fingerprint (triage DEFAULT_OWNER_ROUTING (t_findings t)) \<and> list_all (\<lambda>g. f_ticket_id g \<noteq> None) new)"
    unfolding spawn_bug_tickets_def default_routing_ok
    by (rule any.steps_bind [where A = "\<lambda>r. r = DEFAULT_OWNER_ROUTING"])
      (auto intro!: any.steps_lift any.steps_bind [OF spawn_loop_ticketed] any.steps_ret)
  then show ?thesis using assms by (auto simp: steps_def list_all_iff triage_fingerprints)
qed

definition demo_finding :: finding where
  "demo_finding = \<lparr>f_id = ''F-1'', f_fingerprint = replicate 64 (CHR ''a''), f_issue = ''Fan failed'', f_owner = None,
     f_severity = None, f_component = None, f_evidence = [], f_ticket_id = None\<rparr>"

lemma demo_healthy: "healthy demo_start"
  by (simp add: healthy_def demo_start_def initial_state_def seq_ok_def journals_ok_def journal_of_def)

theorem spawned_findings_have_tickets_witness:
  "\<exists>t' spawned. fst (spawn_bug_tickets (demo_kernel Safe) (demo_running\<lparr>t_findings := [demo_finding, demo_finding]\<rparr>) [] demo_start)
       = Ret (t', spawned) \<and> (\<exists>f. t_findings t' = [f] \<and> f_ticket_id f \<noteq> None)"
proof -
  let ?t = "demo_running\<lparr>t_findings := [demo_finding, demo_finding]\<rparr>"
  have "t_user ?t \<noteq> []" by (simp add: demo_running_def demo_waiting_def)
  from returns_spawn [OF this, of "demo_kernel Safe" "[]"] demo_healthy obtain t' sp
    where "fst (spawn_bug_tickets (demo_kernel Safe) ?t [] demo_start) = Ret (t', sp)"
    unfolding returns_def by (metis fst_conv surj_pair)
  then show ?thesis
    using spawned_findings_have_tickets [of "demo_kernel Safe" ?t "[]" demo_start t' sp]
    by (auto simp: map_eq_Cons_conv)
qed




section \<open>Two crash windows\<close>

text \<open>
  \<open>run\<close> saves a destructive plan's ticket as \<open>Planned\<close> before it saves the
  approvals it asks for. Killed in between, it leaves a \<open>Planned\<close> ticket without
  approvals; \<open>resume\<close> finds none pending and performs a destructive step no one approved,
  against INV-7 and the docstring of \<open>resume\<close>.
\<close>

theorem crash_before_approvals_skips_them:
  "map_option (\<lambda>t. (t_state t, t_approvals t)) (file_load (k_store crashed_before_approvals) ''T-null-0001'') = Some (Planned, [])
   \<and> k_executed crashed_before_approvals = []
   \<and> map called (k_executed (snd (resume (demo_kernel Destructive) ''T-null-0001'' (crashed_before_approvals\<lparr>k_lives := Some 9\<rparr>))))
       = [(''T-null-0001'', ''s1'')]"
  by (intro conjI) code_simp+

text \<open>
  \<open>_act\<close> stops a run at a step that fails, but not at a step it restores from the journal
  as failed: killed after a failing observation was journaled and before the ticket was saved,
  the ticket goes on with the next step when it is resumed.
\<close>

theorem restored_failure_does_not_stop:
  "map called (k_executed observed_not_saved) = [(''T-null-0001'', ''s1'')]
   \<and> map called (k_executed (snd (resume (demo_kernel Safe) ''T-null-0001'' (observed_not_saved\<lparr>k_lives := Some 3\<rparr>))))
       = [(''T-null-0001'', ''s1''), (''T-null-0001'', ''s2'')]"
  by (intro conjI) code_simp+

end
