(* ===== verification/Record_Theorems.thy ===== *)
theory Record_Theorems
  imports Durable Rca
begin

text \<open>
  Properties of the records the platform keeps: ticket identifiers, the ticket state machine,
  plans, the journal's readers, the two ticket stores, leases, fingerprints, owner routing and
  root-cause analysis.
\<close>

section \<open>Tickets and plans\<close>

text \<open>
  Ticket ids are a faithful encoding: the id made for an agent and a sequence number parses
  back to both, so two tickets never share an id.
\<close>

theorem ticket_id_roundtrip:
  assumes "1 \<le> n"
  shows "\<exists>s. make_ticket_id a n = Inr s \<and> parse_ticket_id s = Inr (a, nat n) \<and>
    (\<forall>b m. make_ticket_id b m = Inr s \<longrightarrow> b = a \<and> m = n)"
proof -
  obtain s where s: "make_ticket_id a n = Inr s" using assms by (simp add: make_ticket_id_def)
  then show ?thesis using parse_make make_ticket_id_inject by metis
qed

theorem ticket_id_roundtrip_witness: "\<exists>s. make_ticket_id Factory 12345 = Inr s \<and> parse_ticket_id s = Inr (Factory, 12345)"
  using ticket_id_roundtrip [of 12345 Factory] by auto

text \<open>
  The ticket state machine ends: a legal history from \<open>Open\<close> has at most six changes,
  a \<open>Done\<close> or \<open>Failed\<close> ticket has none left, and from every other state there is one.
\<close>

theorem ticket_lifecycle_ends:
  assumes "follows Open cs b"
  shows "length cs \<le> 6 \<and> (b \<in> set TERMINAL_STATES \<longleftrightarrow> (\<forall>c. \<not> can_transition b c))"
proof -
  have "length cs + rank b \<le> rank Open" using assms by (rule follows_rank)
  then show ?thesis using terminal_is_stuck [of b] nonterminal_moves [of b] by (auto simp: rank_def)
qed

theorem ticket_lifecycle_ends_witness:
  "length [\<lparr>sc_from = Open, sc_to = Failed, sc_at = 0, sc_reason = ''no''\<rparr>] \<le> 6 \<and> (\<forall>c. \<not> can_transition Failed c)"
  using ticket_lifecycle_ends [of "[\<lparr>sc_from = Open, sc_to = Failed, sc_at = 0, sc_reason = ''no''\<rparr>]" Failed]
  by (simp add: transition_tables)

text \<open>
  A plan that validates has between 1 and 200 steps, numbered from 1 in order, with distinct
  ids; \<open>Plan.step\<close> finds every step by its id, and the plan is destructive exactly when
  it has a step to approve.
\<close>

theorem validated_plan:
  assumes "plan_validate p = Inr q"
  shows "q = p \<and> 1 \<le> length (p_steps p) \<and> length (p_steps p) \<le> 200
    \<and> (\<forall>k < length (p_steps p). s_n (p_steps p ! k) = int k + 1 \<and> plan_step p (s_id (p_steps p ! k)) = Inr (p_steps p ! k))
    \<and> (destructive p \<longleftrightarrow> destructive_steps p \<noteq> [])"
proof -
  note v = plan_validate_Inr [OF assms]
  show ?thesis
    using v numbered_from_nth [OF v(6)] plan_step_found [OF assms] destructive_iff [of p]
    by (auto simp: MAX_STEPS_def Suc_le_eq)
qed

definition sample_plan :: plan where
  "sample_plan = \<lparr>p_id = ''p'', p_job_id = ''j'', p_summary = ''s'', p_steps =
     [\<lparr>s_id = ''a'', s_n = 1, s_primitive = ''fake'', s_title = ''A'', s_args = [], s_risk = Safe, s_when = None\<rparr>,
      \<lparr>s_id = ''b'', s_n = 2, s_primitive = ''fake'', s_title = ''B'', s_args = [], s_risk = Destructive, s_when = None\<rparr>],
     p_created_at = 0\<rparr>"

theorem validated_plan_witness: "plan_step sample_plan ''b'' = Inr (p_steps sample_plan ! 1)"
proof -
  have "plan_validate sample_plan = Inr sample_plan" by code_simp
  moreover have "1 < length (p_steps sample_plan)" "s_id (p_steps sample_plan ! 1) = ''b''"
    by (simp_all add: sample_plan_def)
  ultimately show ?thesis using validated_plan [of sample_plan] by metis
qed


section \<open>Journals, stores, leases\<close>

text \<open>
  What recovery reads from a journal: a step counts as completed exactly when it has an
  observation entry, and then with its last one; after the intent of a step and before its
  observation, that step is the interrupted one.
\<close>

theorem journal_recovery:
  "(map_of (completed_steps j) sid \<noteq> None \<longleftrightarrow> (\<exists>e \<in> set j. je_kind e = KObservation \<and> je_step_id e = Some sid))
   \<and> map_of (completed_steps (append_entry j now tr KObservation tid pl (Some sid))) sid =
       Some (last (append_entry j now tr KObservation tid pl (Some sid)))
   \<and> interrupted_step (append_entry j now tr KIntent tid pl (Some sid)) = Some sid
   \<and> interrupted_step (append_entry (append_entry j now tr KIntent tid pl (Some sid)) now' tr' KObservation tid pl' (Some sid)) = None"
proof -
  have "is_observation e \<and> je_step_id e = Some sid \<longleftrightarrow> je_kind e = KObservation \<and> je_step_id e = Some sid" for e
    by (auto simp: is_observation_def)
  then show ?thesis
    using completed_steps_iff [of j sid] by (simp add: interrupted_append) (simp add: append_entry_def)
qed

text \<open>The calls of a ticket store's client, and what each answers.\<close>

datatype store_call = CallNext agent_name | CallSave ticket | CallLoad string | CallList

datatype store_answer = AnsId "schema_error + string" | AnsSaved | AnsTicket "ticket option" | AnsIds "string list"

definition mem_answer :: "memory_store \<Rightarrow> store_call \<Rightarrow> store_answer \<times> memory_store" where
  "mem_answer m c = (case c of
     CallNext a \<Rightarrow> (case mem_next_ticket_id a m of (r, m') \<Rightarrow> (AnsId r, m'))
   | CallSave t \<Rightarrow> (AnsSaved, mem_save t m) | CallLoad i \<Rightarrow> (AnsTicket (mem_load m i), m)
   | CallList \<Rightarrow> (AnsIds (mem_list_ids m), m))"

definition file_answer :: "file_store \<Rightarrow> store_call \<Rightarrow> store_answer \<times> file_store" where
  "file_answer f c = (case c of
     CallNext a \<Rightarrow> (case file_next_ticket_id a f of (r, f') \<Rightarrow> (AnsId r, f'))
   | CallSave t \<Rightarrow> (AnsSaved, file_save t f) | CallLoad i \<Rightarrow> (AnsTicket (file_load f i), f)
   | CallList \<Rightarrow> (AnsIds (file_list_ids f), f))"

fun answers :: "('s \<Rightarrow> store_call \<Rightarrow> store_answer \<times> 's) \<Rightarrow> 's \<Rightarrow> store_call list \<Rightarrow> store_answer list" where
  "answers f s [] = []"
| "answers f s (c # cs) = (case f s c of (a, s') \<Rightarrow> a # answers f s' cs)"

definition same_store :: "memory_store \<Rightarrow> file_store \<Rightarrow> bool" where
  "same_store m f \<longleftrightarrow> memory_ok m \<and> file_ok f \<and> ms_sequence m = fs_sequence f \<and> (\<forall>i. mem_load m i = file_load f i)"

lemma same_lists: "same_store m f \<Longrightarrow> mem_list_ids m = file_list_ids f"
  using memory.ids_loadable [of m] files.ids_loadable [of f] memory.ids_sorted [of m] files.ids_sorted [of f]
  by (intro sorted_distinct_set_unique) (auto simp: same_store_def)

lemma same_step:
  assumes "same_store m f"
  shows "fst (mem_answer m c) = fst (file_answer f c) \<and> same_store (snd (mem_answer m c)) (snd (file_answer f c))"
proof (cases c)
  case (CallNext a)
  have "same_store (snd (mem_next_ticket_id a m)) (snd (file_next_ticket_id a f))"
    using assms memory.invar_next [of m a] files.invar_next [of f a]
    by (auto simp: same_store_def memory.load_next files.load_next) (auto simp: mem_next_ticket_id_def file_next_ticket_id_def Let_def)
  moreover have "fst (mem_next_ticket_id a m) = fst (file_next_ticket_id a f)"
    using assms by (simp add: same_store_def mem_next_ticket_id_def file_next_ticket_id_def Let_def)
  ultimately show ?thesis using CallNext by (simp add: mem_answer_def file_answer_def split_beta)
next
  case (CallSave t)
  then show ?thesis
    using assms memory.invar_save [of m t] files.invar_save [of f t]
    by (auto simp: same_store_def mem_answer_def file_answer_def memory.load_save files.load_save)
      (auto simp: mem_save_def file_save_def)
next
  case CallList
  then show ?thesis using assms same_lists by (simp add: mem_answer_def file_answer_def)
qed (use assms in \<open>simp add: same_store_def mem_answer_def file_answer_def\<close>)


text \<open>
  C13. A lease excludes other runs: after a run acquired a target, and whatever other runs call
  before it ends, the run still holds the target and every other run's \<open>acquire\<close> is
  refused with its lease.
\<close>

theorem lease_excludes:
  assumes "acquire target tid user now hours items = Inr (l, items')"
    and "list_all (foreign_before target tid (now + hours * microseconds_per_hour)) cs"
    and "now' < now + hours * microseconds_per_hour" "tid' \<noteq> tid"
  shows "holder (lease_run items' cs) target now' = Some l \<and>
    acquire target tid' user' now' hours' (lease_run items' cs) = Inl (LeaseBusy target l)"
proof -
  note a = acquire_Inr [OF assms(1)]
  have "map_of (lease_run items' cs) target = Some l" using a assms(2) by (intro lease_run_foreign) simp_all
  then have "holder (lease_run items' cs) target now' = Some l" using a(3) assms(3) by (simp add: holder_def)
  then show ?thesis using acquire_busy a(2) assms(4) by auto
qed

theorem lease_excludes_witness:
  "\<exists>l. holder (lease_run (snd (projr (acquire ''dut1'' ''T-1'' ''ana'' 0 2 []))) [CallRelease ''dut1'' ''T-2'', CallAcquire ''dut1'' ''T-3'' ''bo'' 5 1]) ''dut1'' 10 = Some l
     \<and> le_ticket_id l = ''T-1''"
proof -
  obtain l items where a: "acquire ''dut1'' ''T-1'' ''ana'' 0 2 [] = Inr (l, items)" "le_ticket_id l = ''T-1''"
    by (simp add: acquire_def Let_def)
  show ?thesis
    using lease_excludes [OF a(1), of "[CallRelease ''dut1'' ''T-2'', CallAcquire ''dut1'' ''T-3'' ''bo'' 5 1]" 10 "''T-2''"] a
    by (simp add: microseconds_per_hour_def)
qed


section \<open>Triage\<close>

text \<open>
  A fingerprint is 16 lower-case hexadecimal digits, and no digit of the text reaches the
  hash: addresses, counters and timestamps do not tell two failures apart.
\<close>

theorem fingerprint_of_the_noiseless_text:
  "length (fingerprint text) = 16 \<and> list_all is_hex (fingerprint text)
   \<and> fingerprint text = take 16 (sha256_hex (normalise text)) \<and> (\<forall>c \<in> set (normalise text). \<not> is_digit c)"
  using fingerprint_shape normalise_no_digit by (auto simp: fingerprint_def)

text \<open>
  Deduplication leaves one finding per fingerprint, in the order of first occurrence, keeps
  what the first finding says and only adds to its evidence, and a second pass changes nothing.
\<close>

theorem dedup_keeps_the_first:
  assumes "f_fingerprint f \<notin> set (map f_fingerprint pre)"
  shows "map f_fingerprint (dedup_findings (pre @ f # post)) = first_occurrences (map f_fingerprint (pre @ f # post))
    \<and> (\<exists>ev. f\<lparr>f_evidence := ev\<rparr> \<in> set (dedup_findings (pre @ f # post)))
    \<and> dedup_findings (dedup_findings (pre @ f # post)) = dedup_findings (pre @ f # post)"
  using dedup_fingerprints dedup_first_kept [OF assms] dedup_idem by blast

definition sample_finding :: "string \<Rightarrow> string list \<Rightarrow> finding" where
  "sample_finding fp ev = \<lparr>f_id = ''F-1'', f_fingerprint = fp, f_issue = ''Fan failed'', f_owner = None, f_severity = None,
     f_component = None, f_evidence = ev, f_ticket_id = None\<rparr>"

theorem dedup_keeps_the_first_witness:
  "map f_fingerprint (dedup_findings [sample_finding ''a'' [''x''], sample_finding ''b'' [], sample_finding ''a'' [''y'']]) = [''a'', ''b'']"
  using dedup_keeps_the_first [of "sample_finding ''a'' [''x'']" "[]" "[sample_finding ''b'' [], sample_finding ''a'' [''y'']]"]
  by (simp add: sample_finding_def)

text \<open>
  Owner routing: the decision is that of the first rule that matches, the owner is one the
  table names, with no match there is no owner, and the built-in table validates.
\<close>

theorem routing_by_first_match:
  assumes "routing_from_mapping d = Inr routing"
  shows "(\<forall>w. rd_owner (route_owner routing text) = Some w \<longrightarrow> map_of (ow_owners routing) w \<noteq> None)
    \<and> (rd_owner (route_owner routing text) = None \<longleftrightarrow> (\<forall>r \<in> set (ow_rules routing). rule_matches r text = None))
    \<and> (\<forall>pre r post m. ow_rules routing = pre @ r # post \<longrightarrow> (\<forall>q \<in> set pre. rule_matches q text = None) \<longrightarrow>
         rule_matches r text = Some m \<longrightarrow> rd_rule_id (route_owner routing text) = Some (or_id r)
           \<and> rd_owner (route_owner routing text) = Some (or_owner r))
    \<and> default_routing = Inr DEFAULT_OWNER_ROUTING"
  using route_owner_known [OF assms] route_rules_None route_rules_first default_routing_ok
  by (simp add: route_owner_def)

theorem routing_by_first_match_witness:
  "rd_owner (route_owner DEFAULT_OWNER_ROUTING ''uncorrectable ECC error on DIMM'') = Some ''EE'' \<and>
   map_of (ow_owners DEFAULT_OWNER_ROUTING) ''EE'' \<noteq> None"
proof -
  have "rd_owner (route_owner DEFAULT_OWNER_ROUTING ''uncorrectable ECC error on DIMM'') = Some ''EE''" by code_simp
  then show ?thesis
    using routing_by_first_match [of DEFAULT_OWNER_ROUTING DEFAULT_OWNER_ROUTING] default_routing_ok
    by (simp add: default_routing_def)
qed


section \<open>Root-cause analysis\<close>


text \<open>A pipeline without voters whose drafter always names the same cause, and a ticket with one finding.\<close>

definition sample_pipeline :: "string \<Rightarrow> rca_pipeline" where
  "sample_pipeline cause = \<lparr>rp_drafter = (\<lambda>_. Inr \<lparr>dr_cause = cause, dr_evidence = [], dr_component = None, dr_confidence = 9 / 10\<rparr>),
     rp_cross_checker = None, rp_retriever = None, rp_routing = DEFAULT_OWNER_ROUTING, rp_retrieve_limit = 5\<rparr>"

definition sample_ticket :: ticket where
  "sample_ticket = \<lparr>t_id = ''T-null-0001'', t_agent = Null, t_user = ''ana'', t_title = ''demo'', t_state = Analysing,
     t_job = \<lparr>j_id = ''j'', j_agent = Null, j_user = ''ana'', j_title = ''demo'', j_inputs = [], j_target = None, j_created_at = 0\<rparr>,
     t_plan = None, t_approvals = [], t_votes = [], t_steps = [], t_logs = None, t_findings = [sample_finding ''fp'' []],
     t_rca = None, t_sop = None, t_exports = [], t_parent = None, t_created_at = 0, t_updated_at = 0, t_history = []\<rparr>"

lemma sample_sentence: "first_sentence ''Fan stalled.'' \<noteq> []" "first_sentence ''...'' = []"
  by code_simp+


text \<open>
  Root-cause analysis returns for every ticket as long as each cause the drafter gives has a
  first sentence: a drafter that raises, a missing cross-checker and a missing retriever do not
  stop it.
\<close>

theorem rca_returns:
  assumes "\<And>rq d. rp_drafter p rq = Inr d \<Longrightarrow> first_sentence (dr_cause d) \<noteq> []"
  shows "\<exists>r. analyse p t = Inr r"
  by (rule analyse_total) (rule assms)

theorem rca_returns_witness: "\<exists>r. analyse (sample_pipeline ''Fan stalled.'') sample_ticket = Inr r"
  by (rule rca_returns) (auto simp: sample_pipeline_def sample_sentence)

text \<open>
  A cause without a first sentence, such as an ellipsis, does stop it: the finding fails to
  validate and \<open>analyse\<close> raises, though a draft of any non-empty cause validates and the
  pipeline is meant never to block a run.
\<close>

theorem blank_cause_raises:
  "failed_records t \<noteq> [] \<Longrightarrow> t_findings t = [] \<Longrightarrow> analyse (sample_pipeline ''...'') t = Inl (ValidationError ''issue'')"
  unfolding analyse_def
  by (simp add: Let_def sample_pipeline_def draft_failure_def draft_or_placeholder_def rca_finding_def sample_sentence
      split: prod.split)

end
