(* ===== verification/Breaker.thy ===== *)
theory Breaker
  imports Schemas
begin

text \<open>
  What the LLM gateway (\<open>services/llm-gateway/slas_llm_gateway\<close>) keeps between
  requests: the circuit breaker of each model instance (\<open>breaker.py\<close>), the token budget
  of the cross-checks (\<open>TokenBudget\<close> in \<open>consensus.py\<close>), and the routes from
  roles to instances (\<open>routing.py\<close>).

  A method takes the moment its clock reads (the clock stands still within one call) and
  returns the state it leaves. Gauges and counters are set by the gateway's model.
\<close>

section \<open>The circuit breaker\<close>

datatype breaker_state = BrClosed | BrOpen | BrHalfOpen

record breaker_entry =
  cb_failures :: nat
  cb_state :: breaker_state
  cb_opened_at :: "time option"
  cb_last_reason :: string

type_synonym breaker_entries = "(string, breaker_entry) dict"

record breaker_config =
  bc_failure_threshold :: nat
  bc_cooldown :: int

definition new_entry :: breaker_entry where
  "new_entry = \<lparr>cb_failures = 0, cb_state = BrClosed, cb_opened_at = None, cb_last_reason = []\<rparr>"

definition entry_of :: "breaker_entries \<Rightarrow> string \<Rightarrow> breaker_entry" where
  "entry_of es k = (case map_of es k of None \<Rightarrow> new_entry | Some e \<Rightarrow> e)"

text \<open>\<open>state\<close>: an open breaker whose cooldown is over becomes half-open.\<close>

definition cooled :: "breaker_config \<Rightarrow> time \<Rightarrow> breaker_entry \<Rightarrow> breaker_entry" where
  "cooled c now e = (case cb_opened_at e of
     Some o0 \<Rightarrow> if cb_state e = BrOpen \<and> o0 + bc_cooldown c \<le> now then e\<lparr>cb_state := BrHalfOpen\<rparr> else e
   | None \<Rightarrow> e)"

definition breaker_state_of :: "breaker_config \<Rightarrow> time \<Rightarrow> string \<Rightarrow> breaker_entries \<Rightarrow> breaker_state \<times> breaker_entries" where
  "breaker_state_of c now k es = (let e = cooled c now (entry_of es k) in (cb_state e, AList.update k e es))"

definition trial_in_flight :: string where
  "trial_in_flight = ''trial in flight''"

definition allow :: "breaker_config \<Rightarrow> time \<Rightarrow> string \<Rightarrow> breaker_entries \<Rightarrow> bool \<times> breaker_entries" where
  "allow c now k es =
     (let (st, es1) = breaker_state_of c now k es
      in case st of
           BrClosed \<Rightarrow> (True, es1)
         | BrOpen \<Rightarrow> (False, es1)
         | BrHalfOpen \<Rightarrow> (let e = entry_of es1 k
             in if cb_last_reason e = trial_in_flight then (False, es1)
                else (True, AList.update k (e\<lparr>cb_last_reason := trial_in_flight\<rparr>) es1)))"

definition record_success :: "string \<Rightarrow> breaker_entries \<Rightarrow> breaker_entries" where
  "record_success k es = AList.update k new_entry es"

text \<open>\<open>record_failure\<close>: whether the breaker opened now, and the entries.\<close>

definition record_failure :: "breaker_config \<Rightarrow> time \<Rightarrow> string \<Rightarrow> string \<Rightarrow> breaker_entries \<Rightarrow> bool \<times> bool \<times> breaker_entries" where
  \<comment> \<open>whether it is open now, whether it was not open before\<close>
  "record_failure c now k reason es =
     (let e = entry_of es k;
          e1 = e\<lparr>cb_failures := cb_failures e + 1, cb_last_reason := reason\<rparr>
      in if cb_state e1 = BrHalfOpen \<or> cb_failures e1 \<ge> bc_failure_threshold c
         then (True, cb_state e1 \<noteq> BrOpen, AList.update k (e1\<lparr>cb_state := BrOpen, cb_opened_at := Some now\<rparr>) es)
         else (False, False, AList.update k e1 es))"

definition paused_until :: "breaker_config \<Rightarrow> time \<Rightarrow> string \<Rightarrow> breaker_entries \<Rightarrow> time option" where
  "paused_until c now k es =
     (if fst (breaker_state_of c now k es) = BrOpen
      then map_option (\<lambda>o0. o0 + bc_cooldown c) (cb_opened_at (entry_of es k)) else None)"

definition open_keys :: "breaker_config \<Rightarrow> time \<Rightarrow> breaker_entries \<Rightarrow> string list" where
  "open_keys c now es = sort (filter (\<lambda>k. fst (breaker_state_of c now k es) = BrOpen) (map fst es))"

definition breaker_sentence :: "breaker_config \<Rightarrow> time \<Rightarrow> string \<Rightarrow> breaker_entries \<Rightarrow> string" where
  "breaker_sentence c now k es =
     (case fst (breaker_state_of c now k es) of
        BrClosed \<Rightarrow> k @ '' is answering normally.''
      | BrHalfOpen \<Rightarrow> k @ '' is being tried again after a pause.''
      | BrOpen \<Rightarrow> k @ '' is paused until ''
          @ (case paused_until c now k es of Some t \<Rightarrow> show_hhmm t | None \<Rightarrow> ''later'')
          @ '' after '' @ show_nat (cb_failures (entry_of es k)) @ '' ''
          @ (if cb_failures (entry_of es k) = 1 then ''invalid answer'' else ''invalid answers'') @ ''.'')"


section \<open>The token budget\<close>

record token_budget =
  tb_daily_tokens :: int
  tb_pct :: rat
  tb_day :: "int option"
  tb_spent :: int

definition microseconds_per_day :: int where
  "microseconds_per_day = 24 * microseconds_per_hour"

definition budget_cap :: "token_budget \<Rightarrow> int" where
  "budget_cap b = (let x = of_int (tb_daily_tokens b) * tb_pct b / 100 in if x < 0 then \<lceil>x\<rceil> else \<lfloor>x\<rfloor>)"

definition budget_roll :: "time \<Rightarrow> token_budget \<Rightarrow> token_budget" where
  "budget_roll now b = (let today = now div microseconds_per_day
     in if tb_day b \<noteq> Some today then b\<lparr>tb_day := Some today, tb_spent := 0\<rparr> else b)"

definition spent_today :: "time \<Rightarrow> token_budget \<Rightarrow> int" where
  "spent_today now b = tb_spent (budget_roll now b)"

definition budget_remaining :: "time \<Rightarrow> token_budget \<Rightarrow> int" where
  "budget_remaining now b = max 0 (budget_cap b - spent_today now b)"

definition can_afford :: "time \<Rightarrow> int \<Rightarrow> token_budget \<Rightarrow> bool" where
  "can_afford now estimate b \<longleftrightarrow> budget_remaining now b \<ge> estimate"

definition charge :: "time \<Rightarrow> int \<Rightarrow> token_budget \<Rightarrow> token_budget" where
  "charge now tokens b = (let b1 = budget_roll now b in b1\<lparr>tb_spent := tb_spent b1 + max 0 tokens\<rparr>)"

definition budget_sentence :: "time \<Rightarrow> token_budget \<Rightarrow> string" where
  "budget_sentence now b = ''Cross-checks have used '' @ show_commas (nat (spent_today now b)) @ '' of ''
     @ show_commas (nat (budget_cap b)) @ '' tokens today ('' @ show_g (tb_pct b) @ ''% of the daily allowance).''"


section \<open>Routes\<close>

definition ROLES :: "string list" where
  "ROLES = [''coder'', ''planner'', ''triage'', ''embed'', ''rerank'']"

record routes =
  ro_roles :: "(string, string) dict"
  ro_voters :: "string list"

datatype routing_error = UnknownRoles "string list" | VotersNotDistinct | NoInstanceForRole string | NotARole string

definition routes_validate :: "routes \<Rightarrow> routing_error + routes" where
  "routes_validate r =
     (let unknown = sort (filter (\<lambda>x. x \<notin> set ROLES) (map fst (ro_roles r)))
      in if unknown \<noteq> [] then Inl (UnknownRoles unknown)
         else if \<not> distinct (ro_voters r) then Inl VotersNotDistinct else Inr r)"

record role_router =
  rt_routes :: routes
  rt_history :: "(string \<times> string option \<times> string) list"

definition instance_for :: "role_router \<Rightarrow> string \<Rightarrow> routing_error + string" where
  "instance_for r role = (case map_of (ro_roles (rt_routes r)) role of
     None \<Rightarrow> Inl (NoInstanceForRole role) | Some i \<Rightarrow> Inr i)"

definition switch :: "role_router \<Rightarrow> string \<Rightarrow> string \<Rightarrow> routing_error + string option \<times> role_router" where
  "switch r role inst =
     (if role \<notin> set ROLES then Inl (NotARole role)
      else (let previous = map_of (ro_roles (rt_routes r)) role
            in Inr (previous, r\<lparr>rt_routes := (rt_routes r)\<lparr>ro_roles := AList.update role inst (ro_roles (rt_routes r))\<rparr>,
                 rt_history := rt_history r @ [(role, previous, inst)]\<rparr>)))"


section \<open>Facts about the breaker\<close>

lemma entry_of_update [simp]: "entry_of (AList.update k e es) k' = (if k' = k then e else entry_of es k')"
  by (simp add: entry_of_def)

text \<open>What an open breaker answers before and after its cooldown.\<close>

lemma allow_open_waiting:
  assumes "cb_state (entry_of es k) = BrOpen" "cb_opened_at (entry_of es k) = Some t" "now < t + bc_cooldown c"
  shows "fst (allow c now k es) = False" "entry_of (snd (allow c now k es)) k = entry_of es k"
  using assms by (simp_all add: allow_def breaker_state_of_def cooled_def Let_def)

lemma allow_open_cooled:
  assumes "cb_state (entry_of es k) = BrOpen" "cb_opened_at (entry_of es k) = Some t" "t + bc_cooldown c \<le> now"
    and "cb_last_reason (entry_of es k) \<noteq> trial_in_flight"
  shows "fst (allow c now k es)"
    "entry_of (snd (allow c now k es)) k = (entry_of es k)\<lparr>cb_state := BrHalfOpen, cb_last_reason := trial_in_flight\<rparr>"
  using assms by (simp_all add: allow_def breaker_state_of_def cooled_def Let_def)

lemma allow_trial:
  assumes "cb_state (entry_of es k) = BrHalfOpen" "cb_last_reason (entry_of es k) = trial_in_flight"
  shows "\<not> fst (allow c now k es)"
  using assms by (simp add: allow_def breaker_state_of_def cooled_def Let_def split: option.splits)

lemma allow_closed:
  assumes "cb_state (entry_of es k) = BrClosed"
  shows "fst (allow c now k es)" "entry_of (snd (allow c now k es)) k = entry_of es k"
  using assms by (simp_all add: allow_def breaker_state_of_def cooled_def Let_def split: option.splits)

lemma allow_other: "k' \<noteq> k \<Longrightarrow> entry_of (snd (allow c now k es)) k' = entry_of es k'"
  by (simp add: allow_def breaker_state_of_def Let_def split: breaker_state.splits)

lemma failure_entry:
  "entry_of (snd (snd (record_failure c now k reason es))) k =
   (let e = (entry_of es k)\<lparr>cb_failures := cb_failures (entry_of es k) + 1, cb_last_reason := reason\<rparr>
    in if cb_state e = BrHalfOpen \<or> cb_failures e \<ge> bc_failure_threshold c
       then e\<lparr>cb_state := BrOpen, cb_opened_at := Some now\<rparr> else e)"
  by (simp add: record_failure_def Let_def)

definition fail_all :: "breaker_config \<Rightarrow> string \<Rightarrow> (time \<times> string) list \<Rightarrow> breaker_entries \<Rightarrow> breaker_entries" where
  "fail_all c k fs es = foldl (\<lambda>es f. snd (snd (record_failure c (fst f) k (snd f) es))) es fs"

lemma fail_all_snoc: "fail_all c k (fs @ [f]) es = snd (snd (record_failure c (fst f) k (snd f) (fail_all c k fs es)))"
  by (simp add: fail_all_def)

lemma fail_all_counts:
  "cb_state (entry_of es k) \<noteq> BrHalfOpen \<Longrightarrow>
   cb_failures (entry_of (fail_all c k fs es) k) = cb_failures (entry_of es k) + length fs \<and>
   cb_state (entry_of (fail_all c k fs es) k) \<noteq> BrHalfOpen"
proof (induction fs rule: rev_induct)
  case (snoc f fs)
  then show ?case by (simp add: fail_all_snoc failure_entry Let_def)
qed (simp add: fail_all_def)

lemma fail_all_opens:
  assumes "cb_state (entry_of es k) \<noteq> BrHalfOpen" "fs \<noteq> []"
    and "bc_failure_threshold c \<le> cb_failures (entry_of es k) + length fs"
  shows "cb_state (entry_of (fail_all c k fs es) k) = BrOpen \<and> cb_opened_at (entry_of (fail_all c k fs es) k) = Some (fst (last fs))
    \<and> cb_last_reason (entry_of (fail_all c k fs es) k) = snd (last fs)"
proof -
  obtain gs f where fs: "fs = gs @ [f]" using assms(2) by (metis rev_exhaust)
  then show ?thesis
    using fail_all_counts [OF assms(1), of c gs] assms(3) by (simp add: fail_all_snoc failure_entry Let_def)
qed


definition sample_breaker :: breaker_config where
  "sample_breaker = \<lparr>bc_failure_threshold = 2, bc_cooldown = 300\<rparr>"



section \<open>Facts about the budget\<close>

lemma budget_roll_idem [simp]: "budget_roll now (budget_roll now b) = budget_roll now b"
  by (simp add: budget_roll_def Let_def)

lemma cap_charge [simp]: "budget_cap (charge now tokens b) = budget_cap b"
  by (simp add: charge_def budget_roll_def budget_cap_def Let_def)

lemma remaining_charge:
  "budget_remaining now (charge now tokens b) = max 0 (budget_remaining now b - max 0 tokens)"
proof -
  have "spent_today now (charge now tokens b) = spent_today now b + max 0 tokens"
    by (simp add: spent_today_def charge_def budget_roll_def Let_def)
  then show ?thesis by (simp add: budget_remaining_def)
qed

end
