(* ===== verification/Gateway.thy ===== *)
theory Gateway
  imports Effects Breaker
begin

text \<open>
  The LLM gateway and its Consensus Router (\<open>services/llm-gateway/slas_llm_gateway\<close>:
  \<open>consensus.py\<close>, \<open>structured.py\<close>, \<open>gateway.py\<close>).

  The model client, the redactor and the validator of an answer are parameters: a client call
  may raise or answer and changes the client's own state. \<open>gstate\<close> holds what the
  gateway changes: breaker entries, budget, routes, the redactions it noted, the alerts it
  raised and the calls it made on the metrics registry, in order.
\<close>

section \<open>Rules\<close>

record decision_rule =
  dn_decision :: string
  dn_description :: string
  dn_voters :: nat
  dn_rule :: consensus_rule
  dn_approve_phrase :: string
  dn_fields :: "string list"
  dn_if_not_met :: string

definition decision_name_ok :: "string \<Rightarrow> bool" where
  "decision_name_ok s \<longleftrightarrow> (case s of [] \<Rightarrow> False | c # r \<Rightarrow> is_lower c \<and>
     list_all (\<lambda>x. is_lower x \<or> is_digit x \<or> x = CHR ''_'') r)"

definition decision_rule_ok :: "decision_rule \<Rightarrow> bool" where
  "decision_rule_ok r \<longleftrightarrow> decision_name_ok (dn_decision r) \<and> dn_description r \<noteq> [] \<and> 1 \<le> dn_voters r \<and> dn_voters r \<le> 9
     \<and> dn_approve_phrase r \<noteq> [] \<and> dn_if_not_met r \<noteq> []
     \<and> (dn_rule r = Majority_per_field \<longleftrightarrow> dn_fields r \<noteq> [])"

record consensus_rules =
  cr_version :: int
  cr_default_voters :: int
  cr_token_budget_pct :: rat
  cr_decisions :: "(string, decision_rule) dict"

definition rules_from_mapping :: "consensus_rules \<Rightarrow> schema_error + consensus_rules" where
  "rules_from_mapping d =
     (if \<not> list_all (\<lambda>(k, r). decision_rule_ok r) (cr_decisions d) then Inl (ValidationError ''decisions'')
      else if cr_default_voters d < 1 \<or> cr_token_budget_pct d \<le> 0 \<or> cr_token_budget_pct d > 100 then Inl (ValidationError ''rules'')
      else if \<not> list_all (\<lambda>(k, r). k = dn_decision r) (cr_decisions d) then Inl (ValidationError ''decision key'')
      else Inr d)"

definition find_rule :: "consensus_rules \<Rightarrow> string \<Rightarrow> decision_rule option" where
  "find_rule rs decision = map_of (cr_decisions rs) decision"

definition DEFAULT_CONSENSUS :: consensus_rules where
  "DEFAULT_CONSENSUS = \<lparr>cr_version = 1, cr_default_voters = 3, cr_token_budget_pct = 5, cr_decisions =
     map (\<lambda>r. (dn_decision r, r))
      [\<lparr>dn_decision = ''plan_approval'', dn_description = ''A Validation or Factory plan before anything runs.'',
        dn_voters = 3, dn_rule = Unanimous, dn_approve_phrase = ''approve the plan'', dn_fields = [],
        dn_if_not_met = ''You decide; the concerns are shown above.''\<rparr>,
       \<lparr>dn_decision = ''code_change'', dn_description = ''The Coding Agent'' @ [CHR 0x27] @ ''s final diff.'',
        dn_voters = 3, dn_rule = Majority, dn_approve_phrase = ''approve the change'', dn_fields = [],
        dn_if_not_met = ''Address each concern or dismiss it with a note.''\<rparr>,
       \<lparr>dn_decision = ''ticket_diagnosis'', dn_description = ''Owner, severity and root cause of a finding.'',
        dn_voters = 3, dn_rule = Majority_per_field, dn_approve_phrase = ''agree'',
        dn_fields = [''owner'', ''severity'', ''root_cause''], dn_if_not_met = ''Your call.''\<rparr>,
       \<lparr>dn_decision = ''factory_pass'', dn_description = ''A unit'' @ [CHR 0x27] @ ''s PASS verdict on the line.'',
        dn_voters = 3, dn_rule = Unanimous, dn_approve_phrase = ''say PASS'', dn_fields = [],
        dn_if_not_met = ''The line lead decides.''\<rparr>,
       \<lparr>dn_decision = ''rca_conclusion'', dn_description = ''The root-cause conclusion in a report.'',
        dn_voters = 3, dn_rule = Majority, dn_approve_phrase = ''agree with the conclusion'', dn_fields = [],
        dn_if_not_met = ''The conclusion is marked uncertain in the report.''\<rparr>]\<rparr>"

definition default_rules :: "schema_error + consensus_rules" where
  "default_rules = rules_from_mapping DEFAULT_CONSENSUS"


section \<open>The tally\<close>

definition say :: "nat \<Rightarrow> string" where
  "say n = (if n = 1 then ''says'' else ''say'')"

definition field_label :: "string \<Rightarrow> string" where
  "field_label = py_replace_char (CHR ''_'') (CHR '' '')"

definition dissent :: "vote \<Rightarrow> string" where
  "dissent v = v_voter v @ '' '' @ (if v_verdict v = Concern then ''has a concern'' else ''rejects it'') @ '': '' @ v_reason v"

text \<open>\<open>collections.Counter\<close>: the counts in the order of first occurrence, and \<open>most_common\<close>.\<close>

definition counter :: "string list \<Rightarrow> (string \<times> nat) list" where
  "counter xs = foldl (\<lambda>d x. AList.update x (case map_of d x of None \<Rightarrow> 1 | Some n \<Rightarrow> n + 1) d) [] xs"

definition most_common :: "(string \<times> nat) list \<Rightarrow> (string \<times> nat) list" where
  "most_common d = sort_key (\<lambda>p. - int (snd p)) d"

definition field_values :: "string \<Rightarrow> vote list \<Rightarrow> string list" where
  "field_values f votes = concat (map (\<lambda>v. case map_of (v_fields v) f of None \<Rightarrow> [] | Some x \<Rightarrow> [x]) votes)"

text \<open>One field of a per-field decision: whether it is decided, and what is said of it.\<close>

definition tally_field :: "decision_rule \<Rightarrow> vote list \<Rightarrow> string \<Rightarrow> bool \<times> string" where
  "tally_field rule votes f =
     (let vals = most_common (counter (field_values f votes));
          (top_value, top_count) = (case vals of [] \<Rightarrow> ([], 0) | p # _ \<Rightarrow> p);
          spread = py_join '', '' (map (\<lambda>(v, c). show_nat c @ '' '' @ say c @ '' '' @ v) vals)
      in if top_count * 2 > dn_voters rule
         then (True, show_nat top_count @ '' of '' @ show_nat (length votes) @ '' agree the '' @ field_label f @ '' is '' @ top_value @ ''.'')
         else (False, py_capitalize (field_label f) @ '': '' @ (if spread = [] then ''nobody answered'' else spread)
                 @ ''. '' @ dn_if_not_met rule))"

definition approvals_of :: "vote list \<Rightarrow> nat" where
  "approvals_of votes = length (filter (\<lambda>v. v_verdict v = Approve) votes)"

definition tally :: "decision_rule \<Rightarrow> vote list \<Rightarrow> string list \<Rightarrow> bool \<Rightarrow> consensus_verdict" where
  "tally rule votes unavailable degraded0 =
     (let n = length votes; panel = dn_voters rule;
          degraded = (degraded0 \<or> n < panel);
          concerns = map dissent (filter (\<lambda>v. v_verdict v \<noteq> Approve) votes);
          fields = map (\<lambda>f. (f, tally_field rule votes f)) (dn_fields rule);
          (agreed0, undecided, parts) =
            (if dn_rule rule = Majority_per_field
             then (n > 0 \<and> list_all (\<lambda>(f, ok, _). ok) fields, map fst (filter (\<lambda>(f, ok, _). \<not> ok) fields),
                   map (\<lambda>(f, _, s). s) fields)
             else (let a = approvals_of votes;
                       agreed = (if dn_rule rule = Unanimous then a = panel else a * 2 > panel)
                   in (agreed, [],
                       [show_nat a @ '' of '' @ show_nat n @ '' '' @ dn_approve_phrase rule @ ''.'']
                       @ (if concerns \<noteq> [] then [py_join ''; '' concerns @ ''.''] else [])
                       @ (if agreed then [] else [dn_if_not_met rule]))));
          agreed = (n \<noteq> 0 \<and> agreed0);
          parts1 = parts @ map (\<lambda>v. v @ '' didn'' @ [CHR 0x27] @ ''t answer and is paused.'') unavailable
            @ (if degraded \<and> n \<noteq> 0 \<and> n < panel
               then [''Only '' @ show_nat n @ '' of '' @ show_nat panel @ '' voters answered; treat this as a weaker check.'']
               else [])
      in \<lparr>cv_decision = dn_decision rule, cv_rule = dn_rule rule, cv_votes = votes, cv_agreed = agreed, cv_degraded = degraded,
          cv_sentence = py_join '' '' parts1, cv_concerns = concerns, cv_undecided_fields = undecided,
          cv_unavailable_voters = unavailable\<rparr>)"


section \<open>Requests and answers\<close>

datatype message_role = MSystem | MUser | MAssistant | MTool

record message =
  mg_role :: message_role
  mg_content :: string

record completion_request =
  cq_instance :: string
  cq_messages :: "message list"
  cq_guided_json :: "json option"
  cq_max_tokens :: int
  cq_temperature :: rat
  cq_trace_id :: "string option"

record completion_response =
  cp_instance :: string
  cp_text :: string
  cp_prompt_tokens :: int
  cp_completion_tokens :: int
  cp_finish_reason :: string

definition total_tokens :: "completion_response \<Rightarrow> int" where
  "total_tokens r = cp_prompt_tokens r + cp_completion_tokens r"

record redaction =
  rx_text :: string
  rx_hits :: "(string, nat) dict"

record 'v structured_result =
  sr_value :: 'v
  sr_instance :: string
  sr_attempts :: nat
  sr_tokens :: int
  sr_response :: completion_response

definition tier :: "'v structured_result \<Rightarrow> nat" where
  "tier r = (if sr_attempts r = 1 then 0 else 1)"

datatype gateway_error =
    VoterUnavailable string string
  | SchemaViolation string nat string
  | UnknownDecision string "string list"
  | RoutingFailed routing_error

datatype metric_call = MetricInc string rat "string list" | MetricSet string rat "string list"

record 'c gateway =
  gw_client :: "completion_request \<Rightarrow> 'c \<Rightarrow> (string + completion_response) \<times> 'c"
  gw_redact :: "string \<Rightarrow> redaction"
  gw_breaker :: breaker_config
  gw_rules :: consensus_rules
  gw_clock :: "nat \<Rightarrow> time"
  gw_channel :: bool
  gw_trace_id :: "string option"
  gw_vote_schema :: json
  gw_read_vote :: "string \<Rightarrow> string + vote"

record 'c gstate =
  gs_ticks :: nat
  gs_entries :: breaker_entries
  gs_budget :: token_budget
  gs_router :: role_router
  gs_redactions :: "redaction list"
  gs_alerts :: "string list"
  gs_raised :: "(string \<times> string \<times> string \<times> (string \<times> string) list) list"
  gs_metrics :: "metric_call list"
  gs_client :: 'c
  gs_asked :: "completion_request list"

type_synonym ('c, 'a) gprog = "('c gstate, gateway_error, 'a) prog"

text \<open>\<open>gs_asked\<close> records the requests that reached the client.\<close>

definition g_now :: "'c gateway \<Rightarrow> ('c, time) gprog" where
  "g_now G = bind (gets (\<lambda>s. gw_clock G (gs_ticks s))) (\<lambda>t. bind (modify (\<lambda>s. s\<lparr>gs_ticks := gs_ticks s + 1\<rparr>)) (\<lambda>_. ret t))"

definition g_metric :: "metric_call \<Rightarrow> ('c, unit) gprog" where
  "g_metric m = modify (\<lambda>s. s\<lparr>gs_metrics := gs_metrics s @ [m]\<rparr>)"

text \<open>\<open>Gateway._raise\<close>.\<close>

definition g_raise :: "'c gateway \<Rightarrow> string \<Rightarrow> string \<Rightarrow> string \<Rightarrow> (string \<times> string) list \<Rightarrow> ('c, unit) gprog" where
  "g_raise G name severity sentence labels =
     (if gw_channel G then modify (\<lambda>s. s\<lparr>gs_raised := gs_raised s @ [(name, severity, sentence, labels)]\<rparr>) else ret ())"

definition breaker_allow :: "'c gateway \<Rightarrow> string \<Rightarrow> ('c, bool) gprog" where
  "breaker_allow G k = bind (g_now G) (\<lambda>now.
     bind (gets (\<lambda>s. fst (allow (gw_breaker G) now k (gs_entries s)))) (\<lambda>ok.
     bind (modify (\<lambda>s. s\<lparr>gs_entries := snd (allow (gw_breaker G) now k (gs_entries s))\<rparr>)) (\<lambda>_. ret ok)))"

definition breaker_says :: "'c gateway \<Rightarrow> string \<Rightarrow> ('c, string) gprog" where
  "breaker_says G k = bind (g_now G) (\<lambda>now.
     bind (gets (\<lambda>s. breaker_sentence (gw_breaker G) now k (gs_entries s))) (\<lambda>w.
     bind (modify (\<lambda>s. s\<lparr>gs_entries := snd (breaker_state_of (gw_breaker G) now k (gs_entries s))\<rparr>)) (\<lambda>_. ret w)))"

definition breaker_success :: "string \<Rightarrow> ('c, unit) gprog" where
  "breaker_success k = bind (modify (\<lambda>s. s\<lparr>gs_entries := record_success k (gs_entries s)\<rparr>)) (\<lambda>_.
     g_metric (MetricSet ''slas_breaker_open'' 0 [k]))"

text \<open>\<open>record_failure\<close> with its metrics and \<open>_breaker_tripped\<close>, the gateway's \<open>on_trip\<close>.\<close>

definition breaker_failure :: "'c gateway \<Rightarrow> string \<Rightarrow> string \<Rightarrow> ('c, unit) gprog" where
  "breaker_failure G k reason = bind (g_now G) (\<lambda>now.
     bind (gets (\<lambda>s. record_failure (gw_breaker G) now k reason (gs_entries s))) (\<lambda>(opened, tripped, es).
     bind (modify (\<lambda>s. s\<lparr>gs_entries := es\<rparr>)) (\<lambda>_.
     if \<not> opened then ret ()
     else bind (g_metric (MetricSet ''slas_breaker_open'' 1 [k])) (\<lambda>_.
       if \<not> tripped then ret ()
       else bind (g_metric (MetricInc ''slas_breaker_trips_total'' 1 [k])) (\<lambda>_.
            bind (breaker_says G k) (\<lambda>w. g_raise G ''circuit_breaker_open'' ''warning'' w [(''instance'', k)]))))))"

text \<open>\<open>client.complete\<close>.\<close>

definition ask :: "'c gateway \<Rightarrow> completion_request \<Rightarrow> ('c, string + completion_response) gprog" where
  "ask G rq s = (let (r, c) = gw_client G rq (gs_client s)
     in (Ret r, s\<lparr>gs_client := c, gs_asked := gs_asked s @ [rq]\<rparr>))"


section \<open>Schema-enforced generation\<close>

definition retry_request :: "completion_request \<Rightarrow> completion_response \<Rightarrow> string \<Rightarrow> completion_request" where
  "retry_request current response err = current\<lparr>cq_messages := cq_messages current @
     [\<lparr>mg_role = MAssistant, mg_content = cp_text response\<rparr>,
      \<lparr>mg_role = MTool, mg_content = ''Your answer did not match the required schema ('' @ err
         @ ''). Answer again with only the JSON object.''\<rparr>]\<rparr>"

text \<open>One pass of the loop; \<open>again\<close> is what follows an invalid answer.\<close>

definition gen_attempt ::
  "'c gateway \<Rightarrow> (string \<Rightarrow> string + 'v) \<Rightarrow> completion_request \<Rightarrow> nat \<Rightarrow> int \<Rightarrow>
   (completion_response \<Rightarrow> string \<Rightarrow> nat \<Rightarrow> int \<Rightarrow> ('c, 'v structured_result) gprog) \<Rightarrow> ('c, 'v structured_result) gprog" where
  "gen_attempt G validate current attempts tokens again =
     (let k = cq_instance current in
      bind (breaker_allow G k) (\<lambda>ok.
      if \<not> ok then bind (breaker_says G k) (\<lambda>w. raise (VoterUnavailable k w))
      else bind (ask G current) (\<lambda>answer.
        case answer of
          Inl why \<Rightarrow> bind (breaker_failure G k ''did not answer'') (\<lambda>_. raise (VoterUnavailable k why))
        | Inr response \<Rightarrow>
            (case validate (cp_text response) of
               Inr v \<Rightarrow> bind (breaker_success k) (\<lambda>_. ret \<lparr>sr_value = v, sr_instance = k, sr_attempts = attempts + 1,
                   sr_tokens = tokens + total_tokens response, sr_response = response\<rparr>)
             | Inl err \<Rightarrow> bind (breaker_failure G k (''schema: '' @ err))
                   (\<lambda>_. again response err (attempts + 1) (tokens + total_tokens response))))))"

text \<open>The loop with the retries that are left.\<close>

primrec gen_loop :: "'c gateway \<Rightarrow> (string \<Rightarrow> string + 'v) \<Rightarrow> nat \<Rightarrow> completion_request \<Rightarrow> nat \<Rightarrow> int \<Rightarrow> ('c, 'v structured_result) gprog" where
  "gen_loop G validate 0 = (\<lambda>current attempts tokens. gen_attempt G validate current attempts tokens
     (\<lambda>response err attempts tokens. raise (SchemaViolation (cq_instance current) attempts err)))"
| "gen_loop G validate (Suc n) = (\<lambda>current attempts tokens. gen_attempt G validate current attempts tokens
     (\<lambda>response err attempts tokens. gen_loop G validate n (retry_request current response err) attempts tokens))"

definition generate_validated :: "'c gateway \<Rightarrow> completion_request \<Rightarrow> json \<Rightarrow> (string \<Rightarrow> string + 'v) \<Rightarrow> nat \<Rightarrow> ('c, 'v structured_result) gprog" where
  "generate_validated G request schema validate max_retries =
     gen_loop G validate max_retries (request\<lparr>cq_guided_json := Some schema\<rparr>) 0 0"


section \<open>The gateway\<close>

definition VOTER_INSTRUCTION :: string where
  "VOTER_INSTRUCTION = ''You are one of several independent reviewers. Judge only the evidence given. ''
     @ ''Answer with a single JSON object: verdict (approve, concern or reject), fields ''
     @ ''(the values you were asked to decide, if any), reason (one sentence) and confidence ''
     @ ''(0 to 1). You do not see the other reviewers'' @ [CHR 0x27] @ '' answers.''"

definition VOTE_TOKEN_ESTIMATE :: int where
  "VOTE_TOKEN_ESTIMATE = 800"

definition redact_messages :: "'c gateway \<Rightarrow> message list \<Rightarrow> ('c, message list) gprog" where
  "redact_messages G ms =
     (let rs = map (\<lambda>m. gw_redact G (mg_content m)) ms in
      bind (modify (\<lambda>s. s\<lparr>gs_redactions := gs_redactions s @ filter (\<lambda>r. rx_hits r \<noteq> []) rs\<rparr>)) (\<lambda>_.
      ret (map2 (\<lambda>m r. m\<lparr>mg_content := rx_text r\<rparr>) ms rs)))"

definition route_to :: "string \<Rightarrow> ('c, string) gprog" where
  "route_to role = bind (gets (\<lambda>s. instance_for (gs_router s) role)) (\<lambda>r. lift RoutingFailed r)"

definition count_tokens :: "string \<Rightarrow> completion_response \<Rightarrow> ('c, unit) gprog" where
  "count_tokens role r =
     bind (g_metric (MetricInc ''slas_gateway_tokens_total'' (of_int (cp_prompt_tokens r)) [role, ''prompt''])) (\<lambda>_.
     g_metric (MetricInc ''slas_gateway_tokens_total'' (of_int (cp_completion_tokens r)) [role, ''completion'']))"

definition gateway_complete :: "'c gateway \<Rightarrow> string \<Rightarrow> message list \<Rightarrow> int \<Rightarrow> rat \<Rightarrow> json option \<Rightarrow> ('c, completion_response) gprog" where
  "gateway_complete G role messages max_tokens temperature guided =
     bind (route_to role) (\<lambda>inst.
     bind (breaker_allow G inst) (\<lambda>ok.
     if \<not> ok then bind (g_metric (MetricInc ''slas_gateway_requests_total'' 1 [role, ''breaker_open''])) (\<lambda>_.
       bind (breaker_says G inst) (\<lambda>w. raise (VoterUnavailable inst w)))
     else bind (redact_messages G messages) (\<lambda>ms.
       bind (ask G \<lparr>cq_instance = inst, cq_messages = ms, cq_guided_json = guided, cq_max_tokens = max_tokens,
               cq_temperature = temperature, cq_trace_id = gw_trace_id G\<rparr>) (\<lambda>answer.
       case answer of
         Inl why \<Rightarrow> bind (breaker_failure G inst ''did not answer'') (\<lambda>_.
           bind (g_metric (MetricInc ''slas_gateway_requests_total'' 1 [role, ''unavailable''])) (\<lambda>_.
           raise (VoterUnavailable inst why)))
       | Inr response \<Rightarrow> bind (breaker_success inst) (\<lambda>_.
           bind (count_tokens role response) (\<lambda>_.
           bind (g_metric (MetricInc ''slas_gateway_requests_total'' 1 [role, ''ok''])) (\<lambda>_. ret response)))))))"

text \<open>\<open>Gateway._counted\<close>.\<close>

definition counted :: "string \<Rightarrow> ('c, 'v structured_result) gprog \<Rightarrow> ('c, 'v structured_result) gprog" where
  "counted role m =
     bind (catch m (\<lambda>e. case e of
         SchemaViolation k n w \<Rightarrow> bind (g_metric (MetricInc ''slas_gateway_requests_total'' 1 [role, ''schema_violation''])) (\<lambda>_. raise e)
       | VoterUnavailable k w \<Rightarrow> bind (g_metric (MetricInc ''slas_gateway_requests_total'' 1 [role, ''unavailable''])) (\<lambda>_. raise e)
       | _ \<Rightarrow> raise e)) (\<lambda>result.
     bind (g_metric (MetricInc ''slas_gateway_requests_total'' 1 [role, ''ok''])) (\<lambda>_.
     bind (g_metric (MetricInc ''slas_gateway_tokens_total'' (of_int (sr_tokens result)) [role, ''completion''])) (\<lambda>_.
     ret result)))"

text \<open>\<open>generate\<close> and \<open>generate_json\<close>: they differ in the schema and the validator.\<close>

definition generate_json :: "'c gateway \<Rightarrow> string \<Rightarrow> message list \<Rightarrow> json \<Rightarrow> (string \<Rightarrow> string + 'v) \<Rightarrow> int \<Rightarrow> nat \<Rightarrow> ('c, 'v structured_result) gprog" where
  "generate_json G role messages schema validate max_tokens max_retries =
     bind (route_to role) (\<lambda>inst.
     bind (redact_messages G messages) (\<lambda>ms.
     counted role (generate_validated G \<lparr>cq_instance = inst, cq_messages = ms, cq_guided_json = None, cq_max_tokens = max_tokens,
       cq_temperature = 0, cq_trace_id = gw_trace_id G\<rparr> schema validate max_retries)))"


section \<open>The Consensus Router\<close>

text \<open>The answer of one voter, \<open>None\<close> when it could not be had.\<close>

definition ask_voter :: "'c gateway \<Rightarrow> string \<Rightarrow> message list \<Rightarrow> string \<Rightarrow> ('c, vote option) gprog" where
  "ask_voter G decision cleaned voter =
     bind (catch (bind (generate_validated G \<lparr>cq_instance = voter, cq_messages = cleaned, cq_guided_json = None,
         cq_max_tokens = 1024, cq_temperature = 0, cq_trace_id = gw_trace_id G\<rparr> (gw_vote_schema G) (gw_read_vote G) 2)
         (\<lambda>r. ret (Some r)))
       (\<lambda>e. case e of SchemaViolation k n w \<Rightarrow> ret None | VoterUnavailable k w \<Rightarrow> ret None | _ \<Rightarrow> raise e)) (\<lambda>answer.
     case answer of
       None \<Rightarrow> bind (g_metric (MetricInc ''slas_gateway_requests_total'' 1 [''voter'', ''unavailable''])) (\<lambda>_. ret None)
     | Some result \<Rightarrow>
         bind (g_now G) (\<lambda>now.
         bind (modify (\<lambda>s. s\<lparr>gs_budget := charge now (sr_tokens result) (gs_budget s)\<rparr>)) (\<lambda>_.
         bind (g_metric (MetricInc ''slas_gateway_requests_total'' 1 [''voter'', ''ok''])) (\<lambda>_.
         bind (g_metric (MetricInc ''slas_gateway_tokens_total'' (of_int (sr_tokens result)) [''voter'', ''completion''])) (\<lambda>_.
         let v = (sr_value result)\<lparr>v_voter := voter\<rparr> in
         bind (g_metric (MetricInc ''slas_consensus_votes_total'' 1 [decision,
            (case v_verdict v of Approve \<Rightarrow> ''approve'' | Concern \<Rightarrow> ''concern'' | Reject \<Rightarrow> ''reject'')])) (\<lambda>_.
         ret (Some v)))))))"

fun ask_panel :: "'c gateway \<Rightarrow> string \<Rightarrow> message list \<Rightarrow> string list \<Rightarrow> vote list \<Rightarrow> string list \<Rightarrow> ('c, vote list \<times> string list) gprog" where
  "ask_panel G decision cleaned [] votes unavailable = ret (votes, unavailable)"
| "ask_panel G decision cleaned (v # vs) votes unavailable =
     bind (ask_voter G decision cleaned v) (\<lambda>r. case r of
         None \<Rightarrow> ask_panel G decision cleaned vs votes (unavailable @ [v])
       | Some vote \<Rightarrow> ask_panel G decision cleaned vs (votes @ [vote]) unavailable)"

text \<open>What \<open>cross_check\<close> reports once the votes are in.\<close>

definition report_check :: "'c gateway \<Rightarrow> string \<Rightarrow> nat \<Rightarrow> consensus_verdict \<Rightarrow> ('c, unit) gprog" where
  "report_check G decision panel_size verdict =
     (let unavailable = cv_unavailable_voters verdict in
      bind (if cv_agreed verdict then ret ()
            else bind (g_metric (MetricInc ''slas_consensus_disagreements_total'' 1 [decision])) (\<lambda>_.
              g_raise G ''consensus_disagreement'' ''warning''
                (''The voters did not agree on '' @ decision @ ''; a person decides. '' @ cv_sentence verdict)
                [(''decision'', decision)])) (\<lambda>_.
      if cv_degraded verdict \<or> unavailable \<noteq> []
      then bind (g_metric (MetricInc ''slas_consensus_degraded_total'' 1 [decision])) (\<lambda>_.
        if unavailable = [] then ret ()
        else g_raise G ''consensus_degraded'' ''warning''
          (decision @ '' was checked by '' @ show_nat (length (cv_votes verdict)) @ '' of '' @ show_nat panel_size
           @ '' voters; '' @ py_join '', '' unavailable @ '' did not answer.'') [(''decision'', decision)])
      else ret ()))"

definition over_budget_sentence :: "string \<Rightarrow> string \<Rightarrow> string" where
  "over_budget_sentence decision budget = ''Cross-check budget for today is used up; '' @ decision
     @ '' was checked by one model only. '' @ budget"

definition cross_check :: "'c gateway \<Rightarrow> string \<Rightarrow> message list \<Rightarrow> ('c, consensus_verdict) gprog" where
  "cross_check G decision evidence =
     (case find_rule (gw_rules G) decision of
        None \<Rightarrow> raise (UnknownDecision decision (sort (map fst (cr_decisions (gw_rules G)))))
      | Some rule \<Rightarrow>
     bind (redact_messages G evidence) (\<lambda>ms.
     let cleaned = \<lparr>mg_role = MSystem, mg_content = VOTER_INSTRUCTION\<rparr> # ms in
     bind (gets (\<lambda>s. take (dn_voters rule) (ro_voters (rt_routes (gs_router s))))) (\<lambda>panel0.
     if panel0 = [] then ret (tally rule [] [] True)
     else
     bind (g_now G) (\<lambda>now.
     bind (gets (\<lambda>s. \<not> can_afford now (VOTE_TOKEN_ESTIMATE * int (length panel0)) (gs_budget s))) (\<lambda>over_budget.
     bind (gets (\<lambda>s. over_budget_sentence decision (budget_sentence now (gs_budget s)))) (\<lambda>sentence.
     bind (modify (\<lambda>s. s\<lparr>gs_budget := budget_roll now (gs_budget s)\<rparr>)) (\<lambda>_.
     bind (if over_budget
           then bind (modify (\<lambda>s. s\<lparr>gs_alerts := gs_alerts s @ [sentence]\<rparr>))
                  (\<lambda>_. g_raise G ''consensus_budget_exhausted'' ''warning'' sentence [(''decision'', decision)])
           else ret ()) (\<lambda>_.
     let panel = (if over_budget then take 1 panel0 else panel0) in
     bind (ask_panel G decision cleaned panel [] []) (\<lambda>(votes, unavailable).
     bind (g_now G) (\<lambda>later.
     bind (gets (\<lambda>s. budget_remaining later (gs_budget s))) (\<lambda>remaining.
     bind (modify (\<lambda>s. s\<lparr>gs_budget := budget_roll later (gs_budget s)\<rparr>)) (\<lambda>_.
     bind (g_metric (MetricSet ''slas_consensus_budget_remaining_tokens'' (of_int remaining) [])) (\<lambda>_.
     let verdict = tally rule votes unavailable over_budget in
     bind (report_check G decision (length panel) verdict) (\<lambda>_.
     ret (if over_budget
          then verdict\<lparr>cv_sentence := ''Checked by one model only: today'' @ [CHR 0x27]
                 @ ''s cross-check budget is used up. '' @ cv_sentence verdict\<rparr>
          else verdict)))))))))))))))"

end
