(* ===== verification/Gateway_Theorems.thy ===== *)
theory Gateway_Theorems
  imports Gateway
begin

text \<open>
  Properties of the gateway: what a verdict means, that a cross-check always comes back, that
  only validated answers do, and that every prompt is redacted before it reaches a model.
\<close>

section \<open>The tally\<close>

lemma counter_fold:
  "map_of (foldl (\<lambda>d x. AList.update x (case map_of d x of None \<Rightarrow> 1 | Some n \<Rightarrow> n + 1) d) d0 xs) v =
   (if v \<in> set xs \<or> map_of d0 v \<noteq> None
    then Some (length (filter (\<lambda>x. x = v) xs) + (case map_of d0 v of None \<Rightarrow> 0 | Some n \<Rightarrow> n)) else None)"
  by (induction xs arbitrary: d0) (auto split: option.splits)

lemma counter_wf: "distinct (map fst (counter xs))"
proof -
  have "distinct (map fst (foldl (\<lambda>d x. AList.update x (f d x) d) d0 xs))" if "distinct (map fst d0)"
    for f :: "(string \<times> nat) list \<Rightarrow> string \<Rightarrow> nat" and d0
    using that by (induction xs arbitrary: d0) (auto intro: distinct_update)
  then show ?thesis by (simp add: counter_def)
qed

lemma counter_count: "(v, n) \<in> set (counter xs) \<longleftrightarrow> v \<in> set xs \<and> n = length (filter (\<lambda>x. x = v) xs)"
  using counter_wf [of xs] map_of_eq_Some_iff [of "counter xs" v n] counter_fold [of "[]" xs v]
  by (auto simp: counter_def split: if_splits)

lemma most_common_max:
  assumes "most_common d = p # ps" "q \<in> set d"
  shows "snd q \<le> snd p"
proof -
  have "sorted (map (\<lambda>p. - int (snd p)) (p # ps))" using sorted_sort_key assms(1) by (metis most_common_def)
  moreover have "q \<in> set (p # ps)" using assms by (metis most_common_def set_sort)
  ultimately show ?thesis by auto
qed

text \<open>A field is decided exactly when more than half of the panel gave the same value.\<close>

lemma tally_field_decided:
  "fst (tally_field rule votes f) \<longleftrightarrow>
   (\<exists>v. length (filter (\<lambda>x. x = v) (field_values f votes)) * 2 > dn_voters rule)"
proof (cases "most_common (counter (field_values f votes))")
  case Nil
  then have "counter (field_values f votes) = []" by (metis most_common_def set_empty set_sort)
  then have "v \<notin> set (field_values f votes)" for v using counter_count [of v _ "field_values f votes"] by fastforce
  then have "field_values f votes = []" by (meson list.set_sel(1))
  then show ?thesis using Nil by (simp add: tally_field_def)
next
  case (Cons p ps)
  obtain v n where p: "p = (v, n)" by fastforce
  have "(v, n) \<in> set (counter (field_values f votes))" using Cons p by (metis list.set_intros(1) most_common_def set_sort)
  then have n: "n = length (filter (\<lambda>x. x = v) (field_values f votes))" by (simp add: counter_count)
  have "length (filter (\<lambda>x. x = w) (field_values f votes)) \<le> n" for w
  proof (cases "w \<in> set (field_values f votes)")
    case True
    then show ?thesis using most_common_max [OF Cons, of "(w, length (filter (\<lambda>x. x = w) (field_values f votes)))"] p
      by (simp add: counter_count)
  next
    case False
    then have "filter (\<lambda>x. x = w) (field_values f votes) = []" by (auto simp: filter_empty_conv)
    then show ?thesis by simp
  qed
  then have "n * 2 > dn_voters rule \<longleftrightarrow> (\<exists>v. length (filter (\<lambda>x. x = v) (field_values f votes)) * 2 > dn_voters rule)"
    using n by (metis less_le_trans mult_le_mono1)
  then show ?thesis using Cons p by (simp add: tally_field_def Let_def)
qed

lemma tally_verdict:
  assumes "1 \<le> dn_voters rule"
  shows "cv_agreed (tally rule votes unavailable degraded) =
      (case dn_rule rule of
         Unanimous \<Rightarrow> length (filter (\<lambda>v. v_verdict v = Approve) votes) = dn_voters rule
       | Majority \<Rightarrow> length (filter (\<lambda>v. v_verdict v = Approve) votes) * 2 > dn_voters rule
       | Majority_per_field \<Rightarrow> votes \<noteq> [] \<and> (\<forall>f \<in> set (dn_fields rule). \<exists>x.
           length (filter (\<lambda>y. y = x) (field_values f votes)) * 2 > dn_voters rule))
    \<and> cv_degraded (tally rule votes unavailable degraded) = (degraded \<or> length votes < dn_voters rule)
    \<and> cv_concerns (tally rule votes unavailable degraded) = map dissent (filter (\<lambda>v. v_verdict v \<noteq> Approve) votes)"
proof -
  have "list_all (\<lambda>(f, ok, s). ok) (map (\<lambda>f. (f, tally_field rule votes f)) (dn_fields rule)) \<longleftrightarrow>
      (\<forall>f \<in> set (dn_fields rule). fst (tally_field rule votes f))"
    by (simp add: list_all_iff split_beta)
  moreover have "votes = [] \<Longrightarrow> approvals_of votes = 0" by (simp add: approvals_of_def)
  ultimately show ?thesis
    using assms by (cases "dn_rule rule") (auto simp: tally_def Let_def tally_field_decided approvals_of_def)
qed

text \<open>
  C15. What agreement means: a unanimous decision is agreed exactly when as many votes approve as the
  panel has seats, a majority decision exactly when more than half of the panel does, and a decision
  per field exactly when there is a vote and every field has a value that more than half of the
  panel gave. Voters that did not answer count against agreement, and the verdict says it is
  degraded; every vote that does not approve is among the concerns.
\<close>

theorem tally_agreement:
  assumes "1 \<le> dn_voters rule"
  shows "cv_agreed (tally rule votes unavailable degraded) =
      (case dn_rule rule of
         Unanimous \<Rightarrow> length (filter (\<lambda>v. v_verdict v = Approve) votes) = dn_voters rule
       | Majority \<Rightarrow> length (filter (\<lambda>v. v_verdict v = Approve) votes) * 2 > dn_voters rule
       | Majority_per_field \<Rightarrow> votes \<noteq> [] \<and> (\<forall>f \<in> set (dn_fields rule). \<exists>x.
           length (filter (\<lambda>y. y = x) (field_values f votes)) * 2 > dn_voters rule))
    \<and> cv_degraded (tally rule votes unavailable degraded) = (degraded \<or> length votes < dn_voters rule)
    \<and> cv_concerns (tally rule votes unavailable degraded) = map dissent (filter (\<lambda>v. v_verdict v \<noteq> Approve) votes)"
  using assms by (rule tally_verdict)

definition sample_vote :: "string \<Rightarrow> vote_verdict \<Rightarrow> vote" where
  "sample_vote w v = \<lparr>v_voter = w, v_verdict = v, v_fields = [], v_reason = ''r'', v_confidence = 1\<rparr>"

theorem tally_agreement_witness:
  "cv_agreed (tally (snd (hd (cr_decisions DEFAULT_CONSENSUS))) [sample_vote ''a'' Approve, sample_vote ''b'' Approve, sample_vote ''c'' Approve] [] False)
   \<and> \<not> cv_agreed (tally (snd (hd (cr_decisions DEFAULT_CONSENSUS))) [sample_vote ''a'' Approve, sample_vote ''b'' Approve] [''c''] False)"
  using tally_agreement [of "snd (hd (cr_decisions DEFAULT_CONSENSUS))"]
  by (simp add: DEFAULT_CONSENSUS_def sample_vote_def)


section \<open>How the gateway's methods end\<close>

text \<open>The voters of the router do not change during a request.\<close>

definition voters_are :: "string list \<Rightarrow> 'c gstate \<Rightarrow> bool" where
  "voters_are vs s \<longleftrightarrow> ro_voters (rt_routes (gs_router s)) = vs"

lemma voters_fields [simp]:
  "voters_are vs (s\<lparr>gs_ticks := a\<rparr>) = voters_are vs s" "voters_are vs (s\<lparr>gs_entries := b\<rparr>) = voters_are vs s"
  "voters_are vs (s\<lparr>gs_budget := c\<rparr>) = voters_are vs s" "voters_are vs (s\<lparr>gs_redactions := d\<rparr>) = voters_are vs s"
  "voters_are vs (s\<lparr>gs_alerts := e\<rparr>) = voters_are vs s" "voters_are vs (s\<lparr>gs_raised := f\<rparr>) = voters_are vs s"
  "voters_are vs (s\<lparr>gs_metrics := g\<rparr>) = voters_are vs s" "voters_are vs (s\<lparr>gs_client := h, gs_asked := i\<rparr>) = voters_are vs s"
  by (simp_all add: voters_are_def)

lemma yields_now: "yields (voters_are vs) (g_now G) (\<lambda>_. True) E"
  unfolding g_now_def by (intro yields_bind_any yields_gets yields_modify yields_ret) simp_all

lemma yields_metric: "yields (voters_are vs) (g_metric m) (\<lambda>_. True) E"
  unfolding g_metric_def by (intro yields_modify) simp_all

lemma yields_alarm: "yields (voters_are vs) (g_raise G n v w ls) (\<lambda>_. True) E"
  unfolding g_raise_def by (auto intro: yields_modify yields_ret)

lemma yields_allow: "yields (voters_are vs) (breaker_allow G k) (\<lambda>_. True) E"
  unfolding breaker_allow_def by (intro yields_bind_any yields_now yields_gets yields_modify yields_ret) simp_all

lemma yields_says: "yields (voters_are vs) (breaker_says G k) (\<lambda>_. True) E"
  unfolding breaker_says_def by (intro yields_bind_any yields_now yields_gets yields_modify yields_ret) simp_all

lemma yields_success: "yields (voters_are vs) (breaker_success k) (\<lambda>_. True) E"
  unfolding breaker_success_def by (intro yields_bind_any yields_metric yields_modify) simp_all

lemma yields_failure: "yields (voters_are vs) (breaker_failure G k reason) (\<lambda>_. True) E"
  unfolding breaker_failure_def
  by (rule yields_bind_any [OF yields_now], rule yields_bind_any, rule yields_gets)
    (auto split: prod.splits intro!: yields_bind_any yields_metric yields_says yields_alarm yields_modify yields_ret)

lemma yields_ask: "yields (voters_are vs) (ask G rq) (\<lambda>_. True) E"
  by (auto simp: yields_def ask_def Let_def split: prod.splits)

lemmas gateway_yields = yields_now yields_metric yields_alarm yields_allow yields_says yields_success yields_failure yields_ask

text \<open>The two errors of schema-enforced generation.\<close>

definition generation_error :: "gateway_error \<Rightarrow> bool" where
  "generation_error e \<longleftrightarrow> (case e of SchemaViolation k n w \<Rightarrow> True | VoterUnavailable k w \<Rightarrow> True | _ \<Rightarrow> False)"

lemma generation_error_iff: "generation_error e \<longleftrightarrow> (\<exists>k n w. e = SchemaViolation k n w \<or> e = VoterUnavailable k w)"
  by (cases e) (auto simp: generation_error_def)

definition validated :: "(string \<Rightarrow> string + 'v) \<Rightarrow> nat \<Rightarrow> 'v structured_result \<Rightarrow> bool" where
  "validated validate n r \<longleftrightarrow> validate (cp_text (sr_response r)) = Inr (sr_value r) \<and> 1 \<le> sr_attempts r \<and> sr_attempts r \<le> n"

lemma yields_attempt:
  assumes "attempts < n"
    and "\<And>response err a t. a = attempts + 1 \<Longrightarrow> yields (voters_are vs) (again response err a t) (validated validate n) generation_error"
  shows "yields (voters_are vs) (gen_attempt G validate current attempts tokens again) (validated validate n) generation_error"
  unfolding gen_attempt_def Let_def using assms
  by (auto intro!: yields_bind_any gateway_yields yields_raise yields_ret simp: generation_error_def validated_def split: sum.splits)

lemma yields_gen_loop:
  "attempts + retries < n \<Longrightarrow> yields (voters_are vs) (gen_loop G validate retries current attempts tokens) (validated validate n) generation_error"
proof (induction retries arbitrary: current attempts tokens)
  case 0
  show ?case
    unfolding gen_loop.simps
    by (rule yields_attempt) (use 0 in \<open>auto intro!: yields_raise simp: generation_error_iff\<close>)
next
  case (Suc r)
  then show ?case by (auto intro!: yields_attempt)
qed

text \<open>
  Schema-enforced generation ends with one of two errors or with a value the validator produced
  from the answer it carries, after at least one and at most \<open>max_retries + 1\<close> attempts: a
  partially valid object is never returned.
\<close>

theorem only_validated_answers:
  "case fst (generate_validated G request schema validate max_retries s) of
     Ret r \<Rightarrow> validate (cp_text (sr_response r)) = Inr (sr_value r) \<and> 1 \<le> sr_attempts r \<and> sr_attempts r \<le> max_retries + 1
   | Raise e \<Rightarrow> (\<exists>k n w. e = SchemaViolation k n w \<or> e = VoterUnavailable k w)
   | Crash \<Rightarrow> False"
proof -
  have "yields (voters_are (ro_voters (rt_routes (gs_router s)))) (generate_validated G request schema validate max_retries)
      (validated validate (max_retries + 1)) generation_error"
    unfolding generate_validated_def by (rule yields_gen_loop) simp
  then have "case fst (generate_validated G request schema validate max_retries s) of
      Ret r \<Rightarrow> validated validate (max_retries + 1) r | Raise e \<Rightarrow> generation_error e | Crash \<Rightarrow> False"
    by (rule yieldsD) (simp add: voters_are_def)
  then show ?thesis by (auto simp: validated_def generation_error_iff split: outcome.splits)
qed


section \<open>Cross-checks come back\<close>

lemma yields_if: "(b \<Longrightarrow> yields P m A E) \<Longrightarrow> (\<not> b \<Longrightarrow> yields P n A E) \<Longrightarrow> yields P (if b then m else n) A E"
  by simp

lemma yields_voter: "yields (voters_are vs) (ask_voter G decision cleaned voter) (\<lambda>r. \<forall>v. r = Some v \<longrightarrow> v_voter v = voter) (\<lambda>_. False)"
proof -
  let ?ask = "generate_validated G \<lparr>cq_instance = voter, cq_messages = cleaned, cq_guided_json = None,
         cq_max_tokens = 1024, cq_temperature = 0, cq_trace_id = gw_trace_id G\<rparr> (gw_vote_schema G) (gw_read_vote G) 2"
  have "yields (voters_are vs) ?ask (\<lambda>_. True) generation_error"
    unfolding generate_validated_def by (rule yields_weaken [OF yields_gen_loop [of 0 2 3]]) simp_all
  then have "yields (voters_are vs) (catch (bind ?ask (\<lambda>r. ret (Some r)))
      (\<lambda>e. case e of SchemaViolation k n w \<Rightarrow> ret None | VoterUnavailable k w \<Rightarrow> ret None | _ \<Rightarrow> raise e)) (\<lambda>_. True) (\<lambda>_. False)"
    by (auto intro!: yields_catch yields_bind_any yields_ret simp: generation_error_iff)
  then show ?thesis
    unfolding ask_voter_def Let_def
    by (rule yields_bind) (auto split: option.splits intro!: yields_bind_any gateway_yields yields_modify yields_ret)
qed

text \<open>Each voter of the panel either voted or is listed as unavailable, in the panel's order.\<close>

lemma yields_panel:
  "yields (voters_are vs) (ask_panel G decision cleaned panel votes unavailable)
     (\<lambda>(votes', unavailable'). \<exists>ok no. votes' = votes @ ok \<and> unavailable' = unavailable @ no \<and>
        length ok + length no = length panel \<and> subseq (map v_voter ok) panel \<and> subseq no panel) (\<lambda>_. False)"
proof (induction panel arbitrary: votes unavailable)
  case (Cons p panel)
  have "yields (voters_are vs) (case r of None \<Rightarrow> ask_panel G decision cleaned panel votes (unavailable @ [p])
        | Some vote \<Rightarrow> ask_panel G decision cleaned panel (votes @ [vote]) unavailable)
      (\<lambda>(votes', unavailable'). \<exists>ok no. votes' = votes @ ok \<and> unavailable' = unavailable @ no \<and>
        length ok + length no = length (p # panel) \<and> subseq (map v_voter ok) (p # panel) \<and> subseq no (p # panel)) (\<lambda>_. False)"
    if r: "\<forall>v. r = Some v \<longrightarrow> v_voter v = p" for r
  proof (cases r)
    case None
    have "yields (voters_are vs) (ask_panel G decision cleaned panel votes (unavailable @ [p]))
        (\<lambda>(votes', unavailable'). \<exists>ok no. votes' = votes @ ok \<and> unavailable' = unavailable @ no \<and>
          length ok + length no = length (p # panel) \<and> subseq (map v_voter ok) (p # panel) \<and> subseq no (p # panel)) (\<lambda>_. False)"
      by (rule yields_weaken [OF Cons.IH]) (force intro: list_emb_Cons)+
    then show ?thesis using None by simp
  next
    case (Some v)
    have "yields (voters_are vs) (ask_panel G decision cleaned panel (votes @ [v]) unavailable)
        (\<lambda>(votes', unavailable'). \<exists>ok no. votes' = votes @ ok \<and> unavailable' = unavailable @ no \<and>
          length ok + length no = length (p # panel) \<and> subseq (map v_voter ok) (p # panel) \<and> subseq no (p # panel)) (\<lambda>_. False)"
      by (rule yields_weaken [OF Cons.IH]) (use r Some in \<open>force intro: list_emb_Cons\<close>)+
    then show ?thesis using Some by simp
  qed
  then show ?case by (auto intro: yields_bind [OF yields_voter])
qed (auto intro!: yields_ret)

lemma yields_redact: "yields (voters_are vs) (redact_messages G ms) (\<lambda>_. True) E"
  unfolding redact_messages_def Let_def by (intro yields_bind_any yields_modify yields_ret) simp_all

lemma yields_report: "yields (voters_are vs) (report_check G decision n verdict) (\<lambda>_. True) E"
  unfolding report_check_def Let_def
  by (intro yields_bind_any) (auto intro!: yields_bind_any gateway_yields yields_ret)

text \<open>What a cross-check returns: the tally of a panel's votes.\<close>

definition checked :: "decision_rule \<Rightarrow> string list \<Rightarrow> consensus_verdict \<Rightarrow> bool" where
  "checked rule vs v \<longleftrightarrow> (\<exists>votes unavailable over. cv_agreed v = cv_agreed (tally rule votes unavailable over)
     \<and> cv_votes v = votes \<and> cv_unavailable_voters v = unavailable \<and> cv_degraded v = cv_degraded (tally rule votes unavailable over)
     \<and> subseq (map v_voter votes) (take (dn_voters rule) vs) \<and> (over \<longrightarrow> length votes \<le> 1))"

lemma tally_fields [simp]:
  "cv_votes (tally rule votes unavailable over) = votes"
  "cv_unavailable_voters (tally rule votes unavailable over) = unavailable"
  by (simp_all add: tally_def Let_def split: prod.split)

lemma yields_cross_check:
  assumes "find_rule (gw_rules G) decision = Some rule"
  shows "yields (voters_are vs) (cross_check G decision evidence) (checked rule vs) (\<lambda>_. False)"
proof -
  have panel: "yields (voters_are vs) (gets (\<lambda>s :: 'a gstate. take (dn_voters rule) (ro_voters (rt_routes (gs_router s)))))
      (\<lambda>p. p = take (dn_voters rule) vs) (\<lambda>_. False)"
    by (rule yields_gets) (simp add: voters_are_def)
  have empty: "checked rule vs (tally rule [] [] True)" by (auto simp: checked_def intro!: exI [of _ True])
  have verdict: "checked rule vs (tally rule votes unavailable over)"
      "checked rule vs ((tally rule votes unavailable over)\<lparr>cv_sentence := w\<rparr>)"
    if "subseq (map v_voter votes) (if over then take 1 (take (dn_voters rule) vs) else take (dn_voters rule) vs)"
    for votes unavailable over w
  proof -
    have "subseq (map v_voter votes) (take (dn_voters rule) vs)"
      using that by (auto split: if_splits intro: subseq_order.trans [OF _ prefix_imp_subseq [OF take_is_prefix]])
    moreover have "over \<longrightarrow> length votes \<le> 1" using that list_emb_length by fastforce
    ultimately show "checked rule vs (tally rule votes unavailable over)"
      "checked rule vs ((tally rule votes unavailable over)\<lparr>cv_sentence := w\<rparr>)"
      unfolding checked_def by (intro exI [of _ votes] exI [of _ unavailable] exI [of _ over], simp)+
  qed
  show ?thesis
    unfolding cross_check_def assms Let_def option.case
    apply (rule yields_bind_any [OF yields_redact])
    apply (rule yields_bind [OF panel])
    apply (rule yields_if, simp add: yields_ret empty)
    apply (rule yields_bind_any [OF yields_now])
    apply (rule yields_bind_any, rule yields_gets, rule TrueI)+
    apply (rule yields_bind_any, rule yields_modify, simp, rule TrueI)
    apply (rule yields_bind_any)
     apply (auto intro!: yields_bind_any yields_alarm yields_modify yields_ret) []
    apply (rule yields_bind [OF yields_panel])
    apply (auto intro!: yields_bind_any gateway_yields yields_report yields_gets yields_modify yields_ret verdict split: prod.splits)
    done
qed


definition sample_gateway :: "string + completion_response \<Rightarrow> (string \<Rightarrow> string + vote) \<Rightarrow> unit gateway" where
  "sample_gateway answer read = \<lparr>gw_client = (\<lambda>rq c. (answer, c)), gw_redact = (\<lambda>t. \<lparr>rx_text = t, rx_hits = []\<rparr>),
     gw_breaker = \<lparr>bc_failure_threshold = 2, bc_cooldown = 300000000\<rparr>, gw_rules = DEFAULT_CONSENSUS, gw_clock = (\<lambda>_. 0),
     gw_channel = True, gw_trace_id = None, gw_vote_schema = JNull, gw_read_vote = read\<rparr>"

definition sample_state :: "unit gstate" where
  "sample_state = \<lparr>gs_ticks = 0, gs_entries = [], gs_budget = \<lparr>tb_daily_tokens = 1000000, tb_pct = 5, tb_day = None, tb_spent = 0\<rparr>,
     gs_router = \<lparr>rt_routes = \<lparr>ro_roles = [(''coder'', ''m1'')], ro_voters = [''v1'', ''v2'', ''v3'']\<rparr>, rt_history = []\<rparr>,
     gs_redactions = [], gs_alerts = [], gs_raised = [], gs_metrics = [], gs_client = (), gs_asked = []\<rparr>"

definition sample_answer :: completion_response where
  "sample_answer = \<lparr>cp_instance = ''m1'', cp_text = ''{}'', cp_prompt_tokens = 5, cp_completion_tokens = 5, cp_finish_reason = ''stop''\<rparr>"



section \<open>Prompts are redacted\<close>

text \<open>The requests that reach a model between two states, all with a property.\<close>

definition asked_with :: "(completion_request \<Rightarrow> bool) \<Rightarrow> 'c gstate \<Rightarrow> 'c gstate \<Rightarrow> bool" where
  "asked_with Q s s' \<longleftrightarrow> (\<exists>new. gs_asked s' = gs_asked s @ new \<and> list_all Q new)"

interpretation asking: effect_order "asked_with Q"
proof unfold_locales
  show "asked_with Q s s" for s :: "'a gstate" by (auto simp: asked_with_def)
  show "asked_with Q s u" if "asked_with Q s t" "asked_with Q t u" for s t u :: "'a gstate"
    using that unfolding asked_with_def by force
qed

lemma asked_same: "gs_asked s' = gs_asked s \<Longrightarrow> asked_with Q s s'"
  by (simp add: asked_with_def)

lemma asking_now: "steps (asked_with Q) (g_now G) (\<lambda>_. True)"
  unfolding g_now_def by (intro asking.steps_bind_any asking.steps_gets_any asking.steps_modify asking.steps_ret TrueI asked_same) simp

lemma asking_metric: "steps (asked_with Q) (g_metric m) (\<lambda>_. True)"
  unfolding g_metric_def by (intro asking.steps_modify asked_same TrueI) simp

lemma asking_alarm: "steps (asked_with Q) (g_raise G n v w ls) (\<lambda>_. True)"
  unfolding g_raise_def by (auto intro!: asking.steps_modify asked_same asking.steps_ret)

lemma asking_allow: "steps (asked_with Q) (breaker_allow G k) (\<lambda>_. True)"
  unfolding breaker_allow_def
  by (intro asking.steps_bind_any asking_now asking.steps_gets_any asking.steps_modify asking.steps_ret TrueI asked_same) simp

lemma asking_says: "steps (asked_with Q) (breaker_says G k) (\<lambda>_. True)"
  unfolding breaker_says_def
  by (intro asking.steps_bind_any asking_now asking.steps_gets_any asking.steps_modify asking.steps_ret TrueI asked_same) simp

lemma asking_success: "steps (asked_with Q) (breaker_success k) (\<lambda>_. True)"
  unfolding breaker_success_def by (intro asking.steps_bind_any asking_metric asking.steps_modify asked_same TrueI) simp

lemma asking_failure: "steps (asked_with Q) (breaker_failure G k reason) (\<lambda>_. True)"
  unfolding breaker_failure_def
  by (rule asking.steps_bind_any [OF asking_now], rule asking.steps_bind_any [OF asking.steps_gets_any])
    (auto split: prod.splits intro!: asking.steps_bind_any asking_metric asking_says asking_alarm asking.steps_modify asked_same asking.steps_ret)

lemma asking_ask: "Q rq \<Longrightarrow> steps (asked_with Q) (ask G rq) (\<lambda>_. True)"
  by (auto simp: steps_def ask_def asked_with_def Let_def split: prod.splits)

lemma asking_redact:
  "steps (asked_with Q) (redact_messages G ms) (\<lambda>r. r = map (\<lambda>m. m\<lparr>mg_content := rx_text (gw_redact G (mg_content m))\<rparr>) ms)"
  unfolding redact_messages_def Let_def
  by (intro asking.steps_bind_any asking.steps_modify asked_same asking.steps_ret TrueI) (simp_all add: zip_map2 zip_same_conv_map)

lemmas asking_steps = asking_now asking_metric asking_alarm asking_allow asking_says asking_success asking_failure

lemma asking_attempt:
  assumes "Q current" "\<And>response err a t. steps (asked_with Q) (again response err a t) (\<lambda>_. True)"
  shows "steps (asked_with Q) (gen_attempt G validate current attempts tokens again) (\<lambda>_. True)"
  unfolding gen_attempt_def Let_def using assms
  by (auto intro!: asking.steps_bind_any asking_steps asking_ask asking.steps_raise asking.steps_ret split: sum.splits)

lemma asking_gen_loop:
  assumes "\<And>rq response err. Q rq \<Longrightarrow> Q (retry_request rq response err)"
  shows "Q current \<Longrightarrow> steps (asked_with Q) (gen_loop G validate retries current attempts tokens) (\<lambda>_. True)"
  by (induction retries arbitrary: current attempts tokens) (auto intro!: asking_attempt asking.steps_raise assms)

text \<open>A prompt followed by nothing but answers of the model and the corrections sent back to it.\<close>

definition prompted :: "message list \<Rightarrow> completion_request \<Rightarrow> bool" where
  "prompted prompt r \<longleftrightarrow> (\<exists>rest. cq_messages r = prompt @ rest \<and> list_all (\<lambda>m. mg_role m = MAssistant \<or> mg_role m = MTool) rest)"

lemma prompted_retry: "prompted prompt rq \<Longrightarrow> prompted prompt (retry_request rq response err)"
  by (force simp: prompted_def retry_request_def)

lemma prompted_first: "cq_messages r = prompt \<Longrightarrow> prompted prompt r"
  by (simp add: prompted_def)

lemma asking_generate:
  "prompted prompt request \<Longrightarrow> steps (asked_with (prompted prompt)) (generate_validated G request schema validate n) (\<lambda>_. True)"
  unfolding generate_validated_def
  by (rule asking_gen_loop) (erule prompted_retry, simp add: prompted_def)

lemma asking_counted: "steps (asked_with Q) m (\<lambda>_. True) \<Longrightarrow> steps (asked_with Q) (counted role m) (\<lambda>_. True)"
  unfolding counted_def
  by (intro asking.steps_bind_any asking.steps_catch)
    (auto split: gateway_error.splits intro!: asking.steps_bind_any asking_metric asking.steps_raise asking.steps_ret)

lemma asking_voter:
  "steps (asked_with (prompted cleaned)) (ask_voter G decision cleaned voter) (\<lambda>_. True)"
  unfolding ask_voter_def Let_def
  by (intro asking.steps_bind_any asking.steps_catch)
    (auto split: gateway_error.splits option.splits intro!: asking.steps_bind_any asking_generate prompted_first asking_steps
      asking.steps_raise asking.steps_ret asking.steps_modify asked_same)

lemma asking_panel:
  "steps (asked_with (prompted cleaned)) (ask_panel G decision cleaned panel votes unavailable) (\<lambda>_. True)"
  by (induction panel arbitrary: votes unavailable)
    (auto split: option.splits intro!: asking.steps_bind_any asking_voter asking.steps_ret)

lemma asking_report: "steps (asked_with Q) (report_check G decision n verdict) (\<lambda>_. True)"
  unfolding report_check_def Let_def
  by (intro asking.steps_bind_any) (auto intro!: asking.steps_bind_any asking_steps asking.steps_ret)

abbreviation redacted :: "'c gateway \<Rightarrow> message list \<Rightarrow> message list" where
  "redacted G ms \<equiv> map (\<lambda>m. m\<lparr>mg_content := rx_text (gw_redact G (mg_content m))\<rparr>) ms"

lemma asking_cross_check:
  "steps (asked_with (prompted (\<lparr>mg_role = MSystem, mg_content = VOTER_INSTRUCTION\<rparr> # redacted G evidence)))
     (cross_check G decision evidence) (\<lambda>_. True)"
proof (cases "find_rule (gw_rules G) decision")
  case None
  then show ?thesis by (simp add: cross_check_def asking.steps_raise)
next
  case (Some rule)
  show ?thesis
    unfolding cross_check_def Some Let_def option.case
    apply (rule asking.steps_bind [OF asking_redact])
    apply (rule asking.steps_bind_any [OF asking.steps_gets_any])
    apply (rule asking.steps_if, simp add: asking.steps_ret)
    apply (rule asking.steps_bind_any [OF asking_now])
    apply (rule asking.steps_bind_any [OF asking.steps_gets_any])+
    apply (rule asking.steps_bind_any, intro asking.steps_modify asked_same TrueI, simp)
    apply (rule asking.steps_bind_any)
     apply (auto intro!: asking.steps_bind_any asking_alarm asking.steps_modify asked_same asking.steps_ret) []
    apply (rule asking.steps_bind_any, simp add: asking_panel)
    apply (auto intro!: asking.steps_bind_any asking_steps asking_report asking.steps_gets_any asking.steps_modify asked_same
        asking.steps_ret split: prod.splits)
    done
qed

lemma asking_generate_json:
  "steps (asked_with (prompted (redacted G messages))) (generate_json G role messages schema validate max_tokens max_retries) (\<lambda>_. True)"
  unfolding generate_json_def route_to_def
  by (intro asking.steps_bind_any asking.steps_gets_any asking.steps_lift asking.steps_bind [OF asking_redact] asking_counted
      asking_generate prompted_first) simp_all

lemma asking_complete:
  "steps (asked_with (\<lambda>r. cq_messages r = redacted G messages)) (gateway_complete G role messages max_tokens temperature guided) (\<lambda>_. True)"
  unfolding gateway_complete_def route_to_def count_tokens_def
  apply (intro asking.steps_bind_any asking.steps_gets_any asking.steps_lift TrueI asking_allow)
  apply (rule asking.steps_if, intro asking.steps_bind_any asking_steps asking.steps_raise)
  apply (rule asking.steps_bind [OF asking_redact])
  apply (auto intro!: asking.steps_bind_any asking_ask asking_steps asking.steps_raise asking.steps_ret split: sum.splits)
  done


text \<open>
  With the default threshold of two failures, the second invalid answer opens the breaker, and the
  loop stops there: the second retry its documentation promises is not sent, and
  \<open>SchemaViolationError\<close>, which the default of two retries would raise, does not come up.
\<close>

theorem second_retry_never_sent:
  "fst (generate_validated (sample_gateway (Inr sample_answer) (\<lambda>_. Inl ''bad''))
     \<lparr>cq_instance = ''v1'', cq_messages = [], cq_guided_json = None, cq_max_tokens = 1024, cq_temperature = 0, cq_trace_id = None\<rparr>
     JNull (\<lambda>_. Inl ''bad'' :: string + unit) 2 sample_state) = Raise (VoterUnavailable ''v1'' ''v1 is paused until 00:05 after 2 invalid answers.'')
   \<and> length (gs_asked (snd (generate_validated (sample_gateway (Inr sample_answer) (\<lambda>_. Inl ''bad''))
     \<lparr>cq_instance = ''v1'', cq_messages = [], cq_guided_json = None, cq_max_tokens = 1024, cq_temperature = 0, cq_trace_id = None\<rparr>
     JNull (\<lambda>_. Inl ''bad'' :: string + unit) 2 sample_state))) = 2"
  by (intro conjI) code_simp+

end
