(* ===== verification/Authz.thy ===== *)
theory Authz
  imports Schemas
begin

text \<open>
  Who may do what (\<open>packages/slas-authz/slas_authz\<close>: \<open>capabilities.py\<close>,
  \<open>roles.py\<close>, \<open>principal.py\<close>, \<open>decide.py\<close>). A parsed roles file is a
  \<open>json\<close> value whose mappings have string keys. The capabilities of a role are the list
  the file names, without repetition.
\<close>

section \<open>Capabilities\<close>

datatype capability =
    Screen | Ssh | Redfish | Files | Network
  | Git_remote_manage | Git_clone | Git_pull | Git_push_branch | Git_push_protected | Git_bundle
  | Git_terminal | Git_hosts_manage | Admin_people | Admin_settings | Approve_destructive
  | Factory_verdict | Factory_control | Factory_stations_manage | Model_manage

definition Capability :: "capability list" where
  "Capability = [Screen, Ssh, Redfish, Files, Network, Git_remote_manage, Git_clone, Git_pull, Git_push_branch,
     Git_push_protected, Git_bundle, Git_terminal, Git_hosts_manage, Admin_people, Admin_settings, Approve_destructive,
     Factory_verdict, Factory_control, Factory_stations_manage, Model_manage]"

fun capability_value :: "capability \<Rightarrow> string" where
  "capability_value Screen = ''screen''"
| "capability_value Ssh = ''ssh''"
| "capability_value Redfish = ''redfish''"
| "capability_value Files = ''files''"
| "capability_value Network = ''network''"
| "capability_value Git_remote_manage = ''git:remote_manage''"
| "capability_value Git_clone = ''git:clone''"
| "capability_value Git_pull = ''git:pull''"
| "capability_value Git_push_branch = ''git:push_branch''"
| "capability_value Git_push_protected = ''git:push_protected''"
| "capability_value Git_bundle = ''git:bundle''"
| "capability_value Git_terminal = ''git:terminal''"
| "capability_value Git_hosts_manage = ''git:hosts_manage''"
| "capability_value Admin_people = ''admin:people''"
| "capability_value Admin_settings = ''admin:settings''"
| "capability_value Approve_destructive = ''approve:destructive''"
| "capability_value Factory_verdict = ''factory:verdict''"
| "capability_value Factory_control = ''factory:control''"
| "capability_value Factory_stations_manage = ''factory:stations_manage''"
| "capability_value Model_manage = ''model:manage''"

fun DESCRIPTIONS :: "capability \<Rightarrow> string" where
  "DESCRIPTIONS Screen = ''operate a screen on a virtual display or a test station''"
| "DESCRIPTIONS Ssh = ''run commands on a target over SSH''"
| "DESCRIPTIONS Redfish = ''read and control a server'' @ [CHR 0x27] @ ''s BMC over Redfish''"
| "DESCRIPTIONS Files = ''read and write files in a job'' @ [CHR 0x27] @ ''s workspace''"
| "DESCRIPTIONS Network = ''let a sandbox reach the allowlisted network''"
| "DESCRIPTIONS Git_remote_manage = ''add, rotate and delete their own Git remotes''"
| "DESCRIPTIONS Git_clone = ''clone from a saved Git remote''"
| "DESCRIPTIONS Git_pull = ''pull from a saved Git remote''"
| "DESCRIPTIONS Git_push_branch = ''push a branch and open a merge request''"
| "DESCRIPTIONS Git_push_protected = ''push directly to a protected branch''"
| "DESCRIPTIONS Git_bundle = ''export and import Git bundles for offline transfer''"
| "DESCRIPTIONS Git_terminal = ''open a terminal inside a sandbox''"
| "DESCRIPTIONS Git_hosts_manage = ''manage the allowlist of Git hosts''"
| "DESCRIPTIONS Admin_people = ''manage who can sign in and what role they have''"
| "DESCRIPTIONS Admin_settings = ''change platform settings''"
| "DESCRIPTIONS Approve_destructive = ''approve destructive steps such as an AC cycle or a firmware flash''"
| "DESCRIPTIONS Factory_verdict = ''decide a factory PASS or FAIL when the voters disagree''"
| "DESCRIPTIONS Factory_control = ''watch a test station live and take it over from a running job''"
| "DESCRIPTIONS Factory_stations_manage = ''add test stations, issue their enrolment codes and tune them''"
| "DESCRIPTIONS Model_manage = ''add models, assign roles and voters, swap and roll back models''"

definition SKILL_REQUIRES :: "capability list" where
  "SKILL_REQUIRES = [Screen, Ssh, Redfish, Files, Network]"

definition DEFAULT_OFF :: "capability list" where
  "DEFAULT_OFF = [Git_push_protected]"

definition parse_capability :: "string \<Rightarrow> capability option" where
  "parse_capability name = List.find (\<lambda>c. capability_value c = name) Capability"


section \<open>Roles\<close>

record role =
  rl_id :: string
  rl_label :: string
  rl_description :: string
  rl_capabilities :: "capability list"

record role_set =
  rset_roles :: "(string, role) dict"
  rset_default_role :: string
  rset_source :: string

definition describe_role :: "role_set \<Rightarrow> string \<Rightarrow> string" where
  "describe_role s i = (case map_of (rset_roles s) i of
     None \<Rightarrow> ''There is no role called '' @ i @ ''.''
   | Some r \<Rightarrow> if rl_capabilities r = [] then rl_label r @ '': '' @ rl_description r @ '' This role can only look.''
       else rl_label r @ '': '' @ rl_description r @ '' Holds '' @ show_nat (length (rl_capabilities r)) @ '' ''
         @ (if length (rl_capabilities r) = 1 then ''capability'' else ''capabilities'') @ ''.'')"

definition ROLES_FILE_VERSION :: int where
  "ROLES_FILE_VERSION = 1"

definition RESERVED_ROLE_IDS :: "string list" where
  "RESERVED_ROLE_IDS = [''system'']"

text \<open>\<open>re.match\<close> of \<open>^[a-z][a-z0-9_]{0,39}$\<close>, where \<open>$\<close> also matches before a final newline.\<close>

definition role_id_ok :: "string \<Rightarrow> bool" where
  "role_id_ok s \<longleftrightarrow> (case strip_final_newline s of [] \<Rightarrow> False | c # r \<Rightarrow> is_lower c \<and> length r \<le> 39 \<and>
     list_all (\<lambda>x. is_lower x \<or> is_digit x \<or> x = CHR ''_'') r)"

definition obj_get :: "json \<Rightarrow> string \<Rightarrow> json option" where
  "obj_get v k = (case v of JObj kvs \<Rightarrow> map_of kvs k | _ \<Rightarrow> None)"

definition opt_repr :: "json option \<Rightarrow> string" where
  "opt_repr v = py_repr (case v of None \<Rightarrow> JNull | Some x \<Rightarrow> x)"

definition is_version :: "json option \<Rightarrow> bool" where \<comment> \<open>\<open>True == 1\<close> in Python\<close>
  "is_version v \<longleftrightarrow> v = Some (JInt ROLES_FILE_VERSION) \<or> v = Some (JBool True)"

definition roles_fix :: "string \<Rightarrow> string" where
  "roles_fix source = ''Fix '' @ source @ '' and try again; the format is documented in config/README.md.''"

definition roles_error :: "string \<Rightarrow> string \<Rightarrow> string \<Rightarrow> three_part" where
  "roles_error source what cause = \<lparr>tp_what_happened = what, tp_likely_cause = cause, tp_what_to_do = roles_fix source\<rparr>"

fun role_capabilities :: "string \<Rightarrow> string \<Rightarrow> string list \<Rightarrow> capability list \<Rightarrow> three_part + capability list" where
  "role_capabilities source role_id [] acc = Inr acc"
| "role_capabilities source role_id (name # names) acc =
     (case parse_capability name of
        None \<Rightarrow> Inl (roles_error source (''The role '' @ role_id @ '' in '' @ source @ '' names an unknown capability ''
            @ py_quote name @ ''.'')
            (''Capabilities are a fixed list: '' @ py_join '', '' (map capability_value Capability) @ ''.''))
      | Some c \<Rightarrow> if c \<in> set acc
          then Inl (roles_error source (''The role '' @ role_id @ '' in '' @ source @ '' lists '' @ name @ '' twice.'')
                 ''A copy-paste slip.'')
          else role_capabilities source role_id names (acc @ [c]))"

definition json_strings :: "json option \<Rightarrow> string list option" where
  \<comment> \<open>a list of strings; a missing one is empty\<close>
  "json_strings v = (case v of None \<Rightarrow> Some []
     | Some (JList xs) \<Rightarrow> if list_all (\<lambda>x. case x of JStr _ \<Rightarrow> True | _ \<Rightarrow> False) xs
         then Some (map (\<lambda>x. case x of JStr s \<Rightarrow> s | _ \<Rightarrow> []) xs) else None
     | _ \<Rightarrow> None)"

definition role_from :: "string \<Rightarrow> string \<Rightarrow> json \<Rightarrow> three_part + role" where
  "role_from source role_id raw =
     (if \<not> role_id_ok role_id
      then Inl (roles_error source (''The role id '' @ py_quote role_id @ '' in '' @ source @ '' is not allowed.'')
        ''Role ids are lowercase letters, digits and underscores, starting with a letter.'')
      else if role_id \<in> set RESERVED_ROLE_IDS
      then Inl (roles_error source (''The role id '' @ py_quote role_id @ '' in '' @ source @ '' is reserved.'')
        ''The platform uses it for its own internal principal.'')
      else case raw of
        JObj _ \<Rightarrow>
          (case obj_get raw ''label'' of
             Some (JStr label) \<Rightarrow>
               if py_strip label = []
               then Inl (roles_error source (''The role '' @ role_id @ '' in '' @ source @ '' has no label.'')
                      ''Every role needs a label people will see, such as Engineer.'')
               else
               (case (case obj_get raw ''description'' of None \<Rightarrow> JStr [] | Some d \<Rightarrow> d) of
                  JStr description \<Rightarrow>
                    (case json_strings (obj_get raw ''capabilities'') of
                       None \<Rightarrow> Inl (roles_error source (''The capabilities of role '' @ role_id @ '' in '' @ source
                           @ '' are not a list of names.'') ''Write them as a YAML list, one capability per line.'')
                     | Some names \<Rightarrow>
                         (case role_capabilities source role_id names [] of
                            Inl e \<Rightarrow> Inl e
                          | Inr caps \<Rightarrow> Inr \<lparr>rl_id = role_id, rl_label = py_strip label,
                              rl_description = py_strip description, rl_capabilities = caps\<rparr>))
                | _ \<Rightarrow> Inl (roles_error source (''The description of role '' @ role_id @ '' in '' @ source @ '' is not text.'')
                         ''Descriptions are one sentence in quotes.''))
           | _ \<Rightarrow> Inl (roles_error source (''The role '' @ role_id @ '' in '' @ source @ '' has no label.'')
                  ''Every role needs a label people will see, such as Engineer.''))
      | _ \<Rightarrow> Inl (roles_error source (''The role '' @ role_id @ '' in '' @ source @ '' is not a mapping.'')
               ''Each role needs label, description and capabilities.''))"

fun roles_each :: "string \<Rightarrow> (string, json) dict \<Rightarrow> (string, role) dict \<Rightarrow> three_part + (string, role) dict" where
  "roles_each source [] acc = Inr acc"
| "roles_each source ((i, raw) # rest) acc = (case role_from source i raw of
     Inl e \<Rightarrow> Inl e | Inr r \<Rightarrow> roles_each source rest (AList.update i r acc))"

definition roles_from_mapping :: "json \<Rightarrow> string \<Rightarrow> three_part + role_set" where
  "roles_from_mapping data source =
     (case data of
        JObj _ \<Rightarrow>
          if \<not> is_version (obj_get data ''version'')
          then Inl (roles_error source (''The roles file '' @ source @ '' has version '' @ opt_repr (obj_get data ''version'')
                 @ '', expected '' @ show_int ROLES_FILE_VERSION @ ''.'')
                 ''The file was written for another release, or the version line is missing.'')
          else
          (case obj_get data ''roles'' of
             Some (JObj (r # rs)) \<Rightarrow>
               (case roles_each source (r # rs) [] of
                  Inl e \<Rightarrow> Inl e
                | Inr roles \<Rightarrow>
                    (case obj_get data ''default_role'' of
                       Some (JStr d) \<Rightarrow>
                         if map_of roles d \<noteq> None
                         then Inr \<lparr>rset_roles = roles, rset_default_role = d, rset_source = source\<rparr>
                         else Inl (roles_error source (''The default role '' @ py_quote d @ '' in '' @ source
                                @ '' is not one of the defined roles.'')
                                ''`default_role:` must name a role from the `roles:` section; new people get it.'')
                     | v \<Rightarrow> Inl (roles_error source (''The default role '' @ opt_repr v @ '' in '' @ source
                                @ '' is not one of the defined roles.'')
                                ''`default_role:` must name a role from the `roles:` section; new people get it.'')))
           | _ \<Rightarrow> Inl (roles_error source (''The roles file '' @ source @ '' defines no roles.'')
                    ''The `roles:` section is missing or empty.''))
      | _ \<Rightarrow> Inl (roles_error source (''The roles file '' @ source @ '' is not a mapping.'')
               ''The file is empty, a list, or plain text.''))"

definition caps :: "capability list \<Rightarrow> json" where
  "caps cs = JList (map (\<lambda>c. JStr (capability_value c)) cs)"

definition ENGINEER :: "capability list" where
  "ENGINEER = [Screen, Ssh, Redfish, Files, Network, Git_remote_manage, Git_clone, Git_pull, Git_push_branch, Git_bundle,
     Git_terminal, Approve_destructive, Factory_control]"

definition DEFAULT_ROLES :: json where
  "DEFAULT_ROLES = JObj [(''version'', JInt ROLES_FILE_VERSION), (''default_role'', JStr ''engineer''), (''roles'', JObj
     [(''administrator'', JObj [(''label'', JStr ''Administrator''),
        (''description'', JStr (''Manages people, settings, Git hosts, test stations and models, ''
           @ ''and can do everything an engineer can.'')),
        (''capabilities'', caps (filter (\<lambda>c. c \<notin> set DEFAULT_OFF) Capability))]),
      (''engineer'', JObj [(''label'', JStr ''Engineer''),
        (''description'', JStr (''Runs coding tasks, validation runs and factory jobs, and '' @ ''approves destructive steps.'')),
        (''capabilities'', caps ENGINEER)]),
      (''line_lead'', JObj [(''label'', JStr ''Line lead''),
        (''description'', JStr (''An engineer who also decides a factory PASS or FAIL when the '' @ ''voters disagree.'')),
        (''capabilities'', caps (ENGINEER @ [Factory_verdict]))]),
      (''viewer'', JObj [(''label'', JStr ''Viewer''), (''description'', JStr ''Reads tickets, runs and reports.''),
        (''capabilities'', caps [])])])]"

definition default_roles :: "three_part + role_set" where
  "default_roles = roles_from_mapping DEFAULT_ROLES ''config/rbac-roles.yaml''"


section \<open>Principals and decisions\<close>

record principal =
  pr_subject :: string
  pr_display_name :: string
  pr_role :: string
  pr_role_label :: string
  pr_capabilities :: "capability list"
  pr_is_system :: bool

definition principal_from_role :: "string \<Rightarrow> string \<Rightarrow> role \<Rightarrow> principal" where
  "principal_from_role subject name r = \<lparr>pr_subject = subject, pr_display_name = name, pr_role = rl_id r,
     pr_role_label = rl_label r, pr_capabilities = rl_capabilities r, pr_is_system = False\<rparr>"

definition principal_can :: "principal \<Rightarrow> capability \<Rightarrow> bool" where
  "principal_can p c \<longleftrightarrow> pr_is_system p \<or> c \<in> set (pr_capabilities p)"

definition SYSTEM :: principal where
  "SYSTEM = \<lparr>pr_subject = ''system'', pr_display_name = ''SW Local Agent Service'', pr_role = ''system'',
     pr_role_label = ''System'', pr_capabilities = Capability, pr_is_system = True\<rparr>"

definition advice :: "capability \<Rightarrow> string" where
  "advice c = (case c of
     Git_push_protected \<Rightarrow> ''Push to a branch and open a merge request instead, or ask '' @ ''an administrator to grant it.''
   | Admin_people \<Rightarrow> ''Ask an administrator to make the change for you.''
   | Admin_settings \<Rightarrow> ''Ask an administrator to make the change for you.''
   | _ \<Rightarrow> ''Ask an administrator to give you a role that includes it.'')"

record decision =
  de_allowed :: bool
  de_capability :: capability
  de_principal :: principal
  de_message :: "three_part option"

definition decision_sentence :: "decision \<Rightarrow> string" where
  "decision_sentence d = (case de_message d of
     None \<Rightarrow> pr_display_name (de_principal d) @ '' may '' @ DESCRIPTIONS (de_capability d) @ ''.''
   | Some m \<Rightarrow> tp_what_happened m)"

definition decide :: "principal \<Rightarrow> capability \<Rightarrow> decision" where
  "decide p c =
     (if principal_can p c then \<lparr>de_allowed = True, de_capability = c, de_principal = p, de_message = None\<rparr>
      else \<lparr>de_allowed = False, de_capability = c, de_principal = p, de_message = Some
        \<lparr>tp_what_happened = pr_display_name p @ '' may not '' @ DESCRIPTIONS c @ ''.'',
         tp_likely_cause = ''The '' @ pr_role_label p @ '' role does not include '' @ capability_value c @ ''.'',
         tp_what_to_do = advice c\<rparr>\<rparr>)"

definition require :: "principal \<Rightarrow> capability \<Rightarrow> decision + unit" where
  "require p c = (let d = decide p c in if de_allowed d then Inr () else Inl d)"


section \<open>What a loaded roles file grants\<close>

lemma all_capabilities: "c \<in> set Capability"
  by (cases c) (simp_all add: Capability_def)

lemma capability_value_inject [simp]: "capability_value c = capability_value d \<longleftrightarrow> c = d"
  by (cases c; cases d) simp_all

lemma parse_capability_iff: "parse_capability name = Some c \<longleftrightarrow> capability_value c = name"
  unfolding parse_capability_def
  using find_Some_iff2 [of c "\<lambda>c. capability_value c = name" Capability]
    find_None_iff [of "\<lambda>c. capability_value c = name" Capability] all_capabilities [of c]
  by (cases "List.find (\<lambda>c. capability_value c = name) Capability") (auto simp: find_Some_iff)

lemma role_capabilities_listed:
  "role_capabilities source i names acc = Inr cs \<Longrightarrow> map capability_value cs = map capability_value acc @ names"
  by (induction source i names acc rule: role_capabilities.induct)
    (auto split: option.splits if_splits simp: parse_capability_iff)

lemma role_capabilities_distinct:
  "role_capabilities source i names acc = Inr cs \<Longrightarrow> distinct acc \<Longrightarrow> distinct cs"
  by (induction source i names acc rule: role_capabilities.induct) (auto split: option.splits if_splits)

text \<open>The names a role entry of the file lists, and what makes a role well formed.\<close>

definition listed :: "json \<Rightarrow> string list" where
  "listed raw = (case json_strings (obj_get raw ''capabilities'') of None \<Rightarrow> [] | Some names \<Rightarrow> names)"

definition role_wf :: "string \<Rightarrow> role \<Rightarrow> bool" where
  "role_wf i r \<longleftrightarrow> rl_id r = i \<and> role_id_ok i \<and> i \<notin> set RESERVED_ROLE_IDS \<and> rl_label r \<noteq> [] \<and> distinct (rl_capabilities r)"

lemma role_from_wf: "role_from source i raw = Inr r \<Longrightarrow> role_wf i r"
  by (auto simp: role_from_def role_wf_def role_capabilities_distinct split: if_splits json.splits option.splits sum.splits)

lemma role_from_listed: "role_from source i raw = Inr r \<Longrightarrow> map capability_value (rl_capabilities r) = listed raw"
  by (auto simp: role_from_def listed_def dest: role_capabilities_listed split: if_splits json.splits option.splits sum.splits)

lemma roles_each_from:
  assumes "roles_each source raws acc = Inr roles" "distinct (map fst raws)"
  shows "map_of roles i = (case map_of raws i of None \<Rightarrow> map_of acc i
     | Some raw \<Rightarrow> (case role_from source i raw of Inl _ \<Rightarrow> None | Inr r \<Rightarrow> Some r))"
  using assms
proof (induction source raws acc rule: roles_each.induct)
  case (2 source j raw rest acc)
  then obtain r where r: "role_from source j raw = Inr r" "roles_each source rest (AList.update j r acc) = Inr roles"
    by (auto split: sum.splits)
  have "map_of rest j = None" using 2 by (simp add: map_of_eq_None_iff)
  then show ?case using 2 r by (auto simp: update_conv' split: option.splits)
qed simp

lemma roles_from_mapping_Inr:
  assumes "roles_from_mapping data source = Inr s"
  obtains raws where "obj_get data ''roles'' = Some (JObj raws)" "roles_each source raws [] = Inr (rset_roles s)"
    "map_of (rset_roles s) (rset_default_role s) \<noteq> None"
  using assms by (auto simp: roles_from_mapping_def split: json.splits if_splits option.splits list.splits sum.splits)

definition file_roles :: "json \<Rightarrow> (string, json) dict" where
  "file_roles data = (case obj_get data ''roles'' of Some (JObj raws) \<Rightarrow> raws | _ \<Rightarrow> [])"

lemma loaded_role:
  assumes "roles_from_mapping data source = Inr s" "distinct (map fst (file_roles data))"
    and "map_of (rset_roles s) i = Some r"
  obtains raw where "map_of (file_roles data) i = Some raw" "role_from source i raw = Inr r"
  using assms by (elim roles_from_mapping_Inr) (auto simp: file_roles_def dest!: roles_each_from [where i = i] split: option.splits sum.splits)

lemma require_iff: "require p c = Inr () \<longleftrightarrow> principal_can p c"
  by (simp add: require_def decide_def Let_def)

text \<open>
  A roles file that loads gives well-formed roles only: the default role exists, every
  role is stored under its own id, which the pattern allows and the platform does not
  reserve, has a label, and its capabilities are known and not repeated.
\<close>
theorem loaded_roles_wf:
  assumes "roles_from_mapping data source = Inr s" "distinct (map fst (file_roles data))"
  shows "(\<exists>r. map_of (rset_roles s) (rset_default_role s) = Some r) \<and>
    (\<forall>i r. map_of (rset_roles s) i = Some r \<longrightarrow> role_wf i r)"
proof (intro conjI allI impI)
  show "\<exists>r. map_of (rset_roles s) (rset_default_role s) = Some r"
    using assms(1) by (elim roles_from_mapping_Inr) auto
next
  fix i r assume "map_of (rset_roles s) i = Some r"
  then show "role_wf i r" using assms by (elim loaded_role) (auto intro: role_from_wf)
qed

text \<open>
  C19. Access follows the roles file exactly: \<open>require\<close> lets a person of a loaded role pass if
  and only if the entry of that role in the file lists the name of the capability, and
  otherwise raises a denial that names the role and the missing capability.
\<close>
theorem access_follows_the_file:
  assumes "roles_from_mapping data source = Inr s" "distinct (map fst (file_roles data))"
    and "map_of (rset_roles s) i = Some r" "map_of (file_roles data) i = Some raw"
  shows "if capability_value c \<in> set (listed raw)
    then require (principal_from_role subject who r) c = Inr ()
    else \<exists>d m. require (principal_from_role subject who r) c = Inl d \<and> de_message d = Some m \<and>
      tp_likely_cause m = ''The '' @ rl_label r @ '' role does not include '' @ capability_value c @ ''.''"
proof -
  have "role_from source i raw = Inr r" using assms by (metis loaded_role option.inject)
  then have "set (listed raw) = capability_value ` set (rl_capabilities r)"
    by (metis role_from_listed set_map)
  then have "capability_value c \<in> set (listed raw) \<longleftrightarrow> principal_can (principal_from_role subject who r) c"
    by (auto simp: principal_can_def principal_from_role_def)
  then show ?thesis by (simp add: require_def decide_def Let_def principal_from_role_def)
qed

text \<open>The capabilities of the roles the product ships, computed once.\<close>

definition shipped :: role_set where
  "shipped = projr default_roles"

lemma shipped_roles:
  "(case default_roles of Inl _ \<Rightarrow> False | Inr s \<Rightarrow> rset_default_role s = ''engineer'' \<and>
     map (\<lambda>(i, r). (i, rl_capabilities r)) (rset_roles s) =
      [(''administrator'', filter (\<lambda>c. c \<noteq> Git_push_protected) Capability), (''engineer'', ENGINEER),
       (''line_lead'', ENGINEER @ [Factory_verdict]), (''viewer'', [])])"
  by code_simp

lemma shipped:
  shows default_roles_load: "default_roles = Inr shipped"
    and shipped_default: "rset_default_role shipped = ''engineer''"
    and shipped_capabilities: "map (\<lambda>(i, r). (i, rl_capabilities r)) (rset_roles shipped) =
      [(''administrator'', filter (\<lambda>c. c \<noteq> Git_push_protected) Capability), (''engineer'', ENGINEER),
       (''line_lead'', ENGINEER @ [Factory_verdict]), (''viewer'', [])]"
proof -
  obtain s where s: "default_roles = Inr s" using shipped_roles by (auto split: sum.splits)
  have eq: "shipped = s" unfolding shipped_def s by (rule sum.sel)
  show "default_roles = Inr shipped" unfolding eq by (rule s)
  show "rset_default_role shipped = ''engineer''" unfolding eq
    using shipped_roles [unfolded s sum.case] by (rule conjunct1)
  show "map (\<lambda>(i, r). (i, rl_capabilities r)) (rset_roles shipped) =
      [(''administrator'', filter (\<lambda>c. c \<noteq> Git_push_protected) Capability), (''engineer'', ENGINEER),
       (''line_lead'', ENGINEER @ [Factory_verdict]), (''viewer'', [])]" unfolding eq
    using shipped_roles [unfolded s sum.case] by (rule conjunct2)
qed

lemma shipped_ids: "map fst (rset_roles shipped) = [''administrator'', ''engineer'', ''line_lead'', ''viewer'']"
  using arg_cong [OF shipped_capabilities, of "map fst"] by (simp add: comp_def case_prod_beta)

lemma shipped_file: "distinct (map fst (file_roles DEFAULT_ROLES))" "map_of (file_roles DEFAULT_ROLES) ''engineer'' =
    Some (JObj [(''label'', JStr ''Engineer''), (''description'', JStr (''Runs coding tasks, validation runs and factory jobs, and ''
      @ ''approves destructive steps.'')), (''capabilities'', caps ENGINEER)])"
  by (simp_all add: file_roles_def DEFAULT_ROLES_def obj_get_def)

lemma shipped_role: "i \<in> {''administrator'', ''engineer'', ''line_lead'', ''viewer''} \<Longrightarrow>
    \<exists>r. map_of (rset_roles shipped) i = Some r"
proof -
  assume "i \<in> {''administrator'', ''engineer'', ''line_lead'', ''viewer''}"
  then have "i \<in> set (map fst (rset_roles shipped))" unfolding shipped_ids by simp
  then show ?thesis by (metis list.set_map map_of_eq_None_iff not_None_eq)
qed

text \<open>
  The roles the product ships validate, and give nobody more than intended: the default
  role is the engineer's; no role may push to a protected branch; exactly the
  administrator manages people, settings, Git hosts, stations and models; exactly the
  line lead and the administrator decide a factory verdict; a viewer may do nothing.
\<close>
theorem default_roles_grant:
  "\<exists>s. default_roles = Inr s \<and> rset_default_role s = ''engineer'' \<and>
     map fst (rset_roles s) = [''administrator'', ''engineer'', ''line_lead'', ''viewer''] \<and>
     list_all (\<lambda>(i, r). let may = (\<lambda>c. require (principal_from_role subject who r) c = Inr ()) in
       \<not> may Git_push_protected \<and>
       list_all (\<lambda>c. may c = (i = ''administrator''))
         [Admin_people, Admin_settings, Git_hosts_manage, Factory_stations_manage, Model_manage] \<and>
       may Factory_verdict = (i \<in> {''administrator'', ''line_lead''}) \<and>
       may Approve_destructive = (i \<noteq> ''viewer'') \<and>
       (rl_capabilities r = []) = (i = ''viewer'')) (rset_roles s)"
proof -
  obtain a e l v where "rset_roles shipped = [(''administrator'', a), (''engineer'', e), (''line_lead'', l), (''viewer'', v)]"
    and "rl_capabilities a = filter (\<lambda>c. c \<noteq> Git_push_protected) Capability" "rl_capabilities e = ENGINEER"
      "rl_capabilities l = ENGINEER @ [Factory_verdict]" "rl_capabilities v = []"
    using shipped_capabilities by (auto simp: map_eq_Cons_conv)
  then show ?thesis
    by (intro exI [of _ shipped] conjI)
      (simp_all add: default_roles_load shipped_default require_iff principal_can_def principal_from_role_def Let_def
        Capability_def ENGINEER_def)
qed

lemma loaded_roles_wf_witness:
  "roles_from_mapping DEFAULT_ROLES ''config/rbac-roles.yaml'' = Inr shipped \<and>
   (\<exists>r. map_of (rset_roles shipped) ''viewer'' = Some r \<and> role_wf ''viewer'' r)"
proof -
  have l: "roles_from_mapping DEFAULT_ROLES ''config/rbac-roles.yaml'' = Inr shipped"
    using default_roles_load by (simp add: default_roles_def)
  with loaded_roles_wf [OF l shipped_file(1)] shipped_role [of "''viewer''"] show ?thesis by auto
qed

lemma access_follows_the_file_witness:
  "\<exists>r. map_of (rset_roles shipped) ''engineer'' = Some r \<and>
     require (principal_from_role ''u1'' ''Ann'' r) Git_clone = Inr () \<and>
     (\<exists>d. require (principal_from_role ''u1'' ''Ann'' r) Admin_people = Inl d)"
proof -
  have l: "roles_from_mapping DEFAULT_ROLES ''config/rbac-roles.yaml'' = Inr shipped"
    using default_roles_load by (simp add: default_roles_def)
  obtain r where r: "map_of (rset_roles shipped) ''engineer'' = Some r" using shipped_role by blast
  note access = access_follows_the_file [OF l shipped_file(1) r shipped_file(2), of _ "''u1''" "''Ann''"]
  have "capability_value Git_clone \<in> capability_value ` set ENGINEER" "capability_value Admin_people \<notin> capability_value ` set ENGINEER"
    by (simp_all add: ENGINEER_def)
  then show ?thesis
    using r access [of Git_clone] access [of Admin_people]
    by (simp add: listed_def obj_get_def json_strings_def caps_def list_all_iff comp_def) blast
qed

end
