(* ===== verification/Diff.thy ===== *)
theory Diff
  imports Schemas
begin

text \<open>
  What the hardware layer reports about a target and how two reports are compared
  (\<open>packages/slas-hal/slas_hal/model.py\<close>, \<open>packages/slas-diff/slas_diff/diff.py\<close>).
  Link speeds are rationals. The comparison is proved complete: it is clean exactly when
  nothing on the list of what matters differs.
\<close>

section \<open>The report of a target\<close>

datatype power_state = PowerOn | PowerOff | PowerUnknown
datatype power_action = ActOn | ActOff | ActForceOff | ActGracefulRestart | ActAcCycle
datatype sel_severity = SelOK | SelWarning | SelCritical

fun power_value :: "power_state \<Rightarrow> string" where
  "power_value PowerOn = ''on''"
| "power_value PowerOff = ''off''"
| "power_value PowerUnknown = ''unknown''"

fun action_value :: "power_action \<Rightarrow> string" where
  "action_value ActOn = ''on''"
| "action_value ActOff = ''off''"
| "action_value ActForceOff = ''force_off''"
| "action_value ActGracefulRestart = ''graceful_restart''"
| "action_value ActAcCycle = ''ac_cycle''"

fun sel_value :: "sel_severity \<Rightarrow> string" where
  "sel_value SelOK = ''OK''"
| "sel_value SelWarning = ''Warning''"
| "sel_value SelCritical = ''Critical''"

record sel_entry =
  se_id :: int
  se_created :: string
  se_severity :: sel_severity
  se_message :: string
  se_sensor :: "string option"

definition sel_line :: "sel_entry \<Rightarrow> string" where
  "sel_line e = ''['' @ se_created e @ ''] '' @ sel_value (se_severity e) @ '': '' @ se_message e"

record pcie_device =
  pd_bdf :: string
  pd_name :: string
  pd_vendor_id :: string
  pd_device_id :: string
  pd_class_code :: string
  pd_width :: int
  pd_speed_gts :: rat
  pd_max_width :: int
  pd_max_speed_gts :: rat
  pd_firmware :: "string option"

definition device_label :: "pcie_device \<Rightarrow> string" where
  "device_label d = pd_name d @ '' ('' @ pd_bdf d @ '')''"

definition device_link :: "pcie_device \<Rightarrow> string" where
  "device_link d = ''x'' @ show_int (pd_width d) @ '' @ '' @ show_g (pd_speed_gts d) @ '' GT/s''"

record inventory =
  in_model :: string
  in_serial :: string
  in_bios_version :: string
  in_bmc_version :: string
  in_cpus :: int
  in_memory_gib :: int
  in_devices :: "pcie_device list"

text \<open>A dictionary comprehension: a later entry replaces the value of an earlier one.\<close>

definition dict_of :: "('k \<times> 'v) list \<Rightarrow> ('k, 'v) dict" where
  "dict_of kvs = foldl (\<lambda>d (k, v). AList.update k v d) [] kvs"

definition firmware :: "inventory \<Rightarrow> (string, string) dict" where
  "firmware iv = foldl (\<lambda>versions d. case pd_firmware d of None \<Rightarrow> versions
       | Some f \<Rightarrow> if f = [] then versions else AList.update (device_label d) f versions)
     [(''BIOS'', in_bios_version iv), (''BMC'', in_bmc_version iv)] (in_devices iv)"

definition inventory_device :: "inventory \<Rightarrow> string \<Rightarrow> pcie_device option" where
  "inventory_device iv bdf = List.find (\<lambda>d. pd_bdf d = bdf) (in_devices iv)"

record counters =
  co_aer :: int
  co_edac_ce :: int
  co_edac_ue :: int
  co_mce :: int
  co_xid :: int

definition counters_dict :: "counters \<Rightarrow> (string, int) dict" where
  "counters_dict c = [(''AER'', co_aer c), (''EDAC CE'', co_edac_ce c), (''EDAC UE'', co_edac_ue c),
     (''MCE'', co_mce c), (''Xid'', co_xid c)]"

record snapshot =
  sn_taken_at :: time
  sn_power :: power_state
  sn_inventory :: inventory
  sn_counters :: counters
  sn_sel :: "sel_entry list"

definition snapshot_sentence :: "snapshot \<Rightarrow> string" where
  "snapshot_sentence s = in_model (sn_inventory s) @ '' '' @ in_serial (sn_inventory s) @ '': power ''
     @ power_value (sn_power s) @ '', '' @ show_nat (length (in_devices (sn_inventory s))) @ '' PCIe devices, ''
     @ show_nat (length (sn_sel s)) @ '' SEL entries, counters ''
     @ py_repr (JObj (map (\<lambda>(k, v). (k, JInt v)) (counters_dict (sn_counters s)))) @ ''.''"


section \<open>The comparison\<close>

datatype diff_kind = Device_missing | Device_added | Pcie_width | Pcie_speed | Firmware | Counter | Sel | Power

record diff_finding =
  df_kind :: diff_kind
  df_message :: string
  df_severity :: severity
  df_bdf :: "string option"
  df_component :: "string option"
  df_before :: string
  df_after :: string

record diff_report =
  dr_findings :: "diff_finding list"
  dr_context :: string

definition diff_clean :: "diff_report \<Rightarrow> bool" where
  "diff_clean r \<longleftrightarrow> dr_findings r = []"

definition diff_sentence :: "diff_report \<Rightarrow> string" where
  "diff_sentence r =
     (if diff_clean r
      then ''No change against the baseline'' @ (if dr_context r \<noteq> [] then '' '' @ dr_context r else []) @ ''.''
      else (let count = length (dr_findings r) in
        show_nat count @ '' '' @ (if count = 1 then ''change'' else ''changes'') @ '' against the baseline''
        @ (if dr_context r \<noteq> [] then '' '' @ dr_context r @ '': '' else '': '')
        @ py_join '' '' (map df_message (dr_findings r))))"

definition devices_by_bdf :: "snapshot \<Rightarrow> (string, pcie_device) dict" where
  "devices_by_bdf s = dict_of (map (\<lambda>d. (pd_bdf d, d)) (in_devices (sn_inventory s)))"

text \<open>\<open>sorted(set(a) - set(b))\<close> and \<open>sorted(set(a) & set(b))\<close> on the keys of two dictionaries.\<close>

definition only_in :: "(string, 'a) dict \<Rightarrow> (string, 'b) dict \<Rightarrow> string list" where
  "only_in a b = sort (filter (\<lambda>k. k \<notin> set (map fst b)) (map fst a))"

definition in_both :: "(string, 'a) dict \<Rightarrow> (string, 'b) dict \<Rightarrow> string list" where
  "in_both a b = sort (filter (\<lambda>k. k \<in> set (map fst b)) (map fst a))"

definition item :: "('k, 'v) dict \<Rightarrow> 'k \<Rightarrow> 'v" where \<comment> \<open>\<open>d[k]\<close> for a key of the dictionary\<close>
  "item d k = the (map_of d k)"

definition missing_finding :: "string \<Rightarrow> string \<Rightarrow> pcie_device \<Rightarrow> diff_finding" where
  "missing_finding place bdf d = \<lparr>df_kind = Device_missing, df_message = device_label d @ '' disappeared'' @ place @ ''.'',
     df_severity = S1, df_bdf = Some bdf, df_component = Some (pd_name d), df_before = device_link d, df_after = ''absent''\<rparr>"

definition added_finding :: "string \<Rightarrow> string \<Rightarrow> pcie_device \<Rightarrow> diff_finding" where
  "added_finding place bdf d = \<lparr>df_kind = Device_added,
     df_message = device_label d @ '' appeared'' @ place @ ''; the baseline did not have it.'',
     df_severity = S3, df_bdf = Some bdf, df_component = Some (pd_name d), df_before = ''absent'', df_after = device_link d\<rparr>"

definition width_finding :: "string \<Rightarrow> string \<Rightarrow> pcie_device \<Rightarrow> pcie_device \<Rightarrow> diff_finding" where
  "width_finding place bdf old new = \<lparr>df_kind = Pcie_width,
     df_message = ''PCIe link width changed on '' @ device_label old @ '': x'' @ show_int (pd_width old) @ '' '' @ arrow @ '' x''
       @ show_int (pd_width new) @ place @ ''.'',
     df_severity = (if pd_width new < pd_width old then S2 else S3), df_bdf = Some bdf, df_component = Some (pd_name old),
     df_before = ''x'' @ show_int (pd_width old), df_after = ''x'' @ show_int (pd_width new)\<rparr>"

definition speed_finding :: "string \<Rightarrow> string \<Rightarrow> pcie_device \<Rightarrow> pcie_device \<Rightarrow> diff_finding" where
  "speed_finding place bdf old new = \<lparr>df_kind = Pcie_speed,
     df_message = ''PCIe link speed changed on '' @ device_label old @ '': '' @ show_g (pd_speed_gts old) @ '' GT/s '' @ arrow @ '' ''
       @ show_g (pd_speed_gts new) @ '' GT/s'' @ place @ ''.'',
     df_severity = (if pd_speed_gts new < pd_speed_gts old then S2 else S3), df_bdf = Some bdf, df_component = Some (pd_name old),
     df_before = show_g (pd_speed_gts old) @ '' GT/s'', df_after = show_g (pd_speed_gts new) @ '' GT/s''\<rparr>"

definition link_findings :: "string \<Rightarrow> string \<Rightarrow> pcie_device \<Rightarrow> pcie_device \<Rightarrow> diff_finding list" where
  "link_findings place bdf old new =
     (if pd_width new \<noteq> pd_width old then [width_finding place bdf old new] else [])
     @ (if pd_speed_gts new \<noteq> pd_speed_gts old then [speed_finding place bdf old new] else [])"

definition firmware_finding :: "string \<Rightarrow> string \<Rightarrow> string \<Rightarrow> string \<Rightarrow> diff_finding" where
  "firmware_finding place name old new = \<lparr>df_kind = Firmware,
     df_message = ''Firmware of '' @ name @ '' changed: '' @ old @ '' '' @ arrow @ '' '' @ new @ place @ ''.'',
     df_severity = S2, df_bdf = None, df_component = Some name, df_before = old, df_after = new\<rparr>"

definition counter_finding :: "string \<Rightarrow> string \<Rightarrow> int \<Rightarrow> int \<Rightarrow> diff_finding" where
  "counter_finding place name old new = \<lparr>df_kind = Counter,
     df_message = name @ '' count rose from '' @ show_int old @ '' to '' @ show_int new @ place @ ''.'',
     df_severity = (if name \<in> {''EDAC UE'', ''MCE'', ''Xid''} then S1 else S2), df_bdf = None, df_component = Some name,
     df_before = show_int old, df_after = show_int new\<rparr>"

definition sel_key :: "sel_entry \<Rightarrow> int \<times> string \<times> string" where
  "sel_key e = (se_id e, se_created e, se_message e)"

definition sel_finding :: "string \<Rightarrow> sel_entry \<Rightarrow> diff_finding" where
  "sel_finding place e = \<lparr>df_kind = Sel,
     df_message = ''New '' @ sel_value (se_severity e) @ '' SEL entry'' @ place @ '': '' @ se_message e @ ''.'',
     df_severity = (if se_severity e = SelCritical then S1 else S3), df_bdf = None,
     df_component = Some (case se_sensor e of None \<Rightarrow> ''SEL'' | Some x \<Rightarrow> if x = [] then ''SEL'' else x),
     df_before = [], df_after = se_message e\<rparr>"

definition power_finding :: "string \<Rightarrow> power_state \<Rightarrow> power_state \<Rightarrow> diff_finding" where
  "power_finding place old new = \<lparr>df_kind = Power,
     df_message = ''Power state is '' @ power_value new @ '', the baseline was '' @ power_value old @ place @ ''.'',
     df_severity = S1, df_bdf = None, df_component = Some ''power'', df_before = power_value old, df_after = power_value new\<rparr>"

definition diff_snapshots :: "snapshot \<Rightarrow> snapshot \<Rightarrow> string \<Rightarrow> diff_report" where
  "diff_snapshots baseline current ctx =
     (let place = (if ctx \<noteq> [] then '' '' @ ctx else []);
          before = devices_by_bdf baseline; after = devices_by_bdf current;
          old_fw = firmware (sn_inventory baseline); new_fw = firmware (sn_inventory current);
          known = set (map sel_key (sn_sel baseline))
      in \<lparr>dr_findings =
            map (\<lambda>bdf. missing_finding place bdf (item before bdf)) (only_in before after)
          @ map (\<lambda>bdf. added_finding place bdf (item after bdf)) (only_in after before)
          @ concat (map (\<lambda>bdf. link_findings place bdf (item before bdf) (item after bdf)) (in_both before after))
          @ map (\<lambda>name. firmware_finding place name (item old_fw name) (item new_fw name))
              (filter (\<lambda>name. item old_fw name \<noteq> item new_fw name) (in_both old_fw new_fw))
          @ concat (map (\<lambda>(name, old). let new = item (counters_dict (sn_counters current)) name
              in if new > old then [counter_finding place name old new] else []) (counters_dict (sn_counters baseline)))
          @ map (sel_finding place) (filter (\<lambda>e. sel_key e \<notin> known \<and> se_severity e \<noteq> SelOK) (sn_sel current))
          @ (if sn_power current \<noteq> sn_power baseline then [power_finding place (sn_power baseline) (sn_power current)] else []),
          dr_context = ctx\<rparr>)"


section \<open>What the comparison sees\<close>

text \<open>
  The specification, without the loops: the same slots are filled, links run at the same width
  and speed, every version that both reports have is the same, no counter rose, every new entry of the
  event log is OK and the power state is the same. \<open>device_at\<close> is the device a report
  has at an address, the last one if it names the address twice.
\<close>

definition device_at :: "snapshot \<Rightarrow> string \<Rightarrow> pcie_device option" where
  "device_at s bdf = List.find (\<lambda>d. pd_bdf d = bdf) (rev (in_devices (sn_inventory s)))"

definition version_at :: "snapshot \<Rightarrow> string \<Rightarrow> string option" where
  "version_at s name = map_of (firmware (sn_inventory s)) name"

definition unchanged :: "snapshot \<Rightarrow> snapshot \<Rightarrow> bool" where
  "unchanged a b \<longleftrightarrow>
     (\<forall>bdf. (device_at a bdf = None) = (device_at b bdf = None)) \<and>
     (\<forall>bdf x y. device_at a bdf = Some x \<and> device_at b bdf = Some y \<longrightarrow> pd_width x = pd_width y \<and> pd_speed_gts x = pd_speed_gts y) \<and>
     (\<forall>name v w. version_at a name = Some v \<and> version_at b name = Some w \<longrightarrow> v = w) \<and>
     (\<forall>(f :: counters \<Rightarrow> int) \<in> {co_aer, co_edac_ce, co_edac_ue, co_mce, co_xid}. f (sn_counters b) \<le> f (sn_counters a)) \<and>
     (\<forall>e \<in> set (sn_sel b). se_severity e = SelOK \<or> sel_key e \<in> sel_key ` set (sn_sel a)) \<and>
     sn_power a = sn_power b"

lemma dict_of_snoc: "dict_of (kvs @ [(k, v)]) = AList.update k v (dict_of kvs)"
  by (simp add: dict_of_def)

lemma dict_of_get: "map_of (dict_of kvs) k = map_of (rev kvs) k"
  by (induction kvs rule: rev_induct) (auto simp: dict_of_snoc dict_of_def)

lemma map_of_keyed: "map_of (map (\<lambda>x. (f x, x)) xs) k = List.find (\<lambda>x. f x = k) xs"
  by (induction xs) auto

lemma devices_by_bdf_get: "map_of (devices_by_bdf s) bdf = device_at s bdf"
  by (simp add: devices_by_bdf_def dict_of_get device_at_def rev_map map_of_keyed)

lemma keys_iff: "k \<in> set (map fst d) \<longleftrightarrow> map_of d k \<noteq> None"
  by (simp add: map_of_eq_None_iff)

lemma sort_key_empty: "sort_key f xs = [] \<longleftrightarrow> xs = []"
  by (metis length_0_conv length_sort)

lemma only_in_empty: "only_in a b = [] \<longleftrightarrow> (\<forall>k. map_of a k \<noteq> None \<longrightarrow> map_of b k \<noteq> None)"
  unfolding only_in_def keys_iff [symmetric] by (auto simp: filter_empty_conv sort_key_empty)

lemma in_both_iff: "k \<in> set (in_both a b) \<longleftrightarrow> map_of a k \<noteq> None \<and> map_of b k \<noteq> None"
  unfolding in_both_def keys_iff [symmetric] by auto

lemma in_both_ball:
  "(\<forall>k \<in> set (in_both a b). P (item a k) (item b k)) \<longleftrightarrow> (\<forall>k x y. map_of a k = Some x \<and> map_of b k = Some y \<longrightarrow> P x y)"
proof -
  have "(\<forall>k \<in> set (in_both a b). P (item a k) (item b k)) \<longleftrightarrow>
      (\<forall>k. map_of a k \<noteq> None \<and> map_of b k \<noteq> None \<longrightarrow> P (item a k) (item b k))"
    by (simp add: Ball_def in_both_iff del: not_None_eq)
  also have "\<dots> \<longleftrightarrow> (\<forall>k x y. map_of a k = Some x \<and> map_of b k = Some y \<longrightarrow> P x y)"
    by (auto simp: item_def)
  finally show ?thesis .
qed

lemma link_findings_empty: "link_findings place bdf x y = [] \<longleftrightarrow> pd_width x = pd_width y \<and> pd_speed_gts x = pd_speed_gts y"
  by (auto simp: link_findings_def)

lemma firmware_clean:
  "filter (\<lambda>name. item a name \<noteq> item b name) (in_both a b) = [] \<longleftrightarrow>
   (\<forall>name v w. map_of a name = Some v \<and> map_of b name = Some w \<longrightarrow> v = w)"
  using in_both_ball [of a b "\<lambda>v w. v = w"] by (simp add: filter_empty_conv)

lemma links_clean:
  "concat (map (\<lambda>bdf. link_findings place bdf (item a bdf) (item b bdf)) (in_both a b)) = [] \<longleftrightarrow>
   (\<forall>bdf x y. map_of a bdf = Some x \<and> map_of b bdf = Some y \<longrightarrow> pd_width x = pd_width y \<and> pd_speed_gts x = pd_speed_gts y)"
  using in_both_ball [of a b "\<lambda>x y. pd_width x = pd_width y \<and> pd_speed_gts x = pd_speed_gts y"]
  by (simp add: link_findings_empty)

lemma counters_clean:
  "concat (map (\<lambda>(name, old). let new = item (counters_dict d) name in if new > old then [counter_finding place name old new] else [])
     (counters_dict c)) = [] \<longleftrightarrow> (\<forall>f \<in> {co_aer, co_edac_ce, co_edac_ue, co_mce, co_xid}. f d \<le> f c)"
  by (auto simp: counters_dict_def item_def Let_def)

lemma diff_clean_iff: "diff_clean (diff_snapshots a b ctx) \<longleftrightarrow> unchanged a b"
proof -
  have "diff_clean (diff_snapshots a b ctx) \<longleftrightarrow>
      only_in (devices_by_bdf a) (devices_by_bdf b) = [] \<and> only_in (devices_by_bdf b) (devices_by_bdf a) = [] \<and>
      (\<forall>bdf x y. device_at a bdf = Some x \<and> device_at b bdf = Some y \<longrightarrow> pd_width x = pd_width y \<and> pd_speed_gts x = pd_speed_gts y) \<and>
      (\<forall>name v w. version_at a name = Some v \<and> version_at b name = Some w \<longrightarrow> v = w) \<and>
      (\<forall>(f :: counters \<Rightarrow> int) \<in> {co_aer, co_edac_ce, co_edac_ue, co_mce, co_xid}. f (sn_counters b) \<le> f (sn_counters a)) \<and>
      (\<forall>e \<in> set (sn_sel b). se_severity e = SelOK \<or> sel_key e \<in> sel_key ` set (sn_sel a)) \<and> sn_power a = sn_power b"
    unfolding diff_clean_def diff_snapshots_def Let_def [where s = "devices_by_bdf _"] Let_def [where s = "firmware _"]
      Let_def [where s = "if _ then _ else _"] Let_def [where s = "set _"] diff_report.simps append_is_Nil_conv map_is_Nil_conv
      links_clean firmware_clean counters_clean devices_by_bdf_get version_at_def [symmetric]
    by (auto simp: filter_empty_conv)
  moreover have "only_in (devices_by_bdf a) (devices_by_bdf b) = [] \<and> only_in (devices_by_bdf b) (devices_by_bdf a) = [] \<longleftrightarrow>
      (\<forall>bdf. (device_at a bdf = None) = (device_at b bdf = None))"
    unfolding only_in_empty devices_by_bdf_get by metis
  ultimately show ?thesis unfolding unchanged_def by blast
qed


text \<open>
  What the list leaves out: a card replaced by one of another name, vendor and firmware in the
  same slot, with the same link, is no change, because versions are compared by label and the
  label contains the name.
\<close>

definition sample_card :: "string \<Rightarrow> string \<Rightarrow> pcie_device" where
  "sample_card name fw = \<lparr>pd_bdf = ''0000:3b:00.0'', pd_name = name, pd_vendor_id = [], pd_device_id = [], pd_class_code = [],
     pd_width = 16, pd_speed_gts = 16, pd_max_width = 16, pd_max_speed_gts = 16, pd_firmware = Some fw\<rparr>"

definition sample_snapshot :: "pcie_device list \<Rightarrow> snapshot" where
  "sample_snapshot ds = \<lparr>sn_taken_at = 0, sn_power = PowerOn, sn_inventory = \<lparr>in_model = ''M1'', in_serial = ''S1'',
     in_bios_version = ''1.0'', in_bmc_version = ''2.0'', in_cpus = 2, in_memory_gib = 64, in_devices = ds\<rparr>,
     sn_counters = \<lparr>co_aer = 0, co_edac_ce = 0, co_edac_ue = 0, co_mce = 0, co_xid = 0\<rparr>, sn_sel = []\<rparr>"

lemma replaced_card_is_not_reported:
  "diff_clean (diff_snapshots (sample_snapshot [sample_card ''NIC A'' ''1.1'']) (sample_snapshot [sample_card ''GPU B'' ''9.9'']) [])"
  by code_simp

end
