(* ===== verification/Guardrails.thy ===== *)
theory Guardrails
  imports Schemas
begin

text \<open>
  The verbs of a validation plan and the limits a plan has to keep
  (\<open>packages/slas-hal/slas_hal/primitives.py\<close>,
  \<open>services/validation-executor/slas_validation_executor/guardrails.py\<close>).
  Proved: the two ways the code has of calling a step destructive agree, and a plan with no
  complaint of \<open>check_plan\<close> is within every limit.
\<close>

section \<open>Primitives\<close>

definition POWER_KINDS :: "string list" where
  "POWER_KINDS = [''warm'', ''dc'', ''ac'']"

definition STRESS_TOOLS :: "string list" where
  "STRESS_TOOLS = [''stress-ng'', ''fio'', ''perftest'', ''memtester'']"

definition DIAG_TOOLS :: "string list" where
  "DIAG_TOOLS = [''nvqual'', ''mft'', ''smartctl'', ''ipmitool'', ''dcgmi'']"

record plan_primitive =
  pp_name :: string
  pp_description :: string
  pp_risk :: risk
  pp_required :: "string list"
  pp_optional :: "string list"
  pp_destructive_when :: "(string, string list) dict"

definition known_args :: "plan_primitive \<Rightarrow> string list" where
  "known_args p = pp_required p @ pp_optional p"

definition prim :: "string \<Rightarrow> string \<Rightarrow> risk \<Rightarrow> string list \<Rightarrow> string list \<Rightarrow> (string, string list) dict \<Rightarrow> string \<times> plan_primitive" where
  "prim name description r required optional cond = (name, \<lparr>pp_name = name, pp_description = description, pp_risk = r,
     pp_required = required, pp_optional = optional, pp_destructive_when = cond\<rparr>)"

definition PRIMITIVES :: "(string, plan_primitive) dict" where
  "PRIMITIVES = [
     prim ''lease_target'' ''Take the exclusive lease on the target for this run.'' Safe [''target''] [] [],
     prim ''console_on'' ''Start capturing the serial console (SOL) and syslog.'' Safe [''target''] [] [],
     prim ''baseline_snapshot'' ''Record inventory, PCIe link state, firmware, counters and SEL as the baseline.'' Safe [''target''] [] [],
     prim ''power_cycle'' (''One power cycle: ARM '' @ arrow @ '' QUIESCE '' @ arrow @ '' ACT '' @ arrow @ '' SETTLE '' @ arrow
         @ '' VERIFY against the baseline. Kind warm (OS reboot), dc (BMC stays up) or ac (BMC cycles too; destructive).'')
       Caution [''target'', ''kind'', ''cycle''] [''settle_s'', ''total_cycles''] [(''kind'', [''ac''])],
     prim ''sel_snapshot'' ''Read the BMC event log.'' Safe [''target''] [] [],
     prim ''inventory_snapshot'' ''Read inventory, PCIe link state and firmware versions.'' Safe [''target''] [] [],
     prim ''stress'' ''Run a stress tool on the target over SSH for a bounded time.'' Caution [''target'', ''tool''] [''args'', ''duration_s''] [],
     prim ''run_diag'' ''Run a vendor diagnostic on the target over SSH.'' Caution [''target'', ''tool''] [''args'', ''timeout_s''] [],
     prim ''firmware_flash'' ''Flash a firmware image onto a component. Destructive.'' Destructive [''target'', ''component'', ''image_ref''] [] [],
     prim ''secure_erase'' ''Securely erase a storage device. Destructive.'' Destructive [''target'', ''device''] [] [],
     prim ''bios_reset'' ''Reset BIOS settings to defaults. Destructive.'' Destructive [''target''] [] [],
     prim ''raid_reconfigure'' ''Change the RAID layout. Destructive.'' Destructive [''target'', ''layout''] [] [],
     prim ''collect_logs'' ''Collect console, syslog, SEL and tool output onto the ticket.'' Safe [''target''] [] [],
     prim ''release_target'' ''Release the lease.'' Safe [''target''] [] []]"

definition APPROVAL_KINDS :: "string list" where
  "APPROVAL_KINDS = [''ac_cycle'', ''firmware_flash'', ''secure_erase'', ''bios_reset'', ''raid_reconfigure'']"

text \<open>\<open>str(args.get(key, dflt))\<close>.\<close>

definition arg_str :: "(string, json) dict \<Rightarrow> string \<Rightarrow> string \<Rightarrow> string" where
  "arg_str args key dflt = (case map_of args key of None \<Rightarrow> dflt | Some v \<Rightarrow> py_str v)"

text \<open>A name outside the table is a \<open>KeyError\<close>.\<close>

definition risk_of :: "string \<Rightarrow> (string, json) dict \<Rightarrow> schema_error + risk" where
  "risk_of primitive args = (case map_of PRIMITIVES primitive of None \<Rightarrow> Inl (KeyError primitive)
     | Some spec \<Rightarrow> Inr (if list_ex (\<lambda>(arg, values). arg_str args arg [] \<in> set values) (pp_destructive_when spec)
         then Destructive else pp_risk spec))"

definition approval_kind :: "string \<Rightarrow> (string, json) dict \<Rightarrow> schema_error + string option" where
  "approval_kind primitive args =
     (if primitive = ''power_cycle'' \<and> arg_str args ''kind'' ''None'' = ''ac'' then Inr (Some ''ac_cycle'')
      else (case map_of PRIMITIVES primitive of None \<Rightarrow> Inl (KeyError primitive)
        | Some spec \<Rightarrow> Inr (if pp_risk spec = Destructive then Some primitive else None)))"


section \<open>Guardrails\<close>

record guardrails =
  gr_version :: int
  gr_max_cycles_per_run :: int
  gr_min_settle_s :: int
  gr_min_ac_settle_s :: int
  gr_boot_timeout_s :: int
  gr_consecutive_failure_abort :: int
  gr_exclusive_lease :: bool
  gr_max_run_hours :: int
  gr_requires_approval :: "string list"

definition guardrails_from_mapping :: "guardrails \<Rightarrow> schema_error + guardrails" where
  \<comment> \<open>the field constraints of \<open>Guardrails\<close>\<close>
  "guardrails_from_mapping g =
     (if 1 \<le> gr_max_cycles_per_run g \<and> gr_max_cycles_per_run g \<le> 1000 \<and> 1 \<le> gr_min_settle_s g \<and> 1 \<le> gr_min_ac_settle_s g
        \<and> 30 \<le> gr_boot_timeout_s g \<and> 1 \<le> gr_consecutive_failure_abort g \<and> 1 \<le> gr_max_run_hours g
      then Inr g else Inl (ValidationError ''guardrails''))"

definition DEFAULT_GUARDRAILS :: guardrails where
  "DEFAULT_GUARDRAILS = \<lparr>gr_version = 1, gr_max_cycles_per_run = 100, gr_min_settle_s = 10, gr_min_ac_settle_s = 30,
     gr_boot_timeout_s = 900, gr_consecutive_failure_abort = 3, gr_exclusive_lease = True, gr_max_run_hours = 72,
     gr_requires_approval = APPROVAL_KINDS\<rparr>"

definition default_guardrails :: "schema_error + guardrails" where
  "default_guardrails = guardrails_from_mapping DEFAULT_GUARDRAILS"

definition settle_floor :: "guardrails \<Rightarrow> string \<Rightarrow> int" where
  "settle_floor g kind = (if kind = ''ac'' then gr_min_ac_settle_s g else gr_min_settle_s g)"

definition guardrail_sentences :: "guardrails \<Rightarrow> string list" where
  "guardrail_sentences g =
     [''At most '' @ show_int (gr_max_cycles_per_run g) @ '' power cycles per run.'',
      ''At least '' @ show_int (gr_min_settle_s g) @ '' s settle after a warm or DC cycle, '' @ show_int (gr_min_ac_settle_s g) @ '' s after AC.'',
      ''A boot that takes longer than '' @ show_int (gr_boot_timeout_s g div 60) @ '' minutes counts as failed.'',
      show_int (gr_consecutive_failure_abort g) @ '' boot failures in a row abort the run.'',
      (if gr_exclusive_lease g then ''One run per target at a time.'' else ''Targets may be shared.''),
      ''A run stops after '' @ show_int (gr_max_run_hours g) @ '' hours.'',
      ''Needs your approval every run: '' @ py_join '', '' (gr_requires_approval g) @ ''.'']"

text \<open>\<open>int(args.get(key, dflt))\<close>; a value that is no number raises.\<close>

definition arg_int :: "(string, json) dict \<Rightarrow> string \<Rightarrow> int \<Rightarrow> schema_error + int" where
  "arg_int args key dflt = (case map_of args key of None \<Rightarrow> Inr dflt
     | Some v \<Rightarrow> (case py_int v of None \<Rightarrow> Inl (ValidationError (''int: '' @ key)) | Some i \<Rightarrow> Inr i))"

fun check_settles :: "guardrails \<Rightarrow> step list \<Rightarrow> schema_error + string list" where
  "check_settles g [] = Inr []"
| "check_settles g (st # sts) =
     (let kind = arg_str (s_args st) ''kind'' ''dc''; floor = settle_floor g kind in
      case arg_int (s_args st) ''settle_s'' floor of Inl e \<Rightarrow> Inl e
      | Inr settle \<Rightarrow> (case check_settles g sts of Inl e \<Rightarrow> Inl e
        | Inr ps \<Rightarrow> Inr ((if settle < floor then [''Step '' @ show_int (s_n st) @ '' settles '' @ show_int settle @ '' s after a ''
              @ py_upper kind @ '' cycle; the minimum is '' @ show_int floor @ '' s.''] else []) @ ps)))"

definition step_approval :: "step \<Rightarrow> string option" where
  \<comment> \<open>the approval a step is checked for: \<open>approval_kind\<close> is only asked for names the table has\<close>
  "step_approval st =
     (if s_primitive st \<noteq> ''power_cycle'' \<and> list_ex (\<lambda>p. prefix p (s_primitive st)) [''lease'', ''console'', ''baseline''] then None
      else if s_primitive st \<in> set APPROVAL_KINDS \<or> s_primitive st = ''power_cycle''
      then (case approval_kind (s_primitive st) (s_args st) of Inr k \<Rightarrow> k | Inl _ \<Rightarrow> None) else None)"

definition check_risk :: "guardrails \<Rightarrow> step \<Rightarrow> string list" where
  "check_risk g st = (case step_approval st of None \<Rightarrow> []
     | Some approval \<Rightarrow> if approval \<in> set (gr_requires_approval g) \<and> s_risk st \<noteq> Destructive
         then [''Step '' @ show_int (s_n st) @ '' ('' @ s_title st @ '') is '' @ approval
           @ '', which needs approval, but is not marked destructive.''] else [])"

definition power_cycles :: "plan \<Rightarrow> step list" where
  "power_cycles p = filter (\<lambda>s. s_primitive s = ''power_cycle'') (p_steps p)"

definition check_plan :: "plan \<Rightarrow> guardrails \<Rightarrow> schema_error + string list" where
  "check_plan p g = (let cycles = power_cycles p in
     case check_settles g cycles of Inl e \<Rightarrow> Inl e
     | Inr settles \<Rightarrow> Inr (
         (if int (length cycles) > gr_max_cycles_per_run g
          then [''The plan has '' @ show_nat (length cycles) @ '' power cycles; the limit is '' @ show_int (gr_max_cycles_per_run g) @ '' per run.''] else [])
         @ settles @ concat (map (check_risk g) (p_steps p))))"


section \<open>The two notions of destructive\<close>

lemma PRIMITIVES_get:
  "map_of PRIMITIVES p = Some spec \<longleftrightarrow> (p, spec) \<in> set PRIMITIVES"
proof -
  have "distinct (map fst PRIMITIVES)" by (simp add: PRIMITIVES_def prim_def)
  then show ?thesis by simp
qed

lemma primitive_table:
  "list_all (\<lambda>(p, spec). (pp_risk spec = Destructive) =
       (p \<in> set [''firmware_flash'', ''secure_erase'', ''bios_reset'', ''raid_reconfigure'']) \<and>
     pp_destructive_when spec = (if p = ''power_cycle'' then [(''kind'', [''ac''])] else [])) PRIMITIVES"
  by code_simp

lemma primitive_cases:
  assumes "map_of PRIMITIVES p = Some spec"
  shows "(pp_risk spec = Destructive) = (p \<in> set [''firmware_flash'', ''secure_erase'', ''bios_reset'', ''raid_reconfigure''])"
    and "pp_destructive_when spec = (if p = ''power_cycle'' then [(''kind'', [''ac''])] else [])"
  using assms primitive_table unfolding PRIMITIVES_get list_all_iff by blast+

lemma risk_of_destructive:
  "risk_of p args = Inr Destructive \<longleftrightarrow> (\<exists>k. approval_kind p args = Inr (Some k))"
proof (cases "map_of PRIMITIVES p")
  case None
  then have "p \<noteq> ''power_cycle''" by (auto simp: PRIMITIVES_def prim_def)
  with None show ?thesis by (simp add: risk_of_def approval_kind_def)
next
  case (Some spec)
  note c = primitive_cases [OF Some]
  show ?thesis
  proof (cases "p = ''power_cycle''")
    case True
    then have "pp_risk spec \<noteq> Destructive" using c(1) by simp
    then show ?thesis using True Some c(2)
      by (simp add: risk_of_def approval_kind_def arg_str_def split: option.splits)
  next
    case False
    then show ?thesis using Some c by (simp add: risk_of_def approval_kind_def)
  qed
qed

lemma approval_kind_known:
  "approval_kind p args = Inr (Some k) \<Longrightarrow> k \<in> set APPROVAL_KINDS \<and> (p = ''power_cycle'' \<or> p \<in> set APPROVAL_KINDS)"
  using primitive_cases(1) [of p]
  by (auto simp: approval_kind_def APPROVAL_KINDS_def split: if_splits option.splits)

lemma not_skipped: "p \<in> set APPROVAL_KINDS \<Longrightarrow> \<not> list_ex (\<lambda>q. prefix q p) [''lease'', ''console'', ''baseline'']"
  by (auto simp: APPROVAL_KINDS_def)

lemma step_approval_kind: "approval_kind (s_primitive st) (s_args st) = Inr (Some k) \<Longrightarrow> step_approval st = Some k"
  using approval_kind_known [of "s_primitive st" "s_args st" k] not_skipped [of "s_primitive st"]
  by (auto simp: step_approval_def)

lemma step_approval_SomeD: "step_approval st = Some k \<Longrightarrow> approval_kind (s_primitive st) (s_args st) = Inr (Some k)"
  by (auto simp: step_approval_def split: if_splits sum.splits)


section \<open>What a checked plan keeps\<close>

text \<open>The limits, as predicates on the plan.\<close>

definition settles_long :: "guardrails \<Rightarrow> step \<Rightarrow> bool" where
  "settles_long g st \<longleftrightarrow> (\<exists>i. arg_int (s_args st) ''settle_s'' (settle_floor g (arg_str (s_args st) ''kind'' ''dc'')) = Inr i
     \<and> settle_floor g (arg_str (s_args st) ''kind'' ''dc'') \<le> i)"

definition asks_approval :: "guardrails \<Rightarrow> step \<Rightarrow> bool" where
  "asks_approval g st \<longleftrightarrow> (\<forall>k. approval_kind (s_primitive st) (s_args st) = Inr (Some k) \<and> k \<in> set (gr_requires_approval g)
     \<longrightarrow> needs_approval st)"

lemma check_settles_Nil: "check_settles g sts = Inr [] \<longleftrightarrow> list_all (settles_long g) sts"
proof (induction sts)
  case (Cons st sts)
  then show ?case
    by (auto simp: settles_long_def Let_def split: sum.splits if_splits)
qed simp

lemma check_risk_Nil: "check_risk g st = [] \<longleftrightarrow> asks_approval g st"
proof (cases "step_approval st")
  case None
  then have "approval_kind (s_primitive st) (s_args st) \<noteq> Inr (Some k)" for k using step_approval_kind by fastforce
  then show ?thesis using None by (simp add: check_risk_def asks_approval_def)
next
  case (Some k)
  then show ?thesis using step_approval_SomeD [OF Some] by (auto simp: check_risk_def asks_approval_def needs_approval_def)
qed

lemma check_plan_Nil:
  "check_plan p g = Inr [] \<longleftrightarrow> int (length (power_cycles p)) \<le> gr_max_cycles_per_run g \<and>
     list_all (settles_long g) (power_cycles p) \<and> list_all (asks_approval g) (p_steps p)"
proof -
  have "check_plan p g = Inr [] \<longleftrightarrow> int (length (power_cycles p)) \<le> gr_max_cycles_per_run g \<and>
      check_settles g (power_cycles p) = Inr [] \<and> concat (map (check_risk g) (p_steps p)) = []"
    by (auto simp: check_plan_def Let_def split: sum.splits)
  then show ?thesis by (simp add: check_settles_Nil check_risk_Nil list_all_iff)
qed

text \<open>
  The limits: \<open>check_plan\<close> has no complaint exactly when the plan has at most the
  allowed number of power cycles, each of them settles at least as long as its kind
  requires, and every step the guardrails want approved is marked destructive, so that the
  kernel asks for its approval. The two ways of calling a step destructive agree.
\<close>
theorem check_plan_bounds:
  "(check_plan p g = Inr []) = (int (length (power_cycles p)) \<le> gr_max_cycles_per_run g \<and>
     list_all (settles_long g) (power_cycles p) \<and> list_all (asks_approval g) (p_steps p)) \<and>
   (risk_of prim_name args = Inr Destructive) = (\<exists>k. approval_kind prim_name args = Inr (Some k))"
  using check_plan_Nil risk_of_destructive by blast

end
