(* ===== verification/Compiler.thy ===== *)
theory Compiler
  imports Guardrails Stdlib
begin

text \<open>
  From a validation suite to a plan
  (\<open>services/agent-core-orchestrator/slas_orchestrator/validation/compiler.py\<close> and the item
  and suite types of \<open>suite.py\<close>). The optional compiler for actions the table does not know is a
  parameter: a function from an item to an answer or none. A raised exception is an
  \<open>Inl\<close>: \<open>PlanCompileError\<close> with its three sentences, the
  \<open>ValueError\<close> of \<open>int\<close>, or the error of a schema.
\<close>

section \<open>Suites\<close>

record suite_item =
  si_n :: int
  si_title :: string
  si_action :: string
  si_params :: "(string, string) dict"
  si_cycles :: nat
  si_approved :: bool

definition suite_item_ok :: "suite_item \<Rightarrow> bool" where
  "suite_item_ok i \<longleftrightarrow> 1 \<le> si_n i \<and> 1 \<le> py_len (si_title i) \<and> py_len (si_title i) \<le> 200 \<and> si_action i \<noteq> [] \<and> 1 \<le> si_cycles i"

record suite =
  su_title :: string
  su_source :: string
  su_items :: "suite_item list"

record compiled_item =
  ci_primitive :: string
  ci_args :: "(string, json) dict"

datatype compile_error =
    PlanCompileError three_part
  | CompileValueError string
  | CompileSchemaError schema_error


section \<open>The table of actions\<close>

definition rule_ac :: rx where
  "rule_ac = ralts
     [rseq [WordB, lit_ci ''ac'', WordB, Star any_char, WordB, ropt (rseq [lit_ci ''power'', Star rspace]), lit_ci ''cycl''],
      rseq [WordB, lit_ci ''ac cycle''],
      rseq [lit_ci ''power '', ralts [lit_ci ''cord'', lit_ci ''cable''], lit_ci '' pull''],
      rseq [WordB, lit_ci ''pdu'', WordB]]"

definition rule_dc :: rx where
  "rule_dc = ralts
     [rseq [WordB, lit_ci ''dc'', WordB, Star any_char, WordB, lit_ci ''cycl''],
      rseq [WordB, lit_ci ''dc cycle''],
      lit_ci ''power cycle'',
      rseq [lit_ci ''cold '', ralts [lit_ci ''boot'', lit_ci ''reboot'']],
      rseq [lit_ci ''power off'', Star any_char, lit_ci ''power on'']]"

definition rule_warm :: rx where
  "rule_warm = ralts
     [rseq [lit_ci ''warm '', ralts [lit_ci ''boot'', lit_ci ''reboot'']],
      rseq [WordB, lit_ci ''reboot'', WordB], lit_ci ''graceful restart'', lit_ci ''os restart'']"

definition RULES :: "(rx \<times> string \<times> (string, json) dict) list" where
  "RULES =
     [(rule_ac, ''power_cycle'', [(''kind'', JStr ''ac'')]),
      (rule_dc, ''power_cycle'', [(''kind'', JStr ''dc'')]),
      (rule_warm, ''power_cycle'', [(''kind'', JStr ''warm'')]),
      (lit_ci ''baseline'', ''baseline_snapshot'', []),
      (ralts [rseq [WordB, lit_ci ''sel'', WordB], lit_ci ''event log''], ''sel_snapshot'', []),
      (ralts [lit_ci ''inventory'', lit_ci ''lnksta'',
              rseq [lit_ci ''link '', ralts [lit_ci ''state'', lit_ci ''width'', lit_ci ''speed'']], lit_ci ''firmware version''],
       ''inventory_snapshot'', []),
      (ralts [rseq [lit_ci ''firmware '', ralts [lit_ci ''flash'', lit_ci ''update'', lit_ci ''upgrade'']],
              rseq [lit_ci ''flash '', ropt (lit_ci ''the ''), ralts [lit_ci ''bios'', lit_ci ''bmc'', lit_ci ''firmware'']]],
       ''firmware_flash'', []),
      (ralts [lit_ci ''secure erase'', lit_ci ''sanitize'', lit_ci ''crypto erase''], ''secure_erase'', []),
      (ralts [rseq [lit_ci ''bios '', ralts [lit_ci ''reset'', rseq [lit_ci ''default'', ropt (lit_ci ''s'')]]],
              rseq [lit_ci ''load '', ropt (lit_ci ''setup ''), lit_ci ''defaults'']],
       ''bios_reset'', []),
      (rseq [WordB, lit_ci ''raid'', WordB], ''raid_reconfigure'', []),
      (ralts [rseq [lit_ci ''collect '', ropt (lit_ci ''the ''), lit_ci ''log'', ropt (lit_ci ''s'')], lit_ci ''gather logs''],
       ''collect_logs'', [])]"

definition TOOL_WORDS :: "(string, string) dict" where
  "TOOL_WORDS = map (\<lambda>t. (t, t)) (STRESS_TOOLS @ DIAG_TOOLS)
     @ [(''stress'', ''stress-ng''), (''burn'', ''stress-ng''), (''nvidia qual'', ''nvqual''), (''mellanox'', ''mft''), (''smart'', ''smartctl'')]"

text \<open>\<open>str.split()\<close> on white space.\<close>

fun split_words :: "string \<Rightarrow> string \<Rightarrow> string list" where
  "split_words w [] = (if w = [] then [] else [rev w])"
| "split_words w (c # s) = (if is_space c then (if w = [] then [] else [rev w]) @ split_words [] s else split_words (c # w) s)"

definition param :: "suite_item \<Rightarrow> string \<Rightarrow> string \<Rightarrow> string" where
  "param i key dflt = (case map_of (si_params i) key of None \<Rightarrow> dflt | Some v \<Rightarrow> v)"

definition as_int :: "json option \<Rightarrow> int \<Rightarrow> int" where
  "as_int value dflt = (case value of
     Some (JInt n) \<Rightarrow> n
   | Some (JStr s) \<Rightarrow> (case parse_int s of None \<Rightarrow> dflt | Some n \<Rightarrow> n)
   | _ \<Rightarrow> dflt)"

text \<open>\<open>int(text)\<close> as a value of the arguments.\<close>

definition int_arg :: "string \<Rightarrow> compile_error + json" where
  "int_arg s = (case parse_int s of None \<Rightarrow> Inl (CompileValueError s) | Some n \<Rightarrow> Inr (JInt n))"

definition rule_item :: "suite_item \<Rightarrow> string \<Rightarrow> (string, json) dict \<Rightarrow> compile_error + compiled_item" where
  "rule_item i primitive args =
     (let extra =
        (if primitive = ''power_cycle'' then
           (case map_of (si_params i) ''settle_s'' of None \<Rightarrow> Inr []
            | Some s \<Rightarrow> (case int_arg s of Inl e \<Rightarrow> Inl e | Inr v \<Rightarrow> Inr [(''settle_s'', v)]))
         else if primitive = ''firmware_flash'' then
           Inr [(''component'', JStr (param i ''component'' ''unspecified'')),
                (''image_ref'', JStr (param i ''image'' (param i ''image_ref'' ''unspecified'')))]
         else if primitive = ''secure_erase'' then Inr [(''device'', JStr (param i ''device'' ''unspecified''))]
         else if primitive = ''raid_reconfigure'' then Inr [(''layout'', JStr (param i ''layout'' ''unspecified''))]
         else Inr [])
      in case extra of Inl e \<Rightarrow> Inl e | Inr xs \<Rightarrow> Inr \<lparr>ci_primitive = primitive, ci_args = args @ xs\<rparr>)"

definition tool_item :: "suite_item \<Rightarrow> string \<Rightarrow> compile_error + compiled_item" where
  "tool_item i tool =
     (let primitive = (if tool \<in> set STRESS_TOOLS then ''stress'' else ''run_diag'');
          args = (if param i ''args'' [] \<noteq> [] then [(''args'', JList (map JStr (split_words [] (param i ''args'' []))))] else []);
          key = (if primitive = ''stress'' then ''duration_s'' else ''timeout_s'')
      in if param i ''duration_s'' [] \<noteq> []
         then (case int_arg (param i ''duration_s'' []) of Inl e \<Rightarrow> Inl e
               | Inr v \<Rightarrow> Inr \<lparr>ci_primitive = primitive, ci_args = (''tool'', JStr tool) # args @ [(key, v)]\<rparr>)
         else Inr \<lparr>ci_primitive = primitive, ci_args = (''tool'', JStr tool) # args\<rparr>)"

definition action_text :: "suite_item \<Rightarrow> string" where
  "action_text i = si_title i @ '' '' @ si_action i @ '' '' @ py_join '' '' (map (\<lambda>(k, v). k @ '' '' @ v) (si_params i))"

definition map_action :: "suite_item \<Rightarrow> compile_error + compiled_item option" where
  "map_action i = (let text = action_text i in
     case List.find (\<lambda>(pattern, _). re_search pattern text) RULES of
       Some (_, primitive, args) \<Rightarrow> map_sum id Some (rule_item i primitive args)
     | None \<Rightarrow> (case List.find (\<lambda>(word, _). sublist word (py_lower text)) TOOL_WORDS of
         Some (_, tool) \<Rightarrow> map_sum id Some (tool_item i tool)
       | None \<Rightarrow> Inr None))"


section \<open>Compilation\<close>

type_synonym item_compiler = "suite_item \<Rightarrow> compiled_item option"

definition item_head :: "suite_item \<Rightarrow> string" where
  "item_head i = ''Step '' @ show_int (si_n i) @ '' ('' @ si_title i @ '')''"

definition unknown_action :: "suite_item \<Rightarrow> string \<Rightarrow> compile_error" where
  "unknown_action i named = PlanCompileError
     \<lparr>tp_what_happened = item_head i @ '' names no known action: '' @ py_quote named @ ''.'',
      tp_likely_cause = ''A plan may only use the Validation primitives in plans/primitives/validation.yaml.'',
      tp_what_to_do = ''Reword the step (for example `DC cycle x25, settle 60 s`), or remove it.''\<rparr>"

definition missing_args :: "suite_item \<Rightarrow> compiled_item \<Rightarrow> plan_primitive \<Rightarrow> string list \<Rightarrow> compile_error" where
  "missing_args i c spec missing = PlanCompileError
     \<lparr>tp_what_happened = item_head i @ '' is missing '' @ py_join '', '' missing @ '' for '' @ ci_primitive c @ ''.'',
      tp_likely_cause = ci_primitive c @ '' needs '' @ py_join '', '' (filter (\<lambda>a. a \<noteq> ''target'') (pp_required spec)) @ ''.'',
      tp_what_to_do = ''Add the parameter to the suite row, for example `device=nvme0n1`.''\<rparr>"

definition not_flagged :: "suite_item \<Rightarrow> string \<Rightarrow> compile_error" where
  "not_flagged i kind = PlanCompileError
     \<lparr>tp_what_happened = item_head i @ '' is destructive ('' @ kind @ '') and the suite does not flag it as approved.'',
      tp_likely_cause = ''Destructive steps need a per-run human approval (INV-7); the suite must say the author expects one.'',
      tp_what_to_do = ''Add `approved` to the step (Approved column: yes), then approve it again when the run asks.''\<rparr>"

definition too_many_cycles :: "guardrails \<Rightarrow> nat \<Rightarrow> compile_error" where
  "too_many_cycles g tot = PlanCompileError
     \<lparr>tp_what_happened = ''The suite asks for '' @ show_nat tot @ '' power cycles; the limit is ''
        @ show_int (gr_max_cycles_per_run g) @ '' per run.'',
      tp_likely_cause = ''Guardrail max_cycles_per_run (config/guardrails.yaml).'',
      tp_what_to_do = ''Split the suite into several runs, or lower the cycle count.''\<rparr>"

definition too_many_steps :: compile_error where
  "too_many_steps = PlanCompileError
     \<lparr>tp_what_happened = ''The plan would have more than '' @ show_nat MAX_STEPS @ '' steps.'',
      tp_likely_cause = ''Plans are capped so a person can review them (CLAUDE.md '' @ [CHR 0xC2, CHR 0xA7] @ ''6.1).'',
      tp_what_to_do = ''Split the suite into several runs.''\<rparr>"

definition breaks_guardrail :: "string list \<Rightarrow> compile_error" where
  "breaks_guardrail problems = PlanCompileError
     \<lparr>tp_what_happened = ''The plan breaks a guardrail.'', tp_likely_cause = py_join '' '' problems,
      tp_what_to_do = ''Change the suite so the plan stays within config/guardrails.yaml.''\<rparr>"

definition compile_one :: "item_compiler option \<Rightarrow> suite_item \<Rightarrow> compile_error + compiled_item" where
  \<comment> \<open>the answer for one item, with the reject rules that do not count cycles\<close>
  "compile_one compiler i =
     (case map_action i of Inl e \<Rightarrow> Inl e
      | Inr m \<Rightarrow>
        (case (case m of Some c \<Rightarrow> Some c | None \<Rightarrow> (case compiler of None \<Rightarrow> None | Some f \<Rightarrow> f i)) of
           None \<Rightarrow> Inl (unknown_action i (si_action i))
         | Some c \<Rightarrow>
           (case map_of PRIMITIVES (ci_primitive c) of
              None \<Rightarrow> Inl (unknown_action i (ci_primitive c))
            | Some spec \<Rightarrow>
              (let missing = filter (\<lambda>a. a \<noteq> ''target'' \<and> map_of (ci_args c) a = None \<and> a \<noteq> ''cycle'') (pp_required spec) in
               if missing \<noteq> [] then Inl (missing_args i c spec missing)
               else (case approval_kind (ci_primitive c) (ci_args c) of
                   Inl e \<Rightarrow> Inl (CompileSchemaError e)
                 | Inr (Some kind) \<Rightarrow> if si_approved i then Inr c else Inl (not_flagged i kind)
                 | Inr None \<Rightarrow> Inr c)))))"

fun first_pass :: "guardrails \<Rightarrow> item_compiler option \<Rightarrow> suite_item list \<Rightarrow> nat \<Rightarrow>
    compile_error + (suite_item \<times> compiled_item) list \<times> nat" where
  "first_pass g compiler [] tot = Inr ([], tot)"
| "first_pass g compiler (i # is) tot =
     (case compile_one compiler i of Inl e \<Rightarrow> Inl e
      | Inr c \<Rightarrow>
        (let tot' = (if ci_primitive c = ''power_cycle'' then tot + si_cycles i else tot) in
         if ci_primitive c = ''power_cycle'' \<and> int tot' > gr_max_cycles_per_run g then Inl (too_many_cycles g tot')
         else (case first_pass g compiler is tot' of Inl e \<Rightarrow> Inl e
               | Inr (cs, grand) \<Rightarrow> Inr ((i, c) # cs, grand))))"

text \<open>\<open>{"target": target, **args}\<close>\<close>

definition with_target :: "string \<Rightarrow> (string, json) dict \<Rightarrow> (string, json) dict" where
  "with_target target args = foldl (\<lambda>d (k, v). AList.update k v d) [(''target'', JStr target)] args"

definition add_step :: "string \<Rightarrow> step list \<Rightarrow> string \<Rightarrow> string \<Rightarrow> string \<Rightarrow> (string, json) dict \<Rightarrow> compile_error + step list" where
  "add_step target steps i primitive title args =
     (let full = with_target target args in
      case risk_of primitive full of Inl e \<Rightarrow> Inl (CompileSchemaError e)
      | Inr r \<Rightarrow>
        (let st = \<lparr>s_id = i, s_n = int (length steps) + 1, s_primitive = primitive, s_title = py_take 200 title, s_args = full,
                   s_risk = r, s_when = None\<rparr>
         in if step_ok st then Inr (steps @ [st]) else Inl (CompileSchemaError (ValidationError ''step''))))"

definition cycle_args :: "guardrails \<Rightarrow> string \<Rightarrow> int \<Rightarrow> nat \<Rightarrow> nat \<Rightarrow> (string, json) dict" where
  "cycle_args g kind settle grand n = [(''kind'', JStr kind), (''cycle'', JInt (int n)),
     (''settle_s'', JInt (max settle (settle_floor g kind))), (''total_cycles'', JInt (int grand))]"

fun add_cycles :: "guardrails \<Rightarrow> string \<Rightarrow> string \<Rightarrow> int \<Rightarrow> nat \<Rightarrow> nat \<Rightarrow> nat \<Rightarrow> step list \<Rightarrow> compile_error + step list" where
  "add_cycles g target kind settle grand 0 tot steps = Inr steps"
| "add_cycles g target kind settle grand (Suc k) tot steps =
     (case add_step target steps (''cycle-'' @ zero_pad 3 (show_nat (tot + 1))) ''power_cycle''
         (py_upper kind @ '' cycle '' @ show_nat (tot + 1) @ '' of '' @ show_nat grand)
         (cycle_args g kind settle grand (tot + 1)) of
        Inl e \<Rightarrow> Inl e
      | Inr steps' \<Rightarrow> add_cycles g target kind settle grand k (tot + 1) steps')"

fun second_pass :: "guardrails \<Rightarrow> string \<Rightarrow> nat \<Rightarrow> (suite_item \<times> compiled_item) list \<Rightarrow> nat \<Rightarrow> step list \<Rightarrow>
    compile_error + step list \<times> nat" where
  "second_pass g target grand [] tot steps = Inr (steps, tot)"
| "second_pass g target grand ((i, c) # cs) tot steps =
     (let added =
        (if ci_primitive c = ''power_cycle''
         then (let kind = arg_str (ci_args c) ''kind'' ''dc''; settle = as_int (map_of (ci_args c) ''settle_s'') (settle_floor g kind)
               in add_cycles g target kind settle grand (si_cycles i) tot steps)
         else add_step target steps (''item-'' @ show_int (si_n i)) (ci_primitive c) (si_title i) (ci_args c));
          tot' = (if ci_primitive c = ''power_cycle'' then tot + si_cycles i else tot)
      in case added of Inl e \<Rightarrow> Inl e
         | Inr steps' \<Rightarrow> if length steps' > MAX_STEPS - 2 then Inl too_many_steps
             else second_pass g target grand cs tot' steps')"

fun add_all :: "string \<Rightarrow> (string \<times> string \<times> string) list \<Rightarrow> step list \<Rightarrow> compile_error + step list" where
  \<comment> \<open>a row of \<open>add\<close> calls without arguments\<close>
  "add_all target [] steps = Inr steps"
| "add_all target ((i, primitive, title) # rest) steps =
     (case add_step target steps i primitive title [] of Inl e \<Rightarrow> Inl e | Inr steps' \<Rightarrow> add_all target rest steps')"

definition plan_summary :: "suite \<Rightarrow> string \<Rightarrow> nat \<Rightarrow> step list \<Rightarrow> string" where
  "plan_summary su target tot steps =
     (let ds = filter (\<lambda>s. s_risk s = Destructive) steps in
      su_title su @ '' on '' @ target @ '': '' @ show_nat tot @ '' power cycles and '' @ show_nat (length (su_items su))
      @ '' suite items, '' @ show_nat (length steps) @ '' steps.''
      @ (if ds \<noteq> [] then '' '' @ show_nat (length ds) @ '' destructive '' @ (if length ds = 1 then ''step needs'' else ''steps need'')
           @ '' your approval before the run starts.'' else '' Nothing destructive.''))"

definition finish_plan :: "suite \<Rightarrow> string \<Rightarrow> string \<Rightarrow> guardrails \<Rightarrow> time \<Rightarrow> step list \<Rightarrow> nat \<Rightarrow> compile_error + plan" where
  \<comment> \<open>\<open>compile_suite\<close> from the two closing steps on\<close>
  "finish_plan su job_id target g now steps tot =
     (case add_all target [(''collect'', ''collect_logs'', ''Collect console, syslog and SEL onto the ticket''),
                           (''release'', ''release_target'', ''Release '' @ target)] steps of
        Inl e \<Rightarrow> Inl e
      | Inr all \<Rightarrow>
        (case plan_validate \<lparr>p_id = ''plan-'' @ job_id, p_job_id = job_id, p_summary = plan_summary su target tot all,
             p_steps = all, p_created_at = now\<rparr> of
           Inl e \<Rightarrow> Inl (CompileSchemaError e)
         | Inr p \<Rightarrow> (case check_plan p g of Inl e \<Rightarrow> Inl (CompileSchemaError e)
             | Inr [] \<Rightarrow> Inr p | Inr problems \<Rightarrow> Inl (breaks_guardrail problems))))"

definition opening_steps :: "string \<Rightarrow> (string \<times> string \<times> string) list" where
  "opening_steps target = [(''lease'', ''lease_target'', ''Lease '' @ target @ '' for this run''),
     (''console'', ''console_on'', ''Capture the serial console and syslog''),
     (''baseline'', ''baseline_snapshot'', ''Record the baseline'')]"

definition compile_suite :: "suite \<Rightarrow> string \<Rightarrow> string \<Rightarrow> guardrails \<Rightarrow> time \<Rightarrow> item_compiler option \<Rightarrow> compile_error + plan" where
  "compile_suite su job_id target g now compiler =
     (case add_all target (opening_steps target) [] of Inl e \<Rightarrow> Inl e
      | Inr steps0 \<Rightarrow>
        (case first_pass g compiler (su_items su) 0 of Inl e \<Rightarrow> Inl e
         | Inr (cs, grand) \<Rightarrow>
           (case second_pass g target grand cs 0 steps0 of Inl e \<Rightarrow> Inl e
            | Inr (steps, tot) \<Rightarrow> finish_plan su job_id target g now steps tot)))"

end
