(* ===== verification/Compiler_Theorems.thy ===== *)
theory Compiler_Theorems
  imports Compiler
begin

text \<open>
  What a compiled plan promises. The locale \<open>step_law\<close> is the interface between the loops of
  the compiler and the facts about single steps: a law that every step built by \<open>add\<close>
  satisfies holds of every step of the plan. It is interpreted for the guardrails, for the target
  a step acts on and for the flag of destructive items.
\<close>

section \<open>Steps built one by one\<close>

lemma add_step_Inr:
  assumes "add_step target steps i primitive title args = Inr steps'"
  obtains st where "steps' = steps @ [st]" "s_id st = i" "s_primitive st = primitive" "s_args st = with_target target args"
    "risk_of primitive (s_args st) = Inr (s_risk st)" "step_ok st" "s_n st = int (length steps) + 1"
proof -
  let ?st = "\<lambda>r. \<lparr>s_id = i, s_n = int (length steps) + 1, s_primitive = primitive, s_title = py_take 200 title,
    s_args = with_target target args, s_risk = r, s_when = None\<rparr>"
  obtain r where "risk_of primitive (with_target target args) = Inr r" "step_ok (?st r)" "steps' = steps @ [?st r]"
    using assms by (auto simp: add_step_def Let_def split: sum.splits if_splits)
  then show thesis by (intro that [of "?st r"]) simp_all
qed

definition BARE :: "string list" where
  "BARE = [''lease_target'', ''console_on'', ''baseline_snapshot'', ''collect_logs'', ''release_target'']"

locale step_law =
  fixes g :: guardrails and target :: string and ok :: "compiled_item \<Rightarrow> bool" and P :: "step \<Rightarrow> bool"
  assumes bare: "primitive \<in> set BARE \<Longrightarrow> ok \<lparr>ci_primitive = primitive, ci_args = []\<rparr>"
    and plain: "ok c \<Longrightarrow> ci_primitive c \<noteq> ''power_cycle'' \<Longrightarrow> s_primitive st = ci_primitive c \<Longrightarrow>
      s_args st = with_target target (ci_args c) \<Longrightarrow> risk_of (s_primitive st) (s_args st) = Inr (s_risk st) \<Longrightarrow> step_ok st \<Longrightarrow> P st"
    and cycle: "ok c \<Longrightarrow> ci_primitive c = ''power_cycle'' \<Longrightarrow> s_primitive st = ''power_cycle'' \<Longrightarrow>
      s_args st = with_target target (cycle_args g (arg_str (ci_args c) ''kind'' ''dc'') settle grand n) \<Longrightarrow>
      risk_of (s_primitive st) (s_args st) = Inr (s_risk st) \<Longrightarrow> step_ok st \<Longrightarrow> P st"
begin

lemma add_plain_law:
  assumes "add_step target steps i (ci_primitive c) title (ci_args c) = Inr steps'"
    and "ok c" "ci_primitive c \<noteq> ''power_cycle''" "list_all P steps"
  shows "list_all P steps'"
  using assms(1,4) by (elim add_step_Inr) (auto intro: plain [OF assms(2,3)])

lemma add_cycles_law:
  assumes "add_cycles g target (arg_str (ci_args c) ''kind'' ''dc'') settle grand k tot steps = Inr steps'"
    and "ok c" "ci_primitive c = ''power_cycle''" "list_all P steps"
  shows "list_all P steps'"
  using assms(1,4)
proof (induction k arbitrary: tot steps)
  case (Suc k)
  then obtain mid where mid: "add_step target steps (''cycle-'' @ zero_pad 3 (show_nat (tot + 1))) ''power_cycle''
      (py_upper (arg_str (ci_args c) ''kind'' ''dc'') @ '' cycle '' @ show_nat (tot + 1) @ '' of '' @ show_nat grand)
      (cycle_args g (arg_str (ci_args c) ''kind'' ''dc'') settle grand (tot + 1)) = Inr mid"
    "add_cycles g target (arg_str (ci_args c) ''kind'' ''dc'') settle grand k (tot + 1) mid = Inr steps'"
    by (auto split: sum.splits)
  from mid(1) Suc.prems(2) have "list_all P mid"
    by (elim add_step_Inr) (auto intro: cycle [OF assms(2,3)])
  then show ?case using mid(2) by (rule Suc.IH [rotated])
qed simp

lemma second_pass_law:
  assumes "second_pass g target grand cs tot steps = Inr (steps', tot')" "list_all (\<lambda>(i, c). ok c) cs" "list_all P steps"
  shows "list_all P steps'"
  using assms
proof (induction cs arbitrary: tot steps)
  case (Cons ic cs)
  obtain i c where ic: "ic = (i, c)" by fastforce
  from Cons.prems(1) obtain mid tot1 where mid: "second_pass g target grand cs tot1 mid = Inr (steps', tot')" "list_all P mid"
    using Cons.prems(2,3) unfolding ic
    by (auto simp: Let_def split: sum.splits if_splits intro: add_cycles_law add_plain_law)
  then show ?case using Cons.IH Cons.prems(2) by simp
qed simp

lemma add_all_law:
  assumes "add_all target rows steps = Inr steps'" "list_all P steps" "list_all (\<lambda>(i, p, t). p \<in> set BARE) rows"
  shows "list_all P steps'"
  using assms
proof (induction rows arbitrary: steps)
  case (Cons row rows)
  obtain i primitive title where row: "row = (i, primitive, title)" using prod_cases3 by blast
  from Cons.prems(1) obtain mid where mid: "add_step target steps i primitive title [] = Inr mid" "add_all target rows mid = Inr steps'"
    unfolding row by (auto split: sum.splits)
  have p: "primitive \<in> set BARE" "primitive \<noteq> ''power_cycle''" using Cons.prems(3) row by (auto simp: BARE_def)
  have "list_all P mid"
    using add_plain_law [OF _ bare [OF p(1)], of steps i title mid] mid(1) p(2) Cons.prems(2) by simp
  then show ?case using Cons.IH mid(2) Cons.prems(3) by simp
qed simp

lemma compiled_law:
  assumes "add_all target (opening_steps target) [] = Inr steps0" "second_pass g target grand cs 0 steps0 = Inr (steps1, tot)"
    and "add_all target [(''collect'', ''collect_logs'', u), (''release'', ''release_target'', v)] steps1 = Inr steps"
    and "list_all (\<lambda>(i, c). ok c) cs"
  shows "list_all P steps"
proof -
  have "list_all P steps0" using assms(1) by (rule add_all_law) (simp_all add: opening_steps_def BARE_def)
  then have "list_all P steps1" using second_pass_law assms(2,4) by blast
  then show ?thesis using assms(3) by (intro add_all_law [OF assms(3)]) (simp_all add: BARE_def)
qed

end

text \<open>Every step carries the risk of its primitive and arguments, and a cycle settles long enough.\<close>

definition built :: "guardrails \<Rightarrow> step \<Rightarrow> bool" where
  "built g st \<longleftrightarrow> step_ok st \<and> risk_of (s_primitive st) (s_args st) = Inr (s_risk st) \<and>
     (s_primitive st = ''power_cycle'' \<longrightarrow> settles_long g st)"

lemma with_target_cycle:
  "with_target target (cycle_args g kind settle grand n) = (''target'', JStr target) # cycle_args g kind settle grand n"
  by (simp add: with_target_def cycle_args_def)

lemma cycle_settles: "s_args st = with_target target (cycle_args g kind settle grand n) \<Longrightarrow> settles_long g st"
  unfolding with_target_cycle by (auto simp: settles_long_def cycle_args_def arg_str_def arg_int_def py_str_def py_int_def)

interpretation guarded: step_law g target "\<lambda>_. True" "built g"
  by unfold_locales (auto simp: built_def intro: cycle_settles)

text \<open>Every step acts on the target of the run, unless the arguments of its item name another.\<close>

lemma with_target_get: "map_of (with_target target args) ''target'' =
    (case map_of (rev args) ''target'' of None \<Rightarrow> Some (JStr target) | Some v \<Rightarrow> Some v)"
proof -
  have "map_of (foldl (\<lambda>d (k, v). AList.update k v d) d args) x = (case map_of (rev args) x of None \<Rightarrow> map_of d x | Some v \<Rightarrow> Some v)" for d x
    by (induction args arbitrary: d) (auto split: option.splits)
  then show ?thesis by (simp add: with_target_def split: option.splits)
qed

definition on_target :: "string \<Rightarrow> step \<Rightarrow> bool" where
  "on_target target st \<longleftrightarrow> map_of (s_args st) ''target'' = Some (JStr target)"

interpretation targeted: step_law g target "\<lambda>c. map_of (rev (ci_args c)) ''target'' = None" "on_target target"
  by unfold_locales (auto simp: on_target_def with_target_get cycle_args_def)

text \<open>A destructive step comes from an item, and \<open>A\<close> holds once such an item is among them.\<close>

definition flagged :: "bool \<Rightarrow> compiled_item \<Rightarrow> bool" where
  "flagged A c \<longleftrightarrow> (\<forall>k. approval_kind (ci_primitive c) (ci_args c) = Inr (Some k) \<longrightarrow> A)"

lemma approval_kind_args: "p \<noteq> ''power_cycle'' \<Longrightarrow> approval_kind p a = approval_kind p b"
  by (simp add: approval_kind_def)

lemma approval_kind_cycle:
  "approval_kind ''power_cycle'' (with_target target (cycle_args g kind settle grand n)) = Inr (if kind = ''ac'' then Some ''ac_cycle'' else None)"
  unfolding with_target_cycle by (simp add: approval_kind_def cycle_args_def arg_str_def py_str_def PRIMITIVES_def prim_def)

interpretation flags: step_law g target "flagged A" "\<lambda>st. needs_approval st \<longrightarrow> A"
proof
  show "flagged A \<lparr>ci_primitive = primitive, ci_args = []\<rparr>" if "primitive \<in> set BARE" for primitive
    using that approval_kind_known [of primitive "[]"] by (auto simp: flagged_def BARE_def APPROVAL_KINDS_def)
next
  fix c and st :: step
  assume "flagged A c" "ci_primitive c \<noteq> ''power_cycle''" "s_primitive st = ci_primitive c"
    "risk_of (s_primitive st) (s_args st) = Inr (s_risk st)"
  then show "needs_approval st \<longrightarrow> A"
    using risk_of_destructive [of "s_primitive st" "s_args st"] approval_kind_args [of "s_primitive st" "s_args st" "ci_args c"]
    by (auto simp: needs_approval_def flagged_def)
next
  fix c settle grand n and st :: step
  assume c: "flagged A c" "ci_primitive c = ''power_cycle''" "s_primitive st = ''power_cycle''"
    "s_args st = with_target target (cycle_args g (arg_str (ci_args c) ''kind'' ''dc'') settle grand n)"
    "risk_of (s_primitive st) (s_args st) = Inr (s_risk st)"
  show "needs_approval st \<longrightarrow> A"
  proof
    assume "needs_approval st"
    then have "arg_str (ci_args c) ''kind'' ''dc'' = ''ac''"
      using c(3-5) risk_of_destructive [of "''power_cycle''" "s_args st"] approval_kind_cycle
      by (auto simp: needs_approval_def split: if_splits)
    then have "approval_kind ''power_cycle'' (ci_args c) = Inr (Some ''ac_cycle'')"
      by (auto simp: approval_kind_def arg_str_def split: option.splits)
    then show A using c(1,2) by (auto simp: flagged_def)
  qed
qed


section \<open>The two passes\<close>

text \<open>The power cycles the items ask for.\<close>

definition cycles_of :: "suite_item \<times> compiled_item \<Rightarrow> nat" where
  "cycles_of ic = (if ci_primitive (snd ic) = ''power_cycle'' then si_cycles (fst ic) else 0)"

lemma first_pass_Inr:
  assumes "first_pass g compiler is tot = Inr (cs, grand)" "int tot \<le> gr_max_cycles_per_run g"
  shows "map fst cs = is \<and> list_all (\<lambda>(i, c). compile_one compiler i = Inr c) cs \<and>
    grand = tot + sum_list (map cycles_of cs) \<and> int grand \<le> gr_max_cycles_per_run g"
  using assms
proof (induction "is" arbitrary: tot cs)
  case (Cons i "is")
  from Cons.prems(1) obtain c ds where c: "compile_one compiler i = Inr c" "cs = (i, c) # ds"
    and rest: "first_pass g compiler is (tot + cycles_of (i, c)) = Inr (ds, grand)" "int (tot + cycles_of (i, c)) \<le> gr_max_cycles_per_run g"
    using Cons.prems(2) by (auto simp: Let_def cycles_of_def split: sum.splits if_splits)
  from Cons.IH [OF rest] show ?case using c by simp
qed simp

text \<open>The numbers of the cycles, in the order of the steps.\<close>

definition cycle_numbers :: "step list \<Rightarrow> json option list" where
  "cycle_numbers sts = map (\<lambda>st. map_of (s_args st) ''cycle'') (filter (\<lambda>s. s_primitive s = ''power_cycle'') sts)"

definition counted_from :: "nat \<Rightarrow> nat \<Rightarrow> json option list" where
  "counted_from a b = map (\<lambda>n. Some (JInt (int n))) [Suc a..<Suc b]"

lemma counted_append: "a \<le> b \<Longrightarrow> b \<le> c \<Longrightarrow> counted_from a b @ counted_from b c = counted_from a c"
  unfolding counted_from_def map_append [symmetric] by (metis upt_add_eq_append le_add_diff_inverse Suc_le_mono)

lemma add_cycles_numbers:
  "add_cycles g target kind settle grand k tot steps = Inr steps' \<Longrightarrow>
   cycle_numbers steps' = cycle_numbers steps @ counted_from tot (tot + k)"
proof (induction k arbitrary: tot steps)
  case (Suc k)
  then obtain mid where mid: "add_step target steps (''cycle-'' @ zero_pad 3 (show_nat (tot + 1))) ''power_cycle''
      (py_upper kind @ '' cycle '' @ show_nat (tot + 1) @ '' of '' @ show_nat grand) (cycle_args g kind settle grand (tot + 1)) = Inr mid"
    "add_cycles g target kind settle grand k (tot + 1) mid = Inr steps'"
    by (auto split: sum.splits)
  have "cycle_numbers mid = cycle_numbers steps @ counted_from tot (Suc tot)"
    using mid(1) by (elim add_step_Inr) (simp add: cycle_numbers_def counted_from_def with_target_cycle, simp add: cycle_args_def)
  then show ?case using Suc.IH [OF mid(2)] counted_append [of tot "Suc tot" "tot + Suc k"] by simp
qed (simp add: counted_from_def)

lemma second_pass_numbers:
  "second_pass g target grand cs tot steps = Inr (steps', tot') \<Longrightarrow>
   tot' = tot + sum_list (map cycles_of cs) \<and> cycle_numbers steps' = cycle_numbers steps @ counted_from tot tot'"
proof (induction cs arbitrary: tot steps)
  case (Cons ic cs)
  obtain i c where ic: "ic = (i, c)" by fastforce
  from Cons.prems obtain mid where mid: "second_pass g target grand cs (tot + cycles_of ic) mid = Inr (steps', tot')"
    "cycle_numbers mid = cycle_numbers steps @ counted_from tot (tot + cycles_of ic)"
    unfolding ic
    by (auto simp: Let_def cycles_of_def counted_from_def [of tot tot] cycle_numbers_def elim!: add_step_Inr
        split: sum.splits if_splits dest: add_cycles_numbers [unfolded cycle_numbers_def])
  then show ?case using Cons.IH [OF mid(1)] counted_append [of tot "tot + cycles_of ic" tot'] by simp
qed (simp add: counted_from_def)

lemma add_cycles_extends: "add_cycles g target kind settle grand k tot steps = Inr steps' \<Longrightarrow> \<exists>new. steps' = steps @ new"
  by (induction k arbitrary: tot steps) (fastforce split: sum.splits elim: add_step_Inr)+

lemma second_pass_extends: "second_pass g target grand cs tot steps = Inr (steps', tot') \<Longrightarrow> \<exists>new. steps' = steps @ new"
proof (induction cs arbitrary: tot steps)
  case (Cons ic cs)
  obtain i c where ic: "ic = (i, c)" by fastforce
  from Cons.prems obtain mid where mid: "second_pass g target grand cs (tot + cycles_of ic) mid = Inr (steps', tot')" "\<exists>new. mid = steps @ new"
    unfolding ic
    by (auto simp: Let_def cycles_of_def elim!: add_step_Inr split: sum.splits if_splits dest: add_cycles_extends)
  then show ?case using Cons.IH [OF mid(1)] by auto
qed simp

lemma add_all_numbers:
  assumes "add_all target rows steps = Inr steps'" "list_all (\<lambda>(i, p, t). p \<in> set BARE) rows"
  shows "cycle_numbers steps' = cycle_numbers steps \<and> (\<exists>new. steps' = steps @ new \<and> map s_primitive new = map (\<lambda>(i, p, t). p) rows)"
  using assms
proof (induction rows arbitrary: steps)
  case (Cons row rows)
  obtain i primitive title where row: "row = (i, primitive, title)" using prod_cases3 by blast
  from Cons.prems(1) obtain mid where mid: "add_step target steps i primitive title [] = Inr mid" "add_all target rows mid = Inr steps'"
    unfolding row by (auto split: sum.splits)
  have "primitive \<noteq> ''power_cycle''" using Cons.prems(2) row by (auto simp: BARE_def)
  moreover obtain st where "mid = steps @ [st]" "s_primitive st = primitive" using mid(1) by (elim add_step_Inr)
  ultimately show ?case using Cons.IH [OF mid(2)] Cons.prems(2) row by (auto simp: cycle_numbers_def)
qed simp


section \<open>Compiled plans\<close>

text \<open>The steps the compiler hands to the schema, with everything it knows about them.\<close>

definition steps_built :: "suite \<Rightarrow> string \<Rightarrow> guardrails \<Rightarrow> item_compiler option \<Rightarrow> (suite_item \<times> compiled_item) list \<Rightarrow> step list \<Rightarrow> bool" where
  "steps_built su target g compiler cs steps \<longleftrightarrow>
     map fst cs = su_items su \<and> list_all (\<lambda>(i, c). compile_one compiler i = Inr c) cs \<and>
     int (sum_list (map cycles_of cs)) \<le> gr_max_cycles_per_run g \<and>
     cycle_numbers steps = counted_from 0 (sum_list (map cycles_of cs)) \<and>
     list_all (built g) steps \<and>
     (list_all (\<lambda>(i, c). map_of (rev (ci_args c)) ''target'' = None) cs \<longrightarrow> list_all (on_target target) steps) \<and>
     (\<forall>A. list_all (\<lambda>(i, c). flagged A c) cs \<longrightarrow> list_all (\<lambda>st. needs_approval st \<longrightarrow> A) steps) \<and>
     s_primitive (hd steps) = ''lease_target'' \<and> s_primitive (last steps) = ''release_target''"

lemma steps_builtI:
  assumes "first_pass g compiler (su_items su) 0 = Inr (cs, grand)" "0 \<le> gr_max_cycles_per_run g"
    and open0: "add_all target (opening_steps target) [] = Inr steps0" and pass2: "second_pass g target grand cs 0 steps0 = Inr (steps1, tot)"
    and close: "add_all target [(''collect'', ''collect_logs'', u), (''release'', ''release_target'', v)] steps1 = Inr steps"
  shows "steps_built su target g compiler cs steps"
proof -
  have pass1: "map fst cs = su_items su \<and> list_all (\<lambda>(i, c). compile_one compiler i = Inr c) cs \<and>
      grand = sum_list (map cycles_of cs) \<and> int grand \<le> gr_max_cycles_per_run g"
    using first_pass_Inr [OF assms(1)] assms(2) by simp
  obtain l0 where l0: "steps0 = l0" "map s_primitive l0 = [''lease_target'', ''console_on'', ''baseline_snapshot'']" "cycle_numbers steps0 = []"
    using add_all_numbers [OF open0] by (auto simp: opening_steps_def BARE_def cycle_numbers_def)
  obtain l2 where l2: "steps = steps1 @ l2" "map s_primitive l2 = [''collect_logs'', ''release_target'']" "cycle_numbers steps = cycle_numbers steps1"
    using add_all_numbers [OF close] by (auto simp: BARE_def)
  have ext: "\<exists>new. steps1 = steps0 @ new" using pass2 by (rule second_pass_extends)
  have nums: "cycle_numbers steps = counted_from 0 (sum_list (map cycles_of cs))"
    using second_pass_numbers [OF pass2] l0 l2 by simp
  have "s_primitive (hd steps) = ''lease_target''" using ext l0 l2 by (cases l0) auto
  moreover have "s_primitive (last steps) = ''release_target''" using l2 by (cases l2 rule: rev_cases) auto
  ultimately show ?thesis
    unfolding steps_built_def
    using pass1 nums guarded.compiled_law [OF open0 pass2 close] targeted.compiled_law [OF open0 pass2 close]
      flags.compiled_law [OF open0 pass2 close]
    by (auto simp: list_all_iff)
qed

lemma built_asks: "built g st \<Longrightarrow> asks_approval g st"
  using risk_of_destructive [of "s_primitive st" "s_args st"] by (auto simp: built_def asks_approval_def needs_approval_def)

lemma built_checked:
  assumes "steps_built su target g compiler cs (p_steps p)"
  shows "check_plan p g = Inr []"
proof -
  have "length (power_cycles p) = length (cycle_numbers (p_steps p))" by (simp add: power_cycles_def cycle_numbers_def)
  then have "int (length (power_cycles p)) \<le> gr_max_cycles_per_run g"
    using assms by (simp add: steps_built_def counted_from_def)
  moreover have "list_all (settles_long g) (power_cycles p)" "list_all (asks_approval g) (p_steps p)"
    using assms built_asks by (auto simp: steps_built_def power_cycles_def list_all_iff built_def)
  ultimately show ?thesis by (simp add: check_plan_Nil)
qed


lemma plan_validate_same: "plan_validate q = Inr p \<Longrightarrow> p = q"
  by (auto simp: plan_validate_def split: if_splits option.splits)

text \<open>How a compilation ends: with an error of the passes, or with the plan the schema accepts.\<close>

definition pass_error :: "compile_error \<Rightarrow> bool" where
  "pass_error e \<longleftrightarrow> (\<forall>problems. e \<noteq> breaks_guardrail problems)"

lemma pass_error_simps [simp]:
  "pass_error (CompileSchemaError x)" "pass_error (CompileValueError y)" "pass_error (unknown_action i named)"
  "pass_error (missing_args i c spec missing)" "pass_error (not_flagged i kind)" "pass_error (too_many_cycles g n)" "pass_error too_many_steps"
  by (auto simp: pass_error_def breaks_guardrail_def unknown_action_def missing_args_def not_flagged_def too_many_cycles_def
      too_many_steps_def item_head_def)

lemma int_arg_error: "int_arg t = Inl e \<Longrightarrow> pass_error e"
  by (auto simp: int_arg_def split: option.splits)

lemma map_action_error: "map_action i = Inl e \<Longrightarrow> pass_error e"
  by (auto simp: map_action_def Let_def rule_item_def tool_item_def int_arg_error
      split: option.splits sum.splits if_splits prod.splits)

lemma compile_one_error: "compile_one compiler i = Inl e \<Longrightarrow> pass_error e"
  by (auto simp: compile_one_def Let_def map_action_error split: option.splits sum.splits if_splits)

lemma first_pass_error: "first_pass g compiler is tot = Inl e \<Longrightarrow> pass_error e"
  by (induction "is" arbitrary: tot) (auto simp: Let_def compile_one_error split: sum.splits if_splits)

lemma add_step_error: "add_step target steps i primitive title args = Inl e \<Longrightarrow> pass_error e"
  by (auto simp: add_step_def Let_def split: sum.splits if_splits)

lemma add_cycles_error: "add_cycles g target kind settle grand k tot steps = Inl e \<Longrightarrow> pass_error e"
  by (induction k arbitrary: tot steps) (auto split: sum.splits dest: add_step_error)

lemma second_pass_error: "second_pass g target grand cs tot steps = Inl e \<Longrightarrow> pass_error e"
  by (induction cs arbitrary: tot steps)
    (auto simp: Let_def split: sum.splits if_splits dest: add_cycles_error add_step_error)

lemma add_all_error: "add_all target rows steps = Inl e \<Longrightarrow> pass_error e"
  by (induction target rows steps rule: add_all.induct) (auto split: sum.splits dest: add_step_error)

definition closing_steps :: "string \<Rightarrow> (string \<times> string \<times> string) list" where
  "closing_steps target = [(''collect'', ''collect_logs'', ''Collect console, syslog and SEL onto the ticket''),
     (''release'', ''release_target'', ''Release '' @ target)]"

lemma finish_built:
  assumes "add_all target (closing_steps target) steps1 = Inr steps" "steps_built su target g compiler cs steps"
  shows "(\<exists>e. finish_plan su job_id target g now steps1 tot = Inl (CompileSchemaError e)) \<or>
    (\<exists>p. finish_plan su job_id target g now steps1 tot = Inr p \<and> p_steps p = steps \<and> plan_validate p = Inr p \<and> p_job_id p = job_id)"
proof -
  let ?p = "\<lparr>p_id = ''plan-'' @ job_id, p_job_id = job_id, p_summary = plan_summary su target tot steps, p_steps = steps, p_created_at = now\<rparr>"
  have "check_plan ?p g = Inr []" using assms(2) by (intro built_checked [of su target g compiler cs]) simp
  then show ?thesis
    using assms(1) plan_validate_same [of ?p]
    by (cases "plan_validate ?p") (auto simp: finish_plan_def closing_steps_def simp del: add_all.simps)
qed

lemma compile_suite_cases:
  assumes "0 \<le> gr_max_cycles_per_run g"
  obtains (error) e where "compile_suite su job_id target g now compiler = Inl e" "pass_error e"
  | (plan) p cs where "compile_suite su job_id target g now compiler = Inr p" "steps_built su target g compiler cs (p_steps p)"
      "plan_validate p = Inr p" "p_job_id p = job_id"
proof (cases "compile_suite su job_id target g now compiler")
  case (Inl e)
  then consider "pass_error e" | steps0 cs grand steps1 tot where
      "add_all target (opening_steps target) [] = Inr steps0" "first_pass g compiler (su_items su) 0 = Inr (cs, grand)"
      "second_pass g target grand cs 0 steps0 = Inr (steps1, tot)" "finish_plan su job_id target g now steps1 tot = Inl e"
    by (auto simp: compile_suite_def add_all_error first_pass_error second_pass_error split: sum.splits)
  then show thesis
  proof cases
    case 1
    then show thesis using error Inl by blast
  next
    case 2
    have "pass_error e"
    proof (cases "add_all target (closing_steps target) steps1")
      case (Inl x)
      then show ?thesis using 2(4) add_all_error [OF Inl] by (simp add: finish_plan_def closing_steps_def del: add_all.simps)
    next
      case (Inr steps)
      then have "steps_built su target g compiler cs steps"
        unfolding closing_steps_def by (rule steps_builtI [OF 2(2) assms 2(1) 2(3)])
      then show ?thesis using finish_built [OF Inr, of su g compiler cs job_id now tot] 2(4) by auto
    qed
    then show thesis using error Inl by blast
  qed
next
  case (Inr p)
  then obtain steps0 cs grand steps1 tot where
      c: "add_all target (opening_steps target) [] = Inr steps0" "first_pass g compiler (su_items su) 0 = Inr (cs, grand)"
      "second_pass g target grand cs 0 steps0 = Inr (steps1, tot)" "finish_plan su job_id target g now steps1 tot = Inr p"
    by (auto simp: compile_suite_def split: sum.splits)
  then obtain steps where close: "add_all target (closing_steps target) steps1 = Inr steps"
    by (cases "add_all target (closing_steps target) steps1") (auto simp: finish_plan_def closing_steps_def simp del: add_all.simps)
  then have "steps_built su target g compiler cs steps"
    unfolding closing_steps_def by (rule steps_builtI [OF c(2) assms c(1) c(3)])
  with finish_built [OF close this, of job_id now tot] show thesis using plan [of p cs] Inr c(4) by auto
qed


section \<open>The theorems\<close>

lemma compile_one_flagged:
  assumes "compile_one compiler i = Inr c" "\<not> si_approved i"
  shows "approval_kind (ci_primitive c) (ci_args c) \<noteq> Inr (Some k)"
  using assms by (auto simp: compile_one_def Let_def split: option.splits sum.splits if_splits)

text \<open>
  C31. A compiled plan keeps what a person relies on when approving it: the schema accepts it;
  it starts by taking the lease and ends by releasing it; its power cycles are numbered from 1 to the
  number the suite asks for, at most the allowed number, and each settles long enough; a step is
  marked destructive, so that the kernel asks for approval, exactly when its primitive and
  arguments are; and if there is one, the author of the suite flagged an item as approved.
\<close>
theorem compiled_plan_keeps_the_rules:
  assumes "compile_suite su job_id target g now compiler = Inr p" "0 \<le> gr_max_cycles_per_run g"
  shows "plan_validate p = Inr p \<and> p_job_id p = job_id \<and>
    s_primitive (hd (p_steps p)) = ''lease_target'' \<and> s_primitive (last (p_steps p)) = ''release_target'' \<and>
    int (length (power_cycles p)) \<le> gr_max_cycles_per_run g \<and>
    map (\<lambda>st. map_of (s_args st) ''cycle'') (power_cycles p) = map (\<lambda>n. Some (JInt (int n))) [1..<Suc (length (power_cycles p))] \<and>
    list_all (settles_long g) (power_cycles p) \<and>
    list_all (\<lambda>st. needs_approval st = (\<exists>k. approval_kind (s_primitive st) (s_args st) = Inr (Some k))) (p_steps p) \<and>
    (destructive p \<longrightarrow> list_ex si_approved (su_items su))"
proof -
  obtain cs where b: "steps_built su target g compiler cs (p_steps p)" and v: "plan_validate p = Inr p" "p_job_id p = job_id"
    using compile_suite_cases [OF assms(2), of su job_id target now compiler] assms(1) by force
  have c: "check_plan p g = Inr []" using b by (rule built_checked)
  have n: "cycle_numbers (p_steps p) = counted_from 0 (sum_list (map cycles_of cs))" using b by (simp add: steps_built_def)
  have len: "length (power_cycles p) = sum_list (map cycles_of cs)"
    using arg_cong [OF n, of length] by (simp add: cycle_numbers_def power_cycles_def counted_from_def del: upt_Suc)
  have risk: "needs_approval st = (\<exists>k. approval_kind (s_primitive st) (s_args st) = Inr (Some k))" if "st \<in> set (p_steps p)" for st
    using b that risk_of_destructive [of "s_primitive st" "s_args st"]
    by (auto simp: steps_built_def list_all_iff built_def needs_approval_def)
  have "flagged (list_ex si_approved (su_items su)) c" if "(i, c) \<in> set cs" for i c
  proof -
    have items: "su_items su = map fst cs" and one: "list_all (\<lambda>(i, c). compile_one compiler i = Inr c) cs"
      using b by (auto simp: steps_built_def)
    have "compile_one compiler i = Inr c" using one that by (auto simp: list_all_iff)
    moreover have "i \<in> set (su_items su)" unfolding items using that by force
    ultimately
    show ?thesis using compile_one_flagged [of compiler i c] by (auto simp: flagged_def list_ex_iff)
  qed
  then have "list_all (\<lambda>(i, c). flagged (list_ex si_approved (su_items su)) c) cs" by (auto simp: list_all_iff)
  moreover have "\<forall>A. list_all (\<lambda>(i, c). flagged A c) cs \<longrightarrow> list_all (\<lambda>st. needs_approval st \<longrightarrow> A) (p_steps p)"
    using b unfolding steps_built_def by blast
  ultimately have "list_all (\<lambda>st. needs_approval st \<longrightarrow> list_ex si_approved (su_items su)) (p_steps p)" by blast
  then have "destructive p \<longrightarrow> list_ex si_approved (su_items su)" by (auto simp: destructive_def list_all_iff list_ex_iff)
  moreover have "map (\<lambda>st. map_of (s_args st) ''cycle'') (power_cycles p) = counted_from 0 (length (power_cycles p))"
    using n len by (simp add: cycle_numbers_def power_cycles_def)
  ultimately show ?thesis
    using v b c risk by (simp add: steps_built_def check_plan_Nil counted_from_def list_all_iff del: upt_Suc)
qed

text \<open>
  The guardrail check at the end of the compilation never rejects: whatever the suite and
  whatever the compiler for unknown actions answers, the reject rules of the passes have
  already refused every plan it could complain about.
\<close>
theorem final_guardrail_check_redundant:
  assumes "0 \<le> gr_max_cycles_per_run g"
  shows "compile_suite su job_id target g now compiler \<noteq> Inl (breaks_guardrail problems)"
  by (rule compile_suite_cases [OF assms, of su job_id target now compiler]) (simp_all add: pass_error_def)

text \<open>Without a compiler for unknown actions, no item names a target of its own.\<close>

lemma find_in: "List.find P xs = Some x \<Longrightarrow> x \<in> set xs"
  by (auto simp: find_Some_iff)

lemma map_sum_Some: "map_sum id Some r = Inr (Some c) \<longleftrightarrow> r = Inr c"
  by (cases r) auto

lemma RULES_args: "list_all (\<lambda>(r, p, args). \<forall>v. (''target'', v) \<notin> set args) RULES"
  by (simp add: RULES_def)

lemma map_action_target: "map_action i = Inr (Some c) \<Longrightarrow> map_of (rev (ci_args c)) ''target'' = None"
proof -
  assume m: "map_action i = Inr (Some c)"
  consider r p args where "(r, p, args) \<in> set RULES" "rule_item i p args = Inr c" | tool where "tool_item i tool = Inr c"
    using m by (auto simp: map_action_def Let_def map_sum_Some split: option.splits prod.splits dest!: find_in)
  then show ?thesis
  proof cases
    case 1
    then have "(''target'', v) \<notin> set args" for v using RULES_args by (auto simp: list_all_iff)
    moreover have "\<exists>xs. ci_args c = args @ xs \<and> (\<forall>v. (''target'', v) \<notin> set xs)"
      using 1(2) by (auto simp: rule_item_def Let_def split: sum.splits if_splits option.splits)
    ultimately show ?thesis by (force simp: map_of_eq_None_iff)
  next
    case 2
    then show ?thesis by (auto simp: tool_item_def Let_def split: sum.splits if_splits)
  qed
qed

text \<open>
  When actions are compiled by the table alone, every step of the plan acts on the target the
  run has leased, and on no other.
\<close>
theorem every_step_on_the_leased_target:
  assumes "compile_suite su job_id target g now None = Inr p" "0 \<le> gr_max_cycles_per_run g"
  shows "list_all (on_target target) (p_steps p)"
proof -
  obtain cs where b: "steps_built su target g None cs (p_steps p)"
    using compile_suite_cases [OF assms(2), of su job_id target now None] assms(1) by force
  have "map_of (rev (ci_args c)) ''target'' = None" if "(i, c) \<in> set cs" for i c
  proof -
    have "compile_one None i = Inr c" using b that by (auto simp: steps_built_def list_all_iff)
    then have "map_action i = Inr (Some c)" by (auto simp: compile_one_def Let_def split: option.splits sum.splits if_splits)
    then show ?thesis by (rule map_action_target)
  qed
  then have "list_all (\<lambda>(i, c). map_of (rev (ci_args c)) ''target'' = None) cs" by (auto simp: list_all_iff)
  then show ?thesis using b unfolding steps_built_def by blast
qed

section \<open>Witnesses, and what the code also does\<close>

definition sample_item :: "string \<Rightarrow> (string, string) dict \<Rightarrow> nat \<Rightarrow> bool \<Rightarrow> suite_item" where
  "sample_item title params cycles approved = \<lparr>si_n = 1, si_title = title, si_action = title, si_params = params,
     si_cycles = cycles, si_approved = approved\<rparr>"

definition sample_suite :: "suite_item list \<Rightarrow> suite" where
  "sample_suite items = \<lparr>su_title = ''Cycles'', su_source = ''suite.md'', su_items = items\<rparr>"

definition sample_plan :: "compile_error + plan" where
  "sample_plan = compile_suite (sample_suite [sample_item ''AC cycle'' [] 2 True]) ''job-1'' ''lab-1'' DEFAULT_GUARDRAILS 0 None"

lemma sample_plan_compiles: "case sample_plan of Inl _ \<Rightarrow> False | Inr p \<Rightarrow> length (p_steps p) = 7 \<and> length (destructive_steps p) = 2"
  by code_simp

lemma compiled_plan_keeps_the_rules_witness:
  "\<exists>p. sample_plan = Inr p \<and> length (p_steps p) = 7 \<and> int (length (power_cycles p)) \<le> 100 \<and>
     s_primitive (last (p_steps p)) = ''release_target''"
proof -
  obtain p where p: "sample_plan = Inr p" "length (p_steps p) = 7" using sample_plan_compiles by (auto split: sum.splits)
  have "int (length (power_cycles p)) \<le> 100 \<and> s_primitive (last (p_steps p)) = ''release_target''"
    using compiled_plan_keeps_the_rules [OF p(1) [unfolded sample_plan_def]] by (simp add: DEFAULT_GUARDRAILS_def)
  with p show ?thesis by blast
qed

lemma final_guardrail_check_redundant_witness:
  "compile_suite (sample_suite [sample_item ''DC cycle'' [(''settle_s'', ''1'')] 1 False]) ''job-1'' ''lab-1'' DEFAULT_GUARDRAILS 0 None
     \<noteq> Inl (breaks_guardrail [''too short''])"
  by (rule final_guardrail_check_redundant) (simp add: DEFAULT_GUARDRAILS_def)

lemma every_step_on_the_leased_target_witness:
  "\<exists>p. sample_plan = Inr p \<and> length (p_steps p) = 7 \<and> list_all (on_target ''lab-1'') (p_steps p)"
proof -
  obtain p where p: "sample_plan = Inr p" "length (p_steps p) = 7" using sample_plan_compiles by (auto split: sum.splits)
  have "list_all (on_target ''lab-1'') (p_steps p)"
    using every_step_on_the_leased_target [OF p(1) [unfolded sample_plan_def]] by (simp add: DEFAULT_GUARDRAILS_def)
  with p show ?thesis by blast
qed

text \<open>
  The answer of a compiler for unknown actions is not held to the leased target, nor to the list of tools: a
  plan may run any command on another machine, without an approval.
\<close>

definition careless_answer :: item_compiler where
  "careless_answer i = Some \<lparr>ci_primitive = ''run_diag'', ci_args = [(''tool'', JStr ''reboot''), (''target'', JStr ''lab-2'')]\<rparr>"

lemma compiler_answer_may_leave_the_target:
  "case compile_suite (sample_suite [sample_item ''frobnicate'' [] 1 False]) ''job-1'' ''lab-1'' DEFAULT_GUARDRAILS 0 (Some careless_answer) of
     Inl _ \<Rightarrow> False
   | Inr p \<Rightarrow> \<not> destructive p \<and>
       list_ex (\<lambda>st. s_primitive st = ''run_diag'' \<and> map_of (s_args st) ''target'' = Some (JStr ''lab-2'')
         \<and> map_of (s_args st) ''tool'' = Some (JStr ''reboot'')) (p_steps p)"
  by code_simp

text \<open>A settle time that is no number is a bare \<open>ValueError\<close>, not a \<open>PlanCompileError\<close>.\<close>

lemma settle_text_raises_value_error:
  "compile_suite (sample_suite [sample_item ''DC cycle'' [(''settle_s'', ''60 s'')] 1 False]) ''job-1'' ''lab-1'' DEFAULT_GUARDRAILS 0 None
     = Inl (CompileValueError ''60 s'')"
  by code_simp

end
