(* ===== verification/Validation.thy ===== *)
theory Validation
  imports Kernel Diff Guardrails
begin

text \<open>
  The validation executor: one power cycle as a journalled state machine
  (\<open>services/validation-executor/slas_validation_executor/cycle.py\<close>) and the executor
  behind the kernel's protocol (\<open>executor.py\<close>). The hardware layer is the protocol
  \<open>Hal\<close> of \<open>slas_hal/hal.py\<close>, a record of functions on a world: what drivers do
  is not in the sources. A method is a \<open>prog\<close> over the files, the memory of the
  executor and the world. The process may be killed before every write of a file and before
  every call of the hardware layer; \<open>v_lives\<close> counts the effects left until then. A file holds the value
  that was written to it.
\<close>

section \<open>State\<close>

record command_result =
  cr_exit_code :: int
  cr_stdout :: string
  cr_stderr :: string

record 'w hal =
  h_power :: "string \<Rightarrow> power_action \<Rightarrow> 'w \<Rightarrow> (string + unit) \<times> 'w"
  h_sel :: "string \<Rightarrow> 'w \<Rightarrow> (string + sel_entry list) \<times> 'w"
  h_inventory :: "string \<Rightarrow> 'w \<Rightarrow> (string + inventory) \<times> 'w"
  h_snapshot :: "string \<Rightarrow> 'w \<Rightarrow> (string + snapshot) \<times> 'w"
  h_console_on :: "string \<Rightarrow> 'w \<Rightarrow> (string + unit) \<times> 'w"
  h_console_lines :: "string \<Rightarrow> 'w \<Rightarrow> (string + string list) \<times> 'w"
  h_fence :: "string \<Rightarrow> string \<Rightarrow> 'w \<Rightarrow> (string + unit) \<times> 'w"
  h_wait_for_os :: "string \<Rightarrow> int \<Rightarrow> 'w \<Rightarrow> (string + bool) \<times> 'w"
  h_ssh :: "string \<Rightarrow> string list \<Rightarrow> int \<Rightarrow> 'w \<Rightarrow> (string + command_result) \<times> 'w"

datatype hal_call =
    CallPower string power_action
  | CallSel string
  | CallInventory string
  | CallSnapshot string
  | CallConsoleOn string
  | CallConsoleLines string
  | CallFence string string
  | CallWait string int
  | CallSsh string "string list" int

datatype phase = Arm | Quiesce | Act | Settle | Verify

record phase_entry =
  pe_phase :: phase
  pe_at :: time
  pe_detail :: "(string, json) dict"

datatype cycle_status = CycleWaiting | CycleRunning | CycleOk | CycleFinding | CycleFailed | CycleSkipped

record cycle_cell =
  cc_n :: int
  cc_kind :: string
  cc_status :: cycle_status
  cc_sentence :: string

record run_state =
  rs_ticket_id :: string
  rs_target :: string
  rs_cycles :: "cycle_cell list"
  rs_consecutive_boot_failures :: int
  rs_aborted :: bool

definition run_sentence :: "run_state \<Rightarrow> string" where
  "run_sentence s =
     (let finished = length (filter (\<lambda>c. cc_status c \<in> {CycleOk, CycleFinding, CycleFailed}) (rs_cycles s));
          found = length (filter (\<lambda>c. cc_status c = CycleFinding) (rs_cycles s));
          failed = length (filter (\<lambda>c. cc_status c = CycleFailed) (rs_cycles s));
          tail = (if found \<noteq> 0 then [show_nat found @ '' with findings''] else [])
               @ (if failed \<noteq> 0 then [show_nat failed @ '' did not boot''] else [])
      in show_nat finished @ '' of '' @ show_nat (length (rs_cycles s)) @ '' cycles done''
         @ (if tail \<noteq> [] then '': '' @ py_join '', '' tail else []) @ ''.'')"

datatype content =
    FPhases "phase_entry list"
  | FSel "sel_entry list"
  | FSnapshot snapshot
  | FRun run_state
  | FText string

record 'w executor =
  vx_hal :: "'w hal"
  vx_data_root :: string
  vx_clock :: "nat \<Rightarrow> time"
  vx_guardrails :: guardrails
  vx_dump_snapshot :: "snapshot \<Rightarrow> string" \<comment> \<open>\<open>model_dump_json\<close> of the schema library\<close>
  vx_dump_inventory :: "inventory \<Rightarrow> string"

record 'w vstate =
  v_files :: "(string, content) dict"
  v_leases :: lease_table
  v_baselines :: "(string, snapshot) dict" \<comment> \<open>memory: \<open>_baselines\<close>\<close>
  v_states :: "(string, run_state) dict" \<comment> \<open>memory: \<open>_states\<close>\<close>
  v_metrics :: "(string \<times> string list) list"
  v_ticks :: nat
  v_world :: 'w
  v_calls :: "hal_call list" \<comment> \<open>the calls of the hardware layer, in order\<close>
  v_lives :: "nat option"

datatype v_error =
    HalRaised string
  | VKeyError string
  | VValueError string
  | VSchemaError schema_error
  | NoBaseline string
  | UnknownPrimitive step

type_synonym ('w, 'a) vprog = "('w vstate, v_error, 'a) prog"


section \<open>Effects\<close>

definition v_tick :: "('w, unit) vprog" where
  "v_tick s = (case v_lives s of
     None \<Rightarrow> (Ret (), s) | Some 0 \<Rightarrow> (Crash, s) | Some (Suc n) \<Rightarrow> (Ret (), s\<lparr>v_lives := Some n\<rparr>))"

definition v_now :: "'w executor \<Rightarrow> ('w, time) vprog" where
  "v_now X = bind (gets (\<lambda>s. vx_clock X (v_ticks s))) (\<lambda>t. bind (modify (\<lambda>s. s\<lparr>v_ticks := v_ticks s + 1\<rparr>)) (\<lambda>_. ret t))"

definition v_write :: "string \<Rightarrow> content \<Rightarrow> ('w, unit) vprog" where
  "v_write path c = bind v_tick (\<lambda>_. modify (\<lambda>s. s\<lparr>v_files := AList.update path c (v_files s)\<rparr>))"

definition v_metric :: "string \<Rightarrow> string list \<Rightarrow> ('w, unit) vprog" where
  "v_metric name labels = modify (\<lambda>s. s\<lparr>v_metrics := v_metrics s @ [(name, labels)]\<rparr>)"

definition hal_do :: "hal_call \<Rightarrow> ('w \<Rightarrow> (string + 'a) \<times> 'w) \<Rightarrow> ('w, 'a) vprog" where
  "hal_do c f = bind v_tick (\<lambda>_ s.
     (let (r, w) = f (v_world s); s' = s\<lparr>v_world := w, v_calls := v_calls s @ [c]\<rparr>
      in case r of Inl e \<Rightarrow> (Raise (HalRaised e), s') | Inr x \<Rightarrow> (Ret x, s')))"

definition hal_power :: "'w executor \<Rightarrow> string \<Rightarrow> power_action \<Rightarrow> ('w, unit) vprog" where
  "hal_power X t a = hal_do (CallPower t a) (h_power (vx_hal X) t a)"

definition read_sel :: "'w executor \<Rightarrow> string \<Rightarrow> ('w, sel_entry list) vprog" where
  "read_sel X t = hal_do (CallSel t) (h_sel (vx_hal X) t)"

definition read_inventory :: "'w executor \<Rightarrow> string \<Rightarrow> ('w, inventory) vprog" where
  "read_inventory X t = hal_do (CallInventory t) (h_inventory (vx_hal X) t)"

definition take_snapshot :: "'w executor \<Rightarrow> string \<Rightarrow> ('w, snapshot) vprog" where
  "take_snapshot X t = hal_do (CallSnapshot t) (h_snapshot (vx_hal X) t)"

definition console_on :: "'w executor \<Rightarrow> string \<Rightarrow> ('w, unit) vprog" where
  "console_on X t = hal_do (CallConsoleOn t) (h_console_on (vx_hal X) t)"

definition console_lines :: "'w executor \<Rightarrow> string \<Rightarrow> ('w, string list) vprog" where
  "console_lines X t = hal_do (CallConsoleLines t) (h_console_lines (vx_hal X) t)"

definition fence :: "'w executor \<Rightarrow> string \<Rightarrow> string \<Rightarrow> ('w, unit) vprog" where
  "fence X t m = hal_do (CallFence t m) (h_fence (vx_hal X) t m)"

definition wait_for_os :: "'w executor \<Rightarrow> string \<Rightarrow> int \<Rightarrow> ('w, bool) vprog" where
  "wait_for_os X t timeout = hal_do (CallWait t timeout) (h_wait_for_os (vx_hal X) t timeout)"

definition ssh :: "'w executor \<Rightarrow> string \<Rightarrow> string list \<Rightarrow> int \<Rightarrow> ('w, command_result) vprog" where
  "ssh X t argv timeout = hal_do (CallSsh t argv timeout) (h_ssh (vx_hal X) t argv timeout)"


section \<open>One power cycle\<close>

definition run_dir :: "'w executor \<Rightarrow> string \<Rightarrow> string" where
  "run_dir X tid = vx_data_root X @ ''/Validation/Runs/'' @ tid"

definition pad3 :: "int \<Rightarrow> string" where \<comment> \<open>\<open>f"{n:03d}"\<close>\<close>
  "pad3 n = (if n < 0 then CHR ''-'' # zero_pad 2 (show_nat (nat (- n))) else zero_pad 3 (show_nat (nat n)))"

definition cycle_dir :: "'w executor \<Rightarrow> string \<Rightarrow> int \<Rightarrow> string" where
  "cycle_dir X tid n = run_dir X tid @ ''/cycles/'' @ pad3 n"

definition entries :: "'w vstate \<Rightarrow> string \<Rightarrow> phase_entry list" where
  "entries s path = (case map_of (v_files s) path of Some (FPhases es) \<Rightarrow> es | _ \<Rightarrow> [])"

definition append_phase :: "'w executor \<Rightarrow> string \<Rightarrow> phase \<Rightarrow> (string, json) dict \<Rightarrow> ('w, unit) vprog" where
  "append_phase X path ph detail =
     bind (v_now X) (\<lambda>now. bind v_tick (\<lambda>_. modify (\<lambda>s. s\<lparr>v_files :=
       AList.update path (FPhases (entries s path @ [\<lparr>pe_phase = ph, pe_at = now, pe_detail = detail\<rparr>])) (v_files s)\<rparr>)))"

definition power_action_for :: "string \<Rightarrow> power_action option" where
  "power_action_for kind = map_of [(''warm'', ActGracefulRestart), (''dc'', ActOff), (''ac'', ActAcCycle)] kind"

record cycle_result =
  cy_n :: int
  cy_kind :: string
  cy_booted :: bool
  cy_resumed :: bool
  cy_settle_s :: int
  cy_diff :: "diff_report option"
  cy_fence :: string
  cy_sentence :: string

definition fence_text :: "string \<Rightarrow> int \<Rightarrow> string \<Rightarrow> string" where
  "fence_text tid n kind = ''--- slas fence '' @ tid @ '' cycle '' @ show_int n @ '' '' @ kind @ '' ---''"

definition quiesce :: "'w executor \<Rightarrow> string \<Rightarrow> string \<Rightarrow> string \<Rightarrow> ('w, unit) vprog" where
  "quiesce X target dir marker =
     bind (ssh X target [''sync''] 600) (\<lambda>_.
     bind (read_sel X target) (\<lambda>before.
     bind (v_write (dir @ ''/sel-before.json'') (FSel before)) (\<lambda>_.
     bind (fence X target marker) (\<lambda>_.
     append_phase X (dir @ ''/journal.jsonl'') Quiesce
       [(''sel_entries'', JInt (int (length before))), (''fence'', JStr marker)]))))"

definition act_phase :: "'w executor \<Rightarrow> string \<Rightarrow> string \<Rightarrow> string \<Rightarrow> ('w, unit) vprog" where
  "act_phase X target kind dir =
     (case power_action_for kind of
        None \<Rightarrow> raise (VKeyError kind)
      | Some action \<Rightarrow>
          bind (append_phase X (dir @ ''/journal.jsonl'') Act [(''action'', JStr (action_value action))]) (\<lambda>_.
          bind (hal_power X target action) (\<lambda>_.
          if action = ActOff then hal_power X target ActOn else ret ())))"

definition cycle_sentence :: "int \<Rightarrow> string \<Rightarrow> bool \<Rightarrow> int \<Rightarrow> diff_report option \<Rightarrow> bool \<Rightarrow> string" where
  "cycle_sentence n kind booted timeout diff resumed =
     ''Cycle '' @ show_int n @ '' ('' @ py_upper kind @ ''): ''
     @ (if \<not> booted then ''the target did not come back within '' @ show_int timeout @ '' s.''
        else (case diff of
            Some d \<Rightarrow> if \<not> diff_clean d then ''booted; '' @ diff_sentence d else ''booted; no change against the baseline.''
          | None \<Rightarrow> ''booted; no change against the baseline.''))
     @ (if resumed then '' Resumed after an interruption without repeating the power action.'' else [])"

definition verify_phase :: "'w executor \<Rightarrow> string \<Rightarrow> int \<Rightarrow> string \<Rightarrow> snapshot \<Rightarrow> string \<Rightarrow> bool \<Rightarrow> ('w, diff_report option) vprog" where
  "verify_phase X target n kind baseline dir booted =
     (if booted then
        bind (take_snapshot X target) (\<lambda>snap.
        bind (v_write (dir @ ''/snapshot.json'') (FSnapshot snap)) (\<lambda>_.
        let diff = diff_snapshots baseline snap (''during '' @ py_upper kind @ '' cycle '' @ show_int n) in
        bind (append_phase X (dir @ ''/journal.jsonl'') Verify [(''findings'', JInt (int (length (dr_findings diff))))]) (\<lambda>_.
        ret (Some diff))))
      else
        bind (append_phase X (dir @ ''/journal.jsonl'') Verify [(''skipped'', JStr ''the target did not boot'')]) (\<lambda>_.
        ret None))"

definition run_cycle :: "'w executor \<Rightarrow> string \<Rightarrow> string \<Rightarrow> int \<Rightarrow> string \<Rightarrow> int \<Rightarrow> snapshot \<Rightarrow> ('w, cycle_result) vprog" where
  "run_cycle X target tid n kind settle_s baseline =
     (let dir = cycle_dir X tid n; path = dir @ ''/journal.jsonl''; g = vx_guardrails X;
          settle = max settle_s (settle_floor g kind); marker = fence_text tid n kind;
          timeout = max (gr_boot_timeout_s g) settle in
      bind (gets (\<lambda>s. map pe_phase (entries s path))) (\<lambda>past.
      bind (if Arm \<notin> set past then append_phase X path Arm
              [(''kind'', JStr kind), (''settle_s'', JInt settle), (''target'', JStr target)] else ret ()) (\<lambda>_.
      bind (if Quiesce \<notin> set past then quiesce X target dir marker else ret ()) (\<lambda>_.
      bind (if Act \<notin> set past then act_phase X target kind dir else ret ()) (\<lambda>_.
      bind (wait_for_os X target timeout) (\<lambda>booted.
      bind (append_phase X path Settle [(''booted'', JBool booted), (''settle_s'', JInt settle)]) (\<lambda>_.
      bind (verify_phase X target n kind baseline dir booted) (\<lambda>diff.
      bind (console_lines X target) (\<lambda>lines.
      bind (v_write (dir @ ''/console.log'') (FText (py_join nl lines @ nl))) (\<lambda>_.
      if n < 1 then raise (VSchemaError (ValidationError ''n''))
      else ret \<lparr>cy_n = n, cy_kind = kind, cy_booted = booted, cy_resumed = (past \<noteq> []), cy_settle_s = settle, cy_diff = diff,
             cy_fence = marker, cy_sentence = cycle_sentence n kind booted timeout diff (past \<noteq> [])\<rparr>))))))))))"

definition cycle_clean :: "cycle_result \<Rightarrow> bool" where
  "cycle_clean r \<longleftrightarrow> cy_booted r \<and> (case cy_diff r of None \<Rightarrow> True | Some d \<Rightarrow> diff_clean d)"


section \<open>The executor\<close>

definition ob :: "int \<Rightarrow> string \<Rightarrow> string \<Rightarrow> string \<Rightarrow> finding list \<Rightarrow> observation" where
  \<comment> \<open>\<open>Observation(exit_code, summary, stdout, stderr, findings)\<close>, the other fields at their defaults\<close>
  "ob code summary out err fs = \<lparr>o_exit_code = Some code, o_stdout = out, o_stderr = err, o_screenshots = [],
     o_summary = summary, o_votes = [], o_exports = [], o_findings = fs\<rparr>"

definition state_path :: "'w executor \<Rightarrow> string \<Rightarrow> string" where
  "state_path X tid = run_dir X tid @ ''/cycles.json''"

definition baseline_path :: "'w executor \<Rightarrow> string \<Rightarrow> string" where
  "baseline_path X tid = run_dir X tid @ ''/baseline/snapshot.json''"

definition run_on_disk :: "'w executor \<Rightarrow> string \<Rightarrow> 'w vstate \<Rightarrow> run_state option" where
  "run_on_disk X tid s = (case map_of (v_files s) (state_path X tid) of Some (FRun r) \<Rightarrow> Some r | _ \<Rightarrow> None)"

definition state_for :: "'w executor \<Rightarrow> string \<Rightarrow> 'w vstate \<Rightarrow> run_state option" where
  "state_for X tid s = (case map_of (v_states s) tid of Some r \<Rightarrow> Some r | None \<Rightarrow> run_on_disk X tid s)"

definition remember :: "string \<Rightarrow> run_state \<Rightarrow> ('w, unit) vprog" where
  "remember tid r = modify (\<lambda>s. s\<lparr>v_states := AList.update tid r (v_states s)\<rparr>)"

definition fresh_run :: "string \<Rightarrow> string \<Rightarrow> run_state" where
  "fresh_run tid target = \<lparr>rs_ticket_id = tid, rs_target = target, rs_cycles = [], rs_consecutive_boot_failures = 0, rs_aborted = False\<rparr>"

definition new_cell :: "string \<Rightarrow> int \<Rightarrow> cycle_cell" where
  "new_cell kind n = \<lparr>cc_n = n, cc_kind = kind, cc_status = CycleWaiting, cc_sentence = []\<rparr>"

definition get_state :: "'w executor \<Rightarrow> execution_context \<Rightarrow> string \<Rightarrow> int \<Rightarrow> string \<Rightarrow> ('w, run_state) vprog" where
  "get_state X ctx target total_cycles kind =
     bind (gets (state_for X (ec_ticket_id ctx))) (\<lambda>found.
     let r = (case found of Some r \<Rightarrow> r | None \<Rightarrow> fresh_run (ec_ticket_id ctx) target);
         r' = (if rs_cycles r = [] then r\<lparr>rs_cycles := map (new_cell kind) [1..total_cycles]\<rparr> else r) in
     bind (remember (ec_ticket_id ctx) r') (\<lambda>_. ret r'))"

definition save_state :: "'w executor \<Rightarrow> run_state \<Rightarrow> ('w, unit) vprog" where
  "save_state X r = v_write (state_path X (rs_ticket_id r)) (FRun r)"

definition get_baseline :: "'w executor \<Rightarrow> execution_context \<Rightarrow> ('w, snapshot) vprog" where
  "get_baseline X ctx =
     bind (gets (\<lambda>s. map_of (v_baselines s) (ec_ticket_id ctx))) (\<lambda>mem.
     case mem of Some b \<Rightarrow> ret b
     | None \<Rightarrow>
         bind (gets (\<lambda>s. map_of (v_files s) (baseline_path X (ec_ticket_id ctx)))) (\<lambda>file.
         case file of
           Some (FSnapshot b) \<Rightarrow> bind (modify (\<lambda>s. s\<lparr>v_baselines := AList.update (ec_ticket_id ctx) b (v_baselines s)\<rparr>)) (\<lambda>_. ret b)
         | _ \<Rightarrow> raise (NoBaseline (ec_ticket_id ctx))))"

text \<open>\<open>step.args[key]\<close> and \<open>int(...)\<close> of an argument.\<close>

definition need_arg :: "step \<Rightarrow> string \<Rightarrow> v_error + json" where
  "need_arg st key = (case map_of (s_args st) key of None \<Rightarrow> Inl (VKeyError key) | Some v \<Rightarrow> Inr v)"

definition to_int :: "string \<Rightarrow> json \<Rightarrow> v_error + int" where
  "to_int key v = (case py_int v of None \<Rightarrow> Inl (VValueError key) | Some i \<Rightarrow> Inr i)"

definition int_or :: "step \<Rightarrow> string \<Rightarrow> int \<Rightarrow> v_error + int" where
  "int_or st key dflt = (case map_of (s_args st) key of None \<Rightarrow> Inr dflt | Some v \<Rightarrow> to_int key v)"

definition take_lease_step :: "'w executor \<Rightarrow> execution_context \<Rightarrow> string \<Rightarrow> ('w, observation) vprog" where
  "take_lease_step X ctx target =
     bind (v_now X) (\<lambda>now.
     bind (gets (\<lambda>s. acquire target (ec_ticket_id ctx) (ec_user ctx) now (gr_max_run_hours (vx_guardrails X)) (v_leases s))) (\<lambda>r.
     case r of
       Inl (LeaseBusy t l) \<Rightarrow> ret (ob 1 (t @ '' is busy: '' @ lease_sentence l) []
         ''Pick another target, or wait for that run to finish or its lease to expire.'' [])
     | Inr (l, table) \<Rightarrow>
         bind v_tick (\<lambda>_. bind (modify (\<lambda>s. s\<lparr>v_leases := table\<rparr>)) (\<lambda>_.
         ret (ob 0 (''Leased '' @ target @ '' for this run. '' @ lease_sentence l) [] [] [])))))"

definition console_step :: "'w executor \<Rightarrow> string \<Rightarrow> ('w, observation) vprog" where
  "console_step X target = bind (console_on X target) (\<lambda>_.
     ret (ob 0 (''Serial console and syslog of '' @ target @ '' are being captured.'') [] [] []))"

definition baseline_step :: "'w executor \<Rightarrow> execution_context \<Rightarrow> string \<Rightarrow> ('w, observation) vprog" where
  "baseline_step X ctx target =
     bind (take_snapshot X target) (\<lambda>snap.
     bind (v_write (baseline_path X (ec_ticket_id ctx)) (FSnapshot snap)) (\<lambda>_.
     bind (modify (\<lambda>s. s\<lparr>v_baselines := AList.update (ec_ticket_id ctx) snap (v_baselines s)\<rparr>)) (\<lambda>_.
     ret (ob 0 (''Baseline recorded. '' @ snapshot_sentence snap) (vx_dump_snapshot X snap) [] []))))"

text \<open>The cell of a cycle, found or added in its place, and updated.\<close>

definition with_cell :: "string \<Rightarrow> int \<Rightarrow> cycle_cell list \<Rightarrow> cycle_cell list" where
  "with_cell kind n cs = (if list_ex (\<lambda>c. cc_n c = n) cs then cs else sort_key cc_n (cs @ [new_cell kind n]))"

definition set_cell :: "int \<Rightarrow> (cycle_cell \<Rightarrow> cycle_cell) \<Rightarrow> run_state \<Rightarrow> run_state" where
  "set_cell n f r = r\<lparr>rs_cycles := map_first (\<lambda>c. cc_n c = n) f (rs_cycles r)\<rparr>"

definition evidence_of :: "int \<Rightarrow> diff_finding \<Rightarrow> string" where
  "evidence_of n f = ''cycle '' @ show_int n @ '': '' @ df_before f @ '' '' @ arrow @ '' '' @ df_after f"

definition finding_of :: "int \<Rightarrow> diff_finding \<Rightarrow> schema_error + finding" where
  "finding_of n f = finding_from_sentence (df_message f) [evidence_of n f] None (Some (df_severity f)) (df_component f)"

fun findings_of :: "int \<Rightarrow> diff_finding list \<Rightarrow> schema_error + finding list" where
  "findings_of n [] = Inr []"
| "findings_of n (f # fs) = (case finding_of n f of Inl e \<Rightarrow> Inl e
     | Inr x \<Rightarrow> (case findings_of n fs of Inl e \<Rightarrow> Inl e | Inr xs \<Rightarrow> Inr (x # xs)))"

definition count_boot :: "guardrails \<Rightarrow> bool \<Rightarrow> run_state \<Rightarrow> run_state" where
  \<comment> \<open>the GATE: boot failures in a row, and the abort at the limit\<close>
  "count_boot g booted r =
     (let k = (if booted then 0 else rs_consecutive_boot_failures r + 1) in
      r\<lparr>rs_consecutive_boot_failures := k, rs_aborted := rs_aborted r \<or> k \<ge> gr_consecutive_failure_abort g\<rparr>)"

definition abort_finding :: "string \<Rightarrow> string \<Rightarrow> run_state \<Rightarrow> schema_error + finding" where
  "abort_finding target kind r = finding_from_sentence
     (target @ '' failed to boot '' @ show_int (rs_consecutive_boot_failures r) @ '' times in a row during '' @ py_upper kind @ '' cycling'')
     (py_last 3 (map cc_sentence (filter (\<lambda>c. cc_status c = CycleFailed) (rs_cycles r)))) None (Some S1) (Some ''Boot'')"

definition closed_run :: "guardrails \<Rightarrow> int \<Rightarrow> cycle_result \<Rightarrow> finding list \<Rightarrow> run_state \<Rightarrow> run_state" where
  "closed_run g n result findings r =
     (let status = (if \<not> cy_booted result then CycleFailed else if findings \<noteq> [] then CycleFinding else CycleOk)
      in set_cell n (\<lambda>c. c\<lparr>cc_status := status, cc_sentence := cy_sentence result\<rparr>) (count_boot g (cy_booted result) r))"

definition at_limit :: "guardrails \<Rightarrow> run_state \<Rightarrow> bool" where
  "at_limit g r \<longleftrightarrow> rs_consecutive_boot_failures r \<ge> gr_consecutive_failure_abort g"

definition cycle_outcome :: "cycle_result \<Rightarrow> finding list \<Rightarrow> string" where
  "cycle_outcome result findings = (if \<not> cy_booted result then ''boot_failed'' else if findings \<noteq> [] then ''finding'' else ''clean'')"

definition abort_summary :: "guardrails \<Rightarrow> cycle_result \<Rightarrow> run_state \<Rightarrow> string" where
  "abort_summary g result r = cy_sentence result @ '' That is '' @ show_int (rs_consecutive_boot_failures r)
     @ '' boot failures in a row; the run is aborted (guardrail consecutive_failure_abort='' @ show_int (gr_consecutive_failure_abort g)
     @ ''). A person needs to look at the target.''"

definition close_cycle :: "'w executor \<Rightarrow> string \<Rightarrow> string \<Rightarrow> int \<Rightarrow> cycle_result \<Rightarrow> finding list \<Rightarrow> run_state \<Rightarrow> ('w, observation) vprog" where
  \<comment> \<open>\<open>_power_cycle\<close> after the cycle has run\<close>
  "close_cycle X target kind n result findings r =
     (let g = vx_guardrails X; r' = closed_run g n result findings r; stop = at_limit g r' in
      bind (v_metric ''slas_validation_cycles_total'' [kind, cycle_outcome result findings]) (\<lambda>_.
      bind (if stop then v_metric ''slas_validation_runs_total'' [''aborted''] else ret ()) (\<lambda>_.
      bind (remember (rs_ticket_id r) r') (\<lambda>_.
      bind (if stop then bind (lift VSchemaError (abort_finding target kind r')) (\<lambda>f. ret (findings @ [f])) else ret findings) (\<lambda>fs.
      bind (save_state X r') (\<lambda>_.
      bind (console_lines X target) (\<lambda>lines.
      ret (ob (if stop then 3 else 0) (if stop then abort_summary g result r' else cy_sentence result)
        (py_join nl (py_last 20 lines)) [] fs))))))))"

definition cycle_numbers_of :: "step \<Rightarrow> v_error + int \<times> int" where
  \<comment> \<open>the cycle and the number of cycles of the plan\<close>
  "cycle_numbers_of st = (case need_arg st ''cycle'' of Inl e \<Rightarrow> Inl e
     | Inr v \<Rightarrow> (case to_int ''cycle'' v of Inl e \<Rightarrow> Inl e
       | Inr n \<Rightarrow> (case int_or st ''total_cycles'' n of Inl e \<Rightarrow> Inl e | Inr m \<Rightarrow> Inr (n, m))))"

definition cycle_body :: "'w executor \<Rightarrow> step \<Rightarrow> execution_context \<Rightarrow> string \<Rightarrow> string \<Rightarrow> int \<Rightarrow> run_state \<Rightarrow> ('w, observation) vprog" where
  \<comment> \<open>\<open>_power_cycle\<close> of a run that is not aborted\<close>
  "cycle_body X st ctx target kind n r =
     (if n < 1 \<and> \<not> list_ex (\<lambda>c. cc_n c = n) (rs_cycles r) then raise (VSchemaError (ValidationError ''n''))
      else
       (let r1 = set_cell n (\<lambda>c. c\<lparr>cc_kind := kind, cc_status := CycleRunning\<rparr>) (r\<lparr>rs_cycles := with_cell kind n (rs_cycles r)\<rparr>) in
        bind (remember (ec_ticket_id ctx) r1) (\<lambda>_.
        bind (save_state X r1) (\<lambda>_.
        bind (lift id (int_or st ''settle_s'' (settle_floor (vx_guardrails X) kind))) (\<lambda>settle.
        bind (get_baseline X ctx) (\<lambda>baseline.
        bind (run_cycle X target (ec_ticket_id ctx) n kind settle baseline) (\<lambda>result.
        bind (case cy_diff result of None \<Rightarrow> ret [] | Some d \<Rightarrow> lift VSchemaError (findings_of n (dr_findings d))) (\<lambda>findings.
        close_cycle X target kind n result findings r1))))))))"

definition power_cycle_step :: "'w executor \<Rightarrow> step \<Rightarrow> execution_context \<Rightarrow> string \<Rightarrow> ('w, observation) vprog" where
  "power_cycle_step X st ctx target =
     bind (lift id (cycle_numbers_of st)) (\<lambda>(n, total_cycles).
     let kind = arg_str (s_args st) ''kind'' ''dc'' in
     bind (get_state X ctx target total_cycles kind) (\<lambda>r.
     if rs_aborted r then
       ret (ob 3 (''Cycle '' @ show_int n @ '' skipped: the run was aborted after repeated boot failures.'') [] [] [])
     else cycle_body X st ctx target kind n r))"

definition show_stamp :: "time \<Rightarrow> string" where \<comment> \<open>\<open>f"{t:%Y%m%d-%H%M%S}"\<close>\<close>
  "show_stamp t = (let (y, m, d) = civil (t div 86400000000); secs = t div 1000000 mod 86400
     in pad_int 4 y @ pad_int 2 m @ pad_int 2 d @ ''-'' @ pad_int 2 (secs div 3600) @ pad_int 2 (secs div 60 mod 60) @ pad_int 2 (secs mod 60))"

definition worst_severity :: "sel_entry list \<Rightarrow> sel_severity" where
  "worst_severity es = (if list_ex (\<lambda>e. se_severity e = SelCritical) es then SelCritical
     else if list_ex (\<lambda>e. se_severity e = SelWarning) es then SelWarning else SelOK)"

definition sel_step :: "'w executor \<Rightarrow> execution_context \<Rightarrow> string \<Rightarrow> ('w, observation) vprog" where
  "sel_step X ctx target =
     bind (read_sel X target) (\<lambda>es.
     bind (v_now X) (\<lambda>now.
     bind (v_write (run_dir X (ec_ticket_id ctx) @ ''/findings/sel-'' @ show_stamp now @ ''.json'') (FSel es)) (\<lambda>_.
     ret (ob 0 (''SEL read: '' @ show_nat (length es) @ '' entries, worst severity '' @ sel_value (worst_severity es) @ ''.'')
       (py_join nl (map sel_line es)) [] []))))"

definition inventory_step :: "'w executor \<Rightarrow> string \<Rightarrow> ('w, observation) vprog" where
  "inventory_step X target =
     bind (read_inventory X target) (\<lambda>i.
     ret (ob 0 (''Inventory read: '' @ in_model i @ '' '' @ in_serial i @ '', '' @ show_nat (length (in_devices i)) @ '' PCIe devices, BIOS ''
       @ in_bios_version i @ '', BMC '' @ in_bmc_version i @ ''.'') (vx_dump_inventory X i) [] []))"

text \<open>The elements of an argument that is iterated: a list, the characters of a text, the keys of a mapping.\<close>

function py_chars :: "string \<Rightarrow> string list" where
  "py_chars [] = []"
| "py_chars (c # s) = (c # takeWhile is_cont s) # py_chars (dropWhile is_cont s)"
  by pat_completeness auto
termination
  by (relation "measure length") (auto simp: le_imp_less_Suc length_dropWhile_le)

definition iter_strs :: "json \<Rightarrow> string list option" where
  "iter_strs v = (case v of JList xs \<Rightarrow> Some (map py_str xs) | JStr s \<Rightarrow> Some (py_chars s) | JObj kvs \<Rightarrow> Some (map fst kvs) | _ \<Rightarrow> None)"

definition tool_step :: "'w executor \<Rightarrow> step \<Rightarrow> string \<Rightarrow> ('w, observation) vprog" where
  "tool_step X st target =
     bind (lift id (need_arg st ''tool'')) (\<lambda>v. let tool = py_str v in
     bind (case map_of (s_args st) ''args'' of None \<Rightarrow> ret [] | Some a \<Rightarrow>
       (case iter_strs a of None \<Rightarrow> raise (VValueError ''args'') | Some xs \<Rightarrow> ret xs)) (\<lambda>extra.
     bind (lift id (case map_of (s_args st) ''duration_s'' of Some d \<Rightarrow> to_int ''duration_s'' d | None \<Rightarrow> int_or st ''timeout_s'' 600)) (\<lambda>timeout.
     bind (ssh X target (tool # extra) timeout) (\<lambda>res.
     ret (ob (cr_exit_code res) (tool @ '' '' @ (if cr_exit_code res = 0 then ''finished'' else ''failed'') @ '' on '' @ target @ '' (exit ''
       @ show_int (cr_exit_code res) @ '').'') (cr_stdout res) (cr_stderr res) [])))))"

definition destructive_step :: "'w executor \<Rightarrow> step \<Rightarrow> execution_context \<Rightarrow> string \<Rightarrow> ('w, observation) vprog" where
  "destructive_step X st ctx target =
     bind (lift VSchemaError (approval_kind (s_primitive st) (s_args st))) (\<lambda>kind.
     if s_risk st \<noteq> Destructive then
       ret (ob 2 (''Step '' @ show_int (s_n st) @ '' ('' @ s_title st @ '') is '' @ (case kind of None \<Rightarrow> ''None'' | Some k \<Rightarrow> k)
         @ '' but was not marked destructive.'') [] ''Recompile the plan; this is a compiler defect, not something to work around.'' [])
     else
       bind (fence X target (''--- slas fence '' @ ec_ticket_id ctx @ '' '' @ s_primitive st @ '' ---'')) (\<lambda>_.
       bind (ssh X target (s_primitive st # map (\<lambda>(k, v). k @ ''='' @ py_str v) (filter (\<lambda>kv. fst kv \<noteq> ''target'') (sort_key fst (s_args st)))) 600) (\<lambda>res.
       ret (ob (cr_exit_code res) (s_title st @ '': '' @ (if cr_exit_code res = 0 then ''done'' else ''failed'') @ '' on '' @ target
         @ '' (approved for this run).'') (cr_stdout res) (cr_stderr res) []))))"

definition collect_step :: "'w executor \<Rightarrow> execution_context \<Rightarrow> string \<Rightarrow> ('w, observation) vprog" where
  "collect_step X ctx target =
     bind (console_lines X target) (\<lambda>lines.
     bind (v_write (run_dir X (ec_ticket_id ctx) @ ''/console.log'') (FText (py_join nl lines @ nl))) (\<lambda>_.
     bind (gets (state_for X (ec_ticket_id ctx))) (\<lambda>r.
     ret (ob 0 (''Collected '' @ show_nat (length lines) @ '' console lines'' @ (case r of None \<Rightarrow> ''.'' | Some r \<Rightarrow> ''; '' @ run_sentence r))
       (py_join nl (py_last 50 lines)) [] []))))"

definition release_step :: "execution_context \<Rightarrow> string \<Rightarrow> ('w, observation) vprog" where
  "release_step ctx target =
     bind (gets (\<lambda>s. release target (ec_ticket_id ctx) (v_leases s))) (\<lambda>(released, table).
     bind (if released then bind v_tick (\<lambda>_. modify (\<lambda>s. s\<lparr>v_leases := table\<rparr>)) else ret ()) (\<lambda>_.
     ret (ob 0 (if released then ''Released '' @ target @ ''.'' else target @ '' was not leased to this run; nothing to release.'') [] [] [])))"

definition execute :: "'w executor \<Rightarrow> step \<Rightarrow> execution_context \<Rightarrow> ('w, observation) vprog" where
  "execute X st ctx =
     (if map_of PRIMITIVES (s_primitive st) = None then raise (UnknownPrimitive st) else
      bind (lift id (need_arg st ''target'')) (\<lambda>v. let target = py_str v; p = s_primitive st in
      if p = ''lease_target'' then take_lease_step X ctx target
      else if p = ''console_on'' then console_step X target
      else if p = ''baseline_snapshot'' then baseline_step X ctx target
      else if p = ''power_cycle'' then power_cycle_step X st ctx target
      else if p = ''sel_snapshot'' then sel_step X ctx target
      else if p = ''inventory_snapshot'' then inventory_step X target
      else if p = ''stress'' \<or> p = ''run_diag'' then tool_step X st target
      else if p = ''collect_logs'' then collect_step X ctx target
      else if p = ''release_target'' then release_step ctx target
      else destructive_step X st ctx target))"

text \<open>A restart of the service: the memory is gone, the disk and the machine are as they were.\<close>

definition restart :: "'w vstate \<Rightarrow> 'w vstate" where
  "restart s = s\<lparr>v_baselines := [], v_states := []\<rparr>"

end
