(* ===== verification/Validation_Theorems.thy ===== *)
theory Validation_Theorems
  imports Validation
begin

text \<open>
  What the validation executor promises: a cycle powers its target at most once whatever
  crashes and restarts come between, it waits at least as long as the guardrails say, a run that
  was aborted stays aborted, and a destructive primitive is refused unless the step is marked.
\<close>

section \<open>The power action\<close>

fun is_power :: "hal_call \<Rightarrow> bool" where
  "is_power (CallPower t a) = True"
| "is_power _ = False"

definition powers :: "'w vstate \<Rightarrow> hal_call list" where
  "powers s = filter is_power (v_calls s)"

definition act_done :: "string \<Rightarrow> 'w vstate \<Rightarrow> bool" where
  "act_done path s \<longleftrightarrow> Act \<in> set (map pe_phase (entries s path))"

text \<open>What a step of the cycle may not touch unless it is the power action.\<close>

definition watch :: "string \<Rightarrow> 'w vstate \<Rightarrow> bool \<times> hal_call list" where
  "watch path s = (act_done path s, powers s)"

lemma watch_tick: "steps (same (watch path)) v_tick (\<lambda>_. True)"
  by (intro stepsI) (auto simp: v_tick_def same_def watch_def act_done_def powers_def entries_def split: option.splits nat.splits)

lemma watch_now: "steps (same (watch path)) (v_now X) (\<lambda>_. True)"
  unfolding v_now_def
  by (intro same.steps_bind_any same.steps_gets_any same.steps_modify same.steps_ret)
    (auto simp: same_def watch_def act_done_def powers_def entries_def)

lemma watch_write: "p \<noteq> path \<Longrightarrow> steps (same (watch path)) (v_write p c) (\<lambda>_. True)"
  unfolding v_write_def
  by (intro same.steps_bind_any watch_tick same.steps_modify) (auto simp: same_def watch_def act_done_def powers_def entries_def)

lemma watch_append: "p \<noteq> path \<or> ph \<noteq> Act \<Longrightarrow> steps (same (watch path)) (append_phase X p ph detail) (\<lambda>_. True)"
  unfolding append_phase_def
  by (intro same.steps_bind_any watch_tick watch_now same.steps_modify) (auto simp: same_def watch_def act_done_def powers_def entries_def)

lemma watch_hal: "\<not> is_power c \<Longrightarrow> steps (same (watch path)) (hal_do c f) (\<lambda>_. True)"
  unfolding hal_do_def
  by (intro same.steps_bind_any watch_tick stepsI)
    (auto simp: same_def watch_def act_done_def powers_def entries_def Let_def split: prod.splits sum.splits)

lemmas hal_defs = hal_power_def read_sel_def read_inventory_def take_snapshot_def console_on_def console_lines_def fence_def
  wait_for_os_def ssh_def

lemma watch_quiesce: "steps (same (watch (dir @ ''/journal.jsonl''))) (quiesce X target dir marker) (\<lambda>_. True)"
  unfolding quiesce_def hal_defs by (intro same.steps_bind_any watch_hal watch_write watch_append) auto

lemma watch_verify: "steps (same (watch (dir @ ''/journal.jsonl''))) (verify_phase X target n kind baseline dir booted) (\<lambda>_. True)"
  unfolding verify_phase_def hal_defs Let_def
  by (intro same.steps_if same.steps_bind_any watch_hal watch_write watch_append same.steps_ret) auto

text \<open>The power calls of one cycle of a kind.\<close>

definition power_plan :: "string \<Rightarrow> string \<Rightarrow> hal_call list" where
  "power_plan target kind = (case power_action_for kind of None \<Rightarrow> []
     | Some a \<Rightarrow> CallPower target a # (if a = ActOff then [CallPower target ActOn] else []))"

text \<open>
  From a state whose journal does not have the action: either it still does not and nothing was
  powered, or it does and the calls made are the first ones of the plan.
\<close>

definition powers_once :: "string \<Rightarrow> string \<Rightarrow> string \<Rightarrow> 'w vstate \<Rightarrow> 'w vstate \<Rightarrow> bool" where
  "powers_once path target kind s s' \<longleftrightarrow> (\<not> act_done path s \<longrightarrow>
     (\<exists>p. prefix p (power_plan target kind) \<and> powers s' = powers s @ p \<and> (act_done path s' \<or> p = [])))"


lemma entries_write [simp]:
  "entries (s\<lparr>v_files := AList.update p c f\<rparr>) q = (if q = p then (case c of FPhases es \<Rightarrow> es | _ \<Rightarrow> []) else entries (s\<lparr>v_files := f\<rparr>) q)"
  by (simp add: entries_def)

lemma entries_other [simp]:
  "entries (s\<lparr>v_lives := l\<rparr>) p = entries s p" "entries (s\<lparr>v_world := w\<rparr>) p = entries s p"
  "entries (s\<lparr>v_calls := c\<rparr>) p = entries s p" "entries (s\<lparr>v_ticks := k\<rparr>) p = entries s p"
  by (simp_all add: entries_def)

lemma append_act:
  assumes "append_phase X path Act detail s = (r, t)"
  shows "powers t = powers s \<and> (r = Crash \<or> (r = Ret () \<and> act_done path t))"
  using assms
  by (auto simp: append_phase_def v_now_def v_tick_def prog_defs powers_def act_done_def split: option.splits nat.splits)

lemma power_call:
  assumes "hal_power X target a s = (r, t)"
  shows "act_done path t = act_done path s \<and>
    ((r = Crash \<and> powers t = powers s) \<or> (r \<noteq> Crash \<and> powers t = powers s @ [CallPower target a]))"
  using assms
  by (auto simp: hal_power_def hal_do_def v_tick_def bind_def powers_def act_done_def Let_def
      split: option.splits nat.splits prod.splits sum.splits)

lemma act_phase_once: "steps (powers_once (dir @ ''/journal.jsonl'') target kind) (act_phase X target kind dir) (\<lambda>_. True)"
proof (rule stepsI)
  fix s :: "'a vstate"
  let ?path = "dir @ ''/journal.jsonl''"
  show "powers_once ?path target kind s (snd (act_phase X target kind dir s))"
  proof (cases "power_action_for kind")
    case None
    then show ?thesis by (simp add: act_phase_def powers_once_def raise_def)
  next
    case (Some a)
    obtain r t where t: "append_phase X ?path Act [(''action'', JStr (action_value a))] s = (r, t)" by fastforce
    obtain r2 u where u: "hal_power X target a t = (r2, u)" by fastforce
    obtain r3 v where v: "hal_power X target ActOn u = (r3, v)" by fastforce
    note facts = append_act [OF t] power_call [OF u, of ?path] power_call [OF v, of ?path]
    have plan: "power_plan target kind = CallPower target a # (if a = ActOff then [CallPower target ActOn] else [])"
      using Some by (simp add: power_plan_def)
    show ?thesis
      using facts t u v unfolding powers_once_def plan act_phase_def Some
      by (cases r; cases r2; cases r3) (auto simp: bind_def ret_def)
  qed
qed simp

lemma once_same_left: "same (watch path) s t \<Longrightarrow> powers_once path target kind t u \<Longrightarrow> powers_once path target kind s u"
  by (simp add: same_def watch_def powers_once_def)

lemma once_same_right: "powers_once path target kind s t \<Longrightarrow> same (watch path) t u \<Longrightarrow> powers_once path target kind s u"
  by (auto simp: same_def watch_def powers_once_def)

lemma once_same: "same (watch path) s t \<Longrightarrow> powers_once path target kind s t"
  by (auto simp: same_def watch_def powers_once_def)

text \<open>The cycle before and after the power action.\<close>

definition before_act :: "'w executor \<Rightarrow> string \<Rightarrow> string \<Rightarrow> int \<Rightarrow> string \<Rightarrow> int \<Rightarrow> phase list \<Rightarrow> ('w, unit) vprog" where
  "before_act X target tid n kind settle past =
     bind (if Arm \<notin> set past then append_phase X (cycle_dir X tid n @ ''/journal.jsonl'') Arm
        [(''kind'', JStr kind), (''settle_s'', JInt settle), (''target'', JStr target)] else ret ()) (\<lambda>_.
     if Quiesce \<notin> set past then quiesce X target (cycle_dir X tid n) (fence_text tid n kind) else ret ())"

definition after_act :: "'w executor \<Rightarrow> string \<Rightarrow> string \<Rightarrow> int \<Rightarrow> string \<Rightarrow> int \<Rightarrow> snapshot \<Rightarrow> phase list \<Rightarrow> ('w, cycle_result) vprog" where
  "after_act X target tid n kind settle baseline past =
     (let dir = cycle_dir X tid n; timeout = max (gr_boot_timeout_s (vx_guardrails X)) settle in
      bind (wait_for_os X target timeout) (\<lambda>booted.
      bind (append_phase X (dir @ ''/journal.jsonl'') Settle [(''booted'', JBool booted), (''settle_s'', JInt settle)]) (\<lambda>_.
      bind (verify_phase X target n kind baseline dir booted) (\<lambda>diff.
      bind (console_lines X target) (\<lambda>lines.
      bind (v_write (dir @ ''/console.log'') (FText (py_join nl lines @ nl))) (\<lambda>_.
      if n < 1 then raise (VSchemaError (ValidationError ''n''))
      else ret \<lparr>cy_n = n, cy_kind = kind, cy_booted = booted, cy_resumed = (past \<noteq> []), cy_settle_s = settle, cy_diff = diff,
             cy_fence = fence_text tid n kind, cy_sentence = cycle_sentence n kind booted timeout diff (past \<noteq> [])\<rparr>))))))"

lemma run_cycle_split:
  "run_cycle X target tid n kind settle_s baseline =
     (let path = cycle_dir X tid n @ ''/journal.jsonl''; settle = max settle_s (settle_floor (vx_guardrails X) kind) in
      bind (gets (\<lambda>s. map pe_phase (entries s path))) (\<lambda>past.
      bind (before_act X target tid n kind settle past) (\<lambda>_.
      bind (if Act \<notin> set past then act_phase X target kind (cycle_dir X tid n) else ret ()) (\<lambda>_.
      after_act X target tid n kind settle baseline past))))"
  unfolding run_cycle_def before_act_def after_act_def Let_def bind_assoc ..

lemma watch_before: "steps (same (watch (cycle_dir X tid n @ ''/journal.jsonl''))) (before_act X target tid n kind settle past) (\<lambda>_. True)"
  unfolding before_act_def
  by (intro same.steps_bind_any same.steps_if watch_quiesce watch_append same.steps_ret) auto

lemma watch_after: "steps (same (watch (cycle_dir X tid n @ ''/journal.jsonl''))) (after_act X target tid n kind settle baseline past) (\<lambda>_. True)"
  unfolding after_act_def hal_defs Let_def
  by (intro same.steps_if same.steps_bind_any watch_hal watch_write watch_append watch_verify same.steps_ret same.steps_raise) auto

lemma run_cycle_once:
  fixes s :: "'w vstate"
  defines "path \<equiv> \<lambda>X :: 'w executor. \<lambda>tid n. cycle_dir X tid n @ ''/journal.jsonl''"
  shows "if act_done (path X tid n) s then same (watch (path X tid n)) s (snd (run_cycle X target tid n kind settle_s baseline s))
    else powers_once (path X tid n) target kind s (snd (run_cycle X target tid n kind settle_s baseline s))"
proof -
  let ?past = "map pe_phase (entries s (path X tid n))" and ?settle = "max settle_s (settle_floor (vx_guardrails X) kind)"
  let ?rest = "bind (before_act X target tid n kind ?settle ?past) (\<lambda>_.
      bind (if Act \<notin> set ?past then act_phase X target kind (cycle_dir X tid n) else ret ()) (\<lambda>_.
      after_act X target tid n kind ?settle baseline ?past))"
  have run: "run_cycle X target tid n kind settle_s baseline s = ?rest s"
    by (simp add: run_cycle_split Let_def bind_def gets_def path_def)
  show ?thesis
  proof (cases "Act \<in> set ?past")
    case True
    then have "steps (same (watch (path X tid n))) ?rest (\<lambda>_. True)"
      unfolding path_def by (simp del: set_map) (intro same.steps_bind_any watch_before watch_after)
    then show ?thesis using True by (simp add: run steps_def act_done_def)
  next
    case False
    have "steps (powers_once (path X tid n) target kind) (bind (act_phase X target kind (cycle_dir X tid n)) (\<lambda>_.
        after_act X target tid n kind ?settle baseline ?past)) (\<lambda>_. True)"
      unfolding path_def by (rule steps_seq [OF act_phase_once watch_after]) (auto intro: once_same_right)
    then have "steps (powers_once (path X tid n) target kind) ?rest (\<lambda>_. True)"
      using False unfolding path_def
      by (intro steps_seq [OF watch_before, where Q = "powers_once (cycle_dir X tid n @ ''/journal.jsonl'') target kind"])
        (auto intro: once_same once_same_left simp del: set_map)
    then show ?thesis using False by (simp add: run steps_def act_done_def)
  qed
qed


text \<open>A cycle tried again and again: each attempt runs after a restart and may be killed after some effects.\<close>

definition attempt :: "'w executor \<Rightarrow> string \<Rightarrow> string \<Rightarrow> int \<Rightarrow> string \<Rightarrow> int \<Rightarrow> snapshot \<Rightarrow> nat option \<Rightarrow> 'w vstate \<Rightarrow> 'w vstate" where
  "attempt X target tid n kind settle_s baseline lives s =
     snd (run_cycle X target tid n kind settle_s baseline ((restart s)\<lparr>v_lives := lives\<rparr>))"

lemma watch_restart: "watch path ((restart s)\<lparr>v_lives := l\<rparr>) = watch path s" "act_done path ((restart s)\<lparr>v_lives := l\<rparr>) = act_done path s"
  by (simp_all add: watch_def act_done_def powers_def restart_def entries_def)

lemma attempts_power:
  assumes "\<not> act_done (cycle_dir X tid n @ ''/journal.jsonl'') s"
  shows "\<exists>p. prefix p (power_plan target kind) \<and> powers (fold (attempt X target tid n kind settle_s baseline) ls s) = powers s @ p \<and>
    (act_done (cycle_dir X tid n @ ''/journal.jsonl'') (fold (attempt X target tid n kind settle_s baseline) ls s) \<or> p = [])"
    (is "\<exists>p. ?Q p ls")
proof (induction ls rule: rev_induct)
  case Nil
  then show ?case by simp
next
  case (snoc l ls)
  let ?path = "cycle_dir X tid n @ ''/journal.jsonl''"
  let ?t = "fold (attempt X target tid n kind settle_s baseline) ls s" and ?f = "attempt X target tid n kind settle_s baseline l"
  let ?u = "(restart ?t)\<lparr>v_lives := l\<rparr>"
  obtain p where p: "?Q p ls" using snoc by blast
  have u: "powers ?u = powers ?t" using watch_restart(1) [where path = ?path and s = ?t and l = l] by (simp add: watch_def)
  show ?case
  proof (cases "act_done ?path ?t")
    case True
    then have "watch ?path (?f ?t) = watch ?path ?t"
      using run_cycle_once [of X tid n ?u target kind settle_s baseline] watch_restart [where path = ?path and s = ?t and l = l]
      by (simp add: attempt_def same_def)
    then show ?thesis using p True by (intro exI [of _ p]) (simp add: watch_def)
  next
    case False
    then have "powers_once ?path target kind ?u (?f ?t)"
      using run_cycle_once [of X tid n ?u target kind settle_s baseline] watch_restart(2) [where path = ?path and s = ?t and l = l]
      by (simp add: attempt_def)
    then show ?thesis using p False u watch_restart(2) [where path = ?path and s = ?t and l = l] by (auto simp: powers_once_def)
  qed
qed

text \<open>
  C29. At most once (INV-6): however often a cycle is started again after the service was killed,
  wherever it was killed, the power calls made for it are the first calls of its plan, each once and in
  order: none, the action, or for a DC cycle off and then on.
\<close>
theorem power_action_at_most_once:
  assumes "entries s (cycle_dir X tid n @ ''/journal.jsonl'') = []"
  shows "\<exists>p. prefix p (power_plan target kind) \<and>
    filter is_power (v_calls (fold (attempt X target tid n kind settle_s baseline) ls s)) = filter is_power (v_calls s) @ p"
  using attempts_power [of X tid n s target kind settle_s baseline ls] assms by (auto simp: act_done_def powers_def)


section \<open>Waiting\<close>

fun call_target :: "hal_call \<Rightarrow> string" where
  "call_target (CallPower t a) = t"
| "call_target (CallSel t) = t"
| "call_target (CallInventory t) = t"
| "call_target (CallSnapshot t) = t"
| "call_target (CallConsoleOn t) = t"
| "call_target (CallConsoleLines t) = t"
| "call_target (CallFence t m) = t"
| "call_target (CallWait t x) = t"
| "call_target (CallSsh t a x) = t"

text \<open>The log of calls only grows, by calls with \<open>Q\<close>.\<close>

definition grown :: "(hal_call \<Rightarrow> bool) \<Rightarrow> 'w vstate \<Rightarrow> 'w vstate \<Rightarrow> bool" where
  "grown Q s s' \<longleftrightarrow> (\<exists>new. v_calls s' = v_calls s @ new \<and> list_all Q new)"

interpretation grown: effect_order "grown Q"
  by unfold_locales (auto simp: grown_def)

lemma grown_same: "v_calls t = v_calls s \<Longrightarrow> grown Q s t"
  by (simp add: grown_def)

lemma grown_tick: "steps (grown Q) v_tick (\<lambda>_. True)"
  by (intro stepsI grown_same) (auto simp: v_tick_def split: option.splits nat.splits)

lemma grown_now: "steps (grown Q) (v_now X) (\<lambda>_. True)"
  unfolding v_now_def by (intro grown.steps_bind_any grown.steps_gets_any grown.steps_modify grown.steps_ret grown_same) simp_all

lemma grown_write: "steps (grown Q) (v_write p c) (\<lambda>_. True)"
  unfolding v_write_def by (intro grown.steps_bind_any grown_tick grown.steps_modify grown_same) simp_all

lemma grown_append: "steps (grown Q) (append_phase X p ph detail) (\<lambda>_. True)"
  unfolding append_phase_def by (intro grown.steps_bind_any grown_tick grown_now grown.steps_modify grown_same) simp_all

lemma grown_hal: "Q c \<Longrightarrow> steps (grown Q) (hal_do c f) (\<lambda>_. True)"
  unfolding hal_do_def
  by (intro grown.steps_bind_any grown_tick stepsI) (auto simp: grown_def Let_def split: prod.splits sum.splits)

lemmas grown_steps = grown_now grown_write grown_append grown_hal

text \<open>What a call of the cycle of a kind on a target looks like.\<close>

definition cycle_call :: "guardrails \<Rightarrow> string \<Rightarrow> string \<Rightarrow> int \<Rightarrow> hal_call \<Rightarrow> bool" where
  "cycle_call g target kind settle_s c \<longleftrightarrow> call_target c = target \<and>
     (case c of CallWait t x \<Rightarrow> gr_boot_timeout_s g \<le> x \<and> settle_floor g kind \<le> x \<and> settle_s \<le> x | _ \<Rightarrow> True)"

lemma grown_quiesce: "steps (grown (cycle_call g target kind x)) (quiesce X target dir marker) (\<lambda>_. True)"
  unfolding quiesce_def ssh_def read_sel_def fence_def
  by (intro grown.steps_bind_any grown_steps) (simp_all add: cycle_call_def)

lemma grown_verify: "steps (grown (cycle_call g target kind x)) (verify_phase X target n k baseline dir booted) (\<lambda>_. True)"
  unfolding verify_phase_def take_snapshot_def Let_def
  by (intro grown.steps_if grown.steps_bind_any grown_steps grown.steps_ret) (simp_all add: cycle_call_def)

lemma grown_act: "steps (grown (cycle_call g target kind x)) (act_phase X target k dir) (\<lambda>_. True)"
proof (cases "power_action_for k")
  case (Some a)
  then show ?thesis
    unfolding act_phase_def hal_power_def Some option.case
    by (intro grown.steps_if grown.steps_bind_any grown_steps grown.steps_ret) (simp_all add: cycle_call_def)
qed (simp add: act_phase_def grown.steps_raise)

text \<open>
  A cycle only touches its own target and is patient: each wait for the operating
  system lasts at least the boot timeout, the settle time of the step and the floor of its
  kind, and the settle time it reports is not below the floor.
\<close>
theorem cycle_waits_long_enough:
  "(\<exists>new. v_calls (snd (run_cycle X target tid n kind settle_s baseline s)) = v_calls s @ new \<and>
     list_all (cycle_call (vx_guardrails X) target kind settle_s) new) \<and>
   (case fst (run_cycle X target tid n kind settle_s baseline s) of
      Ret r \<Rightarrow> settle_floor (vx_guardrails X) kind \<le> cy_settle_s r \<and> settle_s \<le> cy_settle_s r | _ \<Rightarrow> True)"
proof -
  let ?Q = "cycle_call (vx_guardrails X) target kind settle_s"
  have "steps (grown ?Q) (run_cycle X target tid n kind settle_s baseline)
      (\<lambda>r. settle_floor (vx_guardrails X) kind \<le> cy_settle_s r \<and> settle_s \<le> cy_settle_s r)"
    unfolding run_cycle_split before_act_def after_act_def wait_for_os_def console_lines_def Let_def
    by (intro grown.steps_bind_any grown.steps_gets_any grown.steps_if grown.steps_ret grown.steps_raise grown_steps
        grown_quiesce grown_act grown_verify) (auto simp: cycle_call_def)
  then show ?thesis unfolding steps_def grown_def by (auto split: outcome.splits)
qed


section \<open>The gate\<close>

text \<open>The record of a run is its own, and an abort that is known is on disk.\<close>

definition run_known :: "'w executor \<Rightarrow> string \<Rightarrow> 'w vstate \<Rightarrow> bool" where
  "run_known X tid s \<longleftrightarrow> (\<forall>r. state_for X tid s = Some r \<longrightarrow> rs_ticket_id r = tid \<and>
     (rs_aborted r \<longrightarrow> (\<exists>d. run_on_disk X tid s = Some d \<and> rs_aborted d \<and> rs_ticket_id d = tid)))"

definition aborted_on_disk :: "'w executor \<Rightarrow> string \<Rightarrow> 'w vstate \<Rightarrow> bool" where
  "aborted_on_disk X tid s \<longleftrightarrow> (\<exists>d. run_on_disk X tid s = Some d \<and> rs_aborted d \<and> rs_ticket_id d = tid) \<and>
     (\<exists>r. state_for X tid s = Some r \<and> rs_aborted r)"

lemma get_state_Ret:
  assumes "get_state X ctx target m kind s = (Ret r, s1)"
  shows "v_calls s1 = v_calls s \<and> v_files s1 = v_files s \<and> map_of (v_states s1) (ec_ticket_id ctx) = Some r \<and>
    rs_aborted r = (case state_for X (ec_ticket_id ctx) s of None \<Rightarrow> False | Some q \<Rightarrow> rs_aborted q) \<and>
    rs_ticket_id r = (case state_for X (ec_ticket_id ctx) s of None \<Rightarrow> ec_ticket_id ctx | Some q \<Rightarrow> rs_ticket_id q)"
  using assms by (auto simp: get_state_def remember_def prog_defs fresh_run_def Let_def split: option.splits if_splits)

lemma get_state_total: "\<exists>r s1. get_state X ctx target m kind s = (Ret r, s1)"
  by (simp add: get_state_def remember_def prog_defs Let_def)

lemma aborted_skips:
  assumes "aborted_on_disk X (ec_ticket_id ctx) s" "power_cycle_step X st ctx target s = (r, s1)"
  shows "v_calls s1 = v_calls s \<and> (\<forall>x. r = Ret x \<longrightarrow> o_exit_code x = Some 3)"
proof (cases "cycle_numbers_of st")
  case (Inl e)
  then show ?thesis using assms(2) by (auto simp: power_cycle_step_def bind_def lift_def)
next
  case (Inr nm)
  obtain q t where q: "get_state X ctx target (snd nm) (arg_str (s_args st) ''kind'' ''dc'') s = (Ret q, t)" using get_state_total by blast
  have "rs_aborted q" using get_state_Ret [OF q] assms(1) by (auto simp: aborted_on_disk_def split: option.splits)
  then show ?thesis
    using assms(2) Inr q get_state_Ret [OF q] by (auto simp: power_cycle_step_def bind_def lift_def Let_def ret_def ob_def split: prod.splits)
qed

lemma aborted_restart: "aborted_on_disk X tid s \<Longrightarrow> aborted_on_disk X tid (restart s)"
  by (auto simp: aborted_on_disk_def restart_def state_for_def run_on_disk_def)

lemma hal_files: "hal_do c f s = (r, t) \<Longrightarrow> v_files t = v_files s \<and> v_states t = v_states s"
  by (auto simp: hal_do_def v_tick_def bind_def Let_def split: option.splits nat.splits prod.splits sum.splits)

lemma closed_run_simps [simp]:
  "rs_ticket_id (closed_run g n result fs r) = rs_ticket_id r"
  "at_limit g (closed_run g n result fs r) \<Longrightarrow> rs_aborted (closed_run g n result fs r)"
  by (auto simp: closed_run_def set_cell_def count_boot_def at_limit_def Let_def)

lemma close_cycle_aborts:
  assumes "close_cycle X target kind n result findings r s = (Ret x, s1)" "o_exit_code x = Some 3"
  shows "aborted_on_disk X (rs_ticket_id r) s1"
proof -
  let ?r = "closed_run (vx_guardrails X) n result findings r"
  have stop: "at_limit (vx_guardrails X) ?r"
    using assms by (auto simp: close_cycle_def Let_def bind_eq_Ret ret_def ob_def split: if_splits)
  obtain f where f: "abort_finding target kind ?r = Inr f"
    using assms(1) stop
    by (cases "abort_finding target kind ?r") (auto simp: close_cycle_def Let_def bind_def v_metric_def modify_def remember_def lift_def)
  define s2 where "s2 = s\<lparr>v_metrics := v_metrics s @ [(''slas_validation_cycles_total'', [kind, cycle_outcome result findings])]
      @ [(''slas_validation_runs_total'', [''aborted''])], v_states := AList.update (rs_ticket_id r) ?r (v_states s)\<rparr>"
  obtain r3 s3 where s3: "save_state X ?r s2 = (r3, s3)" by fastforce
  obtain r4 s4 where s4: "console_lines X target s3 = (r4, s4)" by fastforce
  have "r3 = Ret () \<and> (\<exists>lines. r4 = Ret lines) \<and> s4 = s1"
    using assms(1) stop f s3 s4 unfolding s2_def
    by (cases r3; cases r4)
      (simp_all add: close_cycle_def Let_def bind_def v_metric_def modify_def remember_def lift_def ret_def)
  then obtain lines where m: "map_of (v_states s2) (rs_ticket_id r) = Some ?r" "save_state X ?r s2 = (Ret (), s3)"
    "console_lines X target s3 = (Ret lines, s4)" "s4 = s1"
    using s3 s4 by (auto simp: s2_def)
  have "v_files s1 = v_files s3 \<and> v_states s1 = v_states s3" using m(3,4) hal_files unfolding console_lines_def by blast
  moreover have "v_files s3 = AList.update (state_path X (rs_ticket_id r)) (FRun ?r) (v_files s2) \<and> v_states s3 = v_states s2"
    using m(2) by (auto simp: save_state_def v_write_def v_tick_def bind_def modify_def split: option.splits nat.splits)
  ultimately show ?thesis
    using m(1) stop by (auto simp: aborted_on_disk_def run_on_disk_def state_for_def)
qed

lemma power_cycle_aborts:
  assumes "power_cycle_step X st ctx target s = (Ret x, s1)" "o_exit_code x = Some 3" "run_known X (ec_ticket_id ctx) s"
  shows "aborted_on_disk X (ec_ticket_id ctx) s1"
proof -
  obtain n m q t y where q: "get_state X ctx target m (arg_str (s_args st) ''kind'' ''dc'') s = (Ret q, t)"
    and rest: "(if rs_aborted q then ret y else cycle_body X st ctx target (arg_str (s_args st) ''kind'' ''dc'') n q) t = (Ret x, s1)"
    using assms(1) by (auto simp: power_cycle_step_def bind_eq_Ret lift_def Let_def split: sum.splits)
  note known = get_state_Ret [OF q]
  show ?thesis
  proof (cases "rs_aborted q")
    case True
    then obtain q0 where "state_for X (ec_ticket_id ctx) s = Some q0" "rs_aborted q0" using known by (auto split: option.splits)
    then show ?thesis using True rest known assms(3)
      by (auto simp: run_known_def aborted_on_disk_def ret_def run_on_disk_def state_for_def)
  next
    case False
    then obtain result fs r1 t1 where "close_cycle X target (arg_str (s_args st) ''kind'' ''dc'') n result fs r1 t1 = (Ret x, s1)"
      "rs_ticket_id r1 = rs_ticket_id q"
      using rest by (auto simp: cycle_body_def Let_def bind_eq_Ret raise_def set_cell_def split: if_splits)
    then show ?thesis using close_cycle_aborts assms(2,3) known by (fastforce simp: run_known_def split: option.splits)
  qed
qed

text \<open>
  C30. An aborted run stays aborted. Once a power cycle has answered with exit code 3, every
  further power cycle of that run, also after a restart of the service, makes no call of the
  hardware layer at all, and if it returns, it returns exit code 3 again.
\<close>
theorem aborted_run_stays_aborted:
  assumes "power_cycle_step X st ctx target s = (Ret x, s1)" "o_exit_code x = Some 3" "run_known X (ec_ticket_id ctx) s"
    and "s2 = s1 \<or> s2 = restart s1" "power_cycle_step X st' ctx target' s2 = (r, s3)"
  shows "v_calls s3 = v_calls s2 \<and> (\<forall>y. r = Ret y \<longrightarrow> o_exit_code y = Some 3)"
proof -
  have "aborted_on_disk X (ec_ticket_id ctx) s2"
    using power_cycle_aborts [OF assms(1-3)] aborted_restart assms(4) by blast
  then show ?thesis using assms(5) by (rule aborted_skips)
qed


section \<open>Refusals\<close>

lemma destructive_primitive:
  assumes "p \<in> {''firmware_flash'', ''secure_erase'', ''bios_reset'', ''raid_reconfigure''}"
  shows "map_of PRIMITIVES p \<noteq> None" "approval_kind p args = Inr (Some p)"
  using assms by (auto simp: PRIMITIVES_def prim_def approval_kind_def)

text \<open>
  What the executor refuses, it does not start: a step with a primitive outside the table
  raises, and a destructive primitive whose step is not marked destructive is answered
  with exit code 2; in both cases no file, no memory and no machine is touched.
\<close>
theorem executor_refuses_unmarked:
  "(map_of PRIMITIVES (s_primitive st) = None \<longrightarrow> execute X st ctx s = (Raise (UnknownPrimitive st), s)) \<and>
   (s_primitive st \<in> {''firmware_flash'', ''secure_erase'', ''bios_reset'', ''raid_reconfigure''} \<and> s_risk st \<noteq> Destructive \<and>
     map_of (s_args st) ''target'' = Some v \<longrightarrow> (\<exists>x. execute X st ctx s = (Ret x, s) \<and> o_exit_code x = Some 2))"
proof (intro conjI impI)
  assume "map_of PRIMITIVES (s_primitive st) = None"
  then show "execute X st ctx s = (Raise (UnknownPrimitive st), s)" by (simp add: execute_def raise_def)
next
  assume a: "s_primitive st \<in> {''firmware_flash'', ''secure_erase'', ''bios_reset'', ''raid_reconfigure''} \<and> s_risk st \<noteq> Destructive \<and>
     map_of (s_args st) ''target'' = Some v"
  then have "execute X st ctx s = destructive_step X st ctx (py_str v) s"
    using destructive_primitive(1) [of "s_primitive st"] by (auto simp: execute_def need_arg_def lift_def bind_def Let_def)
  then show "\<exists>x. execute X st ctx s = (Ret x, s) \<and> o_exit_code x = Some 2"
    using a destructive_primitive(2) [of "s_primitive st" "s_args st"]
    by (simp add: destructive_step_def lift_def bind_def ret_def ob_def)
qed


section \<open>Rehearsals\<close>

text \<open>A machine that always answers, and boots or not, and the executor on it.\<close>

definition sample_report :: snapshot where
  "sample_report = \<lparr>sn_taken_at = 0, sn_power = PowerOn, sn_inventory = \<lparr>in_model = ''M1'', in_serial = ''S1'', in_bios_version = ''1.0'',
     in_bmc_version = ''2.0'', in_cpus = 2, in_memory_gib = 64, in_devices = []\<rparr>,
     sn_counters = \<lparr>co_aer = 0, co_edac_ce = 0, co_edac_ue = 0, co_mce = 0, co_xid = 0\<rparr>, sn_sel = []\<rparr>"

definition sample_hal :: "bool \<Rightarrow> unit hal" where
  "sample_hal boots = \<lparr>h_power = (\<lambda>_ _ w. (Inr (), w)), h_sel = (\<lambda>_ w. (Inr [], w)), h_inventory = (\<lambda>_ w. (Inr (sn_inventory sample_report), w)),
     h_snapshot = (\<lambda>_ w. (Inr sample_report, w)), h_console_on = (\<lambda>_ w. (Inr (), w)), h_console_lines = (\<lambda>_ w. (Inr [], w)),
     h_fence = (\<lambda>_ _ w. (Inr (), w)), h_wait_for_os = (\<lambda>_ _ w. (Inr boots, w)),
     h_ssh = (\<lambda>_ _ _ w. (Inr \<lparr>cr_exit_code = 0, cr_stdout = [], cr_stderr = []\<rparr>, w))\<rparr>"

definition sample_executor :: "bool \<Rightarrow> unit executor" where
  "sample_executor boots = \<lparr>vx_hal = sample_hal boots, vx_data_root = ''d'', vx_clock = int, vx_guardrails = DEFAULT_GUARDRAILS,
     vx_dump_snapshot = (\<lambda>_. []), vx_dump_inventory = (\<lambda>_. [])\<rparr>"

definition sample_state :: "(string, content) dict \<Rightarrow> unit vstate" where
  "sample_state files = \<lparr>v_files = files, v_leases = [], v_baselines = [(''T-1'', sample_report)], v_states = [], v_metrics = [],
     v_ticks = 0, v_world = (), v_calls = [], v_lives = None\<rparr>"

definition sample_ctx :: execution_context where
  "sample_ctx = \<lparr>ec_ticket_id = ''T-1'', ec_job_id = ''J-1'', ec_agent = Null, ec_user = ''ana'', ec_trace_id = None\<rparr>"

definition sample_step :: "string \<Rightarrow> (string, json) dict \<Rightarrow> step" where
  "sample_step primitive args = \<lparr>s_id = ''s1'', s_n = 1, s_primitive = primitive, s_title = ''step'', s_args = (''target'', JStr ''lab-1'') # args,
     s_risk = Caution, s_when = None\<rparr>"

text \<open>
  Killed between the two power calls of a DC cycle, the machine is never switched on again:
  the restarted cycle takes the action as done.
\<close>

lemma dc_cycle_killed_stays_off:
  "powers (fold (attempt (sample_executor True) ''lab-1'' ''T-1'' 1 ''dc'' 60 sample_report) [Some 8, None] (sample_state [])) =
     [CallPower ''lab-1'' ActOff]"
  by code_simp

text \<open>
  Killed after the journal entry and before the power call, the cycle is later reported as
  booted and clean although the machine was never powered.
\<close>

lemma cycle_clean_without_power:
  "(case run_cycle (sample_executor True) ''lab-1'' ''T-1'' 1 ''dc'' 60 sample_report
      ((attempt (sample_executor True) ''lab-1'' ''T-1'' 1 ''dc'' 60 sample_report (Some 7) (sample_state []))\<lparr>v_lives := None\<rparr>) of
      (Ret r, s) \<Rightarrow> cycle_clean r \<and> powers s = [] | _ \<Rightarrow> False)"
  by code_simp

text \<open>
  A boot failure that is not the last of a row of three leaves no trace for the kernel:
  the exit code is 0 and there is no finding, so the step counts as passed.
\<close>

lemma boot_failure_passes:
  "(case power_cycle_step (sample_executor False) (sample_step ''power_cycle'' [(''kind'', JStr ''dc''), (''cycle'', JInt 1)]) sample_ctx ''lab-1''
      (sample_state []) of
      (Ret x, s) \<Rightarrow> o_exit_code x = Some 0 \<and> o_findings x = [] \<and>
        map cc_status (rs_cycles (the (state_for (sample_executor False) ''T-1'' s))) = [CycleFailed] | _ \<Rightarrow> False)"
  by code_simp

text \<open>The mark of a destructive step is not asked for by the handler of power cycles.\<close>

lemma unmarked_ac_cycle_runs:
  "powers (snd (execute (sample_executor True) (sample_step ''power_cycle'' [(''kind'', JStr ''ac''), (''cycle'', JInt 1)]) sample_ctx (sample_state []))) =
     [CallPower ''lab-1'' ActAcCycle]"
  by code_simp

lemma power_action_at_most_once_witness:
  "\<exists>p. prefix p [CallPower ''lab-1'' ActOff, CallPower ''lab-1'' ActOn] \<and>
     filter is_power (v_calls (fold (attempt (sample_executor True) ''lab-1'' ''T-1'' 1 ''dc'' 60 sample_report) [Some 3, Some 8, None] (sample_state []))) = p"
  using power_action_at_most_once [of "sample_state []" "sample_executor True" "''T-1''" 1 "''lab-1''" "''dc''" 60 sample_report "[Some 3, Some 8, None]"]
  by (simp add: sample_state_def entries_def power_plan_def power_action_for_def)

definition aborted_run :: run_state where
  "aborted_run = \<lparr>rs_ticket_id = ''T-1'', rs_target = ''lab-1'', rs_cycles = [], rs_consecutive_boot_failures = 3, rs_aborted = True\<rparr>"

lemma aborted_run_stays_aborted_witness:
  "v_calls (snd (power_cycle_step (sample_executor True) (sample_step ''power_cycle'' [(''cycle'', JInt 2)]) sample_ctx ''lab-1''
     (restart (snd (power_cycle_step (sample_executor True) (sample_step ''power_cycle'' [(''cycle'', JInt 1)]) sample_ctx ''lab-1''
       (sample_state [(''d/Validation/Runs/T-1/cycles.json'', FRun aborted_run)])))))) = []"
proof -
  let ?X = "sample_executor True" and ?s = "sample_state [(''d/Validation/Runs/T-1/cycles.json'', FRun aborted_run)]"
  let ?st = "\<lambda>n. sample_step ''power_cycle'' [(''cycle'', JInt n)]"
  have path: "state_path ?X ''T-1'' = ''d/Validation/Runs/T-1/cycles.json''" by (simp add: state_path_def run_dir_def sample_executor_def)
  then have disk: "state_for ?X ''T-1'' ?s = Some aborted_run" "run_on_disk ?X ''T-1'' ?s = Some aborted_run"
    by (simp_all add: state_for_def run_on_disk_def sample_state_def)
  have known: "run_known ?X (ec_ticket_id sample_ctx) ?s" using disk by (simp add: run_known_def sample_ctx_def aborted_run_def)
  have first: "case power_cycle_step ?X (?st 1) sample_ctx ''lab-1'' ?s of (Ret x, s1) \<Rightarrow> o_exit_code x = Some 3 \<and> v_calls s1 = [] | _ \<Rightarrow> False"
    by code_simp
  then obtain x s1 where s1: "power_cycle_step ?X (?st 1) sample_ctx ''lab-1'' ?s = (Ret x, s1)" "o_exit_code x = Some 3" "v_calls s1 = []"
    by (auto split: prod.splits outcome.splits)
  obtain r s3 where s3: "power_cycle_step ?X (?st 2) sample_ctx ''lab-1'' (restart s1) = (r, s3)" by fastforce
  from aborted_run_stays_aborted [OF s1(1,2) known disjI2 [OF refl] s3] show ?thesis
    using s1 s3 by (simp add: restart_def)
qed

lemma executor_refuses_unmarked_witness:
  "\<exists>x. execute (sample_executor True) (sample_step ''bios_reset'' []) sample_ctx (sample_state []) = (Ret x, sample_state []) \<and> o_exit_code x = Some 2"
  using executor_refuses_unmarked [of "sample_step ''bios_reset'' []" "sample_executor True" sample_ctx "sample_state []" "JStr ''lab-1''"]
  by (simp add: sample_step_def)

end
