(* ===== verification/Skill_State.thy ===== *)
theory Skill_State
  imports Skills
begin

text \<open>
  Which agents a skill is turned on for (\<open>packages/slas-skills/slas_skills/state.py\<close>). The
  directory of \<open><id>.state.json\<close> files is a dictionary from skill ids to states.
  Proved: an agent may use a skill only if a person turned it on for that agent, never turned it off again,
  and every version imported since allows no more agents, needs no more capabilities and is no riskier than the one that was turned on.
\<close>

section \<open>The record of a skill\<close>

fun AGENT_LABEL :: "agent_name \<Rightarrow> string" where
  "AGENT_LABEL Coding = ''the Coding Agent''"
| "AGENT_LABEL Validation = ''the Validation Agent''"
| "AGENT_LABEL Factory = ''the Factory Agent''"
| "AGENT_LABEL Null = agent_value Null"

record enabled_mark =
  em_by :: string
  em_at :: time

record skill_state =
  st_skill_id :: string
  st_version :: string
  st_imported_by :: string
  st_imported_at :: time
  st_agents :: "agent_name list"
  st_requires :: "string list"
  st_risk :: risk
  st_enabled :: "(agent_name, enabled_mark) dict"
  st_reset_reason :: "string option"

datatype state_error =
    SkillStateError three_part
  | StateInvalid string \<comment> \<open>a pydantic \<open>ValidationError\<close>\<close>
  | StateRisk skill_error

definition is_enabled :: "skill_state \<Rightarrow> agent_name \<Rightarrow> bool" where
  "is_enabled s agent \<longleftrightarrow> map_of (st_enabled s) agent \<noteq> None"

definition month_names :: "string list" where
  "month_names = [''January'', ''February'', ''March'', ''April'', ''May'', ''June'', ''July'', ''August'', ''September'',
     ''October'', ''November'', ''December'']"

definition show_long_date :: "time \<Rightarrow> string" where \<comment> \<open>\<open>%d %B %Y\<close>\<close>
  "show_long_date t = (let (y, m, d) = civil (t div 86400000000)
     in pad_int 2 d @ '' '' @ month_names ! nat (m - 1) @ '' '' @ pad_int 4 y)"

definition state_sentence :: "skill_state \<Rightarrow> string" where
  "state_sentence s =
     (if st_enabled s = [] then ''Off for every agent.''
      else ''On for '' @ py_join ''; '' (map (\<lambda>(agent, mark). AGENT_LABEL agent @ '' since '' @ show_long_date (em_at mark))
             (sort_key (\<lambda>(agent, mark). agent_value agent) (st_enabled s))) @ ''.'')"

definition skill_risk :: "skill \<Rightarrow> skill_error + risk" where
  "skill_risk k = map_sum id max_risk (sum_list_of (\<lambda>(_, st). step_risk st) (walk (sk_steps k)))"


section \<open>The store\<close>

type_synonym skill_states = "(string, skill_state) dict"

definition state_load :: "skill_states \<Rightarrow> string \<Rightarrow> skill_state option" where
  "state_load ss i = map_of ss i"

definition state_save :: "skill_state \<Rightarrow> skill_states \<Rightarrow> skill_states" where
  "state_save s ss = AList.update (st_skill_id s) s ss"

definition store_is_enabled :: "skill_states \<Rightarrow> string \<Rightarrow> agent_name \<Rightarrow> bool" where
  "store_is_enabled ss i agent \<longleftrightarrow> (case state_load ss i of None \<Rightarrow> False | Some s \<Rightarrow> is_enabled s agent)"

text \<open>What the new version has more of than the old one.\<close>

definition grown_parts :: "skill_state \<Rightarrow> skill_state \<Rightarrow> string list" where
  "grown_parts previous fresh =
     (if set (st_agents fresh) \<subseteq> set (st_agents previous) then [] else [''works with more agents''])
     @ (if set (st_requires fresh) \<subseteq> set (st_requires previous) then [] else [''needs more capabilities''])
     @ (if RISK_ORDER (st_risk fresh) > RISK_ORDER (st_risk previous)
        then [''is riskier ('' @ risk_value (st_risk previous) @ '' '' @ arrow @ '' '' @ risk_value (st_risk fresh) @ '')''] else [])"

definition record_import :: "skill \<Rightarrow> string \<Rightarrow> time \<Rightarrow> skill_states \<Rightarrow> state_error + skill_state \<times> skill_states" where
  "record_import k by_whom now ss =
     (case skill_risk k of
        Inl e \<Rightarrow> Inl (StateRisk e)
      | Inr r \<Rightarrow>
          if by_whom = [] then Inl (StateInvalid ''imported_by'')
          else (let fresh = \<lparr>st_skill_id = sk_id k, st_version = sk_version k, st_imported_by = by_whom, st_imported_at = now,
                       st_agents = sk_agents k, st_requires = map capability_value (sk_requires k), st_risk = r,
                       st_enabled = [], st_reset_reason = None\<rparr>
                in case state_load ss (sk_id k) of
                     None \<Rightarrow> Inr (fresh, state_save fresh ss)
                   | Some previous \<Rightarrow>
                       (let grew = grown_parts previous fresh;
                            new = (if grew \<noteq> []
                              then fresh\<lparr>st_reset_reason := Some (''Version '' @ sk_version k @ '' '' @ py_join '', '' grew @ '' compared with ''
                                     @ st_version previous @ '', so it starts off for every agent.'')\<rparr>
                              else fresh\<lparr>st_enabled := st_enabled previous\<rparr>)
                        in Inr (new, state_save new ss))))"

definition existing :: "skill_states \<Rightarrow> string \<Rightarrow> state_error + skill_state" where
  "existing ss i = (case state_load ss i of Some s \<Rightarrow> Inr s
     | None \<Rightarrow> Inl (SkillStateError \<lparr>tp_what_happened = ''There is no record for the skill '' @ i @ '' on this installation.'',
         tp_likely_cause = ''It was never imported here, or its record was removed by hand.'',
         tp_what_to_do = ''Import the skill under Skills; the record is created with it.''\<rparr>))"

definition enable :: "skill \<Rightarrow> agent_name \<Rightarrow> string \<Rightarrow> time \<Rightarrow> skill_states \<Rightarrow> state_error + skill_state \<times> skill_states" where
  "enable k agent by_whom now ss =
     (case existing ss (sk_id k) of
        Inl e \<Rightarrow> Inl e
      | Inr s \<Rightarrow>
          if agent \<notin> set (sk_agents k) then
            Inl (SkillStateError \<lparr>tp_what_happened = sk_name k @ '' can'' @ [CHR 0x27] @ ''t be turned on for '' @ AGENT_LABEL agent @ ''.'',
              tp_likely_cause = ''Its author allows only '' @ py_join '', '' (map AGENT_LABEL (sk_agents k)) @ ''.'',
              tp_what_to_do = ''Ask the author for a version that lists that agent, or use it where it is allowed.''\<rparr>)
          else if by_whom = [] then Inl (StateInvalid ''by'')
          else (let new = s\<lparr>st_enabled := AList.update agent \<lparr>em_by = by_whom, em_at = now\<rparr> (st_enabled s), st_reset_reason := None\<rparr>
                in Inr (new, state_save new ss)))"

definition disable :: "string \<Rightarrow> agent_name \<Rightarrow> skill_states \<Rightarrow> state_error + skill_state \<times> skill_states" where
  "disable i agent ss =
     (case existing ss i of
        Inl e \<Rightarrow> Inl e
      | Inr s \<Rightarrow> (let new = s\<lparr>st_enabled := AList.delete agent (st_enabled s)\<rparr> in Inr (new, state_save new ss)))"


section \<open>Sequences of calls\<close>

datatype state_call =
    ImportCall skill string time
  | EnableCall skill agent_name string time
  | DisableCall string agent_name

fun state_step :: "skill_states \<Rightarrow> state_call \<Rightarrow> skill_states" where
  \<comment> \<open>a call that raises writes nothing\<close>
  "state_step ss (ImportCall k u t) = (case record_import k u t ss of Inl _ \<Rightarrow> ss | Inr (_, ss') \<Rightarrow> ss')"
| "state_step ss (EnableCall k agent u t) = (case enable k agent u t ss of Inl _ \<Rightarrow> ss | Inr (_, ss') \<Rightarrow> ss')"
| "state_step ss (DisableCall i agent) = (case disable i agent ss of Inl _ \<Rightarrow> ss | Inr (_, ss') \<Rightarrow> ss')"

definition state_run :: "state_call list \<Rightarrow> skill_states" where
  "state_run cs = foldl state_step [] cs"

text \<open>Each record is stored under its own id.\<close>

definition states_ok :: "skill_states \<Rightarrow> bool" where
  "states_ok ss \<longleftrightarrow> (\<forall>i s. map_of ss i = Some s \<longrightarrow> st_skill_id s = i)"

lemma states_ok_step: "states_ok ss \<Longrightarrow> states_ok (state_step ss c)"
  by (cases c) (auto simp: states_ok_def record_import_def enable_def disable_def existing_def state_load_def state_save_def Let_def
      split: sum.splits option.splits if_splits)

lemma states_ok_run: "states_ok (state_run cs)"
  unfolding state_run_def by (induction cs rule: rev_induct) (simp_all add: states_ok_step, simp add: states_ok_def)

definition no_more_than :: "skill_state \<Rightarrow> skill_state \<Rightarrow> bool" where
  "no_more_than new old \<longleftrightarrow> set (st_agents new) \<subseteq> set (st_agents old) \<and> set (st_requires new) \<subseteq> set (st_requires old)
     \<and> st_risk new \<le> st_risk old"

lemma no_more_refl: "no_more_than s s"
  by (simp add: no_more_than_def)

lemma no_more_trans: "no_more_than a b \<Longrightarrow> no_more_than b c \<Longrightarrow> no_more_than a c"
  by (auto simp: no_more_than_def)

lemma grown_parts_Nil: "grown_parts previous fresh = [] \<longleftrightarrow> no_more_than fresh previous"
  by (auto simp: grown_parts_def no_more_than_def less_eq_risk_def)

text \<open>What a call that returns leaves as the record of its skill.\<close>

lemma record_import_Inr:
  assumes "record_import k u t ss = Inr (s', ss')"
  shows "ss' = state_save s' ss \<and> st_skill_id s' = sk_id k \<and>
    (st_enabled s' = [] \<or> (\<exists>s. state_load ss (sk_id k) = Some s \<and> no_more_than s' s \<and> st_enabled s' = st_enabled s))"
proof (cases "state_load ss (sk_id k)")
  case None
  then show ?thesis using assms by (auto simp: record_import_def Let_def split: sum.splits if_splits)
next
  case (Some s)
  obtain r where r: "skill_risk k = Inr r" "u \<noteq> []" using assms by (auto simp: record_import_def split: sum.splits if_splits)
  let ?fresh = "\<lparr>st_skill_id = sk_id k, st_version = sk_version k, st_imported_by = u, st_imported_at = t, st_agents = sk_agents k,
    st_requires = map capability_value (sk_requires k), st_risk = r, st_enabled = [], st_reset_reason = None\<rparr>"
  have "no_more_than (?fresh\<lparr>st_enabled := st_enabled s\<rparr>) s" if "grown_parts s ?fresh = []"
    using that unfolding grown_parts_Nil by (simp add: no_more_than_def)
  then show ?thesis using assms Some r by (auto simp: record_import_def Let_def split: if_splits)
qed

lemma enable_Inr:
  assumes "enable k agent u t ss = Inr (s', ss')"
  obtains s where "ss' = state_save s' ss" "state_load ss (sk_id k) = Some s" "agent \<in> set (sk_agents k)" "u \<noteq> []"
    "s' = s\<lparr>st_enabled := AList.update agent \<lparr>em_by = u, em_at = t\<rparr> (st_enabled s), st_reset_reason := None\<rparr>"
  using assms by (auto simp: enable_def existing_def Let_def split: option.splits if_splits)

lemma disable_Inr:
  assumes "disable i agent ss = Inr (s', ss')"
  obtains s where "ss' = state_save s' ss" "state_load ss i = Some s" "s' = s\<lparr>st_enabled := AList.delete agent (st_enabled s)\<rparr>"
  using assms by (auto simp: disable_def existing_def Let_def split: option.splits)

text \<open>
  One call: an agent that is on afterwards was on before, with a record that has not grown and not by the call that turns it off, or this
  call turned it on.
\<close>

definition turned_on :: "state_call \<Rightarrow> string \<Rightarrow> agent_name \<Rightarrow> bool" where
  "turned_on c i agent \<longleftrightarrow> (\<exists>k u t. c = EnableCall k agent u t \<and> sk_id k = i \<and> agent \<in> set (sk_agents k) \<and> u \<noteq> [])"

lemma state_step_enabled:
  assumes ok: "states_ok ss" and on: "map_of (state_step ss c) i = Some s'" "is_enabled s' agent"
  shows "\<exists>s. map_of ss i = Some s \<and> no_more_than s' s \<and>
    ((is_enabled s agent \<and> c \<noteq> DisableCall i agent) \<or> turned_on c i agent)"
proof (cases c)
  case (ImportCall k u t)
  then show ?thesis using on no_more_refl
    by (cases "record_import k u t ss")
      (auto simp: state_save_def state_load_def is_enabled_def split: if_splits dest!: record_import_Inr)
next
  case (EnableCall k a u t)
  show ?thesis
  proof (cases "enable k a u t ss")
    case (Inl e)
    then show ?thesis using EnableCall on no_more_refl by auto
  next
    case (Inr r)
    then obtain s'' ss' where r: "enable k a u t ss = Inr (s'', ss')" by (cases r) auto
    then obtain s where s: "ss' = state_save s'' ss" "state_load ss (sk_id k) = Some s" "a \<in> set (sk_agents k)" "u \<noteq> []"
        "s'' = s\<lparr>st_enabled := AList.update a \<lparr>em_by = u, em_at = t\<rparr> (st_enabled s), st_reset_reason := None\<rparr>"
      by (rule enable_Inr)
    moreover have "st_skill_id s = sk_id k" using ok s(2) by (auto simp: states_ok_def state_load_def)
    moreover have "no_more_than s'' s" using s(5) by (simp add: no_more_than_def)
    ultimately show ?thesis using on EnableCall r no_more_refl
      by (cases "i = sk_id k"; cases "a = agent") (auto simp: state_save_def state_load_def is_enabled_def turned_on_def)
  qed
next
  case (DisableCall j a)
  show ?thesis
  proof (cases "disable j a ss")
    case (Inl e)
    then have "map_of ss j = None" by (auto simp: disable_def existing_def state_load_def Let_def split: option.splits)
    then show ?thesis using DisableCall Inl on no_more_refl by auto
  next
    case (Inr r)
    then obtain s'' ss' where r: "disable j a ss = Inr (s'', ss')" by (cases r) auto
    then obtain s where s: "ss' = state_save s'' ss" "state_load ss j = Some s" "s'' = s\<lparr>st_enabled := AList.delete a (st_enabled s)\<rparr>"
      by (rule disable_Inr)
    moreover have "st_skill_id s = j" using ok s(2) by (auto simp: states_ok_def state_load_def)
    moreover have "no_more_than s'' s" using s(3) by (simp add: no_more_than_def)
    ultimately show ?thesis using on DisableCall r no_more_refl
      by (cases "i = j"; cases "a = agent") (auto simp: state_save_def state_load_def is_enabled_def)
  qed
qed

text \<open>
  C20. An agent may use a skill only if a person turned it on: in every history of imports and
  switches, when a skill is on for an agent, some call of a named person turned it on for that
  agent, which the skill listed; it was not turned off since; and the record
  as it is now allows no more agents, needs no more capabilities and is no riskier than the record that person saw.
\<close>
theorem enabled_by_a_person:
  assumes "map_of (state_run cs) i = Some s" "is_enabled s agent"
  shows "\<exists>before c after seen. cs = before @ c # after \<and> turned_on c i agent \<and> DisableCall i agent \<notin> set after \<and>
    map_of (state_run before) i = Some seen \<and> no_more_than s seen"
  using assms
proof (induction cs arbitrary: s rule: rev_induct)
  case Nil
  then show ?case by (simp add: state_run_def)
next
  case (snoc c cs)
  have "map_of (state_step (state_run cs) c) i = Some s" using snoc.prems(1) by (simp add: state_run_def)
  then obtain s0 where s0: "map_of (state_run cs) i = Some s0" "no_more_than s s0"
      "(is_enabled s0 agent \<and> c \<noteq> DisableCall i agent) \<or> turned_on c i agent"
    using state_step_enabled [OF states_ok_run _ snoc.prems(2)] by blast
  show ?case
  proof (cases "turned_on c i agent")
    case True
    then show ?thesis using s0 by (intro exI [of _ cs] exI [of _ c] exI [of _ "[]"] exI [of _ s0]) simp
  next
    case False
    then have on: "is_enabled s0 agent" "c \<noteq> DisableCall i agent" using s0(3) by auto
    obtain before d after seen where "cs = before @ d # after" "turned_on d i agent" "DisableCall i agent \<notin> set after"
        "map_of (state_run before) i = Some seen" "no_more_than s0 seen"
      using snoc.IH [OF s0(1) on(1)] by blast
    then show ?thesis using s0(2) on(2) no_more_trans
      by (intro exI [of _ before] exI [of _ d] exI [of _ "after @ [c]"] exI [of _ seen]) auto
  qed
qed

definition sample_skill :: skill where
  "sample_skill = \<lparr>sk_id = ''pause'', sk_name = ''Pause'', sk_version = ''1.0.0'', sk_description = [], sk_agents = [Coding], sk_timeout_s = 900,
     sk_inputs = [], sk_on_failure = OnStop, sk_outputs = [], sk_sop_summary = None, sk_requires = [],
     sk_steps = [SkillStep ''wait'' [(''seconds'', JInt 1)] None None [] []]\<rparr>"

definition sample_calls :: "state_call list" where
  "sample_calls = [ImportCall sample_skill ''ann'' 0, EnableCall sample_skill Coding ''ann'' 1, ImportCall sample_skill ''bob'' 2]"

lemma sample_enabled: "case map_of (state_run sample_calls) ''pause'' of None \<Rightarrow> False | Some s \<Rightarrow> is_enabled s Coding"
  by code_simp

theorem enabled_by_a_person_witness:
  "\<exists>s before c after. map_of (state_run sample_calls) ''pause'' = Some s \<and> is_enabled s Coding \<and>
     sample_calls = before @ c # after \<and> turned_on c ''pause'' Coding"
proof -
  obtain s where "map_of (state_run sample_calls) ''pause'' = Some s" "is_enabled s Coding"
    using sample_enabled by (auto split: option.splits)
  with enabled_by_a_person [OF this] show ?thesis by blast
qed

end
