(* ===== verification/Skill_Compiler.thy ===== *)
theory Skill_Compiler
  imports Skill_State Stdlib
begin

text \<open>
  From a skill and its inputs to a flat plan (\<open>packages/slas-skills/slas_skills/compiler.py\<close>), and the
  gate through which a plan of an agent gets its skills (\<open>packages/slas-kernel/slas_kernel/skills.py\<close>).

  The expander is a record passed through its methods. What \<open>Step(...)\<close> and \<open>Plan(...)\<close> raise is not a
  \<open>SkillCompileError\<close> and has a constructor of its own.
\<close>

section \<open>Inputs\<close>

datatype compile_failure =
    SkillCompileError three_part
  | SkillStepError schema_error \<comment> \<open>a pydantic \<open>ValidationError\<close>\<close>
  | SkillRiskError skill_error

definition SECRET_PREFIX :: string where
  "SECRET_PREFIX = ''secret://''"

fun input_type_value :: "input_type \<Rightarrow> string" where
  "input_type_value IString = ''string''"
| "input_type_value IInt = ''int''"
| "input_type_value IBool = ''bool''"
| "input_type_value IPath = ''path''"
| "input_type_value ITarget_ref = ''target_ref''"
| "input_type_value ISecret = ''secret''"

definition py_bool :: "json \<Rightarrow> bool" where \<comment> \<open>\<open>bool(value)\<close>\<close>
  "py_bool v = (case v of JNull \<Rightarrow> False | JBool b \<Rightarrow> b | JInt i \<Rightarrow> i \<noteq> 0 | JStr s \<Rightarrow> s \<noteq> [] | JList xs \<Rightarrow> xs \<noteq> [] | JObj kvs \<Rightarrow> kvs \<noteq> [])"

definition coerce :: "string \<Rightarrow> input_type \<Rightarrow> json \<Rightarrow> skill \<Rightarrow> compile_failure + json" where
  "coerce name kind v k =
     (if kind = IInt \<and> (case v of JBool _ \<Rightarrow> False | _ \<Rightarrow> True) then
        (case py_int v of
           Some i \<Rightarrow> Inr (JInt i)
         | None \<Rightarrow> Inl (SkillCompileError \<lparr>
             tp_what_happened = ''The input '' @ name @ '' of '' @ sk_name k @ '' must be a int; got '' @ py_repr v @ ''.'',
             tp_likely_cause = ''The skill declares `'' @ name @ ''` as int.'',
             tp_what_to_do = ''Give a value of that type.''\<rparr>))
      else if kind = IBool then
        Inr (JBool (case v of JStr s \<Rightarrow> py_lower (py_strip s) \<in> {''true'', ''yes'', ''1'', ''on''} | _ \<Rightarrow> py_bool v))
      else Inr v)"

definition secret_handle :: "skill \<Rightarrow> string \<Rightarrow> string" where
  "secret_handle k name = SECRET_PREFIX @ sk_id k @ ''/'' @ name"

definition given_value :: "(string, json) dict \<Rightarrow> string \<Rightarrow> json option" where
  \<comment> \<open>a value that is there and not \<open>None\<close>\<close>
  "given_value given name = (case map_of given name of Some JNull \<Rightarrow> None | v \<Rightarrow> v)"

text \<open>The loop over the declared inputs: context, handles, and the names that are missing.\<close>

fun bind_each :: "skill \<Rightarrow> (string, json) dict \<Rightarrow> (string, input_spec) dict \<Rightarrow> (string, json) dict \<Rightarrow> (string, string) dict \<Rightarrow> string list \<Rightarrow>
    compile_failure + (string, json) dict \<times> (string, string) dict \<times> string list" where
  "bind_each k given [] ctx handles missing = Inr (ctx, handles, missing)"
| "bind_each k given ((name, spec) # specs) ctx handles missing =
     (if in_type spec = ISecret then
        (case given_value given name of
           Some _ \<Rightarrow> bind_each k given specs (AList.update name (JStr (secret_handle k name)) ctx)
             (AList.update name (secret_handle k name) handles) missing
         | None \<Rightarrow> bind_each k given specs ctx handles (if in_required spec then missing @ [name] else missing))
      else (case given_value given name of
           Some v \<Rightarrow>
             (case coerce name (in_type spec) v k of
                Inl e \<Rightarrow> Inl e
              | Inr v' \<Rightarrow> bind_each k given specs (AList.update name v' ctx) handles missing)
         | None \<Rightarrow>
             if in_default spec \<noteq> JNull then bind_each k given specs (AList.update name (in_default spec) ctx) handles missing
             else bind_each k given specs ctx handles (if in_required spec then missing @ [name] else missing)))"

definition bind_inputs :: "skill \<Rightarrow> (string, json) dict \<Rightarrow> compile_failure + (string, json) dict \<times> (string, string) dict" where
  "bind_inputs k given =
     (let unknown = sort (filter (\<lambda>n. n \<notin> set (map fst (sk_inputs k))) (map fst given)) in
      if unknown \<noteq> [] then
        Inl (SkillCompileError \<lparr>
          tp_what_happened = sk_name k @ '' was given inputs it does not declare: '' @ py_join '', '' unknown @ ''.'',
          tp_likely_cause = ''Its inputs are '' @ or_else (py_join '', '' (map fst (sk_inputs k))) ''none'' @ ''.'',
          tp_what_to_do = ''Remove the extra inputs or declare them in the skill.''\<rparr>)
      else (case bind_each k given (sk_inputs k) [] [] [] of
          Inl e \<Rightarrow> Inl e
        | Inr (ctx, handles, missing) \<Rightarrow>
            if missing \<noteq> [] then
              Inl (SkillCompileError \<lparr>
                tp_what_happened = sk_name k @ '' needs the '' @ (if length missing = 1 then ''input'' else ''inputs'') @ '' ''
                  @ py_join '', '' missing @ ''.'',
                tp_likely_cause = ''They are declared as required and have no default.'',
                tp_what_to_do = ''Provide them when starting the skill.''\<rparr>)
            else Inr (ctx, handles)))"


section \<open>The expander\<close>

record expander =
  ex_context :: "(string, json) dict"
  ex_steps :: "step list"
  ex_secret_steps :: "string list"
  ex_used_ids :: "string list"

text \<open>
  The \<open>while\<close> loop of \<open>_unique_id\<close> tries the wanted id and then numbered ones. One of
  the first \<open>Suc n\<close> candidates is free when \<open>n\<close> ids are used (\<open>unique_id_fresh\<close>).
\<close>

definition id_candidates :: "string \<Rightarrow> nat \<Rightarrow> string list" where
  "id_candidates base n = base # map (\<lambda>c. base @ ''-'' @ show_nat c) [2..<n + 2]"

definition unique_id :: "skill \<Rightarrow> string option \<Rightarrow> string \<Rightarrow> string list \<Rightarrow> string" where
  "unique_id k wanted primitive used =
     (let base = (case wanted of Some w \<Rightarrow> if w = [] then sk_id k @ ''-'' @ py_replace_char (CHR ''_'') (CHR ''-'') primitive else w
            | None \<Rightarrow> sk_id k @ ''-'' @ py_replace_char (CHR ''_'') (CHR ''-'') primitive)
      in case List.find (\<lambda>c. c \<notin> set used) (id_candidates base (length used)) of Some c \<Rightarrow> c | None \<Rightarrow> base)"

definition contains :: "string \<Rightarrow> string \<Rightarrow> bool" where \<comment> \<open>\<open>needle in hay\<close>\<close>
  "contains needle hay \<longleftrightarrow> list_ex (prefix needle) (suffixes hay)"

fun carries_secret :: "string list \<Rightarrow> json \<Rightarrow> bool" where
  "carries_secret handles (JStr s) = list_ex (\<lambda>h. contains h s) handles"
| "carries_secret handles (JList xs) = list_ex (carries_secret handles) xs"
| "carries_secret handles (JObj kvs) = list_ex (\<lambda>kv. carries_secret handles (snd kv)) kvs"
| "carries_secret handles _ = False"

definition combine :: "string option \<Rightarrow> string option \<Rightarrow> string option" where
  "combine outer inner =
     (case (outer, inner) of
        (Some o', Some i) \<Rightarrow> if o' \<noteq> [] \<and> i \<noteq> [] then Some (''('' @ o' @ '') and ('' @ i @ '')'')
                             else if o' \<noteq> [] then Some o' else Some i
      | (Some o', None) \<Rightarrow> if o' \<noteq> [] then Some o' else None
      | (None, i) \<Rightarrow> i)"

definition arg_text :: "(string, json) dict \<Rightarrow> string \<Rightarrow> string" where \<comment> \<open>\<open>f"{args.get(k)}"\<close>\<close>
  "arg_text args k = py_str (case map_of args k of None \<Rightarrow> JNull | Some v \<Rightarrow> v)"

fun first_true :: "(string, json) dict \<Rightarrow> string list \<Rightarrow> json option" where \<comment> \<open>\<open>args.get(a) or args.get(b) or ...\<close>\<close>
  "first_true args [] = None"
| "first_true args (k # ks) = (case map_of args k of Some v \<Rightarrow> if py_bool v then Some v else first_true args ks | None \<Rightarrow> first_true args ks)"

text \<open>\<open>args.get(a) or args.get(b)\<close>: the last one as it is when none is true.\<close>

definition or_get :: "(string, json) dict \<Rightarrow> string list \<Rightarrow> string" where
  "or_get args ks = (case first_true args ks of Some v \<Rightarrow> py_str v | None \<Rightarrow> arg_text args (last ks))"

definition step_title :: "string \<Rightarrow> (string, json) dict \<Rightarrow> string" where
  "step_title primitive args =
     (let plain = py_capitalize (py_replace_char (CHR ''_'') (CHR '' '') primitive) in
      if primitive = ''redfish'' then ''Redfish '' @ arg_text args ''action'' @ '' on '' @ arg_text args ''target''
      else if primitive \<in> {''click'', ''double_click'', ''right_click''} then
        plain @ '' '' @ (case first_true args [''text'', ''target'', ''image''] of Some v \<Rightarrow> py_str v | None \<Rightarrow> ''coordinates'')
      else if primitive = ''focus_window'' then ''Focus window '' @ or_get args [''title'', ''class'']
      else if primitive = ''type'' then ''Type text''
      else if primitive = ''key'' then ''Press '' @ arg_text args ''press''
      else if primitive \<in> {''run'', ''ssh''} then
        (if primitive = ''run'' then ''Run'' else ''SSH'') @ '' ''
        @ (case map_of args ''command'' of Some (JList xs) \<Rightarrow> py_join '' '' (map py_str (take 3 xs)) | _ \<Rightarrow> ''command'')
      else if primitive = ''wait_for'' then ''Wait for '' @ or_get args [''window'', ''text'', ''image'']
      else if primitive = ''assert'' then ''Check '' @ arg_text args ''message''
      else plain)"

definition step_source :: "skill \<Rightarrow> string option \<Rightarrow> string \<Rightarrow> string" where
  "step_source k sid kind = sk_name k @ '' step '' @ (case sid of Some i \<Rightarrow> if i = [] then kind else i | None \<Rightarrow> kind)"

definition emit :: "skill \<Rightarrow> string list \<Rightarrow> skill_step \<Rightarrow> string option \<Rightarrow> expander \<Rightarrow> compile_failure + expander" where
  "emit k handles st outer x =
     (case render_items (ex_context x) (step_source k (ss_id st) (ss_primitive st)) (ss_args st) of
        Inl m \<Rightarrow> Inl (SkillCompileError m)
      | Inr args \<Rightarrow>
          (case skill_risk_of (ss_primitive st) args of
             Inl e \<Rightarrow> Inl (SkillRiskError e)
           | Inr r \<Rightarrow>
             (let sid = unique_id k (ss_id st) (ss_primitive st) (ex_used_ids x);
                  new = \<lparr>s_id = sid, s_n = int (length (ex_steps x)) + 1, s_primitive = ss_primitive st,
                         s_title = step_title (ss_primitive st) args, s_args = args, s_risk = r, s_when = combine outer (ss_when st)\<rparr>
              in if \<not> step_ok new then Inl (SkillStepError (ValidationError ''step''))
                 else Inr (x\<lparr>ex_steps := ex_steps x @ [new], ex_used_ids := ex_used_ids x @ [sid],
                    ex_secret_steps := (if carries_secret handles (JObj args) then ex_secret_steps x @ [sid] else ex_secret_steps x)\<rparr>))))"

definition too_long :: "skill \<Rightarrow> three_part" where
  "too_long k = \<lparr>tp_what_happened = sk_name k @ '' expands to more than '' @ show_nat MAX_STEPS @ '' steps.'',
     tp_likely_cause = ''Loops are unrolled at compile time and the plan is capped (CLAUDE.md '' @ section_sign @ ''6.1).'',
     tp_what_to_do = ''Shorten the loops or split the skill.''\<rparr>"

text \<open>The list of a \<open>foreach\<close>: a list, or the parts of a text between commas.\<close>

definition loop_items :: "string \<Rightarrow> json \<Rightarrow> compile_failure + json list" where
  "loop_items src v =
     (case (case v of JStr s \<Rightarrow> Some (map JStr (filter (\<lambda>p. p \<noteq> []) (map py_strip (split_on (CHR '','') s))))
              | JList xs \<Rightarrow> Some xs | _ \<Rightarrow> None) of
        None \<Rightarrow> Inl (SkillCompileError \<lparr>tp_what_happened = src @ '' loops over something that is not a list.'',
          tp_likely_cause = ''`items` must be a list, or a comma-separated string input.'', tp_what_to_do = ''Fix the items.''\<rparr>)
      | Some xs \<Rightarrow> if length xs > MAX_FOREACH_ITEMS then
          Inl (SkillCompileError \<lparr>tp_what_happened = src @ '' loops over '' @ show_nat (length xs) @ '' items; the limit is ''
              @ show_nat MAX_FOREACH_ITEMS @ ''.'',
            tp_likely_cause = ''Loops are bounded so a plan stays reviewable (CLAUDE.md '' @ section_sign @ ''6.2).'',
            tp_what_to_do = ''Split the work into several runs.''\<rparr>)
        else Inr xs)"

definition set_context :: "((string, json) dict \<Rightarrow> (string, json) dict) \<Rightarrow> expander \<Rightarrow> expander" where
  "set_context f x = x\<lparr>ex_context := f (ex_context x)\<rparr>"

fun loop_over :: "(expander \<Rightarrow> compile_failure + expander) \<Rightarrow> string \<Rightarrow> nat \<Rightarrow> json list \<Rightarrow> expander \<Rightarrow> compile_failure + expander" where
  "loop_over body var i [] x = Inr x"
| "loop_over body var i (v # vs) x =
     (case body (set_context (\<lambda>c. AList.update (var @ ''_index'') (JInt (int i)) (AList.update var v c)) x) of
        Inl e \<Rightarrow> Inl e
      | Inr x' \<Rightarrow> loop_over body var (Suc i) vs x')"

definition after_loop :: "string \<Rightarrow> json option \<Rightarrow> expander \<Rightarrow> expander" where
  "after_loop var saved = set_context (\<lambda>c. let c' = AList.delete (var @ ''_index'') c
     in case saved of Some v \<Rightarrow> if v = JNull then AList.delete var c' else AList.update var v c' | None \<Rightarrow> AList.delete var c')"

definition arg_or_null :: "(string, json) dict \<Rightarrow> string \<Rightarrow> json" where
  "arg_or_null args key = (case map_of args key of None \<Rightarrow> JNull | Some v \<Rightarrow> v)"

fun expand :: "skill \<Rightarrow> string list \<Rightarrow> string option \<Rightarrow> skill_step list \<Rightarrow> expander \<Rightarrow> compile_failure + expander"
  and expand_one :: "skill \<Rightarrow> string list \<Rightarrow> string option \<Rightarrow> skill_step \<Rightarrow> expander \<Rightarrow> compile_failure + expander" where
  "expand k handles outer [] x = Inr x"
| "expand k handles outer (st # sts) x =
     (case expand_one k handles outer st x of
        Inl e \<Rightarrow> Inl e
      | Inr x' \<Rightarrow> if length (ex_steps x') > MAX_STEPS then Inl (SkillCompileError (too_long k))
                  else expand k handles outer sts x')"
| "expand_one k handles outer (SkillStep p args sid w thens elses) x =
     (if p = ''if'' then
        (let condition = py_str (arg_or_null args ''condition'') in
         if has_late_reference (JStr condition) then
           (case expand k handles (combine outer (Some condition)) thens x of
              Inl e \<Rightarrow> Inl e
            | Inr x' \<Rightarrow> if elses \<noteq> [] then expand k handles (combine outer (Some (''not '' @ condition))) elses x' else Inr x')
         else (case evaluate condition (ex_context x) (step_source k sid ''if'') of
              Inl m \<Rightarrow> Inl (SkillCompileError m)
            | Inr True \<Rightarrow> expand k handles outer thens x
            | Inr False \<Rightarrow> expand k handles outer elses x))
      else if p = ''foreach'' then
        (case render_value (ex_context x) (step_source k sid ''foreach'') (arg_or_null args ''items'') of
           Inl m \<Rightarrow> Inl (SkillCompileError m)
         | Inr v \<Rightarrow>
             (case loop_items (step_source k sid ''foreach'') v of
                Inl e \<Rightarrow> Inl e
              | Inr items \<Rightarrow>
                  (let var = (case map_of args ''as'' of None \<Rightarrow> ''item'' | Some a \<Rightarrow> py_str a) in
                   map_sum id (after_loop var (map_of (ex_context x) var))
                     (loop_over (\<lambda>y. expand k handles outer thens y) var 0 items x))))
      else emit k handles (SkillStep p args sid w thens elses) outer x)"


section \<open>Compiling\<close>

text \<open>
  \<open>json.dumps\<close> of a text: ASCII only, everything else as UTF-16 escapes.
\<close>

definition hex4 :: "nat \<Rightarrow> string" where
  "hex4 n = [CHR 0x5C, CHR ''u''] @ map (\<lambda>d. hex_digit (n div 16 ^ d mod 16)) [3, 2, 1, 0]"

definition json_char :: "nat \<Rightarrow> string" where \<comment> \<open>a code point\<close>
  "json_char n =
     (if n = 34 then [CHR 0x5C, CHR 0x22] else if n = 92 then [CHR 0x5C, CHR 0x5C]
      else if n = 10 then [CHR 0x5C, CHR ''n''] else if n = 13 then [CHR 0x5C, CHR ''r''] else if n = 9 then [CHR 0x5C, CHR ''t'']
      else if n = 8 then [CHR 0x5C, CHR ''b''] else if n = 12 then [CHR 0x5C, CHR ''f'']
      else if 32 \<le> n \<and> n < 127 then [char_of n]
      else if n < 65536 then hex4 n
      else hex4 (55296 + (n - 65536) div 1024) @ hex4 (56320 + (n - 65536) mod 1024))"

fun code_points :: "nat list \<Rightarrow> nat list" where \<comment> \<open>of UTF-8 bytes\<close>
  "code_points (a # b # c # d # r) =
     (if a < 128 then a # code_points (b # c # d # r)
      else if a < 224 then ((a mod 32) * 64 + b mod 64) # code_points (c # d # r)
      else if a < 240 then (((a mod 16) * 64 + b mod 64) * 64 + c mod 64) # code_points (d # r)
      else ((((a mod 8) * 64 + b mod 64) * 64 + c mod 64) * 64 + d mod 64) # code_points r)"
| "code_points [a, b, c] =
     (if a < 128 then a # code_points [b, c]
      else if a < 224 then ((a mod 32) * 64 + b mod 64) # code_points [c]
      else [((a mod 16) * 64 + b mod 64) * 64 + c mod 64])"
| "code_points [a, b] = (if a < 128 then a # code_points [b] else [(a mod 32) * 64 + b mod 64])"
| "code_points [a] = [a]"
| "code_points [] = []"

definition json_quote :: "string \<Rightarrow> string" where
  "json_quote s = [CHR 0x22] @ concat (map json_char (code_points (map of_char s))) @ [CHR 0x22]"

definition skill_digest :: "skill \<Rightarrow> (string, json) dict \<Rightarrow> string" where
  "skill_digest k ctx = take 12 (sha256_hex (
     ''{'' @ json_quote ''inputs'' @ '': ['' @ py_join '', '' (map json_quote (sort (map fst ctx))) @ ''], ''
     @ json_quote ''skill'' @ '': '' @ json_quote (sk_id k) @ '', '' @ json_quote ''version'' @ '': '' @ json_quote (sk_version k) @ ''}''))"

record compiled_skill =
  cs_skill_id :: string
  cs_plan :: plan
  cs_secret_steps :: "string list"
  cs_secret_handles :: "(string, string) dict"
  cs_outputs :: "(string, string) dict"
  cs_on_failure :: on_failure
  cs_timeout_s :: int

definition missing_output :: "skill \<Rightarrow> step list \<Rightarrow> (string \<times> string) option" where
  "missing_output k steps = List.find (\<lambda>(name, source). source \<notin> set (map s_id steps)) (sk_outputs k)"

definition compile_skill :: "skill \<Rightarrow> (string, json) dict \<Rightarrow> string \<Rightarrow> time \<Rightarrow> compile_failure + compiled_skill" where
  "compile_skill k inputs job_id now =
     (case bind_inputs k inputs of
        Inl e \<Rightarrow> Inl e
      | Inr (ctx, handles) \<Rightarrow>
          (case expand k (map snd handles) None (sk_steps k) \<lparr>ex_context = ctx, ex_steps = [], ex_secret_steps = [], ex_used_ids = []\<rparr> of
             Inl e \<Rightarrow> Inl e
           | Inr x \<Rightarrow>
             (case missing_output k (ex_steps x) of
                Some (name, source) \<Rightarrow> Inl (SkillCompileError \<lparr>
                  tp_what_happened = ''The output '' @ name @ '' of '' @ sk_name k @ '' comes from step '' @ source @ '', which does not exist.'',
                  tp_likely_cause = ''Outputs point at a step by its `id`.'',
                  tp_what_to_do = ''Give the step that id, or fix the output.''\<rparr>)
              | None \<Rightarrow>
                (case plan_validate \<lparr>p_id = ''skill-'' @ sk_id k @ ''-'' @ skill_digest k (ex_context x), p_job_id = job_id,
                    p_summary = sk_name k @ '' v'' @ sk_version k, p_steps = ex_steps x, p_created_at = now\<rparr> of
                   Inl e \<Rightarrow> Inl (SkillStepError e)
                 | Inr p \<Rightarrow> Inr \<lparr>cs_skill_id = sk_id k, cs_plan = p, cs_secret_steps = ex_secret_steps x, cs_secret_handles = handles,
                     cs_outputs = sk_outputs k, cs_on_failure = sk_on_failure k, cs_timeout_s = sk_timeout_s k\<rparr>))))"


section \<open>The gate of the kernel\<close>

definition SKILL_PRIMITIVE :: string where
  "SKILL_PRIMITIVE = ''skill''"

definition TARGET_ARGS :: "string list" where
  "TARGET_ARGS = [''station'', ''target'']"

definition SECRET_PLACEHOLDER :: string where
  "SECRET_PLACEHOLDER = ''resolved-at-dispatch''"

record skill_gate =
  sg_library :: "(string, skill) dict"
  sg_state :: skill_states
  sg_now :: time
  sg_dump :: "compiled_skill \<Rightarrow> json" \<comment> \<open>\<open>model_dump(mode="json")\<close> of pydantic\<close>

datatype gate_failure =
    SkillGateError step three_part
  | GateInvalid compile_failure \<comment> \<open>what is not a \<open>SkillCompileError\<close> passes through\<close>
  | GateTypeError string

definition obj_arg :: "(string, json) dict \<Rightarrow> string \<Rightarrow> gate_failure + (string, json) dict" where
  \<comment> \<open>\<open>dict(step.args.get(k, {}))\<close>; of lists only the empty one is a dictionary here\<close>
  "obj_arg args key = (case map_of args key of None \<Rightarrow> Inr [] | Some (JObj kvs) \<Rightarrow> Inr kvs | Some (JList []) \<Rightarrow> Inr []
     | Some (JStr []) \<Rightarrow> Inr [] | Some _ \<Rightarrow> Inl (GateTypeError key))"

definition skill_inputs :: "step \<Rightarrow> skill \<Rightarrow> gate_failure + (string, json) dict" where
  "skill_inputs st k =
     (case obj_arg (s_args st) ''inputs'' of
        Inl e \<Rightarrow> Inl e
      | Inr given \<Rightarrow>
          (case obj_arg (s_args st) ''secret_refs'' of
             Inl e \<Rightarrow> Inl e
           | Inr refs \<Rightarrow>
             (let with_target = fold (\<lambda>name given. case map_of (s_args st) name of
                     Some v \<Rightarrow> if map_of (sk_inputs k) name \<noteq> None \<and> map_of given name = None then AList.update name v given else given
                   | None \<Rightarrow> given) TARGET_ARGS given
              in Inr (fold (\<lambda>name given. AList.update name (JStr SECRET_PLACEHOLDER) given) (map fst refs) with_target))))"

definition expand_step :: "skill_gate \<Rightarrow> step \<Rightarrow> string \<Rightarrow> agent_name \<Rightarrow> gate_failure + step" where
  "expand_step g st job_id agent =
     (let skill_id = (case map_of (s_args st) ''skill_id'' of None \<Rightarrow> [] | Some v \<Rightarrow> py_str v); who = AGENT_LABEL agent in
      case map_of (sg_library g) skill_id of
        None \<Rightarrow> Inl (SkillGateError st \<lparr>
          tp_what_happened = ''The skill '' @ or_else skill_id ''(unnamed)'' @ '' is not in this installation'' @ [CHR 0x27] @ ''s library.'',
          tp_likely_cause = ''The plan names a skill nobody has imported here, or it was deleted.'',
          tp_what_to_do = ''Import it under Skills, or remove the step from the plan.''\<rparr>)
      | Some k \<Rightarrow>
          if agent \<notin> set (sk_agents k) then Inl (SkillGateError st \<lparr>
            tp_what_happened = sk_name k @ '' does not work with '' @ who @ ''.'',
            tp_likely_cause = ''Its author allows only '' @ py_join '', '' (map AGENT_LABEL (sk_agents k)) @ ''.'',
            tp_what_to_do = ''Remove the step, or ask the author for a version that lists this agent.''\<rparr>)
          else if \<not> store_is_enabled (sg_state g) (sk_id k) agent then Inl (SkillGateError st \<lparr>
            tp_what_happened = sk_name k @ '' is not turned on for '' @ who @ ''.'',
            tp_likely_cause = ''Someone turned it off, or it was never turned on here.'',
            tp_what_to_do = ''Turn it on under Skills, or remove it from the plan.''\<rparr>)
          else (case skill_inputs st k of
              Inl e \<Rightarrow> Inl e
            | Inr inputs \<Rightarrow>
              (case compile_skill k inputs job_id (sg_now g) of
                 Inl (SkillCompileError m) \<Rightarrow> Inl (SkillGateError st m)
               | Inl e \<Rightarrow> Inl (GateInvalid e)
               | Inr c \<Rightarrow>
                 (let r = max_risk (map s_risk (p_steps (cs_plan c)));
                      r' = (if RISK_ORDER r < RISK_ORDER (s_risk st) then s_risk st else r)
                  in Inr (st\<lparr>s_args := AList.update ''compiled'' (sg_dump g c) (s_args st), s_risk := r'\<rparr>)))))"

definition gate_expand :: "skill_gate \<Rightarrow> plan \<Rightarrow> agent_name \<Rightarrow> gate_failure + plan" where
  "gate_expand g p agent =
     map_sum id (\<lambda>steps. p\<lparr>p_steps := steps\<rparr>)
       (sum_list_of (\<lambda>st. if s_primitive st = SKILL_PRIMITIVE then expand_step g st (p_job_id p) agent else Inr st) (p_steps p))"

end
