(* ===== verification/Skill_Runner.thy ===== *)
theory Skill_Runner
  imports Skill_Compiler Effects
begin

text \<open>
  Performing a compiled skill (\<open>packages/slas-skills/slas_skills/runner.py\<close>). The executor and
  the screen driver are parameters; both act on the world \<open>'w\<close>. Every call of either is recorded in the state together
  with the journal as it was at the call.
\<close>

section \<open>What a run talks to\<close>

record step_result = \<comment> \<open>\<open>StepOutcome\<close>\<close>
  oc_ok :: bool
  oc_sentence :: string
  oc_exit_code :: "int option"
  oc_stdout :: string
  oc_stderr :: string
  oc_outputs :: "(string, json) dict"

record screen_result =
  scr_ok :: bool
  scr_sentence :: string
  scr_before :: "string option"
  scr_after :: "string option"
  scr_matched :: "string option"
  scr_outputs :: "(string, json) dict"

text \<open>A call of the screen driver with the arguments it gets; a missing one is \<open>None\<close>.\<close>

datatype screen_call =
    Focus_window json json
  | Click json json json json json string nat \<comment> \<open>text, image, target, x, y, button, count\<close>
  | Type_text string
  | Press_key string
  | Scroll string int
  | Wait_for json json json rat
  | Screenshot string
  | Assert_visible json json string

datatype run_error =
    ApprovalRequired step
  | RunTypeError string \<comment> \<open>a \<open>ValueError\<close>, \<open>TypeError\<close> or \<open>KeyError\<close> of an argument\<close>
  | ScreenStop three_part
  | ExecutorRaised string

datatype run_entry =
    RNote string string string \<comment> \<open>key, text, step id\<close>
  | RIntent string string "(string, json) dict" nat \<comment> \<open>step id, primitive, arguments, attempt\<close>
  | RObservation string step_result "string list" \<comment> \<open>step id, outcome as journalled, screenshots\<close>

datatype run_call = ExecCall step | ScreenCall step screen_call | ScreenShot string

record 'w skill_run_state =
  rs_world :: 'w
  rs_journal :: "run_entry list"
  rs_calls :: "(run_call \<times> run_entry list) list"
  rs_slept :: "rat list"
  rs_metrics :: "(string \<times> string) list"

record 'w runner =
  rn_execute :: "step \<Rightarrow> (string, json) dict \<Rightarrow> 'w \<Rightarrow> (string + step_result) \<times> 'w"
  rn_screen :: "(screen_call \<Rightarrow> 'w \<Rightarrow> (three_part + screen_result) \<times> 'w) option"

type_synonym ('w, 'a) run_prog = "('w skill_run_state, run_error, 'a) prog"

record step_run =
  sn_step_id :: string
  sn_n :: int
  sn_title :: string
  sn_status :: string
  sn_text :: string
  sn_attempts :: nat
  sn_shots :: "string list"
  sn_out :: "(string, json) dict"

record skill_run_result =
  rr_skill_id :: string
  rr_status :: string
  rr_steps :: "step_run list"
  rr_outputs :: "(string, json) dict"
  rr_sentence :: string


section \<open>Effects\<close>

definition r_append :: "run_entry \<Rightarrow> ('w, unit) run_prog" where
  "r_append e = modify (\<lambda>s. s\<lparr>rs_journal := rs_journal s @ [e]\<rparr>)"

definition r_sleep :: "rat \<Rightarrow> ('w, unit) run_prog" where
  "r_sleep t = modify (\<lambda>s. s\<lparr>rs_slept := rs_slept s @ [t]\<rparr>)"

definition r_metric :: "string \<Rightarrow> string \<Rightarrow> ('w, unit) run_prog" where
  "r_metric skill result = modify (\<lambda>s. s\<lparr>rs_metrics := rs_metrics s @ [(skill, result)]\<rparr>)"

definition call_execute :: "'w runner \<Rightarrow> step \<Rightarrow> (string, json) dict \<Rightarrow> ('w, step_result) run_prog" where
  "call_execute R st ctx s =
     (let (r, w) = rn_execute R st ctx (rs_world s);
          s' = s\<lparr>rs_world := w, rs_calls := rs_calls s @ [(ExecCall st, rs_journal s)]\<rparr>
      in case r of Inl e \<Rightarrow> (Raise (ExecutorRaised e), s') | Inr x \<Rightarrow> (Ret x, s'))"

definition call_screen :: "(screen_call \<Rightarrow> 'w \<Rightarrow> (three_part + screen_result) \<times> 'w) \<Rightarrow> run_call \<Rightarrow> screen_call \<Rightarrow>
    ('w, three_part + screen_result) run_prog" where
  "call_screen screen c call s =
     (let (r, w) = screen call (rs_world s)
      in (Ret r, s\<lparr>rs_world := w, rs_calls := rs_calls s @ [(c, rs_journal s)]\<rparr>))"


section \<open>Dispatch\<close>

definition outcome_of :: "bool \<Rightarrow> string \<Rightarrow> step_result" where
  "outcome_of ok sentence = \<lparr>oc_ok = ok, oc_sentence = sentence, oc_exit_code = None, oc_stdout = [], oc_stderr = [], oc_outputs = []\<rparr>"

definition float_of :: "json \<Rightarrow> rat option" where
  "float_of v = (case v of JInt i \<Rightarrow> Some (of_int i) | JBool b \<Rightarrow> Some (if b then 1 else 0)
     | JStr s \<Rightarrow> (case parse_float s of Some (OFloat q) \<Rightarrow> Some q | _ \<Rightarrow> None) | _ \<Rightarrow> None)"

definition screen_call_of :: "string \<Rightarrow> (string, json) dict \<Rightarrow> run_error + screen_call" where
  "screen_call_of p args =
     (let get = arg_or_null args; text = (\<lambda>key. case map_of args key of None \<Rightarrow> Inl (RunTypeError key) | Some v \<Rightarrow> Inr (py_str v)) in
      if p = ''focus_window'' then Inr (Focus_window (get ''title'') (get ''class''))
      else if p \<in> {''click'', ''double_click'', ''right_click''} then
        Inr (Click (get ''text'') (get ''image'') (get ''target'') (get ''x'') (get ''y'')
          (if p = ''right_click'' then ''right'' else ''left'') (if p = ''double_click'' then 2 else 1))
      else if p = ''type'' then map_sum id Type_text (text ''text'')
      else if p = ''key'' then map_sum id Press_key (text ''press'')
      else if p = ''scroll'' then
        (case (text ''direction'', py_int (get ''amount'')) of
           (Inl e, _) \<Rightarrow> Inl e
         | (Inr d, Some n) \<Rightarrow> Inr (Scroll d n)
         | (Inr d, None) \<Rightarrow> Inl (RunTypeError ''amount''))
      else if p = ''wait_for'' then
        (case (case map_of args ''timeout_s'' of None \<Rightarrow> Some 30 | Some v \<Rightarrow> float_of v) of
           Some t \<Rightarrow> Inr (Wait_for (get ''window'') (get ''text'') (get ''image'') t)
         | None \<Rightarrow> Inl (RunTypeError ''timeout_s''))
      else if p = ''screenshot'' then map_sum id Screenshot (text ''name'')
      else map_sum id (Assert_visible (get ''text'') (get ''image'')) (text ''message''))"

definition screen_step :: "'w runner \<Rightarrow> step \<Rightarrow> ('w, step_result \<times> string list) run_prog" where
  "screen_step R st =
     (case rn_screen R of
        None \<Rightarrow> ret (outcome_of False (s_title st @ '' needs a screen, and this run has no virtual display.''), [])
      | Some screen \<Rightarrow>
          bind (lift id (screen_call_of (s_primitive st) (s_args st))) (\<lambda>call.
          bind (call_screen screen (ScreenCall st call) call) (\<lambda>r.
          case r of
            Inl m \<Rightarrow> ret (outcome_of False (tp_what_happened m), [])
          | Inr x \<Rightarrow> ret ((outcome_of (scr_ok x) (scr_sentence x))\<lparr>oc_outputs := scr_outputs x\<rparr>,
              concat (map (\<lambda>p. case p of Some path \<Rightarrow> if path = [] then [] else [path] | None \<Rightarrow> []) [scr_before x, scr_after x])))))"

definition dispatch :: "'w runner \<Rightarrow> step \<Rightarrow> (string, json) dict \<Rightarrow> ('w, step_result \<times> string list) run_prog" where
  "dispatch R st ctx =
     (let get = arg_or_null (s_args st) in
      if s_primitive st \<in> set SCREEN_PRIMITIVES then screen_step R st
      else if s_primitive st = ''wait'' then
        (case float_of (get ''seconds'') of
           None \<Rightarrow> raise (RunTypeError ''seconds'')
         | Some t \<Rightarrow> bind (r_sleep t) (\<lambda>_. ret (outcome_of True (''Waited '' @ show_g t @ '' seconds.''), [])))
      else if s_primitive st = ''set'' then ret (outcome_of True (''Set '' @ py_str (get ''var'') @ ''.''), [])
      else if s_primitive st = ''assert'' then
        (case evaluate (py_str (get ''condition'')) ctx (''step '' @ s_id st) of
           Inl m \<Rightarrow> ret (outcome_of False (tp_what_happened m), [])
         | Inr holds \<Rightarrow> ret (outcome_of holds ((if holds then ''Checked: '' else ''Check failed: '') @ py_str (get ''message'') @ ''.''), []))
      else bind (call_execute R st ctx) (\<lambda>x. ret (x, [])))"


section \<open>One step\<close>

definition mask :: "(string, json) dict \<Rightarrow> bool \<Rightarrow> (string, json) dict" where
  "mask args masked = (if masked then map (\<lambda>(key, v). (key, JStr ''[secret]'')) args else args)"

definition masked_outcome :: "step_result \<Rightarrow> bool \<Rightarrow> step_result" where
  "masked_outcome r masked = (if masked then r\<lparr>oc_stdout := [], oc_stderr := [], oc_outputs := []\<rparr> else r)"

definition run_of :: "step \<Rightarrow> string \<Rightarrow> string \<Rightarrow> nat \<Rightarrow> string list \<Rightarrow> (string, json) dict \<Rightarrow> step_run" where
  "run_of st status sentence attempts shots outs = \<lparr>sn_step_id = s_id st, sn_n = s_n st, sn_title = s_title st, sn_status = status,
     sn_text = sentence, sn_attempts = attempts, sn_shots = shots, sn_out = outs\<rparr>"

definition steps_of :: "(string, json) dict \<Rightarrow> (string, json) dict" where \<comment> \<open>\<open>ctx["steps"]\<close>\<close>
  "steps_of ctx = (case map_of ctx ''steps'' of Some (JObj m) \<Rightarrow> m | _ \<Rightarrow> [])"

definition put_step :: "string \<Rightarrow> (string, json) dict \<Rightarrow> (string, json) dict \<Rightarrow> (string, json) dict" where
  "put_step sid vals ctx = AList.update ''steps'' (JObj (AList.update sid (JObj vals) (steps_of ctx))) ctx"

definition outcome_fields :: "step_result \<Rightarrow> (string, json) dict" where
  "outcome_fields r = AList.update ''stderr'' (JStr (oc_stderr r)) (AList.update ''stdout'' (JStr (oc_stdout r))
     (AList.update ''exit_code'' (case oc_exit_code r of None \<Rightarrow> JNull | Some c \<Rightarrow> JInt c) (oc_outputs r)))"

definition failed_run :: "'w runner \<Rightarrow> step \<Rightarrow> string \<Rightarrow> nat \<Rightarrow> string list \<Rightarrow> on_failure \<Rightarrow> (string, json) dict \<Rightarrow>
    ('w, step_run \<times> (string, json) dict) run_prog" where
  "failed_run R st sentence attempts shots policy ctx =
     bind (case rn_screen R of
             Some screen \<Rightarrow>
               if policy = OnScreenshot_and_stop then
                 bind (call_screen screen (ScreenShot (s_id st @ ''-failure'')) (Screenshot (s_id st @ ''-failure''))) (\<lambda>r.
                 case r of Inl m \<Rightarrow> raise (ScreenStop m)
                 | Inr x \<Rightarrow> ret (case scr_after x of Some path \<Rightarrow> if path = [] then shots else shots @ [path] | None \<Rightarrow> shots))
               else ret shots
           | None \<Rightarrow> ret shots) (\<lambda>shots'.
     ret (run_of st (if policy = OnContinue then ''done'' else ''failed'') sentence attempts shots' [],
       if policy = OnContinue then put_step (s_id st) [(''failed'', JBool True)] ctx else ctx))"

definition retries_of :: "on_failure \<Rightarrow> nat \<times> int" where
  "retries_of policy = (case policy of OnRetry m d \<Rightarrow> (nat m, d) | _ \<Rightarrow> (0, 0))"

text \<open>The \<open>while True\<close> loop, by the retries that are left.\<close>

fun perform_loop :: "'w runner \<Rightarrow> on_failure \<Rightarrow> bool \<Rightarrow> step \<Rightarrow> nat \<Rightarrow> nat \<Rightarrow> string list \<Rightarrow> (string, json) dict \<Rightarrow>
    ('w, step_run \<times> (string, json) dict) run_prog" where
  "perform_loop R policy masked st left attempts shots ctx =
     (case render_items ctx (''step '' @ s_id st) (s_args st) of
        Inl m \<Rightarrow> failed_run R st (tp_what_happened m) attempts shots OnStop ctx
      | Inr args \<Rightarrow>
          bind (r_append (RIntent (s_id st) (s_primitive st) (mask args masked) attempts)) (\<lambda>_.
          bind (dispatch R (st\<lparr>s_args := args\<rparr>) ctx) (\<lambda>(r, new).
          let shots' = shots @ new in
          bind (r_append (RObservation (s_id st) (masked_outcome r masked) new)) (\<lambda>_.
          if oc_ok r then
            (let ctx' = put_step (s_id st) (outcome_fields r) ctx;
                 ctx'' = (if s_primitive st = ''set'' then AList.update (py_str (arg_or_null args ''var'')) (arg_or_null args ''value'') ctx' else ctx')
             in ret (run_of st ''done'' (oc_sentence r) attempts shots' (oc_outputs r), ctx''))
          else (case left of
              0 \<Rightarrow> failed_run R st (oc_sentence r) attempts shots' policy ctx
            | Suc n \<Rightarrow>
                bind (if snd (retries_of policy) \<noteq> 0 then r_sleep (of_int (snd (retries_of policy))) else ret ()) (\<lambda>_.
                perform_loop R policy masked st n (Suc attempts) shots' ctx))))))"

declare perform_loop.simps [simp del]

definition perform_step :: "'w runner \<Rightarrow> compiled_skill \<Rightarrow> step \<Rightarrow> (string, json) dict \<Rightarrow> ('w, step_run \<times> (string, json) dict) run_prog" where
  "perform_step R c st ctx =
     perform_loop R (cs_on_failure c) (s_id st \<in> set (cs_secret_steps c)) st (fst (retries_of (cs_on_failure c))) 1 [] ctx"


section \<open>The run\<close>

definition holds :: "string \<Rightarrow> (string, json) dict \<Rightarrow> step \<Rightarrow> bool" where
  "holds condition ctx st = (case evaluate condition ctx (''step '' @ s_id st) of Inl _ \<Rightarrow> False | Inr b \<Rightarrow> b)"

definition skips :: "step \<Rightarrow> (string, json) dict \<Rightarrow> bool" where
  "skips st ctx \<longleftrightarrow> (case s_when st of Some w \<Rightarrow> w \<noteq> [] \<and> \<not> holds w ctx st | None \<Rightarrow> False)"

fun run_loop :: "'w runner \<Rightarrow> compiled_skill \<Rightarrow> string list \<Rightarrow> step list \<Rightarrow> step_run list \<Rightarrow> (string, json) dict \<Rightarrow>
    ('w, step_run list \<times> string \<times> (string, json) dict) run_prog" where
  "run_loop R c approved [] runs ctx = ret (runs, ''done'', ctx)"
| "run_loop R c approved (st # sts) runs ctx =
     (if skips st ctx then
        bind (r_append (RNote ''skipped'' (the (s_when st)) (s_id st))) (\<lambda>_.
        run_loop R c approved sts
          (runs @ [run_of st ''skipped'' (''Skipped: '' @ the (s_when st) @ '' does not hold.'') 1 [] []]) ctx)
      else if needs_approval st \<and> s_id st \<notin> set approved then
        bind (r_append (RNote ''approval_required'' (s_title st) (s_id st))) (\<lambda>_.
        bind (r_metric (cs_skill_id c) ''approval_required'') (\<lambda>_. raise (ApprovalRequired st)))
      else bind (perform_step R c st ctx) (\<lambda>(r, ctx').
        if sn_status r = ''failed'' then ret (runs @ [r], ''failed'', ctx')
        else run_loop R c approved sts (runs @ [r]) ctx'))"

definition run_skill :: "'w runner \<Rightarrow> compiled_skill \<Rightarrow> string list \<Rightarrow> (string, json) dict \<Rightarrow> ('w, skill_run_result) run_prog" where
  "run_skill R c approved context =
     (let ctx0 = (if map_of context ''steps'' = None then AList.update ''steps'' (JObj []) context else context) in
      bind (run_loop R c approved (p_steps (cs_plan c)) [] ctx0) (\<lambda>(runs, status, ctx).
      let outputs = map (\<lambda>(name, sid). (name, the (map_of (steps_of ctx) sid)))
            (filter (\<lambda>(name, sid). map_of (steps_of ctx) sid \<noteq> None) (cs_outputs c));
          finished = length (filter (\<lambda>r. sn_status r = ''done'') runs);
          total_steps = length (p_steps (cs_plan c)) in
      bind (r_metric (cs_skill_id c) status) (\<lambda>_.
      ret \<lparr>rr_skill_id = cs_skill_id c, rr_status = status, rr_steps = runs, rr_outputs = outputs,
        rr_sentence = (if status = ''done'' then p_summary (cs_plan c) @ '': '' @ show_nat finished @ '' of '' @ show_nat total_steps @ '' steps finished.''
          else p_summary (cs_plan c) @ '' '' @ status @ '' after step '' @ show_nat (length runs) @ '' of '' @ show_nat total_steps @ ''.'')\<rparr>)))"

end
