(* ===== verification/Skill_Theorems.thy ===== *)
theory Skill_Theorems
  imports Skill_Runner Triage
begin

text \<open>
  What a skill may do: an imported skill is on the whitelist at every depth, a compiled skill carries the
  risk of its steps and no secret, and a run performs a destructive action only with an approval.
\<close>

lemma map_sum_Inr: "map_sum f g r = Inr y \<longleftrightarrow> (\<exists>x. r = Inr x \<and> y = g x)"
  by (cases r) auto

section \<open>Imported skills\<close>

fun all_steps :: "(skill_step \<Rightarrow> bool) \<Rightarrow> skill_step list \<Rightarrow> bool" where
  "all_steps P [] \<longleftrightarrow> True"
| "all_steps P (SkillStep p a i w t e # ss) \<longleftrightarrow> P (SkillStep p a i w t e) \<and> all_steps P t \<and> all_steps P e \<and> all_steps P ss"

lemma all_steps_walk: "all_steps P ss \<longleftrightarrow> list_all (\<lambda>(_, st). P st) (walk_from path i ss)"
  by (induction path i ss rule: walk_from.induct) (auto simp: Let_def)

lemma all_steps_Cons: "all_steps P (s # ss) \<longleftrightarrow> all_steps P [s] \<and> all_steps P ss"
  by (cases s) simp

lemma all_steps_mono: "all_steps P ss \<Longrightarrow> (\<And>s. P s \<Longrightarrow> Q s) \<Longrightarrow> all_steps Q ss"
  by (induction P ss rule: all_steps.induct) auto

lemma all_steps_conj: "all_steps P ss \<Longrightarrow> all_steps Q ss \<Longrightarrow> all_steps (\<lambda>s. P s \<and> Q s) ss"
  by (induction P ss rule: all_steps.induct) auto

text \<open>The arguments a primitive accepts.\<close>

definition args_ok :: "skill_primitive \<Rightarrow> (string, json) dict \<Rightarrow> bool" where
  "args_ok spec args \<longleftrightarrow>
     set (map fst args) \<subseteq> set (known_skill_args spec) \<and> list_all (\<lambda>a. map_of args a \<noteq> None) (sp_required spec) \<and>
     (sp_one_of spec = [] \<or> list_ex (list_all (\<lambda>a. map_of args a \<noteq> None)) (sp_one_of spec)) \<and>
     (sp_name spec = ''redfish'' \<longrightarrow> py_str (arg_or_null args ''action'') \<in> set REDFISH_ACTIONS) \<and>
     (sp_name spec = ''wait'' \<longrightarrow> (case map_of args ''seconds'' of Some (JInt n) \<Rightarrow> 0 \<le> n \<and> n \<le> MAX_WAIT_SECONDS | _ \<Rightarrow> True)) \<and>
     (case map_of args ''command'' of Some c \<Rightarrow> c = JNull \<or> argv_ok c | None \<Rightarrow> True)"

lemma if_Some_None: "(if P then Some x else y) = None \<longleftrightarrow> \<not> P \<and> y = None"
  by simp

lemma case_command_None:
  "(case m of Some c \<Rightarrow> if Q c then None else Some e | None \<Rightarrow> None) = None \<longleftrightarrow> (case m of Some c \<Rightarrow> Q c | None \<Rightarrow> True)"
  by (cases m) simp_all

lemma check_skill_args_None: "check_skill_args spec args src path = None \<longleftrightarrow> args_ok spec args"
proof -
  have sorted_empty: "sort xs = [] \<longleftrightarrow> xs = []" for xs :: "string list"
    by (metis set_empty set_sort)
  have u: "sort (filter (\<lambda>a. a \<notin> set (known_skill_args spec)) (map fst args)) = [] \<longleftrightarrow> set (map fst args) \<subseteq> set (known_skill_args spec)"
    unfolding sorted_empty filter_empty_conv not_not subset_iff Ball_def by (rule refl)
  have m: "filter (\<lambda>a. map_of args a = None) (sp_required spec) = [] \<longleftrightarrow> list_all (\<lambda>a. map_of args a \<noteq> None) (sp_required spec)"
    by (auto simp: filter_empty_conv list_all_iff)
  have "check_skill_args spec args src path = None \<longleftrightarrow>
      set (map fst args) \<subseteq> set (known_skill_args spec) \<and> list_all (\<lambda>a. map_of args a \<noteq> None) (sp_required spec) \<and>
      \<not> (sp_one_of spec \<noteq> [] \<and> \<not> list_ex (list_all (\<lambda>a. map_of args a \<noteq> None)) (sp_one_of spec)) \<and>
      \<not> (sp_name spec = ''redfish'' \<and> py_str (arg_or_null args ''action'') \<notin> set REDFISH_ACTIONS) \<and>
      \<not> (case if sp_name spec = ''wait'' then (case map_of args ''seconds'' of Some (JInt n) \<Rightarrow> Some n | _ \<Rightarrow> None) else None of
          Some n \<Rightarrow> \<not> (0 \<le> n \<and> n \<le> MAX_WAIT_SECONDS) | None \<Rightarrow> False) \<and>
      (case map_of args ''command'' of Some c \<Rightarrow> c = JNull \<or> argv_ok c | None \<Rightarrow> True)"
    unfolding check_skill_args_def arg_or_null_def Let_def if_Some_None case_command_None not_not u m by (rule refl)
  then show ?thesis unfolding args_ok_def by (auto split: option.splits json.splits)
qed

text \<open>The table is keyed by the names of its entries, and only control steps have branches.\<close>

lemma skill_table:
  "list_all (\<lambda>(n, spec). sp_name spec = n \<and> (sp_control spec \<longleftrightarrow> n = ''if'' \<or> n = ''foreach'') \<and>
     (n \<noteq> ''redfish'' \<longrightarrow> sp_risk spec \<noteq> Destructive)) SKILL_PRIMITIVES"
  by (simp add: SKILL_PRIMITIVES_def sprim_def)

lemma skill_primitive_get:
  assumes "map_of SKILL_PRIMITIVES n = Some spec"
  shows "sp_name spec = n" "sp_control spec \<longleftrightarrow> n = ''if'' \<or> n = ''foreach''" "n \<noteq> ''redfish'' \<Longrightarrow> sp_risk spec \<noteq> Destructive"
proof -
  have "case (n, spec) of (n, spec) \<Rightarrow> sp_name spec = n \<and> (sp_control spec \<longleftrightarrow> n = ''if'' \<or> n = ''foreach'') \<and>
      (n \<noteq> ''redfish'' \<longrightarrow> sp_risk spec \<noteq> Destructive)"
    using skill_table map_of_SomeD [OF assms] unfolding list_all_iff by (rule bspec)
  then show "sp_name spec = n" "sp_control spec \<longleftrightarrow> n = ''if'' \<or> n = ''foreach''" "n \<noteq> ''redfish'' \<Longrightarrow> sp_risk spec \<noteq> Destructive"
    by simp_all
qed

text \<open>A step is listed when its primitive is and its arguments, with the branches put back, are accepted.\<close>

definition listed_step :: "skill_step \<Rightarrow> bool" where
  "listed_step st \<longleftrightarrow> (\<exists>spec args. map_of SKILL_PRIMITIVES (ss_primitive st) = Some spec \<and> args_ok spec args \<and>
     (if sp_control spec then ss_args st = filter (\<lambda>(key, _). key \<noteq> ''then'' \<and> key \<noteq> ''else'') args \<and> ss_then st \<noteq> []
      else ss_args st = args \<and> ss_then st = [] \<and> ss_otherwise st = []))"

lemma make_step_Inr: "make_step verb args kvs thens elses = Inr st \<Longrightarrow>
    ss_primitive st = verb \<and> ss_args st = args \<and> ss_then st = thens \<and> ss_otherwise st = elses"
  by (auto simp: make_step_def Let_def split: if_splits option.splits)

lemma delete_both: "map_of args ''else'' = None \<Longrightarrow> AList.delete ''then'' args = filter (\<lambda>(key, _). key \<noteq> ''then'' \<and> key \<noteq> ''else'') args"
  "AList.delete ''else'' (AList.delete ''then'' args) = filter (\<lambda>(key, _). key \<noteq> ''then'' \<and> key \<noteq> ''else'') args"
  by (induction args) (auto split: if_splits)

lemma listed_control:
  assumes "step_verb src path kvs = Inr (verb, spec, args)" "sp_control spec" "thens \<noteq> []"
    "make_step verb (filter (\<lambda>(key, _). key \<noteq> ''then'' \<and> key \<noteq> ''else'') args) kvs thens elses = Inr st"
    "all_steps listed_step thens" "all_steps listed_step elses"
  shows "all_steps listed_step [st]"
proof -
  have "args_ok spec args" using step_verb_Inr(3) [OF assms(1)] by (simp add: check_skill_args_None)
  then have "listed_step st"
    using assms(2,3) make_step_Inr [OF assms(4)] step_verb_Inr(2) [OF assms(1)] unfolding listed_step_def by auto
  then show ?thesis using make_step_Inr [OF assms(4)] assms(5,6) by (cases st) simp
qed

lemma listed_plain:
  assumes "step_verb src path kvs = Inr (verb, spec, args)" "\<not> sp_control spec" "make_step verb args kvs [] [] = Inr st"
  shows "all_steps listed_step [st]"
proof -
  have "args_ok spec args" using step_verb_Inr(3) [OF assms(1)] by (simp add: check_skill_args_None)
  then have "listed_step st"
    using assms(2) make_step_Inr [OF assms(3)] step_verb_Inr(2) [OF assms(1)] unfolding listed_step_def by auto
  then show ?thesis using make_step_Inr [OF assms(3)] by (cases st) simp
qed

lemma parse_listed:
  "parse_step src path v = Inr st \<Longrightarrow> all_steps listed_step [st]"
  "parse_steps src path v = Inr ss \<Longrightarrow> ss \<noteq> [] \<and> all_steps listed_step ss"
  "parse_items src path i vs = Inr ss \<Longrightarrow> length ss = length vs \<and> all_steps listed_step ss"
proof (induction src path v and src path v and src path i vs arbitrary: st and ss and ss
    rule: parse_step_parse_steps_parse_items.induct)
  case (1 src path kvs)
  obtain verb spec args where v: "step_verb src path kvs = Inr (verb, spec, args)"
    using 1(3) by (auto split: sum.splits)
  show ?case
  proof (cases "sp_control spec")
    case False
    then show ?thesis using 1(3) v by (auto intro: listed_plain)
  next
    case True
    then obtain t thens where t: "map_of args ''then'' = Some t" "parse_steps src (path @ ''.then'') t = Inr thens"
      using 1(3) v by (auto split: option.splits sum.splits)
    then have thens: "thens \<noteq> []" "all_steps listed_step thens" using 1(1) v True t by blast+
    show ?thesis
    proof (cases "map_of args ''else''")
      case None
      then show ?thesis using 1(3) v True t thens by (auto intro: listed_control simp: delete_both)
    next
      case (Some f)
      then obtain elses where e: "parse_steps src (path @ ''.else'') f = Inr elses" using 1(3) v True t by (auto split: sum.splits)
      then have "all_steps listed_step elses" using 1(2) v True t Some by blast
      then show ?thesis using 1(3) v True t thens e Some by (auto intro: listed_control simp: delete_both)
    qed
  qed
qed (auto split: sum.splits simp: map_sum_Inr intro: all_steps_Cons [THEN iffD2])

lemma parse_skill_listed:
  assumes "parse_skill pd src data = Inr k"
  shows "all_steps listed_step (sk_steps k)" "skill_problem k = None"
proof -
  obtain body where b: "(case data of JObj kvs \<Rightarrow> map_of kvs ''skill'' | _ \<Rightarrow> None) = Some (JObj body)"
    using assms by (auto simp: parse_skill_def split: option.splits json.splits)
  then obtain ss where ss: "parse_steps src ''steps'' (case map_of body ''steps'' of None \<Rightarrow> JNull | Some v \<Rightarrow> v) = Inr ss"
      and k: "\<exists>h needed. k = skill_of h needed ss \<and> skill_problem (skill_of h needed ss) = None"
    using assms by (auto simp: parse_skill_def split: sum.splits option.splits json.splits)
  then show "all_steps listed_step (sk_steps k)" "skill_problem k = None"
    using parse_listed(2) [OF ss] by (auto simp: skill_of_def skill_head.defs)
qed

lemma sum_list_of_Inr: "sum_list_of f xs = Inr ys \<longleftrightarrow> list_all2 (\<lambda>x y. f x = Inr y) xs ys"
proof (induction xs arbitrary: ys)
  case (Cons x xs)
  then show ?case by (cases ys) (auto simp: map_sum_Inr split: sum.splits)
qed auto

lemma list_all2_set:
  assumes "list_all2 (\<lambda>x y. f x = Inr y) xs ys"
  shows "y \<in> set ys \<longleftrightarrow> (\<exists>x\<in>set xs. f x = Inr y)" "x \<in> set xs \<Longrightarrow> \<exists>y\<in>set ys. f x = Inr y"
  using assms by (induction rule: list_all2_induct) auto

lemma list_all2_member: "list_all2 P xs ys \<Longrightarrow> x \<in> set xs \<Longrightarrow> \<exists>y\<in>set ys. P x y"
  by (induction rule: list_all2_induct) auto

lemma max_risk_Max: "risks \<noteq> [] \<Longrightarrow> max_risk risks = Max (set risks)"
proof (induction risks rule: rev_induct)
  case (snoc r rs)
  show ?case
  proof (cases rs)
    case Nil
    then show ?thesis by (simp add: max_risk_def)
  next
    case (Cons q qs)
    then have "max_risk (rs @ [r]) = max (max_risk rs) r" by (auto simp: max_risk_def max_def less_eq_risk_def)
    moreover have "Max (set (rs @ [r])) = max (Max (set rs)) r" using Cons by (simp add: Max_insert [symmetric] insert_commute max.commute del: Max_insert)
    ultimately show ?thesis using snoc.IH Cons by simp
  qed
qed simp

lemma max_risk_destructive: "max_risk risks = Destructive \<longleftrightarrow> Destructive \<in> set risks"
proof (cases "risks = []")
  case False
  then show ?thesis
    unfolding max_risk_Max [OF False] by (metis List.finite_set Max_ge Max_in risk_top(1) set_empty)
qed (simp add: max_risk_def)

text \<open>A step is destructive exactly when it is a power action over Redfish.\<close>

definition power_step :: "string \<Rightarrow> (string, json) dict \<Rightarrow> bool" where
  "power_step primitive args \<longleftrightarrow> primitive = ''redfish'' \<and> py_str (arg_or_null args ''action'') \<in> set REDFISH_DESTRUCTIVE_ACTIONS"

lemma none_not_destructive: "''None'' \<notin> set REDFISH_DESTRUCTIVE_ACTIONS" "[] \<notin> set REDFISH_DESTRUCTIVE_ACTIONS"
  by (simp_all add: REDFISH_DESTRUCTIVE_ACTIONS_def)

lemma skill_risk_destructive: "skill_risk_of primitive args = Inr Destructive \<longleftrightarrow> power_step primitive args"
proof (cases "primitive = ''redfish''")
  case True
  have "\<exists>spec. map_of SKILL_PRIMITIVES ''redfish'' = Some spec" by (simp add: SKILL_PRIMITIVES_def sprim_def)
  then show ?thesis using True none_not_destructive
    by (auto simp: skill_risk_of_def power_step_def arg_or_null_def py_str_def Let_def split: option.splits)
next
  case False
  then show ?thesis using skill_primitive_get(3) [OF _ False]
    by (auto simp: skill_risk_of_def power_step_def split: option.splits)
qed

definition may_use :: "principal \<Rightarrow> skill_step \<Rightarrow> bool" where
  "may_use p st \<longleftrightarrow> (case map_of SKILL_PRIMITIVES (ss_primitive st) of None \<Rightarrow> False
     | Some spec \<Rightarrow> sp_needs spec = [] \<or> list_ex (\<lambda>c. c = Files \<or> principal_can p c) (sp_needs spec))"

lemma check_needs_None:
  assumes "check_needs src (requires @ IMPLICIT_CAPABILITIES) ws = None" "list_all (principal_can p) requires"
  shows "list_all (\<lambda>(_, st). may_use p st) ws"
  using assms
proof (induction src "requires @ IMPLICIT_CAPABILITIES" ws rule: check_needs.induct)
  case (2 src path st rest)
  then obtain spec where s: "map_of SKILL_PRIMITIVES (ss_primitive st) = Some spec"
      "sp_needs spec = [] \<or> list_ex (\<lambda>c. c \<in> set (requires @ IMPLICIT_CAPABILITIES)) (sp_needs spec)"
      "check_needs src (requires @ IMPLICIT_CAPABILITIES) rest = None"
    by (auto simp: Let_def split: option.splits if_splits)
  then have "may_use p st" using 2(3) by (auto simp: may_use_def list_ex_iff list_all_iff IMPLICIT_CAPABILITIES_def)
  then show ?case using 2 s by auto
qed simp

lemma check_principal_None: "check_principal (Some p) k = None \<Longrightarrow> list_all (principal_can p) (sk_requires k)"
  by (auto simp: check_principal_def Let_def filter_empty_conv list_all_iff split: if_splits)

text \<open>
  C24. What an import lets in: every step of the skill, at every depth, uses a primitive of the
  whitelist with arguments that primitive takes, and needs a capability the importing person holds (or only the files of the
  job); and the report asks for approval exactly when some step is a power action.
\<close>
theorem imported_skill_is_allowed:
  assumes "import_skill pd data (Some p) src = Inr r"
  shows "all_steps (\<lambda>st. listed_step st \<and> may_use p st) (sk_steps (ir_skill r)) \<and>
    ir_needs_approval r = list_ex (\<lambda>(_, st). power_step (ss_primitive st) (ss_args st)) (walk (sk_steps (ir_skill r)))"
proof -
  obtain k risks where k: "parse_skill pd src data = Inr k" "check_needs src (sk_requires k @ IMPLICIT_CAPABILITIES) (walk (sk_steps k)) = None"
      "check_principal (Some p) k = None" "sum_list_of (\<lambda>(_, st). step_risk st) (walk (sk_steps k)) = Inr risks" "r = report_of k risks"
    using assms by (auto simp: import_skill_def split: sum.splits option.splits)
  have "list_all (\<lambda>(_, st). may_use p st) (walk (sk_steps k))"
    using k(2) check_principal_None [OF k(3)] by (rule check_needs_None)
  then have "all_steps (may_use p) (sk_steps k)" unfolding walk_def all_steps_walk [of _ _ "''steps''" 0] .
  then have "all_steps (\<lambda>st. listed_step st \<and> may_use p st) (sk_steps k)"
    using parse_skill_listed(1) [OF k(1)] by (rule all_steps_conj [rotated])
  moreover have "max_risk risks = Destructive \<longleftrightarrow> list_ex (\<lambda>(_, st). power_step (ss_primitive st) (ss_args st)) (walk (sk_steps k))"
    unfolding max_risk_destructive list_all2_set(1) [OF k(4) [unfolded sum_list_of_Inr]]
    by (force simp: list_ex_iff step_risk_def skill_risk_destructive)
  ultimately show ?thesis using k(5) by (simp add: report_of_def Let_def ir_needs_approval_def)
qed


section \<open>Texts without placeholders\<close>

lemma placeholder_plain: "CHR ''{'' \<notin> set s \<Longrightarrow> placeholder_at s = None"
  by (auto simp: placeholder_at_def split: list.splits)

lemma tokens_plain: "CHR ''{'' \<notin> set s \<Longrightarrow> tokens s = map Text s"
proof (induction s)
  case Nil
  then show ?case by (simp add: tokens.simps [of "[]"] placeholder_plain)
next
  case (Cons c s)
  then show ?case by (simp add: tokens.simps [of "c # s"] placeholder_plain)
qed

lemma substitute_plain: "substitute ctx src (map Text s) = Inr s"
  by (induction s) simp_all

lemma render_plain: "CHR ''{'' \<notin> set s \<Longrightarrow> render s ctx src = Inr (JStr s)"
proof -
  assume s: "CHR ''{'' \<notin> set s"
  then have "CHR ''{'' \<notin> set (py_strip s)" using set_py_strip [of s] by blast
  then show ?thesis using s by (simp add: render_def placeholder_plain tokens_plain substitute_plain)
qed

lemma render_items_get:
  assumes "render_items ctx src kvs = Inr kvs'"
  shows "map fst kvs' = map fst kvs" "map_of kvs key = Some v \<Longrightarrow> \<exists>v'. map_of kvs' key = Some v' \<and> render_value ctx src v = Inr v'"
  using assms by (induction kvs arbitrary: kvs') (auto simp: map_sum_Inr split: sum.splits if_splits)

text \<open>The action of a Redfish step is one of the listed words, so no rendering changes it.\<close>

definition action_plain :: "string \<Rightarrow> (string, json) dict \<Rightarrow> bool" where
  "action_plain primitive args \<longleftrightarrow> (primitive = ''redfish'' \<longrightarrow> (\<exists>a\<in>set REDFISH_ACTIONS. map_of args ''action'' = Some (JStr a)))"

lemma REDFISH_ACTIONS_plain: "a \<in> set REDFISH_ACTIONS \<Longrightarrow> CHR ''{'' \<notin> set a \<and> is_lower (hd a)"
  by (auto simp: REDFISH_ACTIONS_def REDFISH_SAFE_ACTIONS_def REDFISH_DESTRUCTIVE_ACTIONS_def is_lower_def)

lemma action_text_plain:
  assumes "py_str v \<in> set REDFISH_ACTIONS"
  shows "\<exists>a\<in>set REDFISH_ACTIONS. v = JStr a"
proof -
  have low: "is_lower (hd (py_str v))" using REDFISH_ACTIONS_plain [OF assms] by simp
  have digit_low: "\<not> is_lower (hd (show_nat n))" for n
  proof -
    have "is_digit (hd (show_nat n))" using show_nat_digits [of n] by (cases "show_nat n") simp_all
    then show ?thesis by (auto simp: is_digit_of_char is_lower_def less_eq_char_def)
  qed
  show ?thesis
  proof (cases v)
    case (JStr a)
    then show ?thesis using assms by (simp add: py_str_def)
  next
    case (JInt i)
    then show ?thesis using low digit_low by (auto simp: py_str_def show_int_def is_lower_def split: if_splits)
  qed (use low in \<open>auto simp: py_str_def is_lower_def split: if_splits\<close>)
qed

lemma listed_action_plain:
  assumes "listed_step st"
  shows "action_plain (ss_primitive st) (ss_args st)"
proof (cases "ss_primitive st = ''redfish''")
  case True
  obtain spec args where a: "map_of SKILL_PRIMITIVES (ss_primitive st) = Some spec" "args_ok spec args"
      "if sp_control spec then ss_args st = filter (\<lambda>(key, _). key \<noteq> ''then'' \<and> key \<noteq> ''else'') args \<and> ss_then st \<noteq> []
       else ss_args st = args \<and> ss_then st = [] \<and> ss_otherwise st = []"
    using assms unfolding listed_step_def by blast
  have "ss_args st = args" using a(3) skill_primitive_get(2) [OF a(1)] True by simp
  then have "py_str (arg_or_null (ss_args st) ''action'') \<in> set REDFISH_ACTIONS"
    using a(2) skill_primitive_get(1) [OF a(1)] True by (simp add: args_ok_def)
  then obtain act where "act \<in> set REDFISH_ACTIONS" "arg_or_null (ss_args st) ''action'' = JStr act"
    using action_text_plain by blast
  then show ?thesis unfolding action_plain_def arg_or_null_def by (auto split: option.splits)
qed (simp add: action_plain_def)

lemma render_keeps_action:
  assumes "render_items ctx src args = Inr args'" "action_plain primitive args"
  shows "action_plain primitive args' \<and> power_step primitive args' = power_step primitive args"
proof (cases "primitive = ''redfish''")
  case True
  then obtain a where a: "a \<in> set REDFISH_ACTIONS" "map_of args ''action'' = Some (JStr a)"
    using assms(2) by (auto simp: action_plain_def)
  then have "map_of args' ''action'' = Some (JStr a)"
    using render_items_get(2) [OF assms(1) a(2)] REDFISH_ACTIONS_plain [OF a(1)] by (auto simp: render_plain)
  then show ?thesis using a by (simp add: action_plain_def power_step_def arg_or_null_def)
qed (simp add: action_plain_def power_step_def)


section \<open>Compiled skills\<close>

text \<open>
  What the expander keeps: an invariant of its steps and ids that \<open>_emit\<close> keeps for every step
  with \<open>Q\<close>, and that does not look at the context.
\<close>

locale expander_law =
  fixes k :: skill and handles :: "string list" and I :: "expander \<Rightarrow> bool" and Q :: "skill_step \<Rightarrow> bool"
  assumes I_context: "I (set_context f x) \<longleftrightarrow> I x"
    and I_emit: "emit k handles st outer x = Inr x' \<Longrightarrow> Q st \<Longrightarrow> I x \<Longrightarrow> I x'"
begin

lemma loop_over_law:
  assumes "\<And>y y'. body y = Inr y' \<Longrightarrow> I y \<Longrightarrow> I y'"
  shows "loop_over body var i vs x = Inr x' \<Longrightarrow> I x \<Longrightarrow> I x'"
  using assms by (induction body var i vs x rule: loop_over.induct) (auto simp: I_context split: sum.splits)

lemma expand_law:
  "expand k' handles' outer sts x = Inr x' \<Longrightarrow> k' = k \<Longrightarrow> handles' = handles \<Longrightarrow> all_steps Q sts \<Longrightarrow> I x \<Longrightarrow> I x'"
  "expand_one k' handles' outer st x = Inr x' \<Longrightarrow> k' = k \<Longrightarrow> handles' = handles \<Longrightarrow> all_steps Q [st] \<Longrightarrow> I x \<Longrightarrow> I x'"
proof (induction k' handles' outer sts x and k' handles' outer st x arbitrary: x' and x' rule: expand_expand_one.induct)
  case (2 k' handles' outer st sts x)
  then show ?case by (cases st) (auto split: sum.splits if_splits)
next
  case (3 k' handles' outer p args sid w thens elses x)
  note kh = 3(7,8) and Q = 3(9) and start = 3(10)
  consider (late) "p = ''if''" "has_late_reference (JStr (py_str (arg_or_null args ''condition'')))"
    | (early) "p = ''if''" "\<not> has_late_reference (JStr (py_str (arg_or_null args ''condition'')))"
    | (loop) "p = ''foreach''" | (other) "p \<noteq> ''if''" "p \<noteq> ''foreach''" by blast
  then show ?case
  proof cases
    case late
    show ?thesis using 3(1) [OF late(1) refl late(2)] 3(2) [OF late(1) refl late(2)] 3(6) kh Q start late
      by (auto simp: Let_def split: sum.splits if_splits)
  next
    case early
    show ?thesis using 3(3) [OF early(1) refl early(2)] 3(4) [OF early(1) refl early(2)] 3(6) kh Q start early
      by (auto simp: Let_def split: sum.splits bool.splits if_splits)
  next
    case loop
    then obtain v items where v: "render_value (ex_context x) (step_source k' sid ''foreach'') (arg_or_null args ''items'') = Inr v"
        "loop_items (step_source k' sid ''foreach'') v = Inr items" using 3(6) by (auto split: sum.splits)
    obtain var y where y: "loop_over (\<lambda>y. expand k' handles' outer thens y) var 0 items x = Inr y" "\<exists>saved. x' = after_loop var saved y"
      using 3(6) loop v by (auto simp: Let_def map_sum_Inr)
    have "I y" using 3(5) loop v kh Q by (intro loop_over_law [OF _ y(1) start]) auto
    then show ?thesis using y(2) I_context by (auto simp: after_loop_def)
  next
    case other
    then show ?thesis using 3(6) kh Q start I_emit [of "SkillStep p args sid w thens elses" outer x x'] by simp
  qed
qed simp

lemmas expanded = expand_law(1) [OF _ refl refl]

end

lemma emit_Inr:
  assumes "emit k handles st outer x = Inr x'"
  obtains args r new where "render_items (ex_context x) (step_source k (ss_id st) (ss_primitive st)) (ss_args st) = Inr args"
    "skill_risk_of (ss_primitive st) args = Inr r" "step_ok new"
    "new = \<lparr>s_id = unique_id k (ss_id st) (ss_primitive st) (ex_used_ids x), s_n = int (length (ex_steps x)) + 1,
       s_primitive = ss_primitive st, s_title = step_title (ss_primitive st) args, s_args = args, s_risk = r, s_when = combine outer (ss_when st)\<rparr>"
    "x' = x\<lparr>ex_steps := ex_steps x @ [new], ex_used_ids := ex_used_ids x @ [s_id new],
       ex_secret_steps := (if carries_secret handles (JObj args) then ex_secret_steps x @ [s_id new] else ex_secret_steps x)\<rparr>"
  using assms by (auto simp: emit_def Let_def split: sum.splits if_splits)

lemma set_context_simps [simp]:
  "ex_steps (set_context f x) = ex_steps x" "ex_used_ids (set_context f x) = ex_used_ids x"
  "ex_secret_steps (set_context f x) = ex_secret_steps x"
  by (simp_all add: set_context_def)

text \<open>The numbered ids are distinct, so one of them is free.\<close>

lemma show_nat_inject: "show_nat a = show_nat b \<longleftrightarrow> a = b"
  by (metis nat_of_digits_show)

lemma distinct_candidates: "distinct (id_candidates base n)"
  by (auto simp: id_candidates_def distinct_map inj_on_def show_nat_inject)

lemma length_candidates: "length (id_candidates base n) = Suc n"
  by (simp add: id_candidates_def del: upt_Suc)

lemma find_None: "List.find P xs = None \<longleftrightarrow> (\<forall>x\<in>set xs. \<not> P x)"
  by (induction xs) auto

lemma unique_id_fresh: "unique_id k wanted primitive used \<notin> set used"
proof -
  have free: "\<exists>c\<in>set (id_candidates base (length used)). c \<notin> set used" for base
  proof (rule ccontr)
    assume "\<not> ?thesis"
    then have "card (set (id_candidates base (length used))) \<le> card (set used)" by (intro card_mono) auto
    then have "Suc (length used) \<le> length used"
      using distinct_card [OF distinct_candidates [of base "length used"]] card_length [of used] by (simp add: length_candidates)
    then show False by simp
  qed
  show ?thesis
    unfolding unique_id_def Let_def using free
    by (auto split: option.splits simp: find_None dest: find_Some_in)
qed

text \<open>The ids are the ids that are used, each once, and the steps are numbered.\<close>

definition ids_kept :: "expander \<Rightarrow> bool" where
  "ids_kept x \<longleftrightarrow> map s_id (ex_steps x) = ex_used_ids x \<and> distinct (ex_used_ids x) \<and> list_all step_ok (ex_steps x)
     \<and> map s_n (ex_steps x) = map int [1..<Suc (length (ex_steps x))]"

interpretation ids: expander_law k handles ids_kept "\<lambda>_. True"
  by unfold_locales (auto simp: ids_kept_def unique_id_fresh elim!: emit_Inr)

text \<open>A step has the risk of its arguments, is marked secret when it carries a handle, and its action is plain.\<close>

definition marks_kept :: "string list \<Rightarrow> expander \<Rightarrow> bool" where
  "marks_kept handles x \<longleftrightarrow> set (ex_secret_steps x) \<subseteq> set (ex_used_ids x) \<and> map s_id (ex_steps x) = ex_used_ids x \<and> distinct (ex_used_ids x) \<and>
     list_all (\<lambda>s. skill_risk_of (s_primitive s) (s_args s) = Inr (s_risk s) \<and> action_plain (s_primitive s) (s_args s) \<and>
       (carries_secret handles (JObj (s_args s)) \<longleftrightarrow> s_id s \<in> set (ex_secret_steps x))) (ex_steps x)"

lemma marks_emit:
  assumes e: "emit k handles st outer x = Inr x'" and st: "listed_step st" and x: "marks_kept handles x"
  shows "marks_kept handles x'"
  using e
proof (rule emit_Inr)
  fix args r new
  assume a: "render_items (ex_context x) (step_source k (ss_id st) (ss_primitive st)) (ss_args st) = Inr args"
    "skill_risk_of (ss_primitive st) args = Inr r"
    "new = \<lparr>s_id = unique_id k (ss_id st) (ss_primitive st) (ex_used_ids x), s_n = int (length (ex_steps x)) + 1,
       s_primitive = ss_primitive st, s_title = step_title (ss_primitive st) args, s_args = args, s_risk = r, s_when = combine outer (ss_when st)\<rparr>"
    "x' = x\<lparr>ex_steps := ex_steps x @ [new], ex_used_ids := ex_used_ids x @ [s_id new],
       ex_secret_steps := (if carries_secret handles (JObj args) then ex_secret_steps x @ [s_id new] else ex_secret_steps x)\<rparr>"
  have "action_plain (ss_primitive st) args" using render_keeps_action [OF a(1) listed_action_plain [OF st]] by simp
  moreover have fresh: "s_id new \<notin> set (ex_used_ids x)" using a(3) unique_id_fresh by simp
  moreover have "s_id s \<noteq> unique_id k (ss_id st) (ss_primitive st) (ex_used_ids x)" if "s \<in> set (ex_steps x)" for s
  proof -
    have "s_id s \<in> set (map s_id (ex_steps x))" using that by simp
    then show ?thesis using x fresh a(3) by (auto simp: marks_kept_def simp del: set_map)
  qed
  ultimately show ?thesis using x a(2,3) unfolding a(4) marks_kept_def by (auto simp: list_all_iff)
qed

interpretation marks: expander_law k handles "marks_kept handles" listed_step
  by unfold_locales (simp add: marks_kept_def, rule marks_emit)

text \<open>A power step of the plan comes from a power step of the skill.\<close>

definition power_from :: "bool \<Rightarrow> expander \<Rightarrow> bool" where
  "power_from A x \<longleftrightarrow> list_all (\<lambda>s. power_step (s_primitive s) (s_args s) \<longrightarrow> A) (ex_steps x)"

lemma power_emit:
  assumes e: "emit k handles st outer x = Inr x'" and st: "listed_step st \<and> (power_step (ss_primitive st) (ss_args st) \<longrightarrow> A)"
    and x: "power_from A x"
  shows "power_from A x'"
  using e
proof (rule emit_Inr)
  fix args r new
  assume a: "render_items (ex_context x) (step_source k (ss_id st) (ss_primitive st)) (ss_args st) = Inr args"
    "new = \<lparr>s_id = unique_id k (ss_id st) (ss_primitive st) (ex_used_ids x), s_n = int (length (ex_steps x)) + 1,
       s_primitive = ss_primitive st, s_title = step_title (ss_primitive st) args, s_args = args, s_risk = r, s_when = combine outer (ss_when st)\<rparr>"
    "x' = x\<lparr>ex_steps := ex_steps x @ [new], ex_used_ids := ex_used_ids x @ [s_id new],
       ex_secret_steps := (if carries_secret handles (JObj args) then ex_secret_steps x @ [s_id new] else ex_secret_steps x)\<rparr>"
  have "power_step (ss_primitive st) args = power_step (ss_primitive st) (ss_args st)"
    using render_keeps_action [OF a(1) listed_action_plain] st by blast
  then show ?thesis using x st a(2) unfolding a(3) power_from_def by simp
qed

interpretation powers: expander_law k handles "power_from A" "\<lambda>st. listed_step st \<and> (power_step (ss_primitive st) (ss_args st) \<longrightarrow> A)"
  by unfold_locales (simp add: power_from_def, rule power_emit)

lemma numbered_from_None: "map s_n ss = map int [n..<n + length ss] \<Longrightarrow> numbered_from (int n) ss = None"
proof (induction ss arbitrary: n)
  case (Cons s ss)
  then have "s_n s = int n" "map s_n ss = map int [Suc n..<Suc n + length ss]"
    by (simp_all add: upt_conv_Cons del: upt_Suc)
  then show ?case using Cons.IH [of "Suc n"] by (simp add: algebra_simps)
qed simp

lemma expand_length: "expand k handles outer sts x = Inr x' \<Longrightarrow> length (ex_steps x) \<le> MAX_STEPS \<Longrightarrow> length (ex_steps x') \<le> MAX_STEPS"
proof (induction sts arbitrary: x)
  case (Cons st sts)
  then show ?case by (auto split: sum.splits if_splits)
qed simp

definition fresh_expander :: "(string, json) dict \<Rightarrow> expander" where
  "fresh_expander ctx = \<lparr>ex_context = ctx, ex_steps = [], ex_secret_steps = [], ex_used_ids = []\<rparr>"

lemma compile_skill_Inr:
  assumes "compile_skill k inputs job_id now = Inr c"
  obtains ctx handles x where "bind_inputs k inputs = Inr (ctx, handles)" "expand k (map snd handles) None (sk_steps k) (fresh_expander ctx) = Inr x"
    "p_steps (cs_plan c) = ex_steps x" "plan_validate (cs_plan c) = Inr (cs_plan c)" "p_job_id (cs_plan c) = job_id"
    "cs_secret_steps c = ex_secret_steps x" "cs_secret_handles c = handles"
proof -
  obtain ctx handles x where e: "bind_inputs k inputs = Inr (ctx, handles)" "expand k (map snd handles) None (sk_steps k) (fresh_expander ctx) = Inr x"
    using assms by (auto simp: compile_skill_def fresh_expander_def split: sum.splits)
  let ?p = "\<lparr>p_id = ''skill-'' @ sk_id k @ ''-'' @ skill_digest k (ex_context x), p_job_id = job_id,
    p_summary = sk_name k @ '' v'' @ sk_version k, p_steps = ex_steps x, p_created_at = now\<rparr>"
  obtain p where p: "plan_validate ?p = Inr p" and c: "cs_plan c = p" "cs_secret_steps c = ex_secret_steps x" "cs_secret_handles c = handles"
    using assms e by (auto simp: compile_skill_def fresh_expander_def split: sum.splits option.splits)
  have "p = ?p" using p plan_validate_Inr(1) by blast
  then show thesis using that [OF e] p c by simp
qed

lemma compiled_marks:
  assumes "parse_skill pd src data = Inr k" "compile_skill k inputs job_id now = Inr c"
  shows "list_all (\<lambda>s. skill_risk_of (s_primitive s) (s_args s) = Inr (s_risk s) \<and> action_plain (s_primitive s) (s_args s) \<and>
    (carries_secret (map snd (cs_secret_handles c)) (JObj (s_args s)) \<longleftrightarrow> s_id s \<in> set (cs_secret_steps c))) (p_steps (cs_plan c))"
proof -
  obtain ctx handles x where c: "expand k (map snd handles) None (sk_steps k) (fresh_expander ctx) = Inr x"
      "p_steps (cs_plan c) = ex_steps x" "cs_secret_steps c = ex_secret_steps x" "cs_secret_handles c = handles"
    using assms(2) by (rule compile_skill_Inr)
  have "marks_kept (map snd handles) x"
    using parse_skill_listed(1) [OF assms(1)] by (rule marks.expanded [OF c(1)]) (simp add: marks_kept_def fresh_expander_def)
  then show ?thesis unfolding c(2,3,4) marks_kept_def by blast
qed

text \<open>
  C23. A compiled skill is a plan a person can rely on: the schema accepts it; a step is marked
  destructive, so that it needs an approval, exactly when its action is a power action; a step is
  in the list of secret steps exactly when its arguments carry a handle; and if the plan has a destructive step, the import of the
  skill said so.
\<close>
theorem compiled_skill_marks_its_steps:
  assumes "parse_skill pd src data = Inr k" "compile_skill k inputs job_id now = Inr c"
  shows "plan_validate (cs_plan c) = Inr (cs_plan c) \<and> p_job_id (cs_plan c) = job_id \<and>
    list_all (\<lambda>s. needs_approval s = power_step (s_primitive s) (s_args s)) (p_steps (cs_plan c)) \<and>
    list_all (\<lambda>s. (s_id s \<in> set (cs_secret_steps c)) = carries_secret (map snd (cs_secret_handles c)) (JObj (s_args s))) (p_steps (cs_plan c)) \<and>
    (destructive (cs_plan c) \<longrightarrow> list_ex (\<lambda>(_, st). power_step (ss_primitive st) (ss_args st)) (walk (sk_steps k)))"
proof -
  obtain ctx handles x where c: "expand k (map snd handles) None (sk_steps k) (fresh_expander ctx) = Inr x"
      "p_steps (cs_plan c) = ex_steps x" "plan_validate (cs_plan c) = Inr (cs_plan c)" "p_job_id (cs_plan c) = job_id"
      "cs_secret_steps c = ex_secret_steps x" "cs_secret_handles c = handles"
    using assms(2) by (rule compile_skill_Inr)
  have listed: "all_steps listed_step (sk_steps k)" using assms(1) by (rule parse_skill_listed)
  let ?A = "list_ex (\<lambda>(_, st). power_step (ss_primitive st) (ss_args st)) (walk (sk_steps k))"
  note m = compiled_marks [OF assms, unfolded c(2,5,6)]
  have "list_all (\<lambda>(_, st). power_step (ss_primitive st) (ss_args st) \<longrightarrow> ?A) (walk (sk_steps k))" by (auto simp: list_all_iff list_ex_iff)
  then have "all_steps (\<lambda>st. power_step (ss_primitive st) (ss_args st) \<longrightarrow> ?A) (sk_steps k)"
    unfolding all_steps_walk [of _ _ "''steps''" 0] walk_def .
  with listed have "all_steps (\<lambda>st. listed_step st \<and> (power_step (ss_primitive st) (ss_args st) \<longrightarrow> ?A)) (sk_steps k)" by (rule all_steps_conj)
  then have p: "power_from ?A x"
    by (rule powers.expanded [OF c(1)]) (simp add: power_from_def fresh_expander_def)
  have need: "needs_approval s = power_step (s_primitive s) (s_args s)" if "s \<in> set (ex_steps x)" for s
    using m that skill_risk_destructive [of "s_primitive s" "s_args s"]
    by (auto simp: list_all_iff needs_approval_def)
  have "destructive (cs_plan c) \<longrightarrow> ?A"
    using p need unfolding power_from_def destructive_def c(2) by (auto simp: list_all_iff list_ex_iff)
  then show ?thesis using c(3,4) m need unfolding c(2,5,6) by (auto simp: list_all_iff)
qed


section \<open>Secrets\<close>

text \<open>The same inputs, except that secret ones may have other values.\<close>

definition is_secret_input :: "skill \<Rightarrow> string \<Rightarrow> bool" where
  "is_secret_input k name \<longleftrightarrow> list_all (\<lambda>(n, spec). n = name \<longrightarrow> in_type spec = ISecret) (sk_inputs k)"

definition same_but_secrets :: "skill \<Rightarrow> (string, json) dict \<Rightarrow> (string, json) dict \<Rightarrow> bool" where
  "same_but_secrets k given given' \<longleftrightarrow>
     list_all2 (\<lambda>(n, v) (n', v'). n = n' \<and> (v = v' \<or> is_secret_input k n \<and> v \<noteq> JNull \<and> v' \<noteq> JNull)) given given'"

lemma same_but_secrets_keys: "same_but_secrets k given given' \<Longrightarrow> map fst given = map fst given'"
  unfolding same_but_secrets_def by (induction rule: list_all2_induct) auto

lemma same_but_secrets_get:
  assumes "same_but_secrets k given given'"
  shows "given_value given n = given_value given' n \<or>
    is_secret_input k n \<and> given_value given n \<noteq> None \<and> given_value given' n \<noteq> None"
  using assms unfolding same_but_secrets_def
  by (induction rule: list_all2_induct) (auto simp: given_value_def split: json.splits)

lemma bind_each_secrets:
  assumes "same_but_secrets k given given'" "set specs \<subseteq> set (sk_inputs k)"
  shows "bind_each k given specs ctx handles missing = bind_each k given' specs ctx handles missing"
  using assms(2)
proof (induction specs arbitrary: ctx handles missing)
  case (Cons ns specs)
  obtain n spec where ns: "ns = (n, spec)" by fastforce
  have "is_secret_input k n \<Longrightarrow> in_type spec = ISecret" using Cons.prems ns by (auto simp: is_secret_input_def list_all_iff)
  then have "in_type spec = ISecret \<and> (given_value given n = None \<longleftrightarrow> given_value given' n = None) \<or> given_value given n = given_value given' n"
    using same_but_secrets_get [OF assms(1), of n] by auto
  moreover have "set specs \<subseteq> set (sk_inputs k)" using Cons.prems by simp
  ultimately show ?case unfolding ns using Cons.IH by (auto split: option.splits sum.splits)
qed simp

text \<open>
  C22. No secret reaches a compiled skill: with other values for its secret inputs the compiler gives the same
  answer, plan, handles and errors included.
\<close>
theorem compiled_skill_has_no_secrets:
  assumes "same_but_secrets k given given'"
  shows "compile_skill k given job_id now = compile_skill k given' job_id now"
proof -
  have "bind_inputs k given = bind_inputs k given'"
    unfolding bind_inputs_def same_but_secrets_keys [OF assms] bind_each_secrets [OF assms order_refl] by (rule refl)
  then show ?thesis by (simp add: compile_skill_def)
qed


section \<open>Runs\<close>

fun called_step :: "run_call \<Rightarrow> step option" where
  "called_step (ExecCall st) = Some st"
| "called_step (ScreenCall st _) = Some st"
| "called_step (ScreenShot _) = None"

text \<open>A dispatch writes no journal and calls for its own step only.\<close>

definition dispatched :: "step \<Rightarrow> 'w skill_run_state \<Rightarrow> 'w skill_run_state \<Rightarrow> bool" where
  "dispatched st s s' \<longleftrightarrow> rs_journal s' = rs_journal s \<and>
     extends rs_calls (\<lambda>(c, j). called_step c = Some st \<and> j = rs_journal s) s s'"

interpretation dispatched: effect_order "dispatched st"
proof unfold_locales
  show "dispatched st s s" for s :: "'a skill_run_state" by (simp add: dispatched_def extends.R_refl)
  show "dispatched st s u" if "dispatched st s t" "dispatched st t u" for s t u :: "'a skill_run_state"
    using that unfolding dispatched_def by (auto intro: extends.R_trans)
qed

lemma dispatched_same: "rs_journal s' = rs_journal s \<Longrightarrow> rs_calls s' = rs_calls s \<Longrightarrow> dispatched st s s'"
  by (simp add: dispatched_def extends_same)

lemma dispatched_execute: "steps (dispatched st) (call_execute R st ctx) (\<lambda>_. True)"
  by (simp add: steps_def call_execute_def dispatched_def extends_def Let_def split: prod.splits sum.splits)

lemma dispatched_screen: "called_step c = Some st \<Longrightarrow> steps (dispatched st) (call_screen screen c call) (\<lambda>_. True)"
  by (simp add: steps_def call_screen_def dispatched_def extends_def Let_def split: prod.splits)

lemma dispatched_sleep: "steps (dispatched st) (r_sleep t) (\<lambda>_. True)"
  unfolding r_sleep_def by (rule dispatched.steps_modify) (simp_all add: dispatched_same)

lemma dispatch_dispatched: "steps (dispatched st) (dispatch R st ctx) (\<lambda>_. True)"
  unfolding dispatch_def screen_step_def Let_def
  by (auto intro!: dispatched.steps_rules dispatched_execute dispatched_screen dispatched_sleep split: option.splits sum.splits)

text \<open>
  A call is allowed when it is for a step of the plan that needs no approval or has one, with
  its arguments rendered, and the last thing in the journal is the intent of that step.
\<close>

definition allowed_call :: "step list \<Rightarrow> string list \<Rightarrow> run_call \<times> run_entry list \<Rightarrow> bool" where
  "allowed_call plan approved = (\<lambda>(c, j). case called_step c of None \<Rightarrow> True
     | Some st' \<Rightarrow> (\<exists>st\<in>set plan. (needs_approval st \<longrightarrow> s_id st \<in> set approved) \<and> st' = st\<lparr>s_args := s_args st'\<rparr> \<and>
           (\<exists>ctx src. render_items ctx src (s_args st) = Inr (s_args st'))) \<and>
         (\<exists>args n. j \<noteq> [] \<and> last j = RIntent (s_id st') (s_primitive st') args n))"

definition calls_allowed :: "step list \<Rightarrow> string list \<Rightarrow> 'w skill_run_state \<Rightarrow> 'w skill_run_state \<Rightarrow> bool" where
  "calls_allowed plan approved = extends rs_calls (allowed_call plan approved)"

interpretation allowed: effect_order "calls_allowed plan approved"
  unfolding calls_allowed_def by (rule extends.effect_order_axioms)

lemma allowed_append: "steps (calls_allowed plan approved) (r_append e) (\<lambda>_. True)"
  unfolding r_append_def by (rule allowed.steps_modify) (simp_all add: calls_allowed_def extends_same)

lemma allowed_metric: "steps (calls_allowed plan approved) (r_metric k r) (\<lambda>_. True)"
  unfolding r_metric_def by (rule allowed.steps_modify) (simp_all add: calls_allowed_def extends_same)

lemma allowed_sleep: "steps (calls_allowed plan approved) (r_sleep t) (\<lambda>_. True)"
  unfolding r_sleep_def by (rule allowed.steps_modify) (simp_all add: calls_allowed_def extends_same)

lemma allowed_shot: "steps (calls_allowed plan approved) (call_screen screen (ScreenShot n) call) (\<lambda>_. True)"
  by (simp add: steps_def call_screen_def calls_allowed_def extends_def allowed_call_def Let_def split: prod.splits)

lemma allowed_failed: "steps (calls_allowed plan approved) (failed_run R st m n shots policy ctx) (\<lambda>_. True)"
  unfolding failed_run_def
  by (auto intro!: allowed.steps_rules allowed_shot split: option.splits sum.splits)

lemma allowed_dispatch:
  assumes "st \<in> set plan" "needs_approval st \<longrightarrow> s_id st \<in> set approved" "render_items ctx src (s_args st) = Inr args"
  shows "steps (calls_allowed plan approved)
    (bind (r_append (RIntent (s_id st) (s_primitive st) shown n)) (\<lambda>_. dispatch R (st\<lparr>s_args := args\<rparr>) ctx')) (\<lambda>_. True)"
proof (rule stepsI)
  fix s :: "'a skill_run_state"
  let ?e = "RIntent (s_id st) (s_primitive st) shown n"
  let ?s = "s\<lparr>rs_journal := rs_journal s @ [?e]\<rparr>"
  let ?t = "snd (dispatch R (st\<lparr>s_args := args\<rparr>) ctx' ?s)"
  have "dispatched (st\<lparr>s_args := args\<rparr>) ?s ?t" using dispatch_dispatched unfolding steps_def by blast
  then obtain new where new: "rs_calls ?t = rs_calls s @ new"
      "list_all (\<lambda>(c, j). called_step c = Some (st\<lparr>s_args := args\<rparr>) \<and> j = rs_journal s @ [?e]) new"
    by (auto simp: dispatched_def extends_def)
  have "allowed_call plan approved (c, j)" if "called_step c = Some (st\<lparr>s_args := args\<rparr>)" "j = rs_journal s @ [?e]" for c j
    using that assms by (auto simp: allowed_call_def intro!: bexI [of _ st])
  then have "list_all (allowed_call plan approved) new" using new(2) by (auto simp: list_all_iff)
  then show "calls_allowed plan approved s (snd (bind (r_append ?e) (\<lambda>_. dispatch R (st\<lparr>s_args := args\<rparr>) ctx') s))"
    using new(1) by (auto simp: calls_allowed_def extends_def bind_def r_append_def modify_def)
qed simp

lemma allowed_attempt:
  assumes "st \<in> set plan" "needs_approval st \<longrightarrow> s_id st \<in> set approved" "render_items ctx src (s_args st) = Inr args"
    and "\<And>x. steps (calls_allowed plan approved) (k x) (\<lambda>_. True)"
  shows "steps (calls_allowed plan approved)
    (bind (r_append (RIntent (s_id st) (s_primitive st) shown n)) (\<lambda>_. bind (dispatch R (st\<lparr>s_args := args\<rparr>) ctx') k)) (\<lambda>_. True)"
  unfolding bind_assoc [symmetric] by (rule allowed.steps_bind_any [OF allowed_dispatch [OF assms(1-3)] assms(4)])

lemma allowed_perform:
  assumes "st \<in> set plan" "needs_approval st \<longrightarrow> s_id st \<in> set approved"
  shows "steps (calls_allowed plan approved) (perform_loop R policy masked st left n shots ctx) (\<lambda>_. True)"
proof (cases "render_items ctx (''step '' @ s_id st) (s_args st)")
  case (Inl m)
  then show ?thesis by (simp add: perform_loop.simps [of _ _ _ _ left] allowed_failed)
next
  case (Inr args)
  note rules = allowed_failed allowed.steps_bind_any [OF allowed_append] allowed.steps_bind_any [OF allowed_sleep] allowed.steps_ret
  show ?thesis
  proof (induction left arbitrary: n shots)
    case 0
    show ?case
      unfolding perform_loop.simps [of _ _ _ _ 0] Inr sum.case
      by (rule allowed_attempt [OF assms Inr]) (auto intro!: rules simp: Let_def)
  next
    case (Suc left)
    show ?case
      unfolding perform_loop.simps [of _ _ _ _ "Suc left"] Inr sum.case
      by (rule allowed_attempt [OF assms Inr]) (auto intro!: rules Suc simp: Let_def)
  qed
qed

lemma allowed_run_loop:
  "set sts \<subseteq> set plan \<Longrightarrow> steps (calls_allowed plan approved) (run_loop R c approved sts runs ctx) (\<lambda>_. True)"
proof (induction sts arbitrary: runs ctx)
  case (Cons st sts)
  then show ?case
    by (auto intro!: allowed.steps_rules allowed_append allowed_metric allowed_perform simp: perform_step_def)
qed (simp add: allowed.steps_ret)

lemma run_skill_allowed: "steps (calls_allowed (p_steps (cs_plan c)) approved) (run_skill R c approved ctx) (\<lambda>_. True)"
  unfolding run_skill_def Let_def
  by (auto intro!: allowed.steps_rules allowed_metric allowed_run_loop split: prod.splits)

text \<open>
  C21. From the skill file to the machine: whatever the outputs of earlier steps put into the arguments,
  a run of a compiled skill asks the executor for a power action only for a step that was
  approved for this run, and every call for a step is made right after the intent of that step was journaled.
\<close>
theorem power_action_needs_approval:
  assumes "parse_skill pd src data = Inr k" "compile_skill k inputs job_id now = Inr c"
  shows "\<exists>new. rs_calls (snd (run_skill R c approved ctx s)) = rs_calls s @ new \<and>
    list_all (\<lambda>(call, journal). case called_step call of None \<Rightarrow> True
      | Some st \<Rightarrow> (power_step (s_primitive st) (s_args st) \<longrightarrow> s_id st \<in> set approved) \<and>
          (\<exists>args n. journal \<noteq> [] \<and> last journal = RIntent (s_id st) (s_primitive st) args n)) new"
proof -
  obtain new where new: "rs_calls (snd (run_skill R c approved ctx s)) = rs_calls s @ new"
      "list_all (allowed_call (p_steps (cs_plan c)) approved) new"
    using run_skill_allowed [of c approved R ctx] unfolding steps_def calls_allowed_def extends_def by blast
  have marks: "needs_approval st = power_step (s_primitive st) (s_args st) \<and> action_plain (s_primitive st) (s_args st)"
    if "st \<in> set (p_steps (cs_plan c))" for st
    using compiled_marks [OF assms] that skill_risk_destructive [of "s_primitive st" "s_args st"]
    by (auto simp: list_all_iff needs_approval_def)
  have "power_step (s_primitive st) (s_args st) \<longrightarrow> s_id st \<in> set approved"
    if "allowed_call (p_steps (cs_plan c)) approved (call, j)" "called_step call = Some st" for call j st
  proof -
    note call = that
    obtain st0 ctx src where st0: "st0 \<in> set (p_steps (cs_plan c))" "needs_approval st0 \<longrightarrow> s_id st0 \<in> set approved"
        "st = st0\<lparr>s_args := s_args st\<rparr>" "render_items ctx src (s_args st0) = Inr (s_args st)"
      using call by (auto simp: allowed_call_def)
    have same: "s_primitive st = s_primitive st0" "s_id st = s_id st0" 
      using arg_cong [OF st0(3), of s_primitive] arg_cong [OF st0(3), of s_id] by simp_all
    have "power_step (s_primitive st0) (s_args st) = power_step (s_primitive st0) (s_args st0)"
      using render_keeps_action [OF st0(4)] marks [OF st0(1)] by blast
    then show ?thesis using marks [OF st0(1)] st0(2) same by simp
  qed
  then have "case called_step call of None \<Rightarrow> True
      | Some st \<Rightarrow> (power_step (s_primitive st) (s_args st) \<longrightarrow> s_id st \<in> set approved) \<and>
          (\<exists>args n. journal \<noteq> [] \<and> last journal = RIntent (s_id st) (s_primitive st) args n)"
    if "allowed_call (p_steps (cs_plan c)) approved (call, journal)" for call journal
    using that by (cases "called_step call") (simp_all add: allowed_call_def)
  then show ?thesis using new unfolding list_all_iff by (intro exI [of _ new] conjI) auto
qed


section \<open>Instances, and what the code also does\<close>

text \<open>The validation of the plan rejects no expansion but the empty one.\<close>

lemma compile_skill_returns:
  assumes "bind_inputs k inputs = Inr (ctx, handles)" "expand k (map snd handles) None (sk_steps k) (fresh_expander ctx) = Inr x"
    "ex_steps x \<noteq> []" "missing_output k (ex_steps x) = None" "job_id \<noteq> []"
  shows "\<exists>c. compile_skill k inputs job_id now = Inr c \<and> p_steps (cs_plan c) = ex_steps x"
proof -
  have all: "all_steps (\<lambda>_. True) ss" for ss by (induction "\<lambda>_::skill_step. True" ss rule: all_steps.induct) auto
  have i: "ids_kept x" using all by (rule ids.expanded [OF assms(2)]) (simp add: ids_kept_def fresh_expander_def)
  then have "numbered_from 1 (ex_steps x) = None"
    using numbered_from_None [of "ex_steps x" 1] by (simp add: ids_kept_def del: upt_Suc)
  moreover have "length (ex_steps x) \<le> MAX_STEPS" using expand_length [OF assms(2)] by (simp add: fresh_expander_def)
  ultimately show ?thesis
    using assms i unfolding fresh_expander_def by (simp add: compile_skill_def plan_validate_def ids_kept_def)
qed

definition sample_pydantic :: pydantic where
  "sample_pydantic = \<lparr>pd_head = (\<lambda>_. Inr \<lparr>sk_id = ''power'', sk_name = ''Power'', sk_version = ''1.0.0'', sk_description = [], sk_agents = [Validation],
      sk_timeout_s = 900, sk_inputs = [(''target'', \<lparr>in_type = ITarget_ref, in_required = True, in_default = JNull, in_description = []\<rparr>),
        (''password'', \<lparr>in_type = ISecret, in_required = True, in_default = JNull, in_description = []\<rparr>)],
      sk_on_failure = OnStop, sk_outputs = [], sk_sop_summary = None\<rparr>), pd_sentence = (\<lambda>f. f)\<rparr>"

definition sample_file :: json where
  "sample_file = JObj [(''skill'', JObj [(''requires'', JList [JStr ''redfish'', JStr ''ssh'']), (''steps'', JList
     [JObj [(''ssh'', JObj [(''target'', JStr ''{{ target }}''), (''command'', JList [JStr ''login'', JStr ''{{ password }}''])])],
      JObj [(''redfish'', JObj [(''target'', JStr ''{{ target }}''), (''action'', JStr ''power_off'')]), (''id'', JStr ''off'')]])])]"

definition sample_person :: principal where
  "sample_person = \<lparr>pr_subject = ''u1'', pr_display_name = ''Ann'', pr_role = ''engineer'', pr_role_label = ''Engineer'',
     pr_capabilities = [Redfish, Ssh], pr_is_system = False\<rparr>"

definition power_skill :: skill where
  "power_skill = projr (parse_skill sample_pydantic ''power.yaml'' sample_file)"

lemma power_skill_parsed: "parse_skill sample_pydantic ''power.yaml'' sample_file = Inr power_skill"
proof -
  have "isl (parse_skill sample_pydantic ''power.yaml'' sample_file) = False" by code_simp
  then show ?thesis unfolding power_skill_def by (cases "parse_skill sample_pydantic ''power.yaml'' sample_file") simp_all
qed

definition sample_inputs :: "string \<Rightarrow> (string, json) dict" where
  "sample_inputs password = [(''target'', JStr ''lab-1''), (''password'', JStr password)]"

lemma sample_expands:
  "case bind_inputs power_skill (sample_inputs ''pw'') of Inl _ \<Rightarrow> False
   | Inr (ctx, handles) \<Rightarrow> (case expand power_skill (map snd handles) None (sk_steps power_skill) (fresh_expander ctx) of Inl _ \<Rightarrow> False
     | Inr x \<Rightarrow> map s_id (ex_steps x) = [''power-ssh'', ''off''] \<and> missing_output power_skill (ex_steps x) = None \<and>
         list_ex needs_approval (ex_steps x))"
  by code_simp

lemma sample_compiled:
  obtains c where "compile_skill power_skill (sample_inputs ''pw'') ''job-1'' 0 = Inr c" "map s_id (p_steps (cs_plan c)) = [''power-ssh'', ''off'']"
    "destructive (cs_plan c)"
proof -
  obtain ctx handles where b: "bind_inputs power_skill (sample_inputs ''pw'') = Inr (ctx, handles)"
    using sample_expands by (cases "bind_inputs power_skill (sample_inputs ''pw'')") auto
  then obtain x where x: "expand power_skill (map snd handles) None (sk_steps power_skill) (fresh_expander ctx) = Inr x"
      "map s_id (ex_steps x) = [''power-ssh'', ''off'']" "missing_output power_skill (ex_steps x) = None" "list_ex needs_approval (ex_steps x)"
    using sample_expands by (cases "expand power_skill (map snd handles) None (sk_steps power_skill) (fresh_expander ctx)") auto
  have "ex_steps x \<noteq> []" using x(2) by auto
  then obtain c where "compile_skill power_skill (sample_inputs ''pw'') ''job-1'' 0 = Inr c" "p_steps (cs_plan c) = ex_steps x"
    using compile_skill_returns [OF b x(1) _ x(3), of "''job-1''" 0] by auto
  then show thesis using that x by (simp add: destructive_def)
qed

theorem imported_skill_is_allowed_witness:
  "\<exists>r. import_skill sample_pydantic sample_file (Some sample_person) ''power.yaml'' = Inr r \<and> ir_needs_approval r \<and>
     all_steps (may_use sample_person) (sk_steps (ir_skill r))"
proof -
  have i: "case import_skill sample_pydantic sample_file (Some sample_person) ''power.yaml'' of Inl _ \<Rightarrow> False | Inr r \<Rightarrow> ir_needs_approval r"
    by code_simp
  then obtain r where r: "import_skill sample_pydantic sample_file (Some sample_person) ''power.yaml'' = Inr r" "ir_needs_approval r"
    by (auto split: sum.splits)
  have "all_steps (\<lambda>st. listed_step st \<and> may_use sample_person st) (sk_steps (ir_skill r))"
    using imported_skill_is_allowed [OF r(1)] by (rule conjunct1)
  then have "all_steps (may_use sample_person) (sk_steps (ir_skill r))" by (rule all_steps_mono) (rule conjunct2)
  with r show ?thesis by blast
qed

theorem compiled_skill_marks_its_steps_witness:
  "\<exists>c. compile_skill power_skill (sample_inputs ''pw'') ''job-1'' 0 = Inr c \<and> map s_id (p_steps (cs_plan c)) = [''power-ssh'', ''off''] \<and>
     list_all (\<lambda>s. needs_approval s = power_step (s_primitive s) (s_args s)) (p_steps (cs_plan c))"
proof -
  obtain c where c: "compile_skill power_skill (sample_inputs ''pw'') ''job-1'' 0 = Inr c" "map s_id (p_steps (cs_plan c)) = [''power-ssh'', ''off'']"
    by (rule sample_compiled)
  have "list_all (\<lambda>s. needs_approval s = power_step (s_primitive s) (s_args s)) (p_steps (cs_plan c))"
    using compiled_skill_marks_its_steps [OF power_skill_parsed c(1)] by (elim conjE)
  with c show ?thesis by (intro exI [of _ c] conjI)
qed

theorem compiled_skill_has_no_secrets_witness:
  "compile_skill power_skill (sample_inputs ''pw'') ''job-1'' 0 = compile_skill power_skill (sample_inputs ''hunter2'') ''job-1'' 0"
proof (rule compiled_skill_has_no_secrets)
  have "is_secret_input power_skill ''password''" by code_simp
  then show "same_but_secrets power_skill (sample_inputs ''pw'') (sample_inputs ''hunter2'')"
    by (simp add: same_but_secrets_def sample_inputs_def)
qed

definition idle_runner :: "unit runner" where
  "idle_runner = \<lparr>rn_execute = (\<lambda>st ctx w. (Inr (outcome_of True ''done''), w)), rn_screen = None\<rparr>"

definition idle_state :: "unit skill_run_state" where
  "idle_state = \<lparr>rs_world = (), rs_journal = [], rs_calls = [], rs_slept = [], rs_metrics = []\<rparr>"

theorem power_action_needs_approval_witness:
  "\<exists>c. compile_skill power_skill (sample_inputs ''pw'') ''job-1'' 0 = Inr c \<and> destructive (cs_plan c) \<and>
     list_all (\<lambda>(call, journal). case called_step call of None \<Rightarrow> True | Some st \<Rightarrow> \<not> power_step (s_primitive st) (s_args st))
       (rs_calls (snd (run_skill idle_runner c [] [] idle_state)))"
proof -
  obtain c where c: "compile_skill power_skill (sample_inputs ''pw'') ''job-1'' 0 = Inr c" "destructive (cs_plan c)"
    by (rule sample_compiled)
  have "list_all (\<lambda>(call, journal). case called_step call of None \<Rightarrow> True | Some st \<Rightarrow> \<not> power_step (s_primitive st) (s_args st))
      (rs_calls (snd (run_skill idle_runner c [] [] idle_state)))"
    using power_action_needs_approval [OF power_skill_parsed c(1), of idle_runner "[]" "[]" idle_state]
    by (auto simp: idle_state_def list_all_iff split: option.splits)
  with c show ?thesis by blast
qed

text \<open>
  The condition language has no \<open>not\<close> and no \<open>and\<close>, but the compiler writes both: the condition of an
  \<open>else\<close> branch that depends on an earlier step is a text that counts as true, so both branches run.
\<close>

lemma both_branches_run:
  "let ctx = [(''steps'', JObj [(''a'', JObj [(''ok'', JBool True)])])]; branch = [SkillStep ''wait'' [(''seconds'', JInt 1)] None None [] []];
       st = SkillStep ''if'' [(''condition'', JStr ''{{ steps.a.ok }}'')] None None branch branch
   in case expand power_skill [] None [st] (fresh_expander []) of
        Inl _ \<Rightarrow> False
      | Inr x \<Rightarrow> map (\<lambda>s. (s_when s, skips s ctx)) (ex_steps x) = [(Some ''{{ steps.a.ok }}'', False), (Some ''not {{ steps.a.ok }}'', False)]"
  by code_simp

text \<open>A title of more than 200 characters is a bare \<open>ValidationError\<close>, which the gate does not turn into a message.\<close>

lemma long_text_raises_validation_error:
  "expand power_skill [] None [SkillStep ''click'' [(''text'', JStr (replicate 200 (CHR ''x'')))] None None [] []] (fresh_expander [])
     = Inl (SkillStepError (ValidationError ''step''))"
  by code_simp

text \<open>So is a step id that the pattern refuses.\<close>

lemma bad_step_id_raises_validation_error:
  "parse_step ''f'' ''steps[0]'' (JObj [(''wait'', JObj [(''seconds'', JInt 1)]), (''id'', JStr ''Step 1'')]) = Inl (SkillValidationError ''id'')"
  by code_simp

end
