(* ===== verification/Screen.thy ===== *)
theory Screen
  imports Skill_Runner
begin

text \<open>
  The screen driver (\<open>packages/slas-screen/slas_screen/driver.py\<close>, \<open>policy.py\<close>, \<open>model.py\<close>): a
  rate limiter, a list of windows never to touch, a guard on the focus, and a screenshot before and after each step. The
  desktop behind it, the clock and \<open>sleep\<close> are parameters that act on a world \<open>'w\<close>. The state keeps, beside
  what the objects hold, the last answer to the question which window is focused and a log of screenshots and of input sent.
\<close>

section \<open>Data\<close>

record window =
  w_id :: string
  w_title :: string
  w_wm_class :: string

record point =
  pt_x :: int
  pt_y :: int

datatype window_match = MContains | MExact | MPrefix | MRegex

text \<open>A pattern of the deny-list is kept with its compiled form.\<close>

record screen_policy =
  po_max_actions_per_second :: nat
  po_deny_patterns :: "(string \<times> rx) list"
  po_allow_coordinates :: bool
  po_default_timeout_s :: rat
  po_poll_interval_s :: rat
  po_window_match :: window_match
  po_action_settle_s :: rat
  po_wait_timeout_scale :: rat

definition DEFAULT_DENY :: "(string \<times> rx) list" where
  "DEFAULT_DENY =
     (let word = (\<lambda>s. rseq [WordB, lit_ci s, WordB]); b = [CHR 0x5C, CHR ''b'']; text = (\<lambda>s. b @ s @ b) in
      map (\<lambda>s. (text s, word s)) [''terminal'', ''xterm'', ''konsole'']
      @ [(''gnome-terminal'', lit_ci ''gnome-terminal'')]
      @ map (\<lambda>s. (text s, word s)) [''alacritty'', ''kitty'', ''tilix'']
      @ [(b @ ''keepass'', rseq [WordB, lit_ci ''keepass'']), (''1password'', lit_ci ''1password'')]
      @ map (\<lambda>s. (text s, word s)) [''bitwarden'', ''lastpass''])"

definition default_policy :: screen_policy where
  "default_policy = \<lparr>po_max_actions_per_second = 10, po_deny_patterns = DEFAULT_DENY, po_allow_coordinates = True,
     po_default_timeout_s = 30, po_poll_interval_s = 1/2, po_window_match = MContains, po_action_settle_s = 0, po_wait_timeout_scale = 1\<rparr>"

definition policy_ok :: "screen_policy \<Rightarrow> bool" where \<comment> \<open>the bounds of the fields\<close>
  "policy_ok p \<longleftrightarrow> 1 \<le> po_max_actions_per_second p \<and> po_max_actions_per_second p \<le> 60 \<and> 0 < po_default_timeout_s p \<and>
     0 < po_poll_interval_s p \<and> 0 \<le> po_action_settle_s p \<and> po_action_settle_s p \<le> 10 \<and>
     0 < po_wait_timeout_scale p \<and> po_wait_timeout_scale p \<le> 10"

datatype seek = SeekText string | SeekImage string | SeekTarget string

datatype screen_act = Activate window | Click_at point string nat | Send_text string | Send_keys string | Scroll_by string int

text \<open>
  \<open>ScreenBackend\<close>, whose methods may raise, the clock, \<open>sleep\<close> in seconds, and the compiler of regular expressions
  (\<open>None\<close> is \<open>re.error\<close>).
\<close>

record 'w screen_driver =
  dr_windows :: "'w \<Rightarrow> (string + window list) \<times> 'w"
  dr_focused :: "'w \<Rightarrow> (string + window option) \<times> 'w"
  dr_find :: "seek \<Rightarrow> 'w \<Rightarrow> (string + point option) \<times> 'w"
  dr_perform :: "screen_act \<Rightarrow> 'w \<Rightarrow> (string + unit) \<times> 'w"
  dr_screenshot :: "string \<Rightarrow> 'w \<Rightarrow> (string + unit) \<times> 'w"
  dr_now :: "'w \<Rightarrow> time \<times> 'w"
  dr_sleep :: "rat \<Rightarrow> 'w \<Rightarrow> 'w"
  dr_compile :: "string \<Rightarrow> rx option"
  dr_policy :: screen_policy
  dr_screenshots_dir :: string

datatype screen_error =
    ScreenStopError three_part
  | ScreenInvalid string \<comment> \<open>a pydantic \<open>ValidationError\<close>\<close>
  | BackendRaised string

datatype screen_event =
    Shot string
  | Acted screen_act time "window option" "window option" \<comment> \<open>the stamp, the focus last seen, the focus expected\<close>

record 'w screen_state =
  ds_world :: 'w
  ds_stamps :: "time list"
  ds_waits :: nat
  ds_expected_focus :: "window option"
  ds_shot_counter :: nat
  ds_actions :: nat
  ds_metrics :: "(string \<times> string) list"
  ds_seen :: "window option"
  ds_log :: "screen_event list"

type_synonym ('w, 'a) screen_prog = "('w screen_state, screen_error, 'a) prog"

definition new_driver_state :: "'w \<Rightarrow> 'w screen_state" where
  "new_driver_state w = \<lparr>ds_world = w, ds_stamps = [], ds_waits = 0, ds_expected_focus = None, ds_shot_counter = 0,
     ds_actions = 0, ds_metrics = [], ds_seen = None, ds_log = []\<rparr>"


section \<open>The policy\<close>

definition occurs_in_title :: "string \<Rightarrow> string \<Rightarrow> bool" where \<comment> \<open>\<open>wanted in title\<close>\<close>
  "occurs_in_title p s \<longleftrightarrow> list_ex (\<lambda>i. take (length p) (drop i s) = p) [0..<Suc (length s)]"

definition title_matches :: "(string \<Rightarrow> rx option) \<Rightarrow> screen_policy \<Rightarrow> string \<Rightarrow> string \<Rightarrow> bool" where
  "title_matches compile_re p wanted title =
     (case po_window_match p of
        MExact \<Rightarrow> py_lower wanted = py_lower title
      | MPrefix \<Rightarrow> take (length wanted) (py_lower title) = py_lower wanted
      | MRegex \<Rightarrow> (case compile_re wanted of None \<Rightarrow> False | Some r \<Rightarrow> re_search r title)
      | MContains \<Rightarrow> occurs_in_title (py_lower wanted) (py_lower title))"

definition denied :: "screen_policy \<Rightarrow> string \<Rightarrow> string \<Rightarrow> string option" where
  "denied p title wm_class = map_option fst (find (\<lambda>(_, r). re_search r (title @ '' '' @ wm_class)) (po_deny_patterns p))"


section \<open>Calls of the desktop\<close>

definition s_call :: "('w \<Rightarrow> (string + 'a) \<times> 'w) \<Rightarrow> ('w, 'a) screen_prog" where
  "s_call f s = (let (r, w) = f (ds_world s); s' = s\<lparr>ds_world := w\<rparr>
     in case r of Inl e \<Rightarrow> (Raise (BackendRaised e), s') | Inr x \<Rightarrow> (Ret x, s'))"

definition s_now :: "'w screen_driver \<Rightarrow> ('w, time) screen_prog" where
  "s_now D s = (let (t, w) = dr_now D (ds_world s) in (Ret t, s\<lparr>ds_world := w\<rparr>))"

definition s_sleep :: "'w screen_driver \<Rightarrow> rat \<Rightarrow> ('w, unit) screen_prog" where
  "s_sleep D d = modify (\<lambda>s. s\<lparr>ds_world := dr_sleep D d (ds_world s)\<rparr>)"

definition s_focused :: "'w screen_driver \<Rightarrow> ('w, window option) screen_prog" where
  "s_focused D = bind (s_call (dr_focused D)) (\<lambda>f. bind (modify (\<lambda>s. s\<lparr>ds_seen := f\<rparr>)) (\<lambda>_. ret f))"

definition s_perform :: "'w screen_driver \<Rightarrow> screen_act \<Rightarrow> ('w, unit) screen_prog" where
  "s_perform D a = bind (modify (\<lambda>s. s\<lparr>ds_log := ds_log s @ [Acted a (last (ds_stamps s)) (ds_seen s) (ds_expected_focus s)]\<rparr>))
     (\<lambda>_. s_call (dr_perform D a))"


section \<open>The rate limiter\<close>

definition rolling_window :: time where
  "rolling_window = 1000000"

definition drop_stamps :: "time \<Rightarrow> ('w, unit) screen_prog" where
  "drop_stamps now = modify (\<lambda>s. s\<lparr>ds_stamps := dropWhile (\<lambda>t. rolling_window \<le> now - t) (ds_stamps s)\<rparr>)"

definition limiter_acquire :: "'w screen_driver \<Rightarrow> ('w, unit) screen_prog" where
  "limiter_acquire D =
     bind (s_now D) (\<lambda>now.
     bind (drop_stamps now) (\<lambda>_.
     bind (gets ds_stamps) (\<lambda>stamps.
     bind (if po_max_actions_per_second (dr_policy D) \<le> length stamps then
             bind (modify (\<lambda>s. s\<lparr>ds_waits := ds_waits s + 1\<rparr>)) (\<lambda>_.
             bind (s_sleep D (max (of_int (hd stamps + rolling_window - now) / 1000000) (1 / 1000))) (\<lambda>_.
             bind (s_now D) (\<lambda>now'.
             bind (drop_stamps now') (\<lambda>_. ret now'))))
           else ret now) (\<lambda>now''.
     modify (\<lambda>s. s\<lparr>ds_stamps := ds_stamps s @ [now'']\<rparr>)))))"


section \<open>The internals of the driver\<close>

definition shot_name :: "string \<Rightarrow> string" where
  "shot_name label =
     (let keep = (\<lambda>c. is_word c \<or> c = CHR ''.'' \<or> c = CHR ''-'');
          safe = re_sub (rplus (Cls (\<lambda>c. \<not> keep c))) ''-'' label
      in or_else (py_rstrip_char (CHR ''-'') (dropWhile (\<lambda>c. c = CHR ''-'') safe)) ''shot'')"

definition shoot :: "'w screen_driver \<Rightarrow> string \<Rightarrow> ('w, string) screen_prog" where
  "shoot D label =
     bind (modify (\<lambda>s. s\<lparr>ds_shot_counter := ds_shot_counter s + 1\<rparr>)) (\<lambda>_.
     bind (gets ds_shot_counter) (\<lambda>n.
     let path = dr_screenshots_dir D @ ''/'' @ zero_pad 4 (show_nat n) @ ''-'' @ shot_name label @ ''.png'' in
     bind (modify (\<lambda>s. s\<lparr>ds_log := ds_log s @ [Shot path]\<rparr>)) (\<lambda>_.
     bind (s_call (dr_screenshot D path)) (\<lambda>_. ret path))))"

definition s_result :: "'w screen_driver \<Rightarrow> bool \<Rightarrow> string \<Rightarrow> string \<Rightarrow> string option \<Rightarrow> ('w, screen_result) screen_prog" where
  "s_result D ok sentence before matched =
     bind (shoot D ''after'') (\<lambda>after.
     ret \<lparr>scr_ok = ok, scr_sentence = sentence, scr_before = Some before, scr_after = Some after, scr_matched = matched, scr_outputs = []\<rparr>)"

definition s_action :: "'w screen_driver \<Rightarrow> screen_act \<Rightarrow> ('w, unit) screen_prog" where
  "s_action D a =
     bind (limiter_acquire D) (\<lambda>_.
     bind (modify (\<lambda>s. s\<lparr>ds_actions := ds_actions s + 1\<rparr>)) (\<lambda>_.
     bind (s_perform D a) (\<lambda>_.
     if po_action_settle_s (dr_policy D) \<noteq> 0 then s_sleep D (po_action_settle_s (dr_policy D)) else ret ())))"

definition is_window :: "'w screen_driver \<Rightarrow> string option \<Rightarrow> string option \<Rightarrow> window \<Rightarrow> bool" where
  "is_window D title wm_class w \<longleftrightarrow>
     (case title of None \<Rightarrow> False | Some t \<Rightarrow> title_matches (dr_compile D) (dr_policy D) t (w_title w)) \<or>
     (case wm_class of None \<Rightarrow> False | Some c \<Rightarrow> py_lower c = py_lower (w_wm_class w))"

definition find_window :: "'w screen_driver \<Rightarrow> string option \<Rightarrow> string option \<Rightarrow> ('w, window option) screen_prog" where
  "find_window D title wm_class = bind (s_call (dr_windows D)) (\<lambda>ws. ret (find (is_window D title wm_class) ws))"

definition deny_check :: "'w screen_driver \<Rightarrow> window \<Rightarrow> ('w, unit) screen_prog" where
  "deny_check D w = (case denied (dr_policy D) (w_title w) (w_wm_class w) of
     None \<Rightarrow> ret ()
   | Some _ \<Rightarrow> raise (ScreenStopError \<lparr>
       tp_what_happened = ''Stopped: the window '' @ py_quote (w_title w) @ '' is on the deny-list.'',
       tp_likely_cause = ''Terminal emulators on the platform host and password managers are never driven by a skill (CLAUDE.md '' @ section_sign @ ''5.2, INV-4).'',
       tp_what_to_do = ''Point the step at the application window instead.''\<rparr>))"

definition guard_focus :: "'w screen_driver \<Rightarrow> ('w, unit) screen_prog" where
  "guard_focus D =
     bind (s_focused D) (\<lambda>current.
     bind (case current of None \<Rightarrow> ret () | Some w \<Rightarrow> deny_check D w) (\<lambda>_.
     bind (gets ds_expected_focus) (\<lambda>expected.
     case expected of
       None \<Rightarrow> modify (\<lambda>s. s\<lparr>ds_expected_focus := current\<rparr>)
     | Some e \<Rightarrow> (case current of
         None \<Rightarrow> ret ()
       | Some w \<Rightarrow>
           if w_id w = w_id e then ret ()
           else bind (modify (\<lambda>s. s\<lparr>ds_expected_focus := None\<rparr>)) (\<lambda>_.
             raise (ScreenStopError \<lparr>
               tp_what_happened = ''Stopped: the focused window changed from '' @ py_quote (w_title e) @ '' to '' @ py_quote (w_title w) @ '' unexpectedly.'',
               tp_likely_cause = ''Something else took the focus, so the next keystrokes would go to the wrong window.'',
               tp_what_to_do = ''Check the screenshots, bring the right window back and resume.''\<rparr>))))))"

definition locate :: "'w screen_driver \<Rightarrow> string option \<Rightarrow> string option \<Rightarrow> string option \<Rightarrow> int option \<Rightarrow> int option \<Rightarrow>
    ('w, point option \<times> string) screen_prog" where
  "locate D text picture target x y =
     (case text of Some t \<Rightarrow> bind (s_call (dr_find D (SeekText t))) (\<lambda>p. ret (p, ''the text '' @ py_quote t))
    | None \<Rightarrow> (case target of Some t \<Rightarrow> bind (s_call (dr_find D (SeekTarget t))) (\<lambda>p. ret (p, ''the target '' @ t))
    | None \<Rightarrow> (case picture of Some t \<Rightarrow> bind (s_call (dr_find D (SeekImage t))) (\<lambda>p. ret (p, ''the image '' @ t))
    | None \<Rightarrow> (case (x, y) of
        (Some x, Some y) \<Rightarrow>
          if \<not> po_allow_coordinates (dr_policy D) then raise (ScreenStopError \<lparr>
            tp_what_happened = ''Stopped: this step clicks bare coordinates, which this installation does not allow.'',
            tp_likely_cause = ''Targets are found by window title, accessible name or template image.'',
            tp_what_to_do = ''Give the step a text, target or image instead.''\<rparr>)
          else if x < 0 \<or> y < 0 then raise (ScreenInvalid ''Point'')
          else ret (Some \<lparr>pt_x = x, pt_y = y\<rparr>, ''('' @ show_int x @ '', '' @ show_int y @ '')'')
      | _ \<Rightarrow> ret (None, ''a target'')))))"


section \<open>The primitives\<close>

definition counted_primitive :: "string \<Rightarrow> ('w, screen_result) screen_prog \<Rightarrow> ('w, screen_result) screen_prog" where
  "counted_primitive primitive m =
     bind (catch m (\<lambda>e. case e of
        ScreenStopError _ \<Rightarrow> bind (modify (\<lambda>s. s\<lparr>ds_metrics := ds_metrics s @ [(primitive, ''stopped'')]\<rparr>)) (\<lambda>_. raise e)
      | _ \<Rightarrow> raise e)) (\<lambda>r.
     bind (modify (\<lambda>s. s\<lparr>ds_metrics := ds_metrics s @ [(primitive, if scr_ok r then ''ok'' else ''failed'')]\<rparr>)) (\<lambda>_. ret r))"

definition first_of :: "string option list \<Rightarrow> string" where \<comment> \<open>\<open>a or b or ... or "?"\<close>\<close>
  "first_of xs = (case filter (\<lambda>x. x \<noteq> None \<and> x \<noteq> Some []) xs of [] \<Rightarrow> ''?'' | x # _ \<Rightarrow> the x)"

definition focus_window :: "'w screen_driver \<Rightarrow> string option \<Rightarrow> string option \<Rightarrow> ('w, screen_result) screen_prog" where
  "focus_window D title wm_class = counted_primitive ''focus_window'' (
     bind (shoot D ''focus-before'') (\<lambda>before.
     bind (find_window D title wm_class) (\<lambda>match.
     case match of
       None \<Rightarrow> s_result D False (''No window called '' @ py_quote (first_of [title, wm_class]) @ '' is open.'') before None
     | Some w \<Rightarrow>
         bind (deny_check D w) (\<lambda>_.
         bind (s_action D (Activate w)) (\<lambda>_.
         bind (modify (\<lambda>s. s\<lparr>ds_expected_focus := Some w\<rparr>)) (\<lambda>_.
         s_result D True (''Focused '' @ py_quote (w_title w) @ ''.'') before (Some (w_title w))))))))"

definition click :: "'w screen_driver \<Rightarrow> string option \<Rightarrow> string option \<Rightarrow> string option \<Rightarrow> int option \<Rightarrow> int option \<Rightarrow> string \<Rightarrow> nat \<Rightarrow>
    ('w, screen_result) screen_prog" where
  "click D text picture target x y button n = counted_primitive ''click'' (
     bind (shoot D ''click-before'') (\<lambda>before.
     bind (locate D text picture target x y) (\<lambda>(p, label).
     case p of
       None \<Rightarrow> s_result D False (''Could not find '' @ label @ '' on the screen.'') before None
     | Some p \<Rightarrow>
         bind (guard_focus D) (\<lambda>_.
         bind (s_action D (Click_at p button n)) (\<lambda>_.
         let verb = (if button = ''right'' then ''Right-clicked'' else if n = 1 then ''Clicked'' else if n = 2 then ''Double-clicked''
                     else ''Clicked '' @ show_nat n @ '' times'')
         in s_result D True (verb @ '' '' @ label @ ''.'') before (Some label))))))"

definition type_text :: "'w screen_driver \<Rightarrow> string \<Rightarrow> ('w, screen_result) screen_prog" where
  "type_text D text = counted_primitive ''type'' (
     bind (shoot D ''type-before'') (\<lambda>before.
     bind (guard_focus D) (\<lambda>_.
     bind (s_action D (Send_text text)) (\<lambda>_.
     s_result D True (''Typed '' @ show_nat (py_len text) @ '' characters.'') before None))))"

definition key :: "'w screen_driver \<Rightarrow> string \<Rightarrow> ('w, screen_result) screen_prog" where
  "key D press = counted_primitive ''key'' (
     bind (shoot D ''key-before'') (\<lambda>before.
     bind (guard_focus D) (\<lambda>_.
     bind (s_action D (Send_keys press)) (\<lambda>_.
     s_result D True (''Pressed '' @ press @ ''.'') before None))))"

definition scroll :: "'w screen_driver \<Rightarrow> string \<Rightarrow> int \<Rightarrow> ('w, screen_result) screen_prog" where
  "scroll D direction amount = counted_primitive ''scroll'' (
     bind (shoot D ''scroll-before'') (\<lambda>before.
     if direction \<notin> {''up'', ''down'', ''left'', ''right''} then
       s_result D False (py_quote direction @ '' is not a scroll direction.'') before None
     else
       bind (guard_focus D) (\<lambda>_.
       bind (s_action D (Scroll_by direction amount)) (\<lambda>_.
       s_result D True (''Scrolled '' @ direction @ '' by '' @ show_int amount @ ''.'') before None))))"

text \<open>One look for what is waited for: the window in the title, the matched text, or nothing yet.\<close>

definition look_for :: "'w screen_driver \<Rightarrow> string option \<Rightarrow> string option \<Rightarrow> string option \<Rightarrow> ('w, (string \<times> string) option) screen_prog" where
  "look_for D window text picture =
     (case window of
        Some t \<Rightarrow>
          bind (find_window D (Some t) None) (\<lambda>found.
          case found of
            None \<Rightarrow> ret None
          | Some w \<Rightarrow>
              bind (deny_check D w) (\<lambda>_.
              bind (s_focused D) (\<lambda>f.
              bind (modify (\<lambda>s. s\<lparr>ds_expected_focus := Some (case f of None \<Rightarrow> w | Some v \<Rightarrow> v)\<rparr>)) (\<lambda>_.
              ret (Some (py_quote (w_title w) @ '' appeared.'', w_title w))))))
      | None \<Rightarrow>
          bind (case text of None \<Rightarrow> ret None | Some t \<Rightarrow> s_call (dr_find D (SeekText t))) (\<lambda>p.
          if p \<noteq> None then ret (Some (py_quote (the text) @ '' appeared.'', the text))
          else bind (case picture of None \<Rightarrow> ret None | Some t \<Rightarrow> s_call (dr_find D (SeekImage t))) (\<lambda>q.
            if q \<noteq> None then ret (Some (''Image '' @ the picture @ '' appeared.'', the picture)) else ret None)))"

text \<open>
  The polling loop. \<open>Crash\<close> says that it is still running after the given number of rounds.
\<close>

fun wait_loop :: "nat \<Rightarrow> 'w screen_driver \<Rightarrow> string option \<Rightarrow> string option \<Rightarrow> string option \<Rightarrow> rat \<Rightarrow> time \<Rightarrow> string \<Rightarrow>
    ('w, screen_result) screen_prog" where
  "wait_loop 0 D window text picture timeout deadline before = (\<lambda>s. (Crash, s))"
| "wait_loop (Suc n) D window text picture timeout deadline before =
     bind (look_for D window text picture) (\<lambda>found.
     case found of
       Some (sentence, matched) \<Rightarrow> s_result D True sentence before (Some matched)
     | None \<Rightarrow>
         bind (s_now D) (\<lambda>now.
         if deadline \<le> now then
           s_result D False (py_quote (first_of [window, text, picture]) @ '' did not appear within '' @ show_g timeout @ '' seconds.'') before None
         else bind (s_sleep D (po_poll_interval_s (dr_policy D))) (\<lambda>_.
           wait_loop n D window text picture timeout deadline before)))"

text \<open>The rounds that fit before the deadline when \<open>sleep\<close> sleeps as long as it is told to.\<close>

definition wait_rounds :: "'w screen_driver \<Rightarrow> rat \<Rightarrow> nat" where
  "wait_rounds D timeout = nat \<lceil>of_int (round_half_even (timeout * 1000000)) / (po_poll_interval_s (dr_policy D) * 1000000)\<rceil> + 1"

definition wait_for :: "'w screen_driver \<Rightarrow> string option \<Rightarrow> string option \<Rightarrow> string option \<Rightarrow> rat option \<Rightarrow> ('w, screen_result) screen_prog" where
  "wait_for D window text picture timeout_s = counted_primitive ''wait_for'' (
     bind (shoot D ''wait-before'') (\<lambda>before.
     let timeout = (case timeout_s of None \<Rightarrow> po_default_timeout_s (dr_policy D) | Some t \<Rightarrow> t) * po_wait_timeout_scale (dr_policy D) in
     bind (s_now D) (\<lambda>now.
     wait_loop (wait_rounds D timeout) D window text picture timeout (now + round_half_even (timeout * 1000000)) before)))"

definition screenshot :: "'w screen_driver \<Rightarrow> string \<Rightarrow> ('w, screen_result) screen_prog" where
  "screenshot D name = counted_primitive ''screenshot'' (
     bind (shoot D name) (\<lambda>path.
     ret \<lparr>scr_ok = True, scr_sentence = ''Screenshot '' @ name @ '' taken.'', scr_before = None, scr_after = Some path, scr_matched = None, scr_outputs = []\<rparr>))"

definition assert_visible :: "'w screen_driver \<Rightarrow> string option \<Rightarrow> string option \<Rightarrow> string \<Rightarrow> ('w, screen_result) screen_prog" where
  "assert_visible D text picture message = counted_primitive ''assert_visible'' (
     bind (shoot D ''assert-before'') (\<lambda>before.
     bind (case text of None \<Rightarrow> ret None | Some t \<Rightarrow> s_call (dr_find D (SeekText t))) (\<lambda>p.
     bind (if p \<noteq> None then ret p else case picture of None \<Rightarrow> ret None | Some t \<Rightarrow> s_call (dr_find D (SeekImage t))) (\<lambda>q.
     if q \<noteq> None then s_result D True (''Visible: '' @ message @ ''.'') before (if text = None \<or> text = Some [] then picture else text)
     else s_result D False (''Not visible: '' @ message @ ''.'') before None))))"

end
