(* ===== verification/Screen_Theorems.thy ===== *)
theory Screen_Theorems
  imports Screen
begin

text \<open>
  What the screen driver promises: input goes to allowed windows only, the rate limit holds for every second of the clock, waiting ends, and every
  step is photographed. The locales \<open>desktop_law\<close> and \<open>screen_law\<close> carry a relation between states through all primitives once.
\<close>

section \<open>Where input goes\<close>

text \<open>Input is sent to the focus last seen; it is allowed there when nothing was focused, or when that window is not on the
  deny-list and is the one expected.\<close>

definition focus_allowed :: "screen_policy \<Rightarrow> window option \<Rightarrow> window option \<Rightarrow> bool" where
  "focus_allowed p seen expected \<longleftrightarrow> (case seen of None \<Rightarrow> True
     | Some w \<Rightarrow> denied p (w_title w) (w_wm_class w) = None \<and> (case expected of None \<Rightarrow> False | Some e \<Rightarrow> w_id e = w_id w))"

fun event_allowed :: "screen_policy \<Rightarrow> screen_event \<Rightarrow> bool" where
  "event_allowed p (Shot _) = True"
| "event_allowed p (Acted (Activate w) _ _ _) = (denied p (w_title w) (w_wm_class w) = None)"
| "event_allowed p (Acted _ _ seen expected) = focus_allowed p seen expected"

abbreviation safe_log :: "screen_policy \<Rightarrow> 'w screen_state \<Rightarrow> 'w screen_state \<Rightarrow> bool" where
  "safe_log p \<equiv> extends ds_log (event_allowed p)"

lemma ends_call [simp]: "ds_log (snd (s_call f s)) = ds_log s" "ds_seen (snd (s_call f s)) = ds_seen s"
  "ds_expected_focus (snd (s_call f s)) = ds_expected_focus s" "ds_stamps (snd (s_call f s)) = ds_stamps s"
  by (auto simp: s_call_def Let_def split: prod.splits sum.splits)

lemma steps_call: "steps (extends ds_log P) (s_call f) (\<lambda>_. True)"
  by (simp add: steps_def extends_same)

lemma steps_now: "steps (extends ds_log P) (s_now D) (\<lambda>_. True)"
  by (simp add: steps_def s_now_def extends_same split: prod.splits)

lemma steps_quiet: "(\<And>s. ds_log (f s) = ds_log s) \<Longrightarrow> steps (extends ds_log P) (modify f) (\<lambda>_. True)"
  by (simp add: steps_def prog_defs extends_same)

lemma steps_logged: "(\<And>s. P (e s)) \<Longrightarrow> (\<And>s. ds_log (f s) = ds_log s @ [e s]) \<Longrightarrow> steps (extends ds_log P) (modify f) (\<lambda>_. True)"
  by (simp add: steps_def prog_defs extends_def)

lemmas screen_rules = extends.steps_rules steps_call steps_now steps_quiet

lemma steps_sleep: "steps (extends ds_log P) (s_sleep D d) (\<lambda>_. True)"
  unfolding s_sleep_def by (rule steps_quiet) simp

lemma steps_focused: "steps (extends ds_log P) (s_focused D) (\<lambda>_. True)"
  unfolding s_focused_def by (intro screen_rules) simp_all

lemma steps_acquire: "steps (extends ds_log P) (limiter_acquire D) (\<lambda>_. True)"
  unfolding limiter_acquire_def drop_stamps_def by (intro screen_rules steps_sleep) simp_all

lemma steps_shoot: "(\<And>p. P (Shot p)) \<Longrightarrow> steps (extends ds_log P) (shoot D label) (\<lambda>_. True)"
  unfolding shoot_def Let_def by (intro screen_rules steps_logged [where e = "\<lambda>_. Shot _"]) simp_all

lemma steps_result: "(\<And>p. P (Shot p)) \<Longrightarrow> steps (extends ds_log P) (s_result D ok sentence before matched) (\<lambda>_. True)"
  unfolding s_result_def by (intro screen_rules steps_shoot) simp_all

text \<open>The rate limiter touches neither the log nor the focus.\<close>

lemma same_acquire:
  assumes "\<And>s w. f (s\<lparr>ds_world := w\<rparr>) = f s" "\<And>s ts. f (s\<lparr>ds_stamps := ts\<rparr>) = f s" "\<And>s n. f (s\<lparr>ds_waits := n\<rparr>) = f s"
  shows "f (snd (limiter_acquire D s)) = f s"
proof -
  have "steps (same f) (limiter_acquire D) (\<lambda>_. True)"
    unfolding limiter_acquire_def drop_stamps_def s_sleep_def
    by (intro same.steps_rules same.steps_modify) (auto simp: same_def assms steps_def s_now_def split: prod.splits)
  then show ?thesis by (simp add: steps_def same_def)
qed

lemma same_acquire_log [simp]: "ds_log (snd (limiter_acquire D s)) = ds_log s"
  by (rule same_acquire) simp_all

lemma same_acquire_focus [simp]: "ds_seen (snd (limiter_acquire D s)) = ds_seen s"
  "ds_expected_focus (snd (limiter_acquire D s)) = ds_expected_focus s"
  by (rule same_acquire; simp)+

lemma fst_acquire [simp]: "fst (limiter_acquire D s) = Ret ()"
  by (simp add: limiter_acquire_def bind_def s_now_def drop_stamps_def s_sleep_def gets_def modify_def ret_def split: prod.splits)

lemma bind_keeps: "(\<And>x t. f (snd (k x t)) = f t) \<Longrightarrow> f (snd (bind m k s)) = f (snd (m s))"
  by (simp add: bind_def split: prod.splits outcome.splits)

text \<open>An action is one entry of the log, with the stamp of the limiter and the focus as it was.\<close>

definition action_entry :: "'w screen_driver \<Rightarrow> screen_act \<Rightarrow> 'w screen_state \<Rightarrow> screen_event" where
  "action_entry D a s = Acted a (last (ds_stamps (snd (limiter_acquire D s)))) (ds_seen s) (ds_expected_focus s)"

lemma s_action_log: "ds_log (snd (s_action D a s)) = ds_log s @ [action_entry D a s]"
proof -
  obtain s1 where s1: "limiter_acquire D s = (Ret (), s1)" by (cases "limiter_acquire D s") (use fst_acquire [of D s] in simp)
  have l: "ds_log s1 = ds_log s" "ds_seen s1 = ds_seen s" "ds_expected_focus s1 = ds_expected_focus s"
    using same_acquire_log [of D s] same_acquire_focus [of D s] s1 by simp_all
  let ?rest = "\<lambda>_. if po_action_settle_s (dr_policy D) \<noteq> 0 then s_sleep D (po_action_settle_s (dr_policy D)) else ret ()"
  have "ds_log (snd (bind (s_perform D a) ?rest t)) = ds_log (snd (s_perform D a t))" for t
    by (rule bind_keeps) (simp add: s_sleep_def modify_def ret_def)
  moreover have "ds_log (snd (s_perform D a t)) = ds_log t @ [Acted a (last (ds_stamps t)) (ds_seen t) (ds_expected_focus t)]" for t
    by (simp add: s_perform_def bind_def modify_def)
  moreover have "snd (s_action D a s) = snd (bind (s_perform D a) ?rest (s1\<lparr>ds_actions := ds_actions s1 + 1\<rparr>))"
    unfolding s_action_def bind_def [of "limiter_acquire D"] s1 by (simp add: bind_def [of "modify _"] modify_def)
  ultimately show ?thesis unfolding action_entry_def by (simp add: l s1)
qed

lemma guard_focus_log [simp]: "ds_log (snd (guard_focus D s)) = ds_log s"
  by (auto simp: guard_focus_def s_focused_def deny_check_def prog_defs s_call_def Let_def split: prod.splits outcome.splits option.splits sum.splits)

lemma guard_focus_allows:
  "guard_focus D s = (Ret (), s') \<Longrightarrow> focus_allowed (dr_policy D) (ds_seen s') (ds_expected_focus s')"
  by (auto simp: guard_focus_def s_focused_def deny_check_def prog_defs s_call_def Let_def focus_allowed_def
      split: prod.splits outcome.splits option.splits sum.splits if_splits)

lemma steps_guarded:
  assumes "\<And>w. a \<noteq> Activate w"
  shows "steps (safe_log (dr_policy D)) (bind (guard_focus D) (\<lambda>_. s_action D a)) (\<lambda>_. True)"
proof (rule stepsI)
  fix s
  obtain r s1 where g: "guard_focus D s = (r, s1)" by fastforce
  then have l: "ds_log s1 = ds_log s" using guard_focus_log [of D s] by simp
  show "safe_log (dr_policy D) s (snd (bind (guard_focus D) (\<lambda>_. s_action D a) s))"
  proof (cases r)
    case (Ret u)
    then have "focus_allowed (dr_policy D) (ds_seen s1) (ds_expected_focus s1)" using guard_focus_allows g by simp
    then have "event_allowed (dr_policy D) (action_entry D a s1)"
      using assms unfolding action_entry_def by (cases a) (simp_all, blast)
    then show ?thesis using g Ret l by (simp add: bind_def extends_def s_action_log)
  qed (use g l in \<open>simp_all add: bind_def extends_same\<close>)
qed simp


section \<open>The driver in use\<close>

inductive screen_primitive :: "'w screen_driver \<Rightarrow> ('w, screen_result) screen_prog \<Rightarrow> bool" for D where
  "screen_primitive D (focus_window D title wm_class)"
| "screen_primitive D (click D text picture target x y button n)"
| "screen_primitive D (type_text D text)"
| "screen_primitive D (key D press)"
| "screen_primitive D (scroll D direction amount)"
| "screen_primitive D (wait_for D window text picture timeout_s)"
| "screen_primitive D (screenshot D name)"
| "screen_primitive D (assert_visible D text picture message)"

text \<open>The states a driver gets into, whatever it is asked to do and however the calls end.\<close>

inductive driven :: "'w screen_driver \<Rightarrow> 'w screen_state \<Rightarrow> bool" for D where
  start: "driven D (new_driver_state w)"
| call: "driven D s \<Longrightarrow> screen_primitive D m \<Longrightarrow> driven D (snd (m s))"

text \<open>
  What looking at the desktop keeps: \<open>R\<close> is an effect order under which the questions to the desktop, the clock, \<open>sleep\<close> and
  the expected focus are steps.
\<close>

locale desktop_law = effect_order R for R :: "'w screen_state \<Rightarrow> 'w screen_state \<Rightarrow> bool" +
  fixes D :: "'w screen_driver"
  assumes windows: "steps R (s_call (dr_windows D)) (\<lambda>_. True)"
    and focused: "steps R (s_focused D) (\<lambda>_. True)"
    and seeks: "steps R (s_call (dr_find D k)) (\<lambda>_. True)"
    and now: "steps R (s_now D) (\<lambda>_. True)"
    and sleeps: "steps R (s_sleep D d) (\<lambda>_. True)"
    and expects: "R s (s\<lparr>ds_expected_focus := f\<rparr>)"
begin

lemma denies: "steps R (deny_check D w) (\<lambda>_. denied (dr_policy D) (w_title w) (w_wm_class w) = None)"
  unfolding deny_check_def by (auto intro!: steps_ret steps_raise split: option.splits)

lemma denies_any: "steps R (deny_check D w) (\<lambda>_. True)"
  using denies by (rule steps_weaken) simp

lemma finds: "steps R (find_window D title wm_class) (\<lambda>_. True)"
  unfolding find_window_def by (intro steps_rules windows) simp_all

lemma expected: "steps R (modify (\<lambda>s. s\<lparr>ds_expected_focus := f\<rparr>)) (\<lambda>_. True)"
  by (rule steps_modify) (simp_all add: expects)

lemma guards: "steps R (guard_focus D) (\<lambda>_. True)"
  unfolding guard_focus_def
  by (intro steps_bind_any [OF focused])
     (auto intro!: steps_bind_any [OF denies_any] steps_bind_any steps_ret steps_gets_any expected steps_raise split: option.splits)

lemma sought: "steps R (case t of None \<Rightarrow> ret None | Some t \<Rightarrow> s_call (dr_find D (k t))) (\<lambda>_. True)"
  by (auto intro!: steps_ret seeks split: option.splits)

lemma locates: "steps R (locate D text picture target x y) (\<lambda>_. True)"
  unfolding locate_def by (auto intro!: steps_bind_any steps_ret steps_raise seeks split: option.splits)

lemma looks: "steps R (look_for D window text picture) (\<lambda>_. True)"
  unfolding look_for_def
  by (auto intro!: steps_bind_any steps_ret finds denies_any focused expected seeks split: option.splits)

end

text \<open>What every primitive keeps, if screenshots, the metrics and actions in allowed places do.\<close>

locale screen_law = desktop_law +
  assumes shoots: "steps R (shoot D label) (\<lambda>_. True)"
    and counts: "R s (s\<lparr>ds_metrics := ms\<rparr>)"
    and activates: "denied (dr_policy D) (w_title w) (w_wm_class w) = None \<Longrightarrow> steps R (s_action D (Activate w)) (\<lambda>_. True)"
    and guarded: "(\<And>w. a \<noteq> Activate w) \<Longrightarrow> steps R (bind (guard_focus D) (\<lambda>_. s_action D a)) (\<lambda>_. True)"
begin

lemma results: "steps R (s_result D ok sentence before matched) (\<lambda>_. True)"
  unfolding s_result_def by (intro steps_rules shoots) simp_all

lemma counted: "steps R m (\<lambda>_. True) \<Longrightarrow> steps R (counted_primitive p m) (\<lambda>_. True)"
  unfolding counted_primitive_def
  by (rule steps_bind_any, rule steps_catch, assumption)
     (auto intro!: steps_bind_any steps_modify steps_ret steps_raise simp: counts split: screen_error.splits)

lemma acted: "(\<And>w. a \<noteq> Activate w) \<Longrightarrow> steps R m (\<lambda>_. True) \<Longrightarrow> steps R (bind (guard_focus D) (\<lambda>_. bind (s_action D a) (\<lambda>_. m))) (\<lambda>_. True)"
  unfolding bind_assoc [symmetric] by (rule steps_bind_any) (simp_all add: guarded)

lemma waits: "steps R (wait_loop n D window text picture timeout deadline before) (\<lambda>_. True)"
proof (induction n)
  case 0
  show ?case by (simp add: steps_def R_refl)
next
  case (Suc n)
  then show ?case by (auto intro!: steps_bind_any looks results now sleeps split: option.splits)
qed

lemma activated: "steps R m (\<lambda>_. True) \<Longrightarrow> steps R (bind (deny_check D w) (\<lambda>_. bind (s_action D (Activate w)) (\<lambda>_. m))) (\<lambda>_. True)"
  by (rule steps_bind [OF denies]) (auto intro!: steps_bind_any activates)

lemma focusing: "steps R (focus_window D title wm_class) (\<lambda>_. True)"
  unfolding focus_window_def
  by (intro counted steps_bind_any [OF shoots] steps_bind_any [OF finds]) (auto intro!: activated steps_bind_any [OF expected] results split: option.splits)

lemma clicks: "steps R (click D text picture target x y button n) (\<lambda>_. True)"
  unfolding click_def Let_def
  by (intro counted steps_bind_any [OF shoots] steps_bind_any [OF locates]) (auto intro!: acted results split: option.splits prod.splits)

lemma types: "steps R (type_text D text) (\<lambda>_. True)"
  unfolding type_text_def by (intro counted steps_bind_any [OF shoots] acted results) simp_all

lemma keys: "steps R (key D press) (\<lambda>_. True)"
  unfolding key_def by (intro counted steps_bind_any [OF shoots] acted results) simp_all

lemma scrolls: "steps R (scroll D direction amount) (\<lambda>_. True)"
  unfolding scroll_def by (intro counted steps_bind_any [OF shoots] steps_if acted results) simp_all

lemma waiting: "steps R (wait_for D window text picture timeout_s) (\<lambda>_. True)"
  unfolding wait_for_def Let_def by (intro counted steps_bind_any [OF shoots] steps_bind_any [OF now] waits)

lemma screenshots: "steps R (screenshot D name) (\<lambda>_. True)"
  unfolding screenshot_def by (intro counted steps_bind_any [OF shoots] steps_ret) simp

lemma asserts: "steps R (assert_visible D text picture message) (\<lambda>_. True)"
  unfolding assert_visible_def
  by (intro counted steps_bind_any [OF shoots] steps_bind_any [OF sought] steps_bind_any [where m = "if _ then _ else _"] steps_if steps_ret results sought) simp

lemma primitive: "screen_primitive D m \<Longrightarrow> steps R m (\<lambda>_. True)"
  by (erule screen_primitive.cases) (simp_all add: focusing clicks types keys scrolls waiting screenshots asserts)

end

interpretation quiet: desktop_law "extends ds_log P" D for P D
  by unfold_locales (auto intro: steps_call steps_focused steps_now steps_sleep extends_same)

interpretation safe: screen_law "safe_log (dr_policy D)" D for D
proof unfold_locales
  show "steps (safe_log (dr_policy D)) (s_action D (Activate w)) (\<lambda>_. True)"
    if "denied (dr_policy D) (w_title w) (w_wm_class w) = None" for w
    using that by (simp add: steps_def extends_def s_action_log action_entry_def)
  show "steps (safe_log (dr_policy D)) (bind (guard_focus D) (\<lambda>_. s_action D a)) (\<lambda>_. True)" if "\<And>w. a \<noteq> Activate w" for a
    using that by (rule steps_guarded)
qed (auto intro: steps_shoot extends_same)

text \<open>
  C25. Input only goes where it may: in every state of a driver, whatever it was asked and however the calls
  ended, each window it raised is not on the deny-list, and each click, text, key or scroll was sent while the window last
  seen to have the focus, if any, was not on the deny-list and was the expected one.
\<close>
theorem input_goes_to_allowed_windows:
  assumes "driven D s"
  shows "list_all (event_allowed (dr_policy D)) (ds_log s)"
  using assms
proof induction
  case (start w)
  then show ?case by (simp add: new_driver_state_def)
next
  case (call s m)
  from safe.primitive [OF call(2)] have "safe_log (dr_policy D) s (snd (m s))" by (simp add: steps_def)
  then show ?case using call(3) by (auto simp: extends_def)
qed


section \<open>The pace of a driver\<close>

text \<open>
  What the pace rests on: \<open>tm w\<close> is the time in a world; no call takes it back, the clock tells a time between the times before and after
  it is read, and \<open>sleep\<close> sleeps at least as long as it is told.
\<close>

definition steady :: "'w screen_driver \<Rightarrow> ('w \<Rightarrow> time) \<Rightarrow> bool" where
  "steady D tm \<longleftrightarrow>
     (\<forall>w. tm w \<le> tm (snd (dr_windows D w)) \<and> tm w \<le> tm (snd (dr_focused D w)) \<and> (\<forall>k. tm w \<le> tm (snd (dr_find D k w))) \<and>
        (\<forall>a. tm w \<le> tm (snd (dr_perform D a w))) \<and> (\<forall>p. tm w \<le> tm (snd (dr_screenshot D p w))) \<and>
        tm w \<le> fst (dr_now D w) \<and> fst (dr_now D w) \<le> tm (snd (dr_now D w)) \<and>
        (\<forall>d. tm w \<le> tm (dr_sleep D d w) \<and> of_int (tm w) + d * 1000000 \<le> (of_int (tm (dr_sleep D d w)) :: rat)))"

fun acted_time :: "screen_event \<Rightarrow> time option" where
  "acted_time (Acted _ t _ _) = Some t"
| "acted_time (Shot _) = None"

definition acted_times :: "screen_event list \<Rightarrow> time list" where
  "acted_times es = List.map_filter acted_time es"

lemma acted_times_simps [simp]: "acted_times [] = []" "acted_times (es @ fs) = acted_times es @ acted_times fs"
  "acted_times [Shot p] = []" "acted_times [Acted a t seen expected] = [t]"
  by (simp_all add: acted_times_def List.map_filter_def)

definition in_second :: "time \<Rightarrow> time list \<Rightarrow> nat" where \<comment> \<open>the actions in the second that starts at \<open>a\<close>\<close>
  "in_second a ts = length (filter (\<lambda>t. a \<le> t \<and> t < a + rolling_window) ts)"

text \<open>The stamps are the actions of the last second before \<open>b\<close>, and perhaps some before.\<close>

definition paced :: "nat \<Rightarrow> time list \<Rightarrow> time list \<Rightarrow> time \<Rightarrow> bool" where
  "paced n ts stamps b \<longleftrightarrow>
     (\<exists>old. ts = old @ stamps \<and> list_all (\<lambda>t. t + rolling_window \<le> b) old) \<and> length stamps \<le> n \<and> (\<forall>a. in_second a ts \<le> n)"

lemma paced_later: "paced n ts stamps b \<Longrightarrow> b \<le> b' \<Longrightarrow> paced n ts stamps b'"
  by (fastforce simp: paced_def list_all_iff)

lemma paced_next:
  assumes "paced n ts (dropped @ kept) b" "b \<le> now" "list_all (\<lambda>t. t + rolling_window \<le> now) dropped" "length kept < n" "now \<le> b'"
  shows "paced n (ts @ [now]) (kept @ [now]) b'"
proof -
  obtain old where old: "ts = old @ dropped @ kept" "list_all (\<lambda>t. t + rolling_window \<le> b) old" and few: "\<And>a. in_second a ts \<le> n"
    using assms(1) by (auto simp: paced_def)
  have gone: "t + rolling_window \<le> now" if "t \<in> set (old @ dropped)" for t
    using that old(2) assms(2,3) by (force simp: list_all_iff)
  have "in_second a (ts @ [now]) \<le> n" for a
  proof (cases "a \<le> now \<and> now < a + rolling_window")
    case True
    then have "filter (\<lambda>t. a \<le> t \<and> t < a + rolling_window) (old @ dropped) = []" using gone by (force simp: filter_empty_conv)
    then have "in_second a (ts @ [now]) = length (filter (\<lambda>t. a \<le> t \<and> t < a + rolling_window) kept) + 1"
      using True old(1) by (simp add: in_second_def)
    also have "\<dots> \<le> n" using assms(4) length_filter_le [of "\<lambda>t. a \<le> t \<and> t < a + rolling_window" kept] by linarith
    finally show ?thesis .
  next
    case False
    then show ?thesis using few [of a] by (auto simp: in_second_def)
  qed
  moreover have "\<exists>old'. ts @ [now] = old' @ kept @ [now] \<and> list_all (\<lambda>t. t + rolling_window \<le> b') old'"
    using old(1) gone assms(5) by (intro exI [of _ "old @ dropped"]) (force simp: list_all_iff)
  ultimately show ?thesis using assms(4) by (simp add: paced_def)
qed

text \<open>The limiter forgets only stamps older than a second, keeps fewer than the limit, and adds the time it lets the action through.\<close>

lemma dropped: "\<exists>gone. xs = gone @ dropWhile (\<lambda>t. rolling_window \<le> now - t) xs \<and> list_all (\<lambda>t. t + rolling_window \<le> now) gone"
  by (rule exI [of _ "takeWhile (\<lambda>t. rolling_window \<le> now - t) xs"]) (auto simp: list_all_iff dest: set_takeWhileD)

lemma slept_enough:
  assumes "steady D tm" "tm (snd (dr_now D w)) \<ge> now" "d \<ge> of_int (t + rolling_window - now) / 1000000"
  shows "t + rolling_window \<le> fst (dr_now D (dr_sleep D d (snd (dr_now D w))))"
proof -
  let ?w = "snd (dr_now D w)"
  have "of_int (tm ?w) + d * 1000000 \<le> (of_int (tm (dr_sleep D d ?w)) :: rat)" "tm (dr_sleep D d ?w) \<le> fst (dr_now D (dr_sleep D d ?w))"
    using assms(1) unfolding steady_def by blast+
  moreover have "of_int (t + rolling_window - now) \<le> d * 1000000" using assms(3) by (simp add: field_simps)
  moreover have "of_int now \<le> (of_int (tm ?w) :: rat)" using assms(2) by simp
  ultimately have "(of_int (t + rolling_window) :: rat) \<le> of_int (fst (dr_now D (dr_sleep D d ?w)))" by simp
  then show ?thesis by (simp only: of_int_le_iff)
qed

lemma acquire_stamps:
  assumes "steady D tm" "length (ds_stamps s) \<le> po_max_actions_per_second (dr_policy D)" "0 < po_max_actions_per_second (dr_policy D)"
  shows "\<exists>gone kept now. ds_stamps s = gone @ kept \<and> list_all (\<lambda>t. t + rolling_window \<le> now) gone \<and>
    length kept < po_max_actions_per_second (dr_policy D) \<and> ds_stamps (snd (limiter_acquire D s)) = kept @ [now] \<and>
    tm (ds_world s) \<le> now \<and> now \<le> tm (ds_world (snd (limiter_acquire D s)))"
proof -
  obtain now w1 where n1: "dr_now D (ds_world s) = (now, w1)" by fastforce
  have t1: "tm (ds_world s) \<le> now" "now \<le> tm w1" using assms(1) n1 unfolding steady_def by (metis fst_conv snd_conv)+
  define kept where "kept = dropWhile (\<lambda>t. rolling_window \<le> now - t) (ds_stamps s)"
  obtain gone where g: "ds_stamps s = gone @ kept" "list_all (\<lambda>t. t + rolling_window \<le> now) gone"
    using dropped unfolding kept_def by blast
  show ?thesis
  proof (cases "length kept < po_max_actions_per_second (dr_policy D)")
    case True
    then have "snd (limiter_acquire D s) = s\<lparr>ds_world := w1, ds_stamps := kept @ [now]\<rparr>"
      unfolding limiter_acquire_def by (simp add: bind_def s_now_def n1 drop_stamps_def gets_def modify_def ret_def kept_def)
    then show ?thesis using g True t1 by auto
  next
    case False
    define d where "d = max (of_int (hd kept + rolling_window - now) / 1000000) (1 / 1000 :: rat)"
    obtain now' w2 where n2: "dr_now D (dr_sleep D d w1) = (now', w2)" by fastforce
    have t2: "now \<le> now'" "now' \<le> tm w2"
    proof -
      have "tm w1 \<le> tm (dr_sleep D d w1)" "tm (dr_sleep D d w1) \<le> now'" "now' \<le> tm w2"
        using assms(1) n2 unfolding steady_def by (metis fst_conv snd_conv)+
      then show "now \<le> now'" "now' \<le> tm w2" using t1 by auto
    qed
    obtain t rest where k: "kept = t # rest" using False assms(3) by (cases kept) auto
    have "t + rolling_window \<le> now'"
      using slept_enough [where D = D and tm = tm, OF assms(1), where now = now and w = "ds_world s" and d = d and t = t] n1 n2 t1 by (simp add: d_def k)
    then have "dropWhile (\<lambda>t. rolling_window \<le> now' - t) kept = dropWhile (\<lambda>t. rolling_window \<le> now' - t) rest" by (simp add: k)
    moreover obtain more where m: "rest = more @ dropWhile (\<lambda>t. rolling_window \<le> now' - t) rest" "list_all (\<lambda>t. t + rolling_window \<le> now') more"
      using dropped by blast
    moreover have "snd (limiter_acquire D s) = s\<lparr>ds_world := w2, ds_waits := ds_waits s + 1, ds_stamps := dropWhile (\<lambda>t. rolling_window \<le> now' - t) kept @ [now']\<rparr>"
      using False unfolding limiter_acquire_def
      by (simp add: bind_def s_now_def n1 drop_stamps_def gets_def modify_def ret_def s_sleep_def kept_def [symmetric] d_def [symmetric] n2 del: of_int_add of_int_diff)
    moreover have "length (dropWhile (\<lambda>t. rolling_window \<le> now' - t) rest) < po_max_actions_per_second (dr_policy D)"
      using assms(2) g(1) k arg_cong [OF m(1), of length] by simp
    moreover have "list_all (\<lambda>t. t + rolling_window \<le> now') (gone @ t # more)"
      using g(2) m(2) t2(1) \<open>t + rolling_window \<le> now'\<close> by (auto simp: list_all_iff)
    ultimately show ?thesis using g(1) k t1 t2
      by (intro exI [of _ "gone @ t # more"] exI [of _ "dropWhile (\<lambda>t. rolling_window \<le> now' - t) rest"] exI [of _ now']) auto
  qed
qed

definition in_pace :: "'w screen_driver \<Rightarrow> ('w \<Rightarrow> time) \<Rightarrow> 'w screen_state \<Rightarrow> bool" where
  "in_pace D tm s \<longleftrightarrow> paced (po_max_actions_per_second (dr_policy D)) (acted_times (ds_log s)) (ds_stamps s) (tm (ds_world s))"

lemma in_pace_later:
  "in_pace D tm s \<Longrightarrow> tm (ds_world s) \<le> tm (ds_world s') \<Longrightarrow> acted_times (ds_log s') = acted_times (ds_log s) \<Longrightarrow>
   ds_stamps s' = ds_stamps s \<Longrightarrow> in_pace D tm s'"
  by (simp add: in_pace_def paced_later)

lemma later_call: "(\<And>w. tm w \<le> tm (snd (f w))) \<Longrightarrow> tm (ds_world s) \<le> tm (ds_world (snd (s_call f s)))"
  by (simp add: s_call_def Let_def split: prod.splits sum.splits) (metis snd_conv)

text \<open>Time goes on and no action is let through.\<close>

definition later :: "('w \<Rightarrow> time) \<Rightarrow> 'w screen_state \<Rightarrow> 'w screen_state \<Rightarrow> bool" where
  "later tm s s' \<longleftrightarrow> tm (ds_world s) \<le> tm (ds_world s') \<and> ds_stamps s' = ds_stamps s"

interpretation later: effect_order "later tm"
  by unfold_locales (auto simp: later_def)

lemma later_steps_call: "(\<And>w. tm w \<le> tm (snd (f w))) \<Longrightarrow> steps (later tm) (s_call f) (\<lambda>_. True)"
  by (simp add: steps_def later_def later_call)

lemma later_steps_modify:
  "(\<And>s. tm (ds_world s) \<le> tm (ds_world (f s))) \<Longrightarrow> (\<And>s. ds_stamps (f s) = ds_stamps s) \<Longrightarrow> steps (later tm) (modify f) (\<lambda>_. True)"
  by (simp add: steps_def later_def modify_def)

lemma later_steps_sleep: "steady D tm \<Longrightarrow> steps (later tm) (s_sleep D d) (\<lambda>_. True)"
  unfolding s_sleep_def by (rule later_steps_modify) (simp_all add: steady_def)

lemma later_steps_now: "steady D tm \<Longrightarrow> steps (later tm) (s_now D) (\<lambda>_. True)"
  unfolding steps_def later_def s_now_def steady_def by (auto split: prod.splits) (metis fst_conv snd_conv order_trans)

lemma later_steps_perform: "steady D tm \<Longrightarrow> steps (later tm) (s_perform D a) (\<lambda>_. True)"
  unfolding s_perform_def
  by (intro later.steps_bind_any later_steps_modify later_steps_call) (simp_all add: steady_def)

lemma keeps_later: "steps (later tm) m A \<Longrightarrow> (\<And>s. acted_times (ds_log (snd (m s))) = acted_times (ds_log s)) \<Longrightarrow> steps (keeps (in_pace D tm)) m A"
  unfolding steps_def later_def keeps_def by (meson in_pace_later)

lemma action_in_pace:
  assumes "steady D tm" "0 < po_max_actions_per_second (dr_policy D)" "in_pace D tm s"
  shows "in_pace D tm (snd (s_action D a s))"
proof -
  let ?n = "po_max_actions_per_second (dr_policy D)" and ?s1 = "snd (limiter_acquire D s)"
  have p: "paced ?n (acted_times (ds_log s)) (ds_stamps s) (tm (ds_world s))" using assms(3) by (simp add: in_pace_def)
  then obtain gone kept now where k: "ds_stamps s = gone @ kept" "list_all (\<lambda>t. t + rolling_window \<le> now) gone" "length kept < ?n"
      "ds_stamps ?s1 = kept @ [now]" "tm (ds_world s) \<le> now" "now \<le> tm (ds_world ?s1)"
    using acquire_stamps [OF assms(1) _ assms(2), of s] by (auto simp: paced_def)
  have nxt: "paced ?n (acted_times (ds_log s) @ [now]) (kept @ [now]) (tm (ds_world ?s1))"
    using paced_next [OF _ k(5) k(2,3,6)] p k(1) by simp
  have rest: "tm (ds_world ?s1) \<le> tm (ds_world (snd (s_action D a s))) \<and> ds_stamps (snd (s_action D a s)) = ds_stamps ?s1"
  proof -
    have "steps (later tm)
       (bind (modify (\<lambda>s. s\<lparr>ds_actions := ds_actions s + 1\<rparr>)) (\<lambda>_. bind (s_perform D a) (\<lambda>_.
         if po_action_settle_s (dr_policy D) \<noteq> 0 then s_sleep D (po_action_settle_s (dr_policy D)) else ret ()))) (\<lambda>_. True)"
      using assms(1) by (intro later.steps_bind_any later.steps_if later.steps_ret later_steps_modify later_steps_perform later_steps_sleep) simp_all
    moreover obtain s1 where "limiter_acquire D s = (Ret (), s1)" using fst_acquire [of D s] by (metis prod.collapse)
    ultimately show ?thesis unfolding s_action_def bind_def [of "limiter_acquire D"] steps_def later_def by simp
  qed
  have "last (ds_stamps ?s1) = now" using k(4) by simp
  then have "acted_times (ds_log (snd (s_action D a s))) = acted_times (ds_log s) @ [now]"
    by (simp add: s_action_log action_entry_def)
  then show ?thesis using nxt rest k(4) unfolding in_pace_def by (auto intro: paced_later)
qed

lemma steps_action_in_pace:
  assumes "steady D tm" "0 < po_max_actions_per_second (dr_policy D)"
  shows "steps (keeps (in_pace D tm)) (s_action D a) (\<lambda>_. True)"
  using action_in_pace [OF assms] by (simp add: steps_def keeps_def)

lemma pace_desktop:
  assumes "steady D tm"
  shows "desktop_law (keeps (in_pace D tm)) D"
proof unfold_locales
  show "steps (keeps (in_pace D tm)) (s_call (dr_windows D)) (\<lambda>_. True)"
    using assms later_steps_call [of tm "dr_windows D"] by (intro keeps_later) (simp_all add: steady_def)
  show "steps (keeps (in_pace D tm)) (s_call (dr_find D k)) (\<lambda>_. True)" for k
    using assms later_steps_call [of tm "dr_find D k"] by (intro keeps_later) (simp_all add: steady_def)
  show "steps (keeps (in_pace D tm)) (s_focused D) (\<lambda>_. True)"
    using assms later_steps_call [of tm "dr_focused D"] unfolding s_focused_def
    by (intro keeps.steps_bind_any keeps.steps_ret keeps.steps_modify keeps_later) (simp_all add: steady_def keeps_def in_pace_def)
  show "steps (keeps (in_pace D tm)) (s_now D) (\<lambda>_. True)"
    using later_steps_now [OF assms] by (rule keeps_later) (simp add: s_now_def split: prod.splits)
  show "steps (keeps (in_pace D tm)) (s_sleep D d) (\<lambda>_. True)" for d
    using later_steps_sleep [OF assms] by (rule keeps_later) (simp add: s_sleep_def modify_def)
  show "keeps (in_pace D tm) s (s\<lparr>ds_expected_focus := f\<rparr>)" for s f by (simp add: keeps_def in_pace_def)
qed

lemma pace_law:
  assumes "steady D tm" "0 < po_max_actions_per_second (dr_policy D)"
  shows "screen_law (keeps (in_pace D tm)) D"
proof (intro screen_law.intro pace_desktop screen_law_axioms.intro assms)
  have "steps (later tm) (shoot D label) (\<lambda>_. True)" for label
    using assms(1) unfolding shoot_def Let_def
    by (intro later.steps_rules later_steps_modify later_steps_call) (simp_all add: steady_def)
  moreover have "acted_times (ds_log (snd (shoot D label s))) = acted_times (ds_log s)" for label s
    by (simp add: shoot_def bind_def modify_def gets_def Let_def ret_def s_call_def split: prod.splits sum.splits)
  ultimately show "steps (keeps (in_pace D tm)) (shoot D label) (\<lambda>_. True)" for label by (rule keeps_later)
  show "keeps (in_pace D tm) s (s\<lparr>ds_metrics := ms\<rparr>)" for s ms by (simp add: keeps_def in_pace_def)
  show "steps (keeps (in_pace D tm)) (s_action D (Activate w)) (\<lambda>_. True)" for w by (rule steps_action_in_pace [OF assms])
  show "steps (keeps (in_pace D tm)) (bind (guard_focus D) (\<lambda>_. s_action D a)) (\<lambda>_. True)" for a
    using desktop_law.guards [OF pace_desktop [OF assms(1)]] by (rule keeps.steps_bind_any) (rule steps_action_in_pace [OF assms])
qed

text \<open>
  C26. The rate limit holds: if no call takes the clock back and \<open>sleep\<close> sleeps at least as long as it is told, then in every state of a
  driver no second of the clock, wherever it starts, holds more actions than the policy allows.
\<close>
theorem rate_limit_holds:
  assumes "driven D s" "steady D tm" "0 < po_max_actions_per_second (dr_policy D)"
  shows "in_second a (acted_times (ds_log s)) \<le> po_max_actions_per_second (dr_policy D)"
proof -
  have "in_pace D tm s" using assms(1)
  proof induction
    case (start w)
    then show ?case by (simp add: in_pace_def paced_def new_driver_state_def in_second_def)
  next
    case (call s m)
    then show ?case using screen_law.primitive [OF pace_law [OF assms(2,3)] call(2)] by (simp add: steps_def keeps_def)
  qed
  then show ?thesis by (simp add: in_pace_def paced_def)
qed


section \<open>Waiting comes to an end\<close>

definition forward :: "('w \<Rightarrow> time) \<Rightarrow> 'w screen_state \<Rightarrow> 'w screen_state \<Rightarrow> bool" where
  "forward tm s s' \<longleftrightarrow> tm (ds_world s) \<le> tm (ds_world s')"

interpretation forward: effect_order "forward tm"
  by unfold_locales (auto simp: forward_def)

lemma forward_later: "steps (later tm) m A \<Longrightarrow> steps (forward tm) m A"
  by (erule steps_mono) (simp add: later_def forward_def)

lemma forward_modify: "(\<And>s. ds_world (f s) = ds_world s) \<Longrightarrow> steps (forward tm) (modify f) (\<lambda>_. True)"
  by (simp add: steps_def forward_def modify_def)

lemma forward_desktop:
  assumes "steady D tm"
  shows "desktop_law (forward tm) D"
proof unfold_locales
  show "steps (forward tm) (s_call (dr_windows D)) (\<lambda>_. True)" "steps (forward tm) (s_call (dr_find D k)) (\<lambda>_. True)" for k
    using assms by (intro forward_later later_steps_call; simp add: steady_def)+
  show "steps (forward tm) (s_focused D) (\<lambda>_. True)"
    using assms unfolding s_focused_def
    by (intro forward.steps_bind_any forward.steps_ret forward_modify forward_later later_steps_call) (simp_all add: steady_def)
qed (auto simp: forward_def intro: forward_later later_steps_now [OF assms] later_steps_sleep [OF assms])

lemma forward_shoot:
  assumes "steady D tm"
  shows "steps (forward tm) (shoot D label) (\<lambda>_. True)"
  using assms unfolding shoot_def Let_def
  by (intro forward.steps_rules forward_modify forward_later later_steps_call) (simp_all add: steady_def)

lemma forward_result: "steady D tm \<Longrightarrow> steps (forward tm) (s_result D ok sentence before matched) (\<lambda>_. True)"
  unfolding s_result_def by (intro forward.steps_bind_any forward_shoot forward.steps_ret) simp_all

abbreviation comes_back :: "('w, 'a) screen_prog \<Rightarrow> bool" where
  "comes_back m \<equiv> yields (\<lambda>_. True) m (\<lambda>_. True) (\<lambda>_. True)"

lemma back_not_crash: "comes_back m \<Longrightarrow> fst (m s) \<noteq> Crash"
  using yieldsD [of "\<lambda>_. True" m "\<lambda>_. True" "\<lambda>_. True" s] by (cases "fst (m s)") auto

lemma back_call: "comes_back (s_call f)"
  by (simp add: yields_def s_call_def Let_def split: prod.splits sum.splits)

lemma back_now: "comes_back (s_now D)"
  by (simp add: yields_def s_now_def split: prod.splits)

lemma back_focused: "comes_back (s_focused D)"
  unfolding s_focused_def by (intro yields_bind_any back_call yields_modify yields_ret) simp_all

lemma back_shoot: "comes_back (shoot D label)"
  unfolding shoot_def Let_def by (intro yields_bind_any back_call yields_modify yields_ret yields_gets) simp_all

lemma back_result: "comes_back (s_result D ok sentence before matched)"
  unfolding s_result_def by (intro yields_bind_any back_shoot yields_ret) simp_all

lemma back_looks: "comes_back (look_for D window text picture)"
  unfolding look_for_def find_window_def deny_check_def
  by (auto intro!: yields_bind_any back_call yields_modify yields_ret yields_raise back_focused split: option.splits)

text \<open>A result of waiting until \<open>deadline\<close>: something turned up, an error, or the time is over.\<close>

definition waited :: "('w \<Rightarrow> time) \<Rightarrow> time \<Rightarrow> (screen_result, screen_error) outcome \<times> 'w screen_state \<Rightarrow> bool" where
  "waited tm deadline r \<longleftrightarrow> (case fst r of Crash \<Rightarrow> False | Raise _ \<Rightarrow> True | Ret x \<Rightarrow> scr_ok x \<or> deadline \<le> tm (ds_world (snd r)))"

lemma result_waited:
  assumes "steady D tm" "ok \<or> deadline \<le> tm (ds_world s)"
  shows "waited tm deadline (s_result D ok sentence before matched s)"
proof -
  have "fst (s_result D ok sentence before matched s) \<noteq> Crash" by (rule back_not_crash [OF back_result])
  moreover have "tm (ds_world s) \<le> tm (ds_world (snd (s_result D ok sentence before matched s)))"
    using forward_result [OF assms(1)] by (simp add: steps_def forward_def)
  moreover have "scr_ok x = ok" if "fst (s_result D ok sentence before matched s) = Ret x" for x
    using that unfolding s_result_def by (auto simp: bind_def ret_def split: prod.splits outcome.splits)
  ultimately show ?thesis using assms(2) unfolding waited_def by (auto split: outcome.splits)
qed

lemma wait_loop_step:
  assumes "steady D tm"
    and again: "\<And>s2. of_int (tm (ds_world s)) + po_poll_interval_s (dr_policy D) * 1000000 \<le> (of_int (tm (ds_world s2)) :: rat) \<Longrightarrow>
      deadline \<le> tm (ds_world s) \<or> waited tm deadline (wait_loop n D window text picture timeout deadline before s2)"
  shows "waited tm deadline (wait_loop (Suc n) D window text picture timeout deadline before s)"
proof -
  obtain r s1 where look: "look_for D window text picture s = (r, s1)" by fastforce
  have t1: "tm (ds_world s) \<le> tm (ds_world s1)"
    using desktop_law.looks [OF forward_desktop [OF assms(1)], of window "text" picture] look unfolding steps_def forward_def by (metis snd_conv)
  obtain now w2 where n: "dr_now D (ds_world s1) = (now, w2)" by fastforce
  have t2: "tm (ds_world s1) \<le> now" "now \<le> tm w2" using assms(1) n unfolding steady_def by (metis fst_conv snd_conv)+
  show ?thesis
  proof (cases r)
    case (Ret found)
    show ?thesis
    proof (cases found)
      case None
      show ?thesis
      proof (cases "deadline \<le> now")
        case True
        then show ?thesis using look Ret None n t2 by (auto simp: bind_def s_now_def intro!: result_waited [OF assms(1)])
      next
        case False
        let ?s2 = "s1\<lparr>ds_world := dr_sleep D (po_poll_interval_s (dr_policy D)) w2\<rparr>"
        have "of_int (tm w2) + po_poll_interval_s (dr_policy D) * 1000000 \<le> (of_int (tm (ds_world ?s2)) :: rat)"
          using assms(1) unfolding steady_def by simp
        moreover have "(of_int (tm (ds_world s)) :: rat) \<le> of_int (tm w2)" using t1 t2 by simp
        ultimately have "waited tm deadline (wait_loop n D window text picture timeout deadline before ?s2)"
          using again [of ?s2] False t1 t2 by linarith
        then show ?thesis using look Ret None n False by (simp add: bind_def s_now_def s_sleep_def modify_def)
      qed
    next
      case (Some p)
      then show ?thesis using look Ret by (cases p) (auto simp: bind_def intro!: result_waited [OF assms(1)])
    qed
  next
    case Crash
    then show ?thesis using back_not_crash [OF back_looks, of D window "text" picture s] look by simp
  qed (simp add: look bind_def waited_def)
qed

lemma wait_loop_waited:
  assumes "steady D tm" "of_int deadline \<le> of_int (tm (ds_world s)) + of_nat n * (po_poll_interval_s (dr_policy D) * 1000000)"
  shows "waited tm deadline (wait_loop (Suc n) D window text picture timeout deadline before s)"
  using assms(2)
proof (induction n arbitrary: s)
  case (0 s)
  then show ?case by (intro wait_loop_step [OF assms(1)]) simp
next
  case (Suc n s)
  show ?case
  proof (rule wait_loop_step [OF assms(1)], rule disjI2, rule Suc.IH)
    fix s2 assume "of_int (tm (ds_world s)) + po_poll_interval_s (dr_policy D) * 1000000 \<le> (of_int (tm (ds_world s2)) :: rat)"
    then show "of_int deadline \<le> of_int (tm (ds_world s2)) + of_nat n * (po_poll_interval_s (dr_policy D) * 1000000)"
      using Suc.prems by (simp add: algebra_simps)
  qed
qed

lemma counted_waited: "waited tm deadline (m s) \<Longrightarrow> waited tm deadline (counted_primitive primitive m s)"
  by (cases "m s") (auto simp: counted_primitive_def waited_def bind_def catch_def modify_def ret_def raise_def split: outcome.splits screen_error.splits)

text \<open>
  C27. Waiting ends: if the clock is not taken back, \<open>sleep\<close> sleeps as long as it is told and the polling interval is positive,
  \<open>wait_for\<close> comes back, with what it waited for, an error, or the answer that it did not appear; and it gives that answer only after
  the whole timeout of the step, scaled as the policy says.
\<close>
theorem wait_for_comes_back:
  assumes "steady D tm" "0 < po_poll_interval_s (dr_policy D)"
  shows "case wait_for D window words picture timeout_s s of
      (Crash, s') \<Rightarrow> False
    | (Raise e, s') \<Rightarrow> True
    | (Ret r, s') \<Rightarrow> scr_ok r \<or> tm (ds_world s) + round_half_even ((case timeout_s of None \<Rightarrow> po_default_timeout_s (dr_policy D) | Some t \<Rightarrow> t)
        * po_wait_timeout_scale (dr_policy D) * 1000000) \<le> tm (ds_world s')"
proof -
  let ?t = "(case timeout_s of None \<Rightarrow> po_default_timeout_s (dr_policy D) | Some t \<Rightarrow> t) * po_wait_timeout_scale (dr_policy D)"
  let ?us = "round_half_even (?t * 1000000)"
  let ?body = "bind (shoot D ''wait-before'') (\<lambda>before. bind (s_now D) (\<lambda>now.
     wait_loop (wait_rounds D ?t) D window words picture ?t (now + ?us) before))"
  have "waited tm (tm (ds_world s) + ?us) (?body s)"
  proof (cases "shoot D ''wait-before'' s")
    case (Pair r s1)
    have t1: "tm (ds_world s) \<le> tm (ds_world s1)"
      using forward_shoot [OF assms(1), of "''wait-before''"] Pair unfolding steps_def forward_def by (metis snd_conv)
    obtain now w2 where n: "dr_now D (ds_world s1) = (now, w2)" by fastforce
    have t2: "tm (ds_world s1) \<le> now" "now \<le> tm w2" using assms(1) n unfolding steady_def by (metis fst_conv snd_conv)+
    let ?p = "po_poll_interval_s (dr_policy D) * 1000000"
    have "of_int ?us / ?p \<le> of_nat (nat \<lceil>of_int ?us / ?p\<rceil>)" by (rule of_nat_ceiling)
    then have "of_int ?us \<le> of_nat (nat \<lceil>of_int ?us / ?p\<rceil>) * ?p" using assms(2) by (simp add: field_simps)
    then have "waited tm (now + ?us) (wait_loop (wait_rounds D ?t) D window words picture ?t (now + ?us) x (s1\<lparr>ds_world := w2\<rparr>))" for x
      unfolding wait_rounds_def Suc_eq_plus1 [symmetric] using t2 by (intro wait_loop_waited [OF assms(1)]) simp
    then have "waited tm (tm (ds_world s) + ?us) (wait_loop (wait_rounds D ?t) D window words picture ?t (now + ?us) x (s1\<lparr>ds_world := w2\<rparr>))" for x
      using t1 t2 unfolding waited_def by (fastforce split: outcome.splits)
    moreover have "r \<noteq> Crash" using back_not_crash [OF back_shoot, of D "''wait-before''" s] Pair by simp
    ultimately show ?thesis using Pair n by (cases r) (auto simp: bind_def s_now_def waited_def)
  qed
  then have "waited tm (tm (ds_world s) + ?us) (wait_for D window words picture timeout_s s)"
    unfolding wait_for_def Let_def by (rule counted_waited)
  then show ?thesis unfolding waited_def by (auto split: prod.splits outcome.splits)
qed


section \<open>Screenshots\<close>

text \<open>What a call that returns has added to the log.\<close>

definition adds :: "('w, 'a) screen_prog \<Rightarrow> ('a \<Rightarrow> screen_event list \<Rightarrow> bool) \<Rightarrow> bool" where
  "adds m Q \<longleftrightarrow> (\<forall>s r s'. m s = (Ret r, s') \<longrightarrow> (\<exists>new. ds_log s' = ds_log s @ new \<and> Q r new))"

lemma adds_quiet: "steps (extends ds_log (\<lambda>_. False)) m (\<lambda>_. True) \<Longrightarrow> (\<And>x. adds (k x) Q) \<Longrightarrow> adds (bind m k) Q"
  unfolding adds_def bind_eq_Ret steps_def extends_def
  by (clarsimp simp: list_all_iff filter_empty_conv) (metis (no_types, lifting) append_Nil2 last_in_set snd_conv)

lemma adds_bind:
  assumes "adds m P" "\<And>x. adds (k x) (Q x)" "\<And>x a r b. P x a \<Longrightarrow> Q x r b \<Longrightarrow> T r (a @ b)"
  shows "adds (bind m k) T"
  unfolding adds_def
proof (intro allI impI)
  fix s r s' assume "bind m k s = (Ret r, s')"
  then obtain x t where "m s = (Ret x, t)" "k x t = (Ret r, s')" unfolding bind_eq_Ret by blast
  then obtain a b where "ds_log t = ds_log s @ a" "P x a" "ds_log s' = ds_log t @ b" "Q x r b" using assms(1,2) unfolding adds_def by blast
  then show "\<exists>new. ds_log s' = ds_log s @ new \<and> T r new" using assms(3) by auto
qed

lemma adds_shoot: "adds (shoot D label) (\<lambda>p new. new = [Shot p])"
  by (auto simp: adds_def shoot_def bind_def modify_def gets_def Let_def ret_def s_call_def split: prod.splits sum.splits)

lemma adds_result: "adds (s_result D ok sentence before matched) (\<lambda>r new. \<exists>p. new = [Shot p] \<and> scr_after r = Some p \<and> scr_before r = Some before \<and> scr_ok r = ok)"
  unfolding s_result_def by (rule adds_bind [OF adds_shoot, where Q = "\<lambda>p r new. new = [] \<and> r = _ p"]) (auto simp: adds_def ret_def)

lemma adds_action: "adds (s_action D a) (\<lambda>_ new. \<exists>t seen expected. new = [Acted a t seen expected])"
  unfolding adds_def by (metis s_action_log action_entry_def snd_conv)

fun shot_taken :: "screen_event \<Rightarrow> string option" where
  "shot_taken (Shot p) = Some p"
| "shot_taken (Acted _ _ _ _) = None"

definition shot_paths :: "screen_event list \<Rightarrow> string list" where
  "shot_paths es = List.map_filter shot_taken es"

lemma shot_paths_simps [simp]: "shot_paths [] = []" "shot_paths (es @ fs) = shot_paths es @ shot_paths fs"
  "shot_paths (Shot p # es) = p # shot_paths es" "shot_paths (Acted a t seen expected # es) = shot_paths es"
  by (simp_all add: shot_paths_def List.map_filter_def)

text \<open>The log of a step: the screenshot before, at most one action, and none if the step failed, the screenshot after.\<close>

definition photographed :: "string \<Rightarrow> screen_result \<Rightarrow> screen_event list \<Rightarrow> bool" where
  "photographed b r new \<longleftrightarrow> (\<exists>mid a. new = mid @ [Shot a] \<and> scr_before r = Some b \<and> scr_after r = Some a \<and>
     length mid \<le> 1 \<and> shot_paths mid = [] \<and> (\<not> scr_ok r \<longrightarrow> mid = []))"

lemma photo_result: "adds (s_result D ok sentence b matched) (photographed b)"
  using adds_result [of D ok sentence b matched] unfolding adds_def photographed_def by fastforce

lemma photo_action: "adds (bind (s_action D a) (\<lambda>_. s_result D True sentence b matched)) (photographed b)"
  by (rule adds_bind [OF adds_action adds_result]) (auto simp: photographed_def)

lemma photo_action_focus:
  "adds (bind (s_action D a) (\<lambda>_. bind (modify (\<lambda>s. s\<lparr>ds_expected_focus := f\<rparr>)) (\<lambda>_. s_result D True sentence b matched))) (photographed b)"
  by (rule adds_bind [OF adds_action adds_quiet [OF steps_quiet adds_result]]) (auto simp: photographed_def)

lemma photo_counted: "adds m Q \<Longrightarrow> adds (counted_primitive p m) Q"
  unfolding counted_primitive_def adds_def bind_eq_Ret
  by (auto simp: catch_def modify_def ret_def raise_def bind_def split: prod.splits outcome.splits screen_error.splits)

lemma photo_step: "(\<And>b. adds (k b) (photographed b)) \<Longrightarrow>
    adds (counted_primitive p (bind (shoot D label) k)) (\<lambda>r new. \<exists>b rest. new = Shot b # rest \<and> photographed b r rest)"
  by (intro photo_counted adds_bind [OF adds_shoot]) auto

lemma photo_wait: "adds (wait_loop n D window text picture timeout deadline b) (photographed b)"
proof (induction n)
  case 0
  show ?case by (simp add: adds_def)
next
  case (Suc n)
  have now: "adds (bind (s_now D) k) Q" if "\<And>now. adds (k now) Q" for k :: "time \<Rightarrow> ('a, screen_result) screen_prog" and Q
    using steps_now that by (rule adds_quiet)
  have sleep: "adds (bind (s_sleep D d) k) Q" if "\<And>u. adds (k u) Q" for k :: "unit \<Rightarrow> ('a, screen_result) screen_prog" and Q d
    using steps_sleep that by (rule adds_quiet)
  show ?case using Suc by (auto intro!: adds_quiet [OF quiet.looks] now sleep photo_result split: option.splits)
qed

text \<open>No screenshot overwrites another: the paths in the log are numbered.\<close>

definition shot_path :: "'w screen_driver \<Rightarrow> nat \<times> string \<Rightarrow> string" where
  "shot_path D n = dr_screenshots_dir D @ ''/'' @ zero_pad 4 (show_nat (fst n)) @ ''-'' @ shot_name (snd n) @ ''.png''"

lemma shot_path_number: "shot_path D n = shot_path D m \<Longrightarrow> fst n = fst m"
proof -
  have split: "takeWhile is_digit (zero_pad 4 (show_nat k) @ CHR ''-'' # rest) = zero_pad 4 (show_nat k)" for k rest
    using zero_pad_digits [OF show_nat_digits, of 4 k] by (simp add: takeWhile_append list_all_iff is_digit_def)
  assume "shot_path D n = shot_path D m"
  then have "zero_pad 4 (show_nat (fst n)) = zero_pad 4 (show_nat (fst m))"
    using split [of "fst n"] split [of "fst m"] unfolding shot_path_def by (metis append_Cons append_Nil same_append_eq)
  then show ?thesis by (metis nat_of_digits_show nat_of_digits_zero_pad)
qed

definition shots_numbered :: "'w screen_driver \<Rightarrow> 'w screen_state \<Rightarrow> bool" where
  "shots_numbered D s \<longleftrightarrow> (\<exists>labels. shot_paths (ds_log s) = map (shot_path D) (zip [1..<Suc (ds_shot_counter s)] labels) \<and> length labels = ds_shot_counter s)"

lemma shots_distinct: "shots_numbered D s \<Longrightarrow> distinct (shot_paths (ds_log s))"
proof -
  assume "shots_numbered D s"
  then obtain labels where l: "shot_paths (ds_log s) = map (shot_path D) (zip [1..<Suc (ds_shot_counter s)] labels)" "length labels = ds_shot_counter s"
    unfolding shots_numbered_def by blast
  have "distinct (map fst (zip [1..<Suc (ds_shot_counter s)] labels))" using l(2) by simp
  then have "inj_on (shot_path D) (set (zip [1..<Suc (ds_shot_counter s)] labels))"
    unfolding distinct_map inj_on_def using shot_path_number by blast
  then show ?thesis using l by (simp add: distinct_map distinct_zipI1 del: upt_Suc)
qed

abbreviation shots_of :: "'w screen_state \<Rightarrow> string list \<times> nat" where
  "shots_of s \<equiv> (shot_paths (ds_log s), ds_shot_counter s)"

lemma same_shots_call: "steps (same shots_of) (s_call f) (\<lambda>_. True)"
  by (auto simp: steps_def same_def s_call_def Let_def split: prod.splits sum.splits)

lemma same_shots_quiet: "(\<And>s. ds_log (f s) = ds_log s) \<Longrightarrow> (\<And>s. ds_shot_counter (f s) = ds_shot_counter s) \<Longrightarrow> steps (same shots_of) (modify f) (\<lambda>_. True)"
  by (simp add: steps_def same_def modify_def)

lemma same_shots_now: "steps (same shots_of) (s_now D) (\<lambda>_. True)"
  by (simp add: steps_def same_def s_now_def split: prod.splits)

interpretation same_shots: desktop_law "same shots_of" D for D
  by unfold_locales (auto simp: same_def s_focused_def s_sleep_def intro!: same_shots_call same_shots_now same_shots_quiet same.steps_bind_any same.steps_ret)

lemma same_shots_action: "steps (same shots_of) (s_action D a) (\<lambda>_. True)"
proof -
  have "steps (same shots_of) (s_perform D a) (\<lambda>_. True)"
    unfolding s_perform_def by (rule same.steps_bind_any [OF _ same_shots_call]) (simp add: steps_def same_def modify_def)
  then show ?thesis
    unfolding s_action_def limiter_acquire_def drop_stamps_def
    by (intro same.steps_rules same_shots_quiet same_shots_now same_shots.sleeps) simp_all
qed

lemma numbered_same: "steps (same shots_of) m A \<Longrightarrow> steps (keeps (shots_numbered D)) m A"
  by (erule steps_mono) (simp add: same_def keeps_def shots_numbered_def)

lemma numbered_shoot: "steps (keeps (shots_numbered D)) (shoot D label) (\<lambda>_. True)"
proof -
  have "ds_shot_counter (snd (shoot D label s)) = Suc (ds_shot_counter s) \<and>
      shot_paths (ds_log (snd (shoot D label s))) = shot_paths (ds_log s) @ [shot_path D (Suc (ds_shot_counter s), label)]" for s
    by (simp add: shoot_def bind_def modify_def gets_def Let_def ret_def s_call_def shot_path_def split: prod.splits sum.splits)
  moreover have "zip [1..<Suc (Suc n)] (labels @ [label]) = zip [1..<Suc n] labels @ [(Suc n, label)]" if "length labels = n" for n labels
    using that by simp
  ultimately show ?thesis
    unfolding steps_def keeps_def shots_numbered_def by (metis (no_types, lifting) length_append_singleton map_append list.simps(8,9))
qed

interpretation numbered: screen_law "keeps (shots_numbered D)" D for D
  by unfold_locales
     (auto simp: keeps_def shots_numbered_def intro!: numbered_shoot numbered_same same_shots_call same_shots_now same_shots.focused same_shots.sleeps
       same_shots_action same.steps_bind_any [OF same_shots.guards])

text \<open>
  C28. Every step of the screen is photographed: in every state of a driver, a primitive other than \<open>screenshot\<close> that returns has
  taken one screenshot before and one after everything else it did, and returns their paths; in between it sent at most one input, and none if it
  reports a failure. No screenshot of the driver's life has the path of another.
\<close>
theorem steps_are_photographed:
  assumes "driven D s" "screen_primitive D m" "m s = (Ret r, s')" "\<And>name. m \<noteq> screenshot D name"
  shows "distinct (shot_paths (ds_log s')) \<and>
    (\<exists>b mid a. ds_log s' = ds_log s @ [Shot b] @ mid @ [Shot a] \<and> scr_before r = Some b \<and> scr_after r = Some a \<and>
       length mid \<le> 1 \<and> shot_paths mid = [] \<and> (\<not> scr_ok r \<longrightarrow> mid = []))"
proof
  have "shots_numbered D s" using assms(1)
  proof induction
    case (start w)
    then show ?case by (simp add: shots_numbered_def new_driver_state_def)
  next
    case (call s m)
    then show ?case using numbered.primitive [OF call(2)] by (simp add: steps_def keeps_def)
  qed
  then have "shots_numbered D s'" using numbered.primitive [OF assms(2)] assms(3) unfolding steps_def keeps_def by (metis snd_conv)
  then show "distinct (shot_paths (ds_log s'))" by (rule shots_distinct)
  have "adds m (\<lambda>r new. \<exists>b rest. new = Shot b # rest \<and> photographed b r rest)"
    using assms(2)
  proof cases
    case 1
    then show ?thesis unfolding focus_window_def
      by (auto intro!: photo_step adds_quiet [OF quiet.finds] adds_quiet [OF quiet.denies_any] photo_result photo_action_focus split: option.splits)
  next
    case 2
    then show ?thesis unfolding click_def Let_def
      by (auto intro!: photo_step adds_quiet [OF quiet.locates] adds_quiet [OF quiet.guards] photo_result photo_action split: option.splits)
  next
    case 3
    then show ?thesis unfolding type_text_def by (auto intro!: photo_step adds_quiet [OF quiet.guards] photo_action)
  next
    case 4
    then show ?thesis unfolding key_def by (auto intro!: photo_step adds_quiet [OF quiet.guards] photo_action)
  next
    case 5
    then show ?thesis unfolding scroll_def by (auto intro!: photo_step adds_quiet [OF quiet.guards] photo_result photo_action)
  next
    case 6
    then show ?thesis unfolding wait_for_def Let_def by (auto intro!: photo_step adds_quiet [OF steps_now] photo_wait)
  next
    case 7
    then show ?thesis using assms(4) by blast
  next
    case 8
    have ask: "adds (bind (if p \<noteq> None then ret p else case x of None \<Rightarrow> ret None | Some t \<Rightarrow> s_call (dr_find D (SeekImage t))) k) Q"
      if "\<And>q. adds (k q) Q" for p x k Q
      using that by (rule adds_quiet [rotated]) (auto intro!: extends.steps_ret steps_call split: option.splits)
    show ?thesis unfolding 8 assert_visible_def
      by (intro photo_step adds_quiet [OF quiet.sought] ask) (simp add: photo_result)
  qed
  then obtain b rest where "ds_log s' = ds_log s @ Shot b # rest" "photographed b r rest" using assms(3) unfolding adds_def by blast
  then show "\<exists>b mid a. ds_log s' = ds_log s @ [Shot b] @ mid @ [Shot a] \<and> scr_before r = Some b \<and> scr_after r = Some a \<and>
       length mid \<le> 1 \<and> shot_paths mid = [] \<and> (\<not> scr_ok r \<longrightarrow> mid = [])"
    unfolding photographed_def by force
qed


section \<open>Instances, and what the code also does\<close>

text \<open>A desktop with an editor that has the focus until the driver sleeps, and an \<open>xterm\<close> that takes it then; the world is the time, the
  focus, and the input with the window it went to.\<close>

definition editor_window :: window where
  "editor_window = \<lparr>w_id = ''1'', w_title = ''Editor'', w_wm_class = ''gedit''\<rparr>"

definition xterm_window :: window where
  "xterm_window = \<lparr>w_id = ''2'', w_title = ''xterm'', w_wm_class = ''XTerm''\<rparr>"

type_synonym desk = "time \<times> window \<times> (screen_act \<times> window) list"

definition desk_driver :: "(window \<Rightarrow> window) \<Rightarrow> desk screen_driver" where
  "desk_driver on_sleep = \<lparr>dr_windows = (\<lambda>w. (Inr [editor_window, xterm_window], w)), dr_focused = (\<lambda>w. (Inr (Some (fst (snd w))), w)),
     dr_find = (\<lambda>k w. (Inr None, w)), dr_perform = (\<lambda>a (t, f, got). (Inr (), (t, f, got @ [(a, f)]))), dr_screenshot = (\<lambda>p w. (Inr (), w)),
     dr_now = (\<lambda>w. (fst w, w)), dr_sleep = (\<lambda>d (t, f, got). (t + max 0 \<lceil>d * 1000000\<rceil>, on_sleep f, got)), dr_compile = (\<lambda>_. None),
     dr_policy = default_policy\<lparr>po_max_actions_per_second := 1, po_deny_patterns := [(''xterm'', lit_ci ''xterm'')]\<rparr>, dr_screenshots_dir = ''shots''\<rparr>"

definition desk_start :: "desk screen_state" where
  "desk_start = new_driver_state (0, editor_window, [])"

lemma desk_steady: "steady (desk_driver f) fst"
proof -
  have "of_int t + d * 1000000 \<le> (of_int (t + max 0 \<lceil>d * 1000000\<rceil>) :: rat)" for t d
    using le_of_int_ceiling [of "d * 1000000"] by (simp add: max_def)
  then show ?thesis by (auto simp: steady_def desk_driver_def)
qed

definition desk_typed :: "(window \<Rightarrow> window) \<Rightarrow> desk screen_state" where
  "desk_typed f = snd (type_text (desk_driver f) ''b'' (snd (type_text (desk_driver f) ''a'' desk_start)))"

lemma desk_driven: "driven (desk_driver f) (desk_typed f)"
  unfolding desk_typed_def desk_start_def by (intro driven.intros screen_primitive.intros)

lemma desk_facts:
  "acted_times (ds_log (desk_typed id)) = [0, 1000000] \<and> round_half_even 1000000 = 1000000 \<and>
   (case fst (type_text (desk_driver id) ''a'' desk_start) of Ret r \<Rightarrow> True | _ \<Rightarrow> False) \<and>
   length (shot_paths (ds_log (snd (type_text (desk_driver id) ''a'' desk_start)))) = 2"
  by code_simp

lemmas desk_typed_times = desk_facts [THEN conjunct1]

theorem input_goes_to_allowed_windows_witness:
  "list_all (event_allowed (dr_policy (desk_driver id))) (ds_log (desk_typed id)) \<and> length (acted_times (ds_log (desk_typed id))) = 2"
  using input_goes_to_allowed_windows [OF desk_driven, of id] by (simp add: desk_typed_times)

theorem rate_limit_holds_witness:
  "in_second 0 (acted_times (ds_log (desk_typed id))) \<le> 1 \<and> acted_times (ds_log (desk_typed id)) = [0, 1000000]"
  using rate_limit_holds [OF desk_driven desk_steady, of id 0] by (simp add: desk_typed_times desk_driver_def)

theorem wait_for_comes_back_witness:
  "case wait_for (desk_driver id) None (Some ''OK'') None (Some 1) desk_start of
      (Crash, s') \<Rightarrow> False | (Raise e, s') \<Rightarrow> True | (Ret r, s') \<Rightarrow> scr_ok r \<or> 1000000 \<le> fst (ds_world s')"
proof -
  have "round_half_even 1000000 = 1000000" using desk_facts by blast
  moreover have "po_poll_interval_s (dr_policy (desk_driver id)) = 1 / 2" "po_wait_timeout_scale (dr_policy (desk_driver id)) = 1"
      "fst (ds_world desk_start) = 0"
    by (simp_all add: desk_driver_def default_policy_def desk_start_def new_driver_state_def)
  ultimately show ?thesis
    using wait_for_comes_back [OF desk_steady [of id], where window = None and words = "Some ''OK''" and picture = None and timeout_s = "Some 1" and s = desk_start]
    by (auto split: prod.splits outcome.splits)
qed

theorem steps_are_photographed_witness:
  "\<exists>r s' b mid a. type_text (desk_driver id) ''a'' desk_start = (Ret r, s') \<and> ds_log s' = [Shot b] @ mid @ [Shot a] \<and> length mid \<le> 1 \<and> b \<noteq> a"
proof -
  have "case fst (type_text (desk_driver id) ''a'' desk_start) of Ret r \<Rightarrow> True | _ \<Rightarrow> False" using desk_facts by blast
  then obtain r s' where r: "type_text (desk_driver id) ''a'' desk_start = (Ret r, s')"
    by (cases "type_text (desk_driver id) ''a'' desk_start") (auto split: outcome.splits)
  have other: "type_text (desk_driver id) ''a'' \<noteq> screenshot (desk_driver id) name" for name
  proof
    assume "type_text (desk_driver id) ''a'' = screenshot (desk_driver id) name"
    moreover have "length (shot_paths (ds_log (snd (type_text (desk_driver id) ''a'' desk_start)))) = 2" using desk_facts by blast
    moreover have "length (shot_paths (ds_log (snd (screenshot (desk_driver id) name desk_start)))) = 1"
      by (simp add: screenshot_def counted_primitive_def bind_def catch_def modify_def ret_def shoot_def gets_def Let_def s_call_def desk_driver_def
          desk_start_def new_driver_state_def shot_paths_def List.map_filter_def)
    ultimately show False by simp
  qed
  have "driven (desk_driver id) desk_start" unfolding desk_start_def by (rule driven.start)
  from steps_are_photographed [OF this screen_primitive.intros(3) r other] show ?thesis
    using r by (auto simp: desk_start_def new_driver_state_def)
qed

text \<open>
  The focus is looked at before the rate limiter sleeps, and not again: when another window takes the focus during that
  time, the input goes there, even to a terminal.
\<close>

lemma focus_lost_while_waiting:
  "snd (snd (ds_world (desk_typed (\<lambda>_. xterm_window)))) = [(Send_text ''a'', editor_window), (Send_text ''b'', xterm_window)] \<and>
   denied (dr_policy (desk_driver id)) (w_title xterm_window) (w_wm_class xterm_window) \<noteq> None"
  by code_simp

end
