(* ===== verification/Git_Gate.thy ===== *)
theory Git_Gate
  imports Templates Schemas Stdlib Effects
begin

text \<open>
  The gate every push passes (\<open>packages/slas-git/slas_git/gate.py\<close>, the shapes of \<open>redact.py\<close>). It reads the repository
  through \<open>GitWorkspace.git\<close>, which is a parameter: from its arguments, a step on some state that returns the standard output or raises.
  The checks are pure functions of what it answers. Paths are those of \<open>PurePosixPath\<close>.
\<close>

section \<open>Paths and text\<close>

definition posix_parts :: "string \<Rightarrow> string list" where
  "posix_parts p =
     (if prefix ''//'' p \<and> \<not> prefix ''///'' p then [''//''] else if prefix ''/'' p then [''/''] else [])
     @ filter (\<lambda>x. x \<noteq> [] \<and> x \<noteq> ''.'') (split_on (CHR ''/'') p)"

definition posix_name :: "string \<Rightarrow> string" where
  "posix_name p = (case filter (\<lambda>x. x \<noteq> [] \<and> x \<noteq> ''.'') (split_on (CHR ''/'') p) of [] \<Rightarrow> [] | xs \<Rightarrow> last xs)"

definition partition_at :: "char \<Rightarrow> string \<Rightarrow> string \<times> string" where \<comment> \<open>\<open>str.partition\<close> without the separator\<close>
  "partition_at c s = (takeWhile (\<lambda>x. x \<noteq> c) s, drop 1 (dropWhile (\<lambda>x. x \<noteq> c) s))"

fun py_words :: "string \<Rightarrow> string \<Rightarrow> string list" where \<comment> \<open>\<open>str.split()\<close>, with the word read so far\<close>
  "py_words acc [] = (if acc = [] then [] else [rev acc])"
| "py_words acc (c # s) = (if is_space c then (if acc = [] then py_words [] s else rev acc # py_words [] s) else py_words (c # acc) s)"

definition tab_char :: char where
  "tab_char = CHR 0x09"


section \<open>Data\<close>

definition HOOK_DIRS :: "string list" where
  "HOOK_DIRS = [''hooks'', ''.githooks'', ''.husky'', ''.git-hooks'']"

definition LFS :: rx where
  "LFS = rseq [lit ''filter'', Star rspace, lit ''='', Star rspace, lit ''lfs'']"

record gate_policy =
  gp_max_files :: nat
  gp_max_blob_bytes :: int
  gp_max_total_bytes :: int
  gp_lfs_enabled :: bool

record gate_check =
  gc_name :: string
  gc_ok :: bool
  gc_sentence :: string

record gate_report =
  gr_checks :: "gate_check list"
  gr_verdict :: "consensus_verdict option"

definition report_passed :: "gate_report \<Rightarrow> bool" where
  "report_passed r \<longleftrightarrow> list_all gc_ok (gr_checks r)"

definition report_problems :: "gate_report \<Rightarrow> string list" where
  "report_problems r = map gc_sentence (filter (\<lambda>c. \<not> gc_ok c) (gr_checks r))"

definition report_sentence :: "gate_report \<Rightarrow> string" where
  "report_sentence r =
     (if report_passed r then ''All '' @ show_nat (length (gr_checks r)) @ '' checks passed.''
      else show_nat (length (report_problems r)) @ '' of '' @ show_nat (length (gr_checks r)) @ '' checks failed: ''
        @ py_join '' '' (report_problems r))"

record secret_finding =
  sf_path :: string
  sf_rule :: string
  sf_line :: "int option"

record secret_scanner =
  ss_name :: string
  ss_scan :: "string \<Rightarrow> secret_finding list"

datatype git_error = GitError three_part | GitValueError string


section \<open>The built-in scanner\<close>

definition alnum :: "char \<Rightarrow> bool" where
  "alnum c \<longleftrightarrow> is_word c \<and> c \<noteq> CHR ''_''"

definition upper_or_space :: rx where
  "upper_or_space = Star (Cls (\<lambda>c. (CHR ''A'' \<le> c \<and> c \<le> CHR ''Z'') \<or> c = CHR '' ''))"

definition key_line :: "string \<Rightarrow> rx" where
  "key_line word = rseq [lit (''-----'' @ word @ '' ''), upper_or_space, lit ''PRIVATE KEY-----'']"

definition at_least :: "nat \<Rightarrow> (char \<Rightarrow> bool) \<Rightarrow> rx" where
  "at_least n P = Seq (rtimes n (Cls P)) (Star (Cls P))"

text \<open>The shapes the scanner uses: all but the two it skips.\<close>

definition SECRET_SHAPES :: "(string \<times> rx) list" where
  "SECRET_SHAPES =
     [(''private_key'', rseq [key_line ''BEGIN'', LazyStar (Cls (\<lambda>_. True)), key_line ''END'']),
      (''private_key_header'', key_line ''BEGIN''),
      (''gitlab_pat'', rseq [WordB, lit ''glpat-'', at_least 16 (\<lambda>c. is_word c \<or> c = CHR ''-''), WordB]),
      (''github_token'', rseq [WordB, ralts (map lit [''ghp'', ''gho'', ''ghu'', ''ghs'', ''ghr'']), lit ''_'', at_least 30 alnum, WordB]),
      (''github_fine_grained'', rseq [WordB, lit ''github_pat_'', at_least 60 is_word, WordB]),
      (''basic_auth_url'', rseq [WordB, Alt (Seq (lit_ci ''http'') (ropt (lit_ci ''s''))) (lit_ci ''ssh''), lit ''://'',
         rplus (Cls (\<lambda>c. c \<notin> {CHR ''/'', CHR '':'', CHR ''@''} \<and> \<not> is_space c)), lit '':'',
         rplus (Cls (\<lambda>c. c \<notin> {CHR ''@'', CHR ''/''} \<and> \<not> is_space c)), lit ''@''])]"

definition secret_shape :: "string \<Rightarrow> string option" where
  "secret_shape line = map_option fst (find (\<lambda>(_, r). re_search r line) SECRET_SHAPES)"

text \<open>The number after the first plus sign that has digits behind it, for a line \<open>@@ -a,b +c,d @@\<close>.\<close>

fun hunk_start :: "string \<Rightarrow> int option" where
  "hunk_start [] = None"
| "hunk_start (c # s) = (if c = CHR ''+'' \<and> s \<noteq> [] \<and> is_digit (hd s) then Some (int (nat_of_digits (takeWhile is_digit s))) else hunk_start s)"

fun scan_lines :: "string \<Rightarrow> int \<Rightarrow> string list \<Rightarrow> secret_finding list" where
  "scan_lines path n [] = []"
| "scan_lines path n (line # ls) =
     (if prefix ''+++ b/'' line then scan_lines (drop 6 line) n ls
      else if prefix ''@@'' line then scan_lines path (case hunk_start line of None \<Rightarrow> 0 | Some k \<Rightarrow> k - 1) ls
      else if prefix ''+'' line \<and> \<not> prefix ''+++'' line then
        (case secret_shape line of None \<Rightarrow> [] | Some rule \<Rightarrow> [\<lparr>sf_path = path, sf_rule = rule, sf_line = Some (n + 1)\<rparr>])
        @ scan_lines path (n + 1) ls
      else scan_lines path (if prefix ''-'' line then n else n + 1) ls)"

definition RegexSecretScanner :: secret_scanner where
  "RegexSecretScanner = \<lparr>ss_name = ''built-in patterns'', ss_scan = (\<lambda>diff_text. scan_lines ''?'' 0 (py_splitlines diff_text))\<rparr>"


section \<open>The checks\<close>

fun climbs :: "int \<Rightarrow> int \<Rightarrow> string list \<Rightarrow> bool" where \<comment> \<open>the loop of \<open>_escapes\<close>: depth, level, the parts to come\<close>
  "climbs depth level [] = False"
| "climbs depth level (part # ps) =
     (if part = ''..'' then (if level + 1 > depth then True else climbs depth (level + 1) ps)
      else climbs depth (if part \<noteq> ''.'' then level - 1 else level) ps)"

definition link_escapes :: "string \<Rightarrow> string \<Rightarrow> bool" where
  "link_escapes link_target link_path =
     (if prefix ''/'' link_target then True
      else climbs (int (length (posix_parts link_path)) - 1) 0 (posix_parts link_target))"

type_synonym tree_entry = "string \<times> string \<times> string" \<comment> \<open>new mode, new sha, path\<close>

definition parse_entry :: "string \<Rightarrow> tree_entry option" where
  "parse_entry line =
     (let (meta, path) = partition_at tab_char line; parts = py_words [] meta
      in if 4 \<le> length parts then Some (parts ! 1, parts ! 3, path) else None)"

definition parse_entries :: "string \<Rightarrow> tree_entry list" where
  "parse_entries tree = List.map_filter parse_entry (py_splitlines tree)"

definition bad_path :: "string \<Rightarrow> bool" where
  "bad_path p \<longleftrightarrow> prefix ''/'' p \<or> ''..'' \<in> set (posix_parts p) \<or> hd (split_on (CHR ''/'') p) = ''.git''"

definition hook_path :: "string \<Rightarrow> bool" where
  "hook_path p \<longleftrightarrow> list_ex (\<lambda>part. part \<in> set HOOK_DIRS) (butlast (posix_parts p))"

definition gate_checked :: "string \<Rightarrow> bool \<Rightarrow> string \<Rightarrow> string \<Rightarrow> gate_check" where
  "gate_checked name ok good bad = \<lparr>gc_name = name, gc_ok = ok, gc_sentence = (if ok then good else bad)\<rparr>"

type_synonym ('s, 'a) git_prog = "('s, git_error, 'a) prog"

text \<open>\<open>int(stdout.strip() or "0")\<close>\<close>

definition blob_size :: "string \<Rightarrow> git_error + int" where
  "blob_size out = (let text = py_strip out in if text = [] then Inr 0 else
     case parse_int text of None \<Rightarrow> Inl (GitValueError text) | Some n \<Rightarrow> Inr n)"

fun escaping_links :: "(string list \<Rightarrow> ('s, string) git_prog) \<Rightarrow> tree_entry list \<Rightarrow> ('s, string list) git_prog" where
  "escaping_links git [] = ret []"
| "escaping_links git ((mode, sha, path) # es) =
     (if mode = ''120000'' then
        bind (git [''cat-file'', ''-p'', sha]) (\<lambda>out.
        let target = py_strip out in
        bind (escaping_links git es) (\<lambda>rest.
        ret (if link_escapes target path then (path @ '' '' @ arrow @ '' '' @ target) # rest else rest)))
      else escaping_links git es)"

fun measure_blobs :: "(string list \<Rightarrow> ('s, string) git_prog) \<Rightarrow> gate_policy \<Rightarrow> tree_entry list \<Rightarrow> int \<Rightarrow> ('s, int \<times> string list) git_prog" where
  "measure_blobs git policy [] tot = ret (tot, [])"
| "measure_blobs git policy ((mode, sha, path) # es) tot =
     (if mode = ''100644'' \<or> mode = ''100755'' then
        bind (git [''cat-file'', ''-s'', sha]) (\<lambda>out.
        bind (lift id (blob_size out)) (\<lambda>size.
        bind (measure_blobs git policy es (tot + size)) (\<lambda>(tot', big).
        ret (tot', if size > gp_max_blob_bytes policy then (path @ '' ('' @ show_commas (nat size) @ '' bytes)'') # big else big))))
      else measure_blobs git policy es tot)"

fun lfs_hits :: "(string list \<Rightarrow> ('s, string) git_prog) \<Rightarrow> tree_entry list \<Rightarrow> ('s, string list) git_prog" where
  "lfs_hits git [] = ret []"
| "lfs_hits git ((mode, sha, path) # es) =
     (if posix_name path = ''.gitattributes'' \<and> prefix ''100'' mode then
        bind (git [''cat-file'', ''-p'', sha]) (\<lambda>out.
        bind (lfs_hits git es) (\<lambda>rest. ret (if re_search LFS out then path # rest else rest)))
      else lfs_hits git es)"

definition show_commas_int :: "int \<Rightarrow> string" where
  "show_commas_int n = (if n < 0 then ''-'' @ show_commas (nat (- n)) else show_commas (nat n))"

record 's cross_checking =
  cc_check :: "string \<Rightarrow> string list \<Rightarrow> ('s, consensus_verdict) git_prog"

text \<open>The six checks that code decides, from what the repository answered.\<close>

definition path_check :: "string list \<Rightarrow> gate_check" where
  "path_check paths = (let bad = filter bad_path paths in
     gate_checked ''path_scope'' (bad = []) ''Every change stays inside the project.''
       (''Changes leave the project path: '' @ py_join '', '' (take 3 bad) @ ''.''))"

definition hooks_check :: "string list \<Rightarrow> gate_check" where
  "hooks_check paths = (let hooks = filter hook_path paths in
     gate_checked ''hooks'' (hooks = []) ''No hook files were added.''
       (''Hook files are not accepted: '' @ py_join '', '' (take 3 hooks) @ ''.''))"

definition submodules_check :: "tree_entry list \<Rightarrow> gate_check" where
  "submodules_check entries =
     gate_checked ''submodules'' (\<not> list_ex (\<lambda>(mode, sha, path). path = ''.gitmodules'' \<or> mode = ''160000'') entries)
       ''No submodule was added.'' ''Submodules are not accepted: they pull code from somewhere the gate cannot see.''"

definition symlinks_check :: "string list \<Rightarrow> gate_check" where
  "symlinks_check escaping =
     gate_checked ''symlinks'' (escaping = []) ''No symlink points outside the tree.''
       (''Symlinks escape the tree: '' @ py_join '', '' (take 3 escaping) @ ''.'')"

definition size_check :: "gate_policy \<Rightarrow> nat \<Rightarrow> int \<Rightarrow> string list \<Rightarrow> gate_check" where
  "size_check policy n tot oversized =
     gate_checked ''size'' (n \<le> gp_max_files policy \<and> tot \<le> gp_max_total_bytes policy \<and> oversized = [])
       (show_nat n @ '' '' @ (if n = 1 then ''file'' else ''files'') @ '', '' @ show_commas_int tot @ '' bytes changed.'')
       (''Too much for one push: '' @ show_nat n @ '' files, '' @ show_commas_int tot @ '' bytes''
        @ (if oversized \<noteq> [] then ''; oversized: '' @ py_join '', '' (take 3 oversized) else [])
        @ ''. The limits are '' @ show_nat (gp_max_files policy) @ '' files and '' @ show_commas_int (gp_max_total_bytes policy) @ '' bytes.'')"

definition lfs_check :: "gate_policy \<Rightarrow> string list \<Rightarrow> gate_check" where
  "lfs_check policy hits =
     gate_checked ''lfs'' (hits = [])
       (if \<not> gp_lfs_enabled policy then ''Git LFS is not used.'' else ''Git LFS is enabled for this remote.'')
       (''Git LFS is off for this remote, but '' @ py_join '', '' hits @ '' turns it on.'')"

definition show_line :: "int option \<Rightarrow> string" where
  "show_line n = (case n of None \<Rightarrow> ''None'' | Some k \<Rightarrow> show_int k)"

definition secrets_check :: "secret_scanner \<Rightarrow> secret_finding list \<Rightarrow> gate_check" where
  "secrets_check scanner findings =
     gate_checked ''secrets'' (findings = []) (''No secret found by '' @ ss_name scanner @ ''.'')
       (ss_name scanner @ '' found '' @ show_nat (length findings) @ '' secret-like '' @ (if length findings = 1 then ''value'' else ''values'')
        @ '': '' @ py_join '', '' (map (\<lambda>f. sf_path f @ '':'' @ show_line (sf_line f) @ '' ('' @ sf_rule f @ '')'') (take 3 findings))
        @ ''. Remove them and commit again.'')"

definition branch_check :: "bool \<Rightarrow> bool \<Rightarrow> gate_check" where
  "branch_check protected_branch may_push_protected =
     gate_checked ''branch_policy'' (\<not> protected_branch \<or> may_push_protected)
       (if \<not> protected_branch then ''Pushing to a branch.'' else ''Pushing to a protected branch, which you may do.'')
       ''Direct pushes to a protected branch need git:push_protected, which is off by default; push to a branch and open a merge request instead.''"

definition no_voters_check :: gate_check where
  "no_voters_check = gate_checked ''cross_check'' False []
     ''An agent wrote this change and no voters are configured to check it; review it yourself before pushing.''"

definition verdict_check :: "consensus_verdict \<Rightarrow> gate_check" where
  "verdict_check v = gate_checked ''cross_check'' (cv_agreed v) (cv_sentence v) (cv_sentence v)"

definition diff_stat :: "(string list \<Rightarrow> ('s, string) git_prog) \<Rightarrow> string \<Rightarrow> ('s, string) git_prog" where \<comment> \<open>\<open>GitWorkspace.diff\<close>\<close>
  "diff_stat git base = git [''diff'', ''--no-color'', ''--no-ext-diff'', ''--stat'', base, ''HEAD'']"

definition cross_check_push :: "(string list \<Rightarrow> ('s, string) git_prog) \<Rightarrow> string \<Rightarrow> string \<Rightarrow> bool \<Rightarrow> 's cross_checking option \<Rightarrow>
    ('s, gate_check list \<times> consensus_verdict option) git_prog" where
  "cross_check_push git base diff_text agent_authored checker =
     (if \<not> agent_authored then ret ([], None)
      else case checker of
        None \<Rightarrow> ret ([no_voters_check], None)
      | Some c \<Rightarrow>
          bind (diff_stat git base) (\<lambda>stat.
          bind (cc_check c ''code_change'' [''Diff stat:'' @ nl @ stat, ''Diff:'' @ nl @ py_take 40000 diff_text]) (\<lambda>v.
          ret ([verdict_check v], Some v))))"

definition validate_push :: "(string list \<Rightarrow> ('s, string) git_prog) \<Rightarrow> string \<Rightarrow> string \<Rightarrow> gate_policy \<Rightarrow> secret_scanner \<Rightarrow> bool \<Rightarrow>
    's cross_checking option \<Rightarrow> bool \<Rightarrow> bool \<Rightarrow> ('s, gate_report) git_prog" where
  "validate_push git base head policy scanner agent_authored checker protected_branch may_push_protected =
     bind (git [''diff-tree'', ''-r'', ''--no-commit-id'', ''--diff-filter=ACMRT'', base, head]) (\<lambda>tree.
     let entries = parse_entries tree; paths = map (\<lambda>(_, _, path). path) entries in
     bind (escaping_links git entries) (\<lambda>escaping.
     bind (measure_blobs git policy entries 0) (\<lambda>(tot, oversized).
     bind (if gp_lfs_enabled policy then ret [] else lfs_hits git entries) (\<lambda>hits.
     bind (git [''diff'', ''--no-color'', ''--no-ext-diff'', base, head]) (\<lambda>diff_text.
     bind (cross_check_push git base diff_text agent_authored checker) (\<lambda>(crossed, verdict).
     ret \<lparr>gr_checks = [path_check paths, hooks_check paths, submodules_check entries, symlinks_check escaping,
         size_check policy (length paths) tot oversized, lfs_check policy hits, secrets_check scanner (ss_scan scanner diff_text),
         branch_check protected_branch may_push_protected] @ crossed, gr_verdict = verdict\<rparr>))))))"


section \<open>Links\<close>

text \<open>Where a link leads: a directory as the list of names from the root of the tree, and the parts of the target. \<open>None\<close> is above the root.\<close>

fun resolve :: "string list \<Rightarrow> string list \<Rightarrow> string list option" where
  "resolve dir [] = Some dir"
| "resolve dir (part # ps) =
     (if part = ''..'' then (if dir = [] then None else resolve (butlast dir) ps)
      else if part = ''.'' then resolve dir ps else resolve (dir @ [part]) ps)"

lemma climbs_resolve: "int (length dir) = depth - level \<Longrightarrow> climbs depth level ps \<longleftrightarrow> resolve dir ps = None"
  by (induction dir ps arbitrary: level rule: resolve.induct) (auto simp: of_nat_diff simp flip: length_greater_0_conv)

lemma link_escapes_resolve:
  assumes "posix_parts link_path \<noteq> []"
  shows "link_escapes link_target link_path \<longleftrightarrow>
    prefix ''/'' link_target \<or> resolve (butlast (posix_parts link_path)) (posix_parts link_target) = None"
proof -
  have "int (length (butlast (posix_parts link_path))) = int (length (posix_parts link_path)) - 1 - 0"
    using assms by (cases "posix_parts link_path") simp_all
  then show ?thesis unfolding link_escapes_def using climbs_resolve by simp
qed

text \<open>
  C35. The test for links that leave the tree is exact: for a relative target, it says that the link escapes if and only if
  following the parts of the target from the directory of the link goes above the root of the tree at some point.
\<close>
theorem escape_test_is_exact:
  assumes "posix_parts link_path \<noteq> []"
  shows "link_escapes link_target link_path \<longleftrightarrow>
    prefix ''/'' link_target \<or> resolve (butlast (posix_parts link_path)) (posix_parts link_target) = None"
  using assms by (rule link_escapes_resolve)

theorem escape_test_is_exact_witness:
  "link_escapes ''../x/../../etc/passwd'' ''docs/link'' \<and> resolve [''docs''] [''..'', ''x'', ''..'', ''..'', ''etc'', ''passwd''] = None"
proof -
  have "posix_parts ''docs/link'' = [''docs'', ''link'']" "posix_parts ''../x/../../etc/passwd'' = [''..'', ''x'', ''..'', ''..'', ''etc'', ''passwd'']"
    "\<not> prefix ''/'' ''../x/../../etc/passwd''" "resolve [''docs''] [''..'', ''x'', ''..'', ''..'', ''etc'', ''passwd''] = None"
    by code_simp+
  then show ?thesis using escape_test_is_exact [of "''docs/link''" "''../x/../../etc/passwd''"] by simp
qed


section \<open>What a push that passes holds\<close>

text \<open>A repository that answers and does not change while it is read.\<close>

definition reads :: "(string list \<Rightarrow> ('s, string) git_prog) \<Rightarrow> (string list \<Rightarrow> string) \<Rightarrow> bool" where
  "reads git repo \<longleftrightarrow> (\<forall>args. git args = ret (repo args))"

definition entry_fine :: "(string list \<Rightarrow> string) \<Rightarrow> gate_policy \<Rightarrow> tree_entry \<Rightarrow> bool" where
  "entry_fine repo policy e = (case e of (mode, sha, path) \<Rightarrow>
     \<not> prefix ''/'' path \<and> ''..'' \<notin> set (posix_parts path) \<and> hd (split_on (CHR ''/'') path) \<noteq> ''.git'' \<and>
     set (butlast (posix_parts path)) \<inter> {''hooks'', ''.githooks'', ''.husky'', ''.git-hooks''} = {} \<and>
     path \<noteq> ''.gitmodules'' \<and> mode \<noteq> ''160000'' \<and>
     (mode = ''120000'' \<longrightarrow> (let target = py_strip (repo [''cat-file'', ''-p'', sha]) in
        \<not> prefix ''/'' target \<and> resolve (butlast (posix_parts path)) (posix_parts target) \<noteq> None)) \<and>
     (mode = ''100644'' \<or> mode = ''100755'' \<longrightarrow>
        (\<exists>n. blob_size (repo [''cat-file'', ''-s'', sha]) = Inr n \<and> n \<le> gp_max_blob_bytes policy)) \<and>
     (posix_name path = ''.gitattributes'' \<and> prefix ''100'' mode \<and> \<not> gp_lfs_enabled policy \<longrightarrow>
        \<not> re_search LFS (repo [''cat-file'', ''-p'', sha])))"

definition blob_bytes :: "(string list \<Rightarrow> string) \<Rightarrow> tree_entry list \<Rightarrow> int" where
  "blob_bytes repo es = sum_list (map (\<lambda>(mode, sha, path). case blob_size (repo [''cat-file'', ''-s'', sha]) of Inr n \<Rightarrow> n | Inl _ \<Rightarrow> 0)
     (filter (\<lambda>(mode, sha, path). mode = ''100644'' \<or> mode = ''100755'') es))"

lemma reads_bind: "reads git repo \<Longrightarrow> bind (git args) k = k (repo args)"
  by (simp add: reads_def)

lemma escaping_links_none:
  assumes "reads git repo"
  shows "\<exists>xs. escaping_links git es = ret xs \<and>
    (xs = [] \<longleftrightarrow> list_all (\<lambda>(mode, sha, path). mode = ''120000'' \<longrightarrow> \<not> link_escapes (py_strip (repo [''cat-file'', ''-p'', sha])) path) es)"
proof (induction es)
  case (Cons e es)
  obtain mode sha path where e: "e = (mode, sha, path)" by (cases e)
  from Cons show ?case by (auto simp: e reads_bind [OF assms] Let_def)
qed simp

lemma lfs_hits_none:
  assumes "reads git repo"
  shows "\<exists>xs. lfs_hits git es = ret xs \<and>
    (xs = [] \<longleftrightarrow> list_all (\<lambda>(mode, sha, path). posix_name path = ''.gitattributes'' \<and> prefix ''100'' mode \<longrightarrow>
       \<not> re_search LFS (repo [''cat-file'', ''-p'', sha])) es)"
proof (induction es)
  case (Cons e es)
  obtain mode sha path where e: "e = (mode, sha, path)" by (cases e)
  from Cons show ?case by (auto simp: e reads_bind [OF assms])
qed simp

lemma measure_blobs_none:
  assumes "reads git repo" "measure_blobs git policy es tot s = (Ret (tot', big), s')"
  shows "s' = s \<and> tot' = tot + blob_bytes repo es \<and>
    (big = [] \<longleftrightarrow> list_all (\<lambda>(mode, sha, path). mode = ''100644'' \<or> mode = ''100755'' \<longrightarrow>
       (\<exists>n. blob_size (repo [''cat-file'', ''-s'', sha]) = Inr n \<and> n \<le> gp_max_blob_bytes policy)) es)"
  using assms(2)
proof (induction es arbitrary: tot tot' big s)
  case (Cons e es)
  obtain mode sha path where e: "e = (mode, sha, path)" by (cases e)
  show ?case
  proof (cases "mode = ''100644'' \<or> mode = ''100755''")
    case True
    then obtain n where n: "blob_size (repo [''cat-file'', ''-s'', sha]) = Inr n"
      using Cons.prems by (cases "blob_size (repo [''cat-file'', ''-s'', sha])") (auto simp: e reads_bind [OF assms(1)] bind_def lift_def)
    then obtain t1 b1 where m: "measure_blobs git policy es (tot + n) s = (Ret (t1, b1), s')" "tot' = t1"
        "big = (if n > gp_max_blob_bytes policy then (path @ '' ('' @ show_commas (nat n) @ '' bytes)'') # b1 else b1)"
      using Cons.prems True by (auto simp: e reads_bind [OF assms(1)] lift_def bind_def ret_def split: prod.splits outcome.splits)
    with Cons.IH [OF m(1)] show ?thesis using True n by (auto simp: e blob_bytes_def)
  next
    case False
    then show ?thesis using Cons by (auto simp: e blob_bytes_def)
  qed
qed (simp add: ret_def blob_bytes_def)

lemma entry_fine_checks:
  "posix_parts path \<noteq> [] \<Longrightarrow> entry_fine repo policy (mode, sha, path) \<longleftrightarrow>
     \<not> bad_path path \<and> \<not> hook_path path \<and> \<not> (path = ''.gitmodules'' \<or> mode = ''160000'') \<and>
     (mode = ''120000'' \<longrightarrow> \<not> link_escapes (py_strip (repo [''cat-file'', ''-p'', sha])) path) \<and>
     (mode = ''100644'' \<or> mode = ''100755'' \<longrightarrow>
        (\<exists>n. blob_size (repo [''cat-file'', ''-s'', sha]) = Inr n \<and> n \<le> gp_max_blob_bytes policy)) \<and>
     (posix_name path = ''.gitattributes'' \<and> prefix ''100'' mode \<and> \<not> gp_lfs_enabled policy \<longrightarrow>
        \<not> re_search LFS (repo [''cat-file'', ''-p'', sha]))"
proof -
  assume p: "posix_parts path \<noteq> []"
  have "hook_path path \<longleftrightarrow> set (butlast (posix_parts path)) \<inter> {''hooks'', ''.githooks'', ''.husky'', ''.git-hooks''} \<noteq> {}"
    unfolding hook_path_def HOOK_DIRS_def list_ex_iff by auto
  then show ?thesis unfolding entry_fine_def bad_path_def link_escapes_resolve [OF p] Let_def prod.case by argo
qed

lemma entries_fine_checks:
  "list_all (\<lambda>(_, _, path). posix_parts path \<noteq> []) es \<Longrightarrow> list_all (entry_fine repo policy) es \<longleftrightarrow>
     filter bad_path (map (\<lambda>(_, _, path). path) es) = [] \<and> filter hook_path (map (\<lambda>(_, _, path). path) es) = [] \<and>
     \<not> list_ex (\<lambda>(mode, sha, path). path = ''.gitmodules'' \<or> mode = ''160000'') es \<and>
     list_all (\<lambda>(mode, sha, path). mode = ''120000'' \<longrightarrow> \<not> link_escapes (py_strip (repo [''cat-file'', ''-p'', sha])) path) es \<and>
     list_all (\<lambda>(mode, sha, path). mode = ''100644'' \<or> mode = ''100755'' \<longrightarrow>
       (\<exists>n. blob_size (repo [''cat-file'', ''-s'', sha]) = Inr n \<and> n \<le> gp_max_blob_bytes policy)) es \<and>
     list_all (\<lambda>(mode, sha, path). posix_name path = ''.gitattributes'' \<and> prefix ''100'' mode \<and> \<not> gp_lfs_enabled policy \<longrightarrow>
       \<not> re_search LFS (repo [''cat-file'', ''-p'', sha])) es"
proof (induction es)
  case (Cons e es)
  obtain mode sha path where e: "e = (mode, sha, path)" by (cases e)
  have p: "posix_parts path \<noteq> []" using Cons.prems by (simp add: e)
  show ?case using Cons.IH Cons.prems unfolding e list.pred_inject list_ex_Nil_iff list_ex_Cons_iff list.map prod.case filter.simps entry_fine_checks [OF p]
    by (simp split: if_split) argo
qed simp

text \<open>
  C33. What the gate lets through: if the repository does not change while the gate reads it and every changed path has a name, the report of the gate
  passes if and only if each changed file is inside the project, is in no directory of hooks, is no submodule, is no
  link out of the tree and no file above the size limit, and turns LFS on only where it is allowed; there are not too many files or bytes;
  the scanner finds nothing in the difference; a protected branch is pushed by someone who may; and the voters agreed to what an agent wrote.
\<close>
theorem gate_lets_through:
  assumes "reads git repo" "entries = parse_entries (repo [''diff-tree'', ''-r'', ''--no-commit-id'', ''--diff-filter=ACMRT'', base, head])"
    and named: "list_all (\<lambda>(_, _, path). posix_parts path \<noteq> []) entries"
    and run: "validate_push git base head policy scanner agent_authored checker protected_branch may_push_protected s = (Ret r, s')"
  shows "report_passed r \<longleftrightarrow>
    list_all (entry_fine repo policy) entries \<and> length entries \<le> gp_max_files policy \<and> blob_bytes repo entries \<le> gp_max_total_bytes policy \<and>
    ss_scan scanner (repo [''diff'', ''--no-color'', ''--no-ext-diff'', base, head]) = [] \<and>
    (protected_branch \<longrightarrow> may_push_protected) \<and> (agent_authored \<longrightarrow> (\<exists>v. gr_verdict r = Some v \<and> cv_agreed v))"
proof -
  let ?diff = "repo [''diff'', ''--no-color'', ''--no-ext-diff'', base, head]"
  let ?paths = "map (\<lambda>(_, _, path). path) entries"
  obtain links where links: "escaping_links git entries = ret links"
      "links = [] \<longleftrightarrow> list_all (\<lambda>(mode, sha, path). mode = ''120000'' \<longrightarrow> \<not> link_escapes (py_strip (repo [''cat-file'', ''-p'', sha])) path) entries"
    using escaping_links_none [OF assms(1)] by blast
  obtain hits where hits: "(if gp_lfs_enabled policy then ret [] else lfs_hits git entries) = ret hits"
      "hits = [] \<longleftrightarrow> list_all (\<lambda>(mode, sha, path). posix_name path = ''.gitattributes'' \<and> prefix ''100'' mode \<and> \<not> gp_lfs_enabled policy \<longrightarrow>
         \<not> re_search LFS (repo [''cat-file'', ''-p'', sha])) entries"
    using lfs_hits_none [OF assms(1), of entries] by (cases "gp_lfs_enabled policy") (auto simp: case_prod_beta list_all_iff)
  obtain tot big crossed verdict s1 where m: "measure_blobs git policy entries 0 s = (Ret (tot, big), s)"
      and c: "cross_check_push git base ?diff agent_authored checker s = (Ret (crossed, verdict), s1)"
      and r: "r = \<lparr>gr_checks = [path_check ?paths, hooks_check ?paths, submodules_check entries, symlinks_check links,
         size_check policy (length ?paths) tot big, lfs_check policy hits, secrets_check scanner (ss_scan scanner ?diff),
         branch_check protected_branch may_push_protected] @ crossed, gr_verdict = verdict\<rparr>"
    using run measure_blobs_none [OF assms(1)] unfolding validate_push_def reads_bind [OF assms(1)] Let_def assms(2) [symmetric] links(1) hits(1)
    by (auto simp: bind_eq_Ret ret_def) blast
  have cross: "list_all gc_ok crossed \<longleftrightarrow> (agent_authored \<longrightarrow> (\<exists>v. verdict = Some v \<and> cv_agreed v))"
    using c unfolding cross_check_push_def
    by (auto simp: bind_eq_Ret ret_def no_voters_check_def verdict_check_def gate_checked_def split: if_splits option.splits)
  have fine: "list_all (entry_fine repo policy) entries \<longleftrightarrow>
      filter bad_path ?paths = [] \<and> filter hook_path ?paths = [] \<and>
      \<not> list_ex (\<lambda>(mode, sha, path). path = ''.gitmodules'' \<or> mode = ''160000'') entries \<and> links = [] \<and> big = [] \<and> hits = []"
    using measure_blobs_none [OF assms(1) m] unfolding links(2) hits(2) entries_fine_checks [OF named] by blast
  show ?thesis
    using cross fine measure_blobs_none [OF assms(1) m]
    by (simp add: r report_passed_def path_check_def hooks_check_def submodules_check_def symlinks_check_def size_check_def lfs_check_def
        secrets_check_def branch_check_def gate_checked_def Let_def) blast
qed

text \<open>A repository in which one file was changed.\<close>

definition one_file_repo :: "string list \<Rightarrow> string" where
  "one_file_repo args =
     (if hd args = ''diff-tree'' then '':100644 100644 a1 b2 M'' @ [tab_char] @ ''src/main.c'' @ nl
      else if hd args = ''cat-file'' then ''12'' else [])"

definition small_policy :: gate_policy where
  "small_policy = \<lparr>gp_max_files = 5, gp_max_blob_bytes = 20, gp_max_total_bytes = 50, gp_lfs_enabled = False\<rparr>"

theorem gate_lets_through_witness:
  "\<exists>r. validate_push (\<lambda>args. ret (one_file_repo args)) ''base'' ''head'' small_policy RegexSecretScanner False None False False () = (Ret r, ()) \<and>
     report_passed r \<and> entry_fine one_file_repo small_policy (''100644'', ''b2'', ''src/main.c'')"
proof -
  have "case fst (validate_push (\<lambda>args. ret (one_file_repo args)) ''base'' ''head'' small_policy RegexSecretScanner False None False False ()) of
      Ret r \<Rightarrow> report_passed r | _ \<Rightarrow> False" by code_simp
  then obtain r where r: "validate_push (\<lambda>args. ret (one_file_repo args)) ''base'' ''head'' small_policy RegexSecretScanner False None False False () = (Ret r, ())"
      "report_passed r"
    by (cases "validate_push (\<lambda>args. ret (one_file_repo args)) ''base'' ''head'' small_policy RegexSecretScanner False None False False ()")
       (auto split: outcome.splits)
  have e: "[(''100644'', ''b2'', ''src/main.c'')] = parse_entries (one_file_repo [''diff-tree'', ''-r'', ''--no-commit-id'', ''--diff-filter=ACMRT'', ''base'', ''head''])"
    by code_simp
  have "posix_parts ''src/main.c'' \<noteq> []" by code_simp
  then show ?thesis using gate_lets_through [where repo = one_file_repo, OF _ e _ r(1)] r by (simp add: reads_def)
qed


section \<open>What the gate does not see\<close>

text \<open>
  The built-in scanner finds nothing exactly when no line it takes for an added one has the shape of a secret.
\<close>

lemma scanner_reads_added_lines:
  "ss_scan RegexSecretScanner diff_text = [] \<longleftrightarrow>
     list_all (\<lambda>l. prefix ''+'' l \<and> \<not> prefix ''+++'' l \<longrightarrow> secret_shape l = None) (py_splitlines diff_text)"
proof -
  have at: "\<not> (prefix ''+'' l \<and> prefix ''@@'' l)" for l by (cases l) auto
  have "scan_lines path n ls = [] \<longleftrightarrow> list_all (\<lambda>l. prefix ''+'' l \<and> \<not> prefix ''+++'' l \<longrightarrow> secret_shape l = None) ls" for path n ls
  proof (induction ls arbitrary: path n)
    case (Cons l ls)
    have "\<not> prefix ''+++'' l \<Longrightarrow> \<not> prefix ''+++ b/'' l" by (auto simp: prefix_def)
    then show ?case using Cons at [of l] by (auto split: option.splits)
  qed simp
  then show ?thesis by (simp add: RegexSecretScanner_def)
qed

text \<open>An added line that starts with two more plus signs, or holds a form feed, is not taken for one.\<close>

lemma scanner_misses_secrets:
  "ss_scan RegexSecretScanner (''+glpat-0123456789abcdef'' @ nl) \<noteq> [] \<and>
   ss_scan RegexSecretScanner (''+++glpat-0123456789abcdef'' @ nl) = [] \<and>
   ss_scan RegexSecretScanner (''+x'' @ [CHR 0x0C] @ ''glpat-0123456789abcdef'' @ nl) = []"
  by code_simp

text \<open>
  Git writes a path with a byte outside ASCII in quotes; the first part of such a path is then not the name of the directory,
  and a hook with such a name passes.
\<close>

lemma quoted_hook_passes:
  "hook_path ''.githooks/pre-commit'' \<and>
   \<not> hook_path ([CHR 0x22] @ ''.githooks/pr'' @ [CHR 0x5C] @ ''303'' @ [CHR 0x5C] @ ''251-commit'' @ [CHR 0x22])"
  by code_simp

end
