(* ===== verification/Git_Hosts.thy ===== *)
theory Git_Hosts
  imports Git_Gate Skills
begin

text \<open>
  Addresses of remotes and the list of hosts (\<open>packages/slas-git/slas_git/hosts.py\<close>), with what it uses of
  \<open>urllib.parse.urlsplit\<close>. The parameter \<open>netloc_ok\<close> stands for the checks \<open>urlsplit\<close> makes of brackets and of characters outside ASCII in a
  network location.
\<close>

section \<open>Splitting a URL\<close>

record url_parts =
  up_scheme :: string
  up_netloc :: string
  up_path :: string

definition is_alpha :: "char \<Rightarrow> bool" where
  "is_alpha c \<longleftrightarrow> alnum c \<and> \<not> is_digit c"

definition scheme_char :: "char \<Rightarrow> bool" where
  "scheme_char c \<longleftrightarrow> alnum c \<or> c = CHR ''+'' \<or> c = CHR ''-'' \<or> c = CHR ''.''"

definition unsafe_byte :: "char \<Rightarrow> bool" where
  "unsafe_byte c \<longleftrightarrow> c = CHR 0x09 \<or> c = CHR 0x0D \<or> c = CHR 0x0A"

definition split_scheme :: "string \<Rightarrow> string \<times> string" where
  "split_scheme s = (let pre = takeWhile (\<lambda>c. c \<noteq> CHR '':'') s in
     if CHR '':'' \<in> set s \<and> pre \<noteq> [] \<and> is_alpha (hd pre) \<and> list_all scheme_char pre then (py_lower pre, drop (length pre + 1) s) else ([], s))"

definition netloc_end :: "char \<Rightarrow> bool" where
  "netloc_end c \<longleftrightarrow> c = CHR ''/'' \<or> c = CHR ''?'' \<or> c = CHR ''#''"

definition urlsplit :: "(string \<Rightarrow> bool) \<Rightarrow> string \<Rightarrow> string + url_parts" where
  "urlsplit netloc_ok url =
     (let s = filter (\<lambda>c. \<not> unsafe_byte c) (dropWhile (\<lambda>c. c \<le> CHR '' '') url);
          (scheme, rest) = split_scheme s;
          (netloc, rest') = (if prefix ''//'' rest then (takeWhile (\<lambda>c. \<not> netloc_end c) (drop 2 rest), dropWhile (\<lambda>c. \<not> netloc_end c) (drop 2 rest))
            else ([], rest))
      in if \<not> netloc_ok netloc then Inl ''netloc''
         else Inr \<lparr>up_scheme = scheme, up_netloc = netloc, up_path = takeWhile (\<lambda>c. c \<noteq> CHR ''?'' \<and> c \<noteq> CHR ''#'') rest'\<rparr>)"

text \<open>The text before and after the last \<open>@\<close>; there is none when the first part is \<open>None\<close>.\<close>

definition split_userinfo :: "string \<Rightarrow> string option \<times> string" where
  "split_userinfo netloc =
     (if CHR ''@'' \<in> set netloc then (let host = rev (takeWhile (\<lambda>c. c \<noteq> CHR ''@'') (rev netloc))
        in (Some (take (length netloc - length host - 1) netloc), host)) else (None, netloc))"

definition url_username :: "url_parts \<Rightarrow> string option" where
  "url_username u = map_option (takeWhile (\<lambda>c. c \<noteq> CHR '':'')) (fst (split_userinfo (up_netloc u)))"

definition url_password :: "url_parts \<Rightarrow> string option" where
  "url_password u = (case fst (split_userinfo (up_netloc u)) of None \<Rightarrow> None
     | Some i \<Rightarrow> if CHR '':'' \<in> set i then Some (drop 1 (dropWhile (\<lambda>c. c \<noteq> CHR '':'') i)) else None)"

definition url_hostinfo :: "url_parts \<Rightarrow> string \<times> string" where \<comment> \<open>host and port as text\<close>
  "url_hostinfo u =
     (let h = snd (split_userinfo (up_netloc u)) in
      if CHR ''['' \<in> set h then
        (let inner = drop 1 (dropWhile (\<lambda>c. c \<noteq> CHR ''['') h)
         in (takeWhile (\<lambda>c. c \<noteq> CHR '']'') inner, drop 1 (dropWhile (\<lambda>c. c \<noteq> CHR '':'') (drop 1 (dropWhile (\<lambda>c. c \<noteq> CHR '']'') inner)))))
      else (takeWhile (\<lambda>c. c \<noteq> CHR '':'') h, drop 1 (dropWhile (\<lambda>c. c \<noteq> CHR '':'') h)))"

definition url_hostname :: "url_parts \<Rightarrow> string option" where \<comment> \<open>in lower case up to a percent sign\<close>
  "url_hostname u = (let h = fst (url_hostinfo u) in if h = [] then None
     else Some (py_lower (takeWhile (\<lambda>c. c \<noteq> CHR ''%'') h) @ dropWhile (\<lambda>c. c \<noteq> CHR ''%'') h))"

definition url_port :: "url_parts \<Rightarrow> string + nat option" where
  "url_port u = (let p = snd (url_hostinfo u) in
     if p = [] then Inr None
     else if list_all is_digit p then (if nat_of_digits p \<le> 65535 then Inr (Some (nat_of_digits p)) else Inl ''port'')
     else Inl ''port'')"


section \<open>Addresses\<close>

datatype git_protocol = Https | SshP | Http

fun protocol_value :: "git_protocol \<Rightarrow> string" where
  "protocol_value Https = ''https''"
| "protocol_value SshP = ''ssh''"
| "protocol_value Http = ''http''"

definition LOOPBACK :: "string list" where
  "LOOPBACK = [''127.0.0.1'', ''localhost'', ''::1'']"

record remote_uri =
  ru_scheme :: git_protocol
  ru_hostname :: string
  ru_port :: "nat option"
  ru_path :: string
  ru_ssh_user :: "string option"

definition netloc :: "remote_uri \<Rightarrow> string" where
  "netloc u = (case ru_port u of Some (Suc p) \<Rightarrow> ru_hostname u @ '':'' @ show_nat (Suc p) | _ \<Rightarrow> ru_hostname u)"

definition https_url :: "remote_uri \<Rightarrow> string option \<Rightarrow> string" where
  "https_url u username =
     (if ru_scheme u = Http then ''http'' else ''https'') @ ''://''
     @ (case username of None \<Rightarrow> [] | Some n \<Rightarrow> if n = [] then [] else n @ ''@'') @ netloc u @ ''/'' @ ru_path u @ ''.git''"

definition ssh_url :: "remote_uri \<Rightarrow> string" where
  "ssh_url u = ''ssh://'' @ (case ru_ssh_user u of None \<Rightarrow> ''git'' | Some n \<Rightarrow> or_else n ''git'') @ ''@'' @ netloc u @ ''/'' @ ru_path u @ ''.git''"

datatype hosts_error =
    GitHostsError three_part
  | HostNotAllowed string three_part
  | HostsValueError string \<comment> \<open>a \<open>ValueError\<close> of \<open>urlsplit\<close>\<close>

text \<open>\<open>_SCP_LIKE\<close>: user, host and path. The path is the shortest text that leaves nothing but an optional \<open>.git\<close> and slash.\<close>

definition scp_char :: "char \<Rightarrow> bool" where
  "scp_char c \<longleftrightarrow> is_word c \<or> c = CHR ''.'' \<or> c = CHR ''-''"

definition scp_path :: "string \<Rightarrow> string option" where
  "scp_path s = (if \<not> list_all (\<lambda>c. scp_char c \<or> c = CHR ''/'') s then None
     else map_option (\<lambda>i. take i s) (find (\<lambda>i. drop i s \<in> {[], ''.git'', ''/'', ''.git/''}) [1..<Suc (length s)]))"

definition scp_like :: "string \<Rightarrow> (string \<times> string \<times> string) option" where
  "scp_like s =
     (let user = takeWhile (\<lambda>c. c \<noteq> CHR ''@'') s; rest = drop (length user + 1) s;
          host = takeWhile (\<lambda>c. c \<noteq> CHR '':'') rest
      in if CHR ''@'' \<in> set s \<and> user \<noteq> [] \<and> list_all scp_char user \<and> CHR '':'' \<in> set rest \<and> host \<noteq> [] \<and> list_all scp_char host
         then map_option (\<lambda>p. (user, host, p)) (scp_path (drop (length host + 1) rest)) else None)"

definition strip_slashes :: "string \<Rightarrow> string" where
  "strip_slashes s = py_rstrip_char (CHR ''/'') (dropWhile (\<lambda>c. c = CHR ''/'') s)"

definition occurs_in :: "string \<Rightarrow> string \<Rightarrow> bool" where
  "occurs_in p s \<longleftrightarrow> list_ex (prefix p) (suffixes s)"

definition drop_dot_git :: "string \<Rightarrow> string" where
  "drop_dot_git p = (if suffix ''.git'' p then take (length p - 4) p else p)"

definition protocol_of :: "string \<Rightarrow> string option \<Rightarrow> git_protocol option" where
  "protocol_of scheme host =
     (if scheme = ''https'' then Some Https else if scheme = ''ssh'' then Some SshP
      else if scheme = ''http'' \<and> (case host of None \<Rightarrow> False | Some h \<Rightarrow> py_lower h \<in> set LOOPBACK) then Some Http else None)"

definition parse_remote_uri :: "(string \<Rightarrow> bool) \<Rightarrow> string \<Rightarrow> hosts_error + remote_uri" where
  "parse_remote_uri netloc_ok uri =
     (let text = py_strip uri in
      case (if occurs_in ''://'' text then None else scp_like text) of
        Some (user, host, path) \<Rightarrow>
          Inr \<lparr>ru_scheme = SshP, ru_hostname = py_lower host, ru_port = None, ru_path = strip_slashes path, ru_ssh_user = Some user\<rparr>
      | None \<Rightarrow>
          (case urlsplit netloc_ok text of
             Inl e \<Rightarrow> Inl (HostsValueError e)
           | Inr parts \<Rightarrow>
               (case (protocol_of (up_scheme parts) (url_hostname parts), url_hostname parts) of
                  (Some scheme, Some host) \<Rightarrow>
                    if url_password parts \<noteq> None \<or> (scheme \<noteq> SshP \<and> url_username parts \<noteq> None \<and> url_username parts \<noteq> Some []) then
                      Inl (GitHostsError \<lparr>
                        tp_what_happened = ''The address carries a credential.'',
                        tp_likely_cause = ''Tokens never go in a URL; the broker injects them at dispatch (INV-14).'',
                        tp_what_to_do = ''Remove the user:token@ part and paste the token in its own field.''\<rparr>)
                    else
                      (let path = drop_dot_git (strip_slashes (up_path parts)) in
                       if path = [] \<or> CHR ''/'' \<notin> set path then
                         Inl (GitHostsError \<lparr>
                           tp_what_happened = py_quote uri @ '' has no group/project path.'',
                           tp_likely_cause = ''A remote names a repository, for example gitlab.internal/firmware/bmc.git.'',
                           tp_what_to_do = ''Fix the address.''\<rparr>)
                       else (case url_port parts of
                           Inl e \<Rightarrow> Inl (HostsValueError e)
                         | Inr port \<Rightarrow> Inr \<lparr>ru_scheme = scheme, ru_hostname = py_lower host, ru_port = port, ru_path = path,
                             ru_ssh_user = (if scheme = SshP then url_username parts else None)\<rparr>))
                | _ \<Rightarrow> Inl (GitHostsError \<lparr>
                    tp_what_happened = py_quote uri @ '' is not a Git address the broker accepts.'',
                    tp_likely_cause = ''Use https://host/group/project.git, ssh://git@host/group/project.git or git@host:group/project.git.'',
                    tp_what_to_do = ''Fix the address.''\<rparr>))))"


section \<open>The list of hosts\<close>

datatype host_kind = Gitlab | Gitea | Github | Generic

record git_host =
  gh_name :: string
  gh_hostname :: string
  gh_kind :: host_kind
  gh_api_base :: "string option"
  gh_protocols :: "git_protocol list"
  gh_ssh_host_key :: "string option"
  gh_https_username :: string

type_synonym git_hosts = "git_host list"

definition host_label :: "string \<Rightarrow> bool" where \<comment> \<open>one part of \<open>_HOSTNAME\<close>\<close>
  "host_label l \<longleftrightarrow> l \<noteq> [] \<and> list_all (\<lambda>c. (alnum c \<and> lower_char c = c) \<or> c = CHR ''-'') l \<and> hd l \<noteq> CHR ''-'' \<and> last l \<noteq> CHR ''-''"

definition host_ok :: "git_host \<Rightarrow> bool" where
  "host_ok h \<longleftrightarrow>
     list_all host_label (split_on (CHR ''.'') (py_lower (gh_hostname h))) \<and> gh_protocols h \<noteq> [] \<and>
     (let loopback = py_lower (gh_hostname h) \<in> set LOOPBACK in
      (Http \<in> set (gh_protocols h) \<longrightarrow> loopback) \<and>
      (case gh_api_base h of None \<Rightarrow> True | Some b \<Rightarrow> prefix ''https://'' b \<or> (loopback \<and> prefix ''http://'' b)))"

definition hosts_ok :: "git_hosts \<Rightarrow> bool" where
  "hosts_ok hs \<longleftrightarrow> list_all host_ok hs \<and> distinct (concat (map (\<lambda>h. [gh_name h, py_lower (gh_hostname h)]) hs))"

definition find_host :: "git_hosts \<Rightarrow> string \<Rightarrow> git_host option" where
  "find_host hs hostname = find (\<lambda>h. py_lower (gh_hostname h) = py_lower hostname) hs"

definition host_for :: "remote_uri \<Rightarrow> git_hosts \<Rightarrow> hosts_error + git_host" where
  "host_for u hs = (case find_host hs (ru_hostname u) of
     None \<Rightarrow> Inl (HostNotAllowed (ru_hostname u) \<lparr>
       tp_what_happened = ru_hostname u @ '' is not an allowed Git host. Allowed: '' @ or_else (py_join '', '' (map gh_hostname hs)) ''none'' @ ''.'',
       tp_likely_cause = ''git-broker reaches only the hosts an administrator listed under Admin '' @ arrow
         @ '' Git hosts (config/git-hosts.yaml); a public host needs an ADR first.'',
       tp_what_to_do = ''Use a listed host, or ask an administrator to add this one.''\<rparr>)
   | Some h \<Rightarrow>
       if ru_scheme u \<notin> set (gh_protocols h) then Inl (GitHostsError \<lparr>
         tp_what_happened = ru_hostname u @ '' does not allow '' @ protocol_value (ru_scheme u) @ ''.'',
         tp_likely_cause = ''Admin '' @ arrow @ '' Git hosts allows '' @ py_join '' and '' (map protocol_value (gh_protocols h)) @ '' for this host.'',
         tp_what_to_do = ''Use the allowed protocol, or ask an administrator to change the host entry.''\<rparr>)
       else if ru_scheme u = SshP \<and> (gh_ssh_host_key h = None \<or> gh_ssh_host_key h = Some []) then Inl (GitHostsError \<lparr>
         tp_what_happened = ru_hostname u @ '' has no pinned SSH host key.'',
         tp_likely_cause = ''SSH is only used with StrictHostKeyChecking against a key an administrator pinned (CLAUDE.md '' @ section_sign @ ''5.7).'',
         tp_what_to_do = ''Ask an administrator to add the host key under Admin '' @ arrow @ '' Git hosts, or use https.''\<rparr>)
       else Inr h)"


section \<open>Addresses survive being stored\<close>

text \<open>The address a remote is stored with.\<close>

definition stored_uri :: "remote_uri \<Rightarrow> string" where
  "stored_uri u = (if ru_scheme u = SshP then ssh_url u else https_url u None)"

text \<open>What is read back from it.\<close>

definition read_back :: "remote_uri \<Rightarrow> remote_uri" where
  "read_back u = u\<lparr>ru_port := (if ru_port u = Some 0 then None else ru_port u),
     ru_ssh_user := (if ru_scheme u = SshP then Some (case ru_ssh_user u of None \<Rightarrow> ''git'' | Some n \<Rightarrow> or_else n ''git'') else None)\<rparr>"

definition plain_char :: "char \<Rightarrow> bool" where \<comment> \<open>may stand in a network location or a path\<close>
  "plain_char c \<longleftrightarrow> \<not> unsafe_byte c \<and> c \<noteq> CHR ''?'' \<and> c \<noteq> CHR ''#''"

text \<open>What every parsed address has.\<close>

definition uri_wf :: "remote_uri \<Rightarrow> bool" where
  "uri_wf u \<longleftrightarrow>
     ru_hostname u \<noteq> [] \<and> py_lower (ru_hostname u) = ru_hostname u \<and>
     list_all (\<lambda>c. plain_char c \<and> c \<notin> {CHR ''/'', CHR ''@''}) (ru_hostname u) \<and>
     list_all plain_char (ru_path u) \<and> ru_path u \<noteq> [] \<and> hd (ru_path u) \<noteq> CHR ''/'' \<and>
     (case ru_ssh_user u of None \<Rightarrow> True | Some n \<Rightarrow> list_all (\<lambda>c. plain_char c \<and> c \<notin> {CHR ''/'', CHR '':''}) n) \<and>
     (case ru_port u of None \<Rightarrow> True | Some p \<Rightarrow> p \<le> 65535) \<and>
     (ru_scheme u = Http \<longrightarrow> ru_hostname u \<in> set LOOPBACK)"

lemma scheme_facts:
  "list_all (\<lambda>scheme. scheme \<noteq> [] \<and> is_alpha (hd scheme) \<and> list_all scheme_char scheme \<and> py_lower scheme = scheme \<and>
     dropWhile (\<lambda>c. c \<le> CHR '' '') scheme = scheme \<and> list_all (\<lambda>c. \<not> unsafe_byte c \<and> c \<noteq> CHR '':'') scheme)
   [''https'', ''ssh'', ''http'']"
  by code_simp

lemma urlsplit_plain:
  assumes "list_all (\<lambda>c. plain_char c \<and> c \<noteq> CHR ''/'') loc" "list_all plain_char path" "scheme \<in> {''https'', ''ssh'', ''http''}"
  shows "urlsplit netloc_ok (scheme @ ''://'' @ loc @ ''/'' @ path) =
    (if netloc_ok loc then Inr \<lparr>up_scheme = scheme, up_netloc = loc, up_path = ''/'' @ path\<rparr> else Inl ''netloc'')"
proof -
  let ?s = "scheme @ ''://'' @ loc @ ''/'' @ path"
  have f: "scheme \<noteq> []" "is_alpha (hd scheme)" "list_all scheme_char scheme" "py_lower scheme = scheme"
      "dropWhile (\<lambda>c. c \<le> CHR '' '') scheme = scheme" "list_all (\<lambda>c. \<not> unsafe_byte c \<and> c \<noteq> CHR '':'') scheme"
    using assms(3) scheme_facts by auto
  have start: "dropWhile (\<lambda>c. c \<le> CHR '' '') ?s = ?s" using f(1,5) by (cases scheme) (auto split: if_splits dest: dropWhile_eq_Cons_conv [THEN iffD1])
  have plain: "list_all (\<lambda>c. \<not> unsafe_byte c) t" if "list_all P t" "\<And>c. P c \<Longrightarrow> \<not> unsafe_byte c" for t P
    using that(1) by (rule list.pred_mono_strong) (rule that(2))
  have "list_all (\<lambda>c. \<not> unsafe_byte c) scheme" "list_all (\<lambda>c. \<not> unsafe_byte c) loc" "list_all (\<lambda>c. \<not> unsafe_byte c) path"
    using f(6) assms(1,2) by (auto elim!: plain simp: plain_char_def)
  then have "list_all (\<lambda>c. \<not> unsafe_byte c) ?s" by (simp add: unsafe_byte_def)
  then have clean: "filter (\<lambda>c. \<not> unsafe_byte c) ?s = ?s" by (simp add: list_all_iff filter_id_conv)
  have pre: "takeWhile (\<lambda>c. c \<noteq> CHR '':'') ?s = scheme" using f(6) by (simp add: takeWhile_append list_all_iff)
  have "split_scheme ?s = (scheme, ''//'' @ loc @ ''/'' @ path)"
    unfolding split_scheme_def Let_def pre using f by simp
  moreover have "takeWhile (\<lambda>c. \<not> netloc_end c) (loc @ ''/'' @ path) = loc" "dropWhile (\<lambda>c. \<not> netloc_end c) (loc @ ''/'' @ path) = ''/'' @ path"
    using assms(1) by (auto simp: takeWhile_append dropWhile_append list_all_iff netloc_end_def plain_char_def)
  moreover have "takeWhile (\<lambda>c. c \<noteq> CHR ''?'' \<and> c \<noteq> CHR ''#'') (''/'' @ path) = ''/'' @ path"
    using assms(2) by (auto simp: takeWhile_eq_all_conv list_all_iff plain_char_def)
  ultimately show ?thesis unfolding urlsplit_def start clean by simp
qed

lemma lower_lower [simp]: "lower_char (lower_char c) = lower_char c"
  by (auto simp: lower_char_def less_eq_char_def)

lemma lower_char_other:
  "\<not> (CHR ''a'' \<le> d \<and> d \<le> CHR ''z'') \<Longrightarrow> \<not> (CHR ''A'' \<le> d \<and> d \<le> CHR ''Z'') \<Longrightarrow> lower_char c = d \<longleftrightarrow> c = d"
  by (auto simp: lower_char_def less_eq_char_def)

lemma py_lower_idem [simp]: "py_lower (py_lower s) = py_lower s" and py_lower_append [simp]: "py_lower (s @ t) = py_lower s @ py_lower t"
  and py_lower_Nil [simp]: "py_lower s = [] \<longleftrightarrow> s = []"
  by (simp_all add: py_lower_def)

text \<open>The parts of a network location as it is written.\<close>

lemma takeWhile_stop: "list_all P xs \<Longrightarrow> \<not> P y \<Longrightarrow> takeWhile P (xs @ y # ys) = xs"
  and dropWhile_stop: "list_all P xs \<Longrightarrow> \<not> P y \<Longrightarrow> dropWhile P (xs @ y # ys) = y # ys"
  and takeWhile_whole: "list_all P xs \<Longrightarrow> takeWhile P xs = xs" and dropWhile_whole: "list_all P xs \<Longrightarrow> dropWhile P xs = []"
  by (induction xs) auto

definition host_text :: "remote_uri \<Rightarrow> bool" where \<comment> \<open>nothing in the host name separates it from user or port\<close>
  "host_text u \<longleftrightarrow> list_all (\<lambda>c. c \<noteq> CHR ''@'' \<and> c \<noteq> CHR '':'' \<and> c \<noteq> CHR ''['') (ru_hostname u)"

lemma show_nat_no: "\<not> is_digit c \<Longrightarrow> list_all (\<lambda>x. x \<noteq> c) (show_nat n)"
  using show_nat_digits [of n] by (auto simp: list_all_iff)

lemma netloc_cases:
  obtains "netloc u = ru_hostname u" "ru_port u = None \<or> ru_port u = Some 0"
  | p where "netloc u = ru_hostname u @ CHR '':'' # show_nat p" "ru_port u = Some p" "p \<noteq> 0"
proof (cases "ru_port u")
  case (Some p)
  then show thesis using that by (cases p) (simp_all add: netloc_def)
qed (use that in \<open>simp add: netloc_def\<close>)

lemma userinfo_none: "list_all (\<lambda>c. c \<noteq> CHR ''@'') loc \<Longrightarrow> split_userinfo loc = (None, loc)"
  by (auto simp: split_userinfo_def list_all_iff)

lemma userinfo_some:
  assumes "list_all (\<lambda>c. c \<noteq> CHR ''@'') loc"
  shows "split_userinfo (user @ CHR ''@'' # loc) = (Some user, loc)"
proof -
  have "takeWhile (\<lambda>c. c \<noteq> CHR ''@'') (rev (user @ CHR ''@'' # loc)) = rev loc"
    using assms by (simp add: takeWhile_stop list_all_iff)
  then show ?thesis by (simp add: split_userinfo_def)
qed

lemma netloc_no_at:
  assumes "host_text u"
  shows "list_all (\<lambda>c. c \<noteq> CHR ''@'') (netloc u)" "CHR ''['' \<notin> set (netloc u)"
proof -
  have d: "list_all (\<lambda>c. c \<noteq> CHR ''@'') (show_nat p)" "CHR ''['' \<notin> set (show_nat p)" for p
    using show_nat_no [of "CHR ''@''" p] show_nat_no [of "CHR ''[''" p] by (auto simp: is_digit_def list_all_iff)
  have h: "list_all (\<lambda>c. c \<noteq> CHR ''@'') (ru_hostname u)" "CHR ''['' \<notin> set (ru_hostname u)"
    using assms by (auto simp: host_text_def list_all_iff)
  show "list_all (\<lambda>c. c \<noteq> CHR ''@'') (netloc u)" "CHR ''['' \<notin> set (netloc u)"
    using d h by (cases rule: netloc_cases [of u]; simp)+
qed

lemma hostinfo_netloc:
  assumes "host_text u" "snd (split_userinfo (up_netloc parts)) = netloc u"
  shows "fst (url_hostinfo parts) = ru_hostname u"
    "url_port parts = (case ru_port u of None \<Rightarrow> Inr None | Some 0 \<Rightarrow> Inr None | Some p \<Rightarrow> if p \<le> 65535 then Inr (Some p) else Inl ''port'')"
proof -
  have h: "list_all (\<lambda>c. c \<noteq> CHR '':'') (ru_hostname u)" using assms(1) by (auto simp: host_text_def list_all_iff)
  have info: "url_hostinfo parts = (takeWhile (\<lambda>c. c \<noteq> CHR '':'') (netloc u), drop 1 (dropWhile (\<lambda>c. c \<noteq> CHR '':'') (netloc u)))"
    unfolding url_hostinfo_def Let_def assms(2) using netloc_no_at(2) [OF assms(1)] by simp
  show "fst (url_hostinfo parts) = ru_hostname u"
    "url_port parts = (case ru_port u of None \<Rightarrow> Inr None | Some 0 \<Rightarrow> Inr None | Some p \<Rightarrow> if p \<le> 65535 then Inr (Some p) else Inl ''port'')"
    unfolding url_port_def info Let_def
    by (cases rule: netloc_cases [of u]; auto simp: h takeWhile_stop dropWhile_stop takeWhile_whole dropWhile_whole show_nat_digits split: nat.splits)+
qed

lemma hostname_netloc:
  assumes "host_text u" "snd (split_userinfo (up_netloc parts)) = netloc u" "ru_hostname u \<noteq> []" "py_lower (ru_hostname u) = ru_hostname u"
  shows "\<exists>h. url_hostname parts = Some h \<and> py_lower h = ru_hostname u"
proof -
  have "py_lower (takeWhile (\<lambda>c. c \<noteq> CHR ''%'') (ru_hostname u)) @ py_lower (dropWhile (\<lambda>c. c \<noteq> CHR ''%'') (ru_hostname u)) = ru_hostname u"
    using assms(4) by (metis py_lower_append takeWhile_dropWhile_id)
  then show ?thesis using assms(3) by (simp add: url_hostname_def Let_def hostinfo_netloc(1) [OF assms(1,2)])
qed

lemma stored_path:
  assumes "path \<noteq> []" "hd path \<noteq> CHR ''/''"
  shows "drop_dot_git (strip_slashes (''/'' @ path @ ''.git'')) = path"
proof -
  have "strip_slashes (''/'' @ path @ ''.git'') = path @ ''.git''"
    using assms by (cases path) (simp_all add: strip_slashes_def py_rstrip_char_def)
  then show ?thesis by (simp add: drop_dot_git_def suffix_def)
qed

definition stored_netloc :: "remote_uri \<Rightarrow> string" where
  "stored_netloc u = (if ru_scheme u = SshP then (case ru_ssh_user u of None \<Rightarrow> ''git'' | Some n \<Rightarrow> or_else n ''git'') @ CHR ''@'' # netloc u else netloc u)"

lemma stored_uri_form: "stored_uri u = protocol_value (ru_scheme u) @ ''://'' @ stored_netloc u @ ''/'' @ ru_path u @ ''.git''"
  by (cases "ru_scheme u") (simp_all add: stored_uri_def https_url_def ssh_url_def stored_netloc_def)

lemma py_strip_id: "s \<noteq> [] \<Longrightarrow> \<not> is_space (hd s) \<Longrightarrow> \<not> is_space (last s) \<Longrightarrow> py_strip s = s"
proof -
  have stop: "dropWhile is_space t = t" if "t \<noteq> []" "\<not> is_space (hd t)" for t using that by (cases t) auto
  assume "s \<noteq> []" "\<not> is_space (hd s)" "\<not> is_space (last s)"
  then show ?thesis using stop [of s] stop [of "rev s"] by (simp add: py_strip_def hd_rev)
qed

lemma occurs_in_append: "occurs_in p (a @ p @ b)"
  unfolding occurs_in_def list_ex_iff by (intro bexI [of _ "p @ b"]) (auto simp: suffix_def)

lemma protocol_texts:
  "protocol_value p \<noteq> []" "\<not> is_space (hd (protocol_value p))" "protocol_value p \<in> {''https'', ''ssh'', ''http''}"
  by (cases p; simp add: is_space_def)+

lemma stored_user_plain:
  assumes "uri_wf u"
  shows "list_all (\<lambda>c. plain_char c \<and> c \<noteq> CHR ''/'' \<and> c \<noteq> CHR '':'') (case ru_ssh_user u of None \<Rightarrow> ''git'' | Some n \<Rightarrow> or_else n ''git'')"
  using assms by (auto simp: uri_wf_def or_else_def plain_char_def unsafe_byte_def list_all_iff split: option.splits)

lemma netloc_plain:
  assumes "uri_wf u"
  shows "list_all (\<lambda>c. plain_char c \<and> c \<noteq> CHR ''/'') (netloc u)"
proof -
  have "list_all (\<lambda>c. plain_char c \<and> c \<noteq> CHR ''/'') (show_nat p)" for p
    using show_nat_digits [of p] by (auto simp: list_all_iff plain_char_def unsafe_byte_def is_digit_def)
  moreover have "list_all (\<lambda>c. plain_char c \<and> c \<noteq> CHR ''/'') (ru_hostname u)" using assms by (auto simp: uri_wf_def list_all_iff)
  ultimately show ?thesis by (cases rule: netloc_cases [of u]) (simp_all add: plain_char_def unsafe_byte_def)
qed

lemma parse_stored:
  assumes wf: "uri_wf u" and h: "host_text u" and path: "CHR ''/'' \<in> set (ru_path u)" and ok: "netloc_ok (stored_netloc u)"
  shows "parse_remote_uri netloc_ok (stored_uri u) = Inr (read_back u)"
proof -
  let ?user = "case ru_ssh_user u of None \<Rightarrow> ''git'' | Some n \<Rightarrow> or_else n ''git''"
  let ?parts = "\<lparr>up_scheme = protocol_value (ru_scheme u), up_netloc = stored_netloc u, up_path = ''/'' @ ru_path u @ ''.git''\<rparr>"
  have strip: "py_strip (stored_uri u) = stored_uri u"
    unfolding stored_uri_form by (rule py_strip_id) (simp add: protocol_texts, simp add: protocol_texts, simp add: is_space_def)
  have addr: "occurs_in ''://'' (stored_uri u)" unfolding stored_uri_form by (rule occurs_in_append)
  have user: "list_all (\<lambda>c. plain_char c \<and> c \<noteq> CHR ''/'' \<and> c \<noteq> CHR '':'') ?user" using wf by (rule stored_user_plain)
  have loc: "list_all (\<lambda>c. plain_char c \<and> c \<noteq> CHR ''/'') (stored_netloc u)"
    using user netloc_plain [OF wf] unfolding stored_netloc_def by (auto simp: list_all_iff plain_char_def unsafe_byte_def)
  have "list_all plain_char (ru_path u @ ''.git'')" using wf by (simp add: uri_wf_def plain_char_def unsafe_byte_def)
  then have split: "urlsplit netloc_ok (stored_uri u) = Inr ?parts"
    using urlsplit_plain [OF loc _ protocol_texts(3), of _ netloc_ok "ru_scheme u"] ok unfolding stored_uri_form by simp
  have info: "split_userinfo (up_netloc ?parts) = (if ru_scheme u = SshP then (Some ?user, netloc u) else (None, netloc u))"
    using userinfo_some userinfo_none netloc_no_at(1) [OF h] by (simp add: stored_netloc_def)
  then have snd: "snd (split_userinfo (up_netloc ?parts)) = netloc u" by simp
  obtain host where host: "url_hostname ?parts = Some host" "py_lower host = ru_hostname u"
    using hostname_netloc [OF h snd] wf by (auto simp: uri_wf_def)
  have "CHR '':'' \<notin> set ?user" "takeWhile (\<lambda>c. c \<noteq> CHR '':'') ?user = ?user" using user by (auto simp: list_all_iff takeWhile_eq_all_conv)
  then have cred: "url_password ?parts = None" "url_username ?parts = (if ru_scheme u = SshP then Some ?user else None)"
    unfolding url_password_def url_username_def info by simp_all
  have port: "url_port ?parts = Inr (if ru_port u = Some 0 then None else ru_port u)"
    using hostinfo_netloc(2) [OF h snd] wf by (auto simp: uri_wf_def split: option.splits nat.splits)
  have p: "drop_dot_git (strip_slashes (up_path ?parts)) = ru_path u" using stored_path [of "ru_path u"] wf by (simp add: uri_wf_def)
  have proto: "protocol_of (up_scheme ?parts) (Some host) = Some (ru_scheme u)"
    using wf host(2) by (cases "ru_scheme u") (simp_all add: protocol_of_def uri_wf_def)
  show ?thesis
    unfolding parse_remote_uri_def Let_def strip using addr split host cred port p proto path
    by (auto simp: read_back_def)
qed

text \<open>What the parser returns is well formed.\<close>

lemma strip_slashes_parts: "\<exists>a b. s = a @ strip_slashes s @ b \<and> (strip_slashes s \<noteq> [] \<longrightarrow> hd (strip_slashes s) \<noteq> CHR ''/'')"
proof -
  define t where "t = dropWhile (\<lambda>c. c = CHR ''/'') s"
  have t: "s = takeWhile (\<lambda>c. c = CHR ''/'') s @ t" unfolding t_def by simp
  have h: "hd t \<noteq> CHR ''/''" if "t \<noteq> []" using that hd_dropWhile [of "\<lambda>c. c = CHR ''/''" s] unfolding t_def by blast
  have r: "t = strip_slashes s @ rev (takeWhile (\<lambda>x. x = CHR ''/'') (rev t))"
    unfolding strip_slashes_def py_rstrip_char_def t_def [symmetric] by (simp only: rev_append [symmetric] takeWhile_dropWhile_id rev_rev_ident)
  have "hd (strip_slashes s) \<noteq> CHR ''/''" if "strip_slashes s \<noteq> []" using h hd_append2 [OF that] r that by (metis append_is_Nil_conv)
  moreover have "s = takeWhile (\<lambda>c. c = CHR ''/'') s @ strip_slashes s @ rev (takeWhile (\<lambda>x. x = CHR ''/'') (rev t))"
    using t r by simp
  ultimately show ?thesis by blast
qed

lemma list_all_strip: "list_all P s \<Longrightarrow> list_all P (strip_slashes s)"
  using strip_slashes_parts [of s] by (metis list_all_append)

lemma list_all_dot_git: "list_all P s \<Longrightarrow> list_all P (drop_dot_git s)"
  by (auto simp: drop_dot_git_def list_all_iff dest: in_set_takeD)

lemma hd_dot_git: "drop_dot_git s \<noteq> [] \<Longrightarrow> hd (drop_dot_git s) = hd s"
  by (auto simp: drop_dot_git_def)

lemma list_all_sub: "list_all P s \<Longrightarrow> list_all P (takeWhile Q s)" "list_all P s \<Longrightarrow> list_all P (dropWhile Q s)"
    "list_all P s \<Longrightarrow> list_all P (drop n s)" "list_all P s \<Longrightarrow> list_all P (take n s)" "list_all P s \<Longrightarrow> list_all P (rev s)"
  by (auto simp: list_all_iff dest: set_takeWhileD set_dropWhileD in_set_dropD in_set_takeD)

lemma scp_char_plain: "scp_char c \<Longrightarrow> plain_char c \<and> c \<notin> {CHR ''/'', CHR ''@'', CHR '':'', CHR ''[''}"
  by (auto simp: scp_char_def is_word_def is_digit_def plain_char_def unsafe_byte_def less_eq_char_def)

lemma plain_lower: "plain_char (lower_char c) \<longleftrightarrow> plain_char c"
  unfolding plain_char_def unsafe_byte_def by (simp add: lower_char_other less_eq_char_def)

lemma lower_char_marks [simp]: "lower_char c = CHR ''/'' \<longleftrightarrow> c = CHR ''/''" "lower_char c = CHR ''@'' \<longleftrightarrow> c = CHR ''@''"
  by (simp_all add: lower_char_other less_eq_char_def)

lemma list_all_lower: "(\<And>c. P c \<Longrightarrow> Q (lower_char c)) \<Longrightarrow> list_all P s \<Longrightarrow> list_all Q (py_lower s)"
  by (auto simp: py_lower_def list_all_iff)

lemma scp_like_parts:
  assumes "scp_like s = Some (user, host, path)"
  shows "list_all scp_char user" "list_all scp_char host" "host \<noteq> []" "list_all (\<lambda>c. scp_char c \<or> c = CHR ''/'') path"
  using assms unfolding scp_like_def scp_path_def Let_def by (auto split: if_splits simp: list_all_sub(4))

lemma scp_wf:
  assumes "scp_like s = Some (user, host, path)" "CHR ''/'' \<in> set (strip_slashes path)"
  shows "uri_wf \<lparr>ru_scheme = SshP, ru_hostname = py_lower host, ru_port = None, ru_path = strip_slashes path, ru_ssh_user = Some user\<rparr>"
proof -
  note parts = scp_like_parts [OF assms(1)]
  have "list_all (\<lambda>c. plain_char c \<and> c \<notin> {CHR ''/'', CHR ''@''}) (py_lower host)"
    using parts(2) by (rule list_all_lower [rotated]) (use scp_char_plain plain_lower in auto)
  moreover have "list_all (\<lambda>c. plain_char c \<and> c \<notin> {CHR ''/'', CHR '':''}) user"
    using parts(1) by (rule list.pred_mono_strong) (use scp_char_plain in auto)
  moreover have "list_all plain_char (strip_slashes path)"
    using list_all_strip [OF parts(4)] by (rule list.pred_mono_strong) (use scp_char_plain in \<open>auto simp: plain_char_def unsafe_byte_def\<close>)
  moreover have "strip_slashes path \<noteq> []" using assms(2) by auto
  ultimately show ?thesis using parts(3) strip_slashes_parts [of path] by (auto simp: uri_wf_def)
qed

lemma urlsplit_chars:
  assumes "urlsplit netloc_ok url = Inr parts"
  shows "list_all (\<lambda>c. plain_char c \<and> c \<noteq> CHR ''/'') (up_netloc parts)" "list_all plain_char (up_path parts)"
proof -
  define s where "s = filter (\<lambda>c. \<not> unsafe_byte c) (dropWhile (\<lambda>c. c \<le> CHR '' '') url)"
  have safe: "list_all (\<lambda>c. \<not> unsafe_byte c) (snd (split_scheme s))"
    unfolding split_scheme_def Let_def s_def by (auto simp: list_all_iff dest: in_set_dropD)
  have loc: "list_all (\<lambda>c. plain_char c \<and> c \<noteq> CHR ''/'') (takeWhile (\<lambda>c. \<not> netloc_end c) t)" if "list_all (\<lambda>c. \<not> unsafe_byte c) t" for t
    using that by (auto simp: list_all_iff netloc_end_def plain_char_def dest!: set_takeWhileD)
  have path: "list_all plain_char (takeWhile (\<lambda>c. c \<noteq> CHR ''?'' \<and> c \<noteq> CHR ''#'') t)" if "list_all (\<lambda>c. \<not> unsafe_byte c) t" for t
    using that by (auto simp: list_all_iff plain_char_def dest!: set_takeWhileD)
  show "list_all (\<lambda>c. plain_char c \<and> c \<noteq> CHR ''/'') (up_netloc parts)" "list_all plain_char (up_path parts)"
    using assms safe list_all_sub(3) [OF safe, of 2] unfolding urlsplit_def Let_def s_def [symmetric]
    by (auto simp: loc path list_all_sub split: prod.splits if_splits)
qed

lemma userinfo_chars:
  assumes "list_all P loc"
  shows "list_all P (snd (split_userinfo loc))" "CHR ''@'' \<notin> set (snd (split_userinfo loc))"
    "fst (split_userinfo loc) = Some i \<Longrightarrow> list_all P i"
  using assms by (auto simp: split_userinfo_def Let_def list_all_iff dest!: set_takeWhileD dest: in_set_takeD split: if_splits)

lemma url_host_chars:
  assumes "list_all P (up_netloc parts)"
  shows "list_all (\<lambda>c. P c \<and> c \<noteq> CHR ''@'') (fst (url_hostinfo parts))"
proof -
  have "list_all (\<lambda>c. P c \<and> c \<noteq> CHR ''@'') (snd (split_userinfo (up_netloc parts)))"
    using userinfo_chars(1,2) [OF assms] by (auto simp: list_all_iff)
  then show ?thesis unfolding url_hostinfo_def Let_def by (auto intro: list_all_sub)
qed

lemma url_wf:
  assumes "urlsplit netloc_ok text = Inr parts" "url_hostname parts = Some host" "protocol_of (up_scheme parts) (Some host) = Some scheme"
    "path = drop_dot_git (strip_slashes (up_path parts))" "path \<noteq> []" "url_port parts = Inr port"
    "user = None \<or> user = url_username parts"
  shows "uri_wf \<lparr>ru_scheme = scheme, ru_hostname = py_lower host, ru_port = port, ru_path = path, ru_ssh_user = user\<rparr>"
proof -
  note chars = urlsplit_chars [OF assms(1)]
  have h: "py_lower host = py_lower (fst (url_hostinfo parts))" "fst (url_hostinfo parts) \<noteq> []"
    using assms(2) py_lower_append [of "takeWhile (\<lambda>c. c \<noteq> CHR ''%'') (fst (url_hostinfo parts))" "dropWhile (\<lambda>c. c \<noteq> CHR ''%'') (fst (url_hostinfo parts))"]
    unfolding url_hostname_def Let_def by (auto simp del: py_lower_append simp: py_lower_append [of "py_lower _"] split: if_splits)
  then have "host \<noteq> []" by (metis py_lower_Nil)
  have "list_all (\<lambda>c. plain_char c \<and> c \<notin> {CHR ''/'', CHR ''@''}) (py_lower host)"
    unfolding h(1) using url_host_chars [OF chars(1)] by (rule list_all_lower [rotated]) (auto simp: plain_lower)
  moreover have "list_all plain_char path" unfolding assms(4) by (intro list_all_dot_git list_all_strip chars(2))
  moreover have "hd path \<noteq> CHR ''/''"
    using assms(4,5) hd_dot_git [of "strip_slashes (up_path parts)"] strip_slashes_parts [of "up_path parts"] by (auto simp: drop_dot_git_def split: if_splits)
  moreover have "list_all (\<lambda>c. plain_char c \<and> c \<notin> {CHR ''/'', CHR '':''}) n" if "url_username parts = Some n" for n
    using that userinfo_chars(3) [OF chars(1)] unfolding url_username_def by (auto simp: list_all_iff dest!: set_takeWhileD)
  moreover have "case port of None \<Rightarrow> True | Some p \<Rightarrow> p \<le> 65535"
    using assms(6) unfolding url_port_def Let_def by (auto split: if_splits)
  moreover have "scheme = Http \<longrightarrow> py_lower host \<in> set LOOPBACK"
    using assms(3) by (auto simp: protocol_of_def split: if_splits)
  ultimately show ?thesis using \<open>host \<noteq> []\<close> assms(5,7) by (auto simp: uri_wf_def split: option.splits)
qed

lemma parsed_wf:
  assumes "parse_remote_uri netloc_ok uri = Inr u" "CHR ''/'' \<in> set (ru_path u)"
  shows "uri_wf u"
proof (cases "if occurs_in ''://'' (py_strip uri) then None else scp_like (py_strip uri)")
  case None
  then show ?thesis
    using assms(1) unfolding parse_remote_uri_def Let_def
    by (auto simp: Let_def intro!: url_wf split: sum.splits option.splits if_splits)
next
  case (Some t)
  then show ?thesis
    using assms unfolding parse_remote_uri_def Let_def
    by (cases t) (auto intro!: scp_wf split: if_splits)
qed

lemma split_on_chars: "c \<in> set s \<Longrightarrow> c \<noteq> d \<Longrightarrow> \<exists>l \<in> set (split_on d s). c \<in> set l"
  by (induction d s rule: split_on.induct) (auto split: list.splits)

lemma allowed_host_text:
  assumes "host_for u hs = Inr h" "hosts_ok hs" "py_lower (ru_hostname u) = ru_hostname u"
  shows "host_text u"
proof -
  have "find_host hs (ru_hostname u) = Some h" using assms(1) by (auto simp: host_for_def split: option.splits if_splits)
  then have h: "h \<in> set hs" "py_lower (gh_hostname h) = ru_hostname u" using assms(3) by (auto simp: find_host_def find_Some_iff)
  then have labels: "list_all host_label (split_on (CHR ''.'') (ru_hostname u))" using assms(2) by (auto simp: hosts_ok_def host_ok_def list_all_iff)
  have "c \<noteq> CHR ''@'' \<and> c \<noteq> CHR '':'' \<and> c \<noteq> CHR ''[''" if "c \<in> set (ru_hostname u)" for c
  proof (cases "c = CHR ''.''")
    case False
    then obtain l where "l \<in> set (split_on (CHR ''.'') (ru_hostname u))" "c \<in> set l" using split_on_chars \<open>c \<in> _\<close> by blast
    then have "alnum c \<or> c = CHR ''-''" using labels by (auto simp: list_all_iff host_label_def)
    then show ?thesis by (auto simp: alnum_def is_word_def is_digit_def less_eq_char_def)
  qed simp
  then show ?thesis by (simp add: host_text_def list_all_iff)
qed


definition lab_host :: git_host where
  "lab_host = \<lparr>gh_name = ''lab'', gh_hostname = ''git.lab'', gh_kind = Gitlab, gh_api_base = None, gh_protocols = [Https, SshP],
     gh_ssh_host_key = Some ''git.lab ssh-ed25519 AAAA'', gh_https_username = ''oauth2''\<rparr>"


text \<open>
  The short form of an address needs no group: it is accepted, and what it is stored as is not an address any more. A port that is no port
  is a bare \<open>ValueError\<close>.
\<close>

lemma address_without_group_is_lost:
  "case parse_remote_uri (\<lambda>_. True) ''git@git.lab:bmc.git'' of Inl _ \<Rightarrow> False
   | Inr u \<Rightarrow> host_for u [lab_host] = Inr lab_host \<and> isl (parse_remote_uri (\<lambda>_. True) (stored_uri u))"
  by code_simp

lemma bad_port_raises_value_error: "parse_remote_uri (\<lambda>_. True) ''https://git.lab:ssh/fw/bmc'' = Inl (HostsValueError ''port'')"
  by code_simp

end
