(* ===== verification/Models.thy ===== *)
theory Models
  imports Breaker "HOL-Library.Product_Lexorder"
begin

text \<open>
  The model manager's view of the models (\<open>services/model-manager\<close>): the registry (\<open>registry.py\<close>), the container of an
  instance (\<open>runtime.py\<close>), what fits (\<open>fit.py\<close>), on which GPUs the instances go (\<open>placement.py\<close>) and what to
  start and stop (\<open>reconcile.py\<close>). All of it is pure. Memory is in GiB, as rationals; a lookup of an unknown model, a \<open>KeyError\<close>, is \<open>None\<close>.
\<close>

section \<open>The registry\<close>

datatype quant = Fp8 | Awq4 | Bf16

fun quant_value :: "quant \<Rightarrow> string" where
  "quant_value Fp8 = ''fp8''"
| "quant_value Awq4 = ''awq4''"
| "quant_value Bf16 = ''bf16''"

fun QUANT_LABELS :: "quant \<Rightarrow> string" where
  "QUANT_LABELS Fp8 = ''FP8''"
| "QUANT_LABELS Awq4 = ''AWQ 4-bit''"
| "QUANT_LABELS Bf16 = ''BF16''"

record model_entry =
  me_id :: string
  me_display_name :: string
  me_family :: string
  me_path :: string
  me_quant :: quant
  me_vram_gib :: rat
  me_context :: int
  me_roles :: "string list"

definition id_char :: "char \<Rightarrow> bool" where
  "id_char c \<longleftrightarrow> is_digit c \<or> CHR ''a'' \<le> c \<and> c \<le> CHR ''z'' \<or> c = CHR ''.'' \<or> c = CHR ''_'' \<or> c = CHR ''-''"

definition id_shape :: "string \<Rightarrow> bool" where \<comment> \<open>\<open>[a-z0-9][a-z0-9._-]*\<close>\<close>
  "id_shape s \<longleftrightarrow> s \<noteq> [] \<and> list_all id_char s \<and> hd s \<notin> {CHR ''.'', CHR ''_'', CHR ''-''}"

definition has_text :: "string \<Rightarrow> string \<Rightarrow> bool" where \<comment> \<open>\<open>p in s\<close>\<close>
  "has_text p s \<longleftrightarrow> list_ex (prefix p) (suffixes s)"

definition model_entry_ok :: "model_entry \<Rightarrow> bool" where
  "model_entry_ok e \<longleftrightarrow> id_shape (me_id e) \<and> me_display_name e \<noteq> [] \<and> me_family e \<noteq> [] \<and> me_path e \<noteq> [] \<and> 0 < me_vram_gib e \<and> 1024 \<le> me_context e
     \<and> set (me_roles e) \<subseteq> set ROLES \<and> \<not> has_text ''://'' (me_path e)"

definition entry_label :: "model_entry \<Rightarrow> string" where
  "entry_label e = me_display_name e @ '' ('' @ QUANT_LABELS (me_quant e) @ '')''"

record registry =
  rg_version :: int
  rg_models :: "model_entry list"
  rg_roles :: "(string, string) dict"
  rg_voters :: "string list"

definition model_of :: "registry \<Rightarrow> string \<Rightarrow> model_entry option" where
  "model_of r i = find (\<lambda>e. me_id e = i) (rg_models r)"

definition registry_ok :: "registry \<Rightarrow> bool" where
  "registry_ok r \<longleftrightarrow> rg_models r \<noteq> [] \<and> list_all model_entry_ok (rg_models r) \<and> dict_wf (rg_roles r)
     \<and> distinct (map me_id (rg_models r))
     \<and> list_all (\<lambda>(role, i). role \<in> set ROLES \<and> (case model_of r i of None \<Rightarrow> False | Some e \<Rightarrow> role \<in> set (me_roles e))) (rg_roles r)
     \<and> list_all (\<lambda>i. model_of r i \<noteq> None) (rg_voters r) \<and> distinct (rg_voters r)"

definition instance_name :: "string \<Rightarrow> string" where
  "instance_name role = ''vllm-'' @ role"

definition voter_instance_name :: "string \<Rightarrow> string" where
  "voter_instance_name i = ''vllm-voter-'' @ i"

definition registry_routes :: "registry \<Rightarrow> routes" where
  "registry_routes r = \<lparr>ro_roles = map (\<lambda>(role, _). (role, instance_name role)) (rg_roles r), ro_voters = map voter_instance_name (rg_voters r)\<rparr>"


section \<open>Containers\<close>

definition AIRGAP_ENV :: "(string, string) dict" where
  "AIRGAP_ENV = [(''DO_NOT_TRACK'', ''1''), (''HF_HUB_OFFLINE'', ''1''), (''TRANSFORMERS_OFFLINE'', ''1''),
     (''HF_HUB_DISABLE_TELEMETRY'', ''1''), (''VLLM_NO_USAGE_STATS'', ''1'')]"

definition STRUCTURED_OUTPUTS_CONFIG :: string where
  "STRUCTURED_OUTPUTS_CONFIG = ''{'' @ [CHR 0x22] @ ''backend'' @ [CHR 0x22] @ '': '' @ [CHR 0x22] @ ''xgrammar'' @ [CHR 0x22] @ ''}''"

definition INFERENCE_NETWORK :: string where
  "INFERENCE_NETWORK = ''slas-inference''"

datatype vllm_task = Generate | Embed | Score

definition task_for_role :: "string option \<Rightarrow> vllm_task" where
  "task_for_role role = (case role of None \<Rightarrow> Generate | Some r \<Rightarrow> if r = ''embed'' then Embed else if r = ''rerank'' then Score else Generate)"

fun POOLING_FLAGS :: "vllm_task \<Rightarrow> string list" where
  "POOLING_FLAGS Embed = [''--runner'', ''pooling'', ''--convert'', ''embed'']"
| "POOLING_FLAGS Score = [''--runner'', ''pooling'']"
| "POOLING_FLAGS Generate = []" \<comment> \<open>not looked up\<close>

record container_spec =
  sp_name :: string
  sp_image :: string
  sp_argv :: "string list"
  sp_env :: "(string, string) dict"
  sp_network :: string
  sp_gpu_ids :: "int list"
  sp_shm_size :: string
  sp_model_id :: string

definition spec_name_ok :: "string \<Rightarrow> bool" where
  "spec_name_ok s \<longleftrightarrow> prefix ''vllm-'' s \<and> id_shape (drop 5 s)"

definition airgap_missing :: "container_spec \<Rightarrow> string list" where
  "airgap_missing p = map fst (filter (\<lambda>(k, v). map_of (sp_env p) k \<noteq> Some v) AIRGAP_ENV)"

definition image_pinned :: "string \<Rightarrow> bool" where
  "image_pinned img \<longleftrightarrow> \<not> (suffix '':latest'' img \<or> \<not> has_text ''@sha256:'' img \<and> CHR '':'' \<notin> set img)"

definition spec_ok :: "container_spec \<Rightarrow> bool" where
  "spec_ok p \<longleftrightarrow> spec_name_ok (sp_name p) \<and> sp_image p \<noteq> [] \<and> sp_argv p \<noteq> [] \<and> sp_gpu_ids p \<noteq> [] \<and> sp_model_id p \<noteq> []
     \<and> airgap_missing p = [] \<and> image_pinned (sp_image p) \<and> sp_network p = INFERENCE_NETWORK"

record container_ref =
  cr_id :: string
  cr_spec :: container_spec

definition cr_name :: "container_ref \<Rightarrow> string" where
  "cr_name ref = sp_name (cr_spec ref)"

text \<open>The optional arguments of \<open>vllm_spec\<close>: whether to generate, the task, the lowered context, what remedies add.\<close>

record spec_options =
  so_models_dir :: string
  so_generate :: bool
  so_task :: vllm_task
  so_max_model_len :: "int option"
  so_extra_args :: "string list"
  so_extra_env :: "(string, string) dict"

definition spec_defaults :: spec_options where
  "spec_defaults = \<lparr>so_models_dir = ''/data/Models'', so_generate = True, so_task = Generate, so_max_model_len = None, so_extra_args = [], so_extra_env = []\<rparr>"

definition vllm_argv :: "model_entry \<Rightarrow> int list \<Rightarrow> spec_options \<Rightarrow> string list" where
  "vllm_argv entry gpu_ids opts =
     (let ctx = (case so_max_model_len opts of None \<Rightarrow> me_context entry | Some n \<Rightarrow> min (me_context entry) n)
      in [so_models_dir opts @ ''/'' @ me_path entry, ''--served-model-name'', me_id entry, ''--max-model-len'', show_int ctx,
          ''--tensor-parallel-size'', show_nat (length gpu_ids)]
         @ (if me_quant entry = Fp8 then [''--quantization'', ''fp8''] else if me_quant entry = Awq4 then [''--quantization'', ''awq_marlin''] else [])
         @ (if so_task opts \<noteq> Generate then POOLING_FLAGS (so_task opts)
            else if so_generate opts then [''--enable-prefix-caching'', ''--structured-outputs-config'', STRUCTURED_OUTPUTS_CONFIG] else [])
         @ so_extra_args opts)"

definition update_all :: "(string, 'v) dict \<Rightarrow> (string, 'v) dict \<Rightarrow> (string, 'v) dict" where \<comment> \<open>\<open>{**d, **e}\<close>\<close>
  "update_all d e = foldl (\<lambda>acc (k, v). AList.update k v acc) d e"

definition make_spec :: "container_spec \<Rightarrow> schema_error + container_spec" where
  "make_spec p = (if spec_ok p then Inr p else Inl (ValidationError (sp_name p)))"

definition vllm_spec :: "model_entry \<Rightarrow> string \<Rightarrow> int list \<Rightarrow> string \<Rightarrow> spec_options \<Rightarrow> schema_error + container_spec" where
  "vllm_spec entry name gpu_ids image_name opts =
     make_spec \<lparr>sp_name = name, sp_image = image_name, sp_argv = vllm_argv entry gpu_ids opts,
       sp_env = update_all (AList.update ''CUDA_VISIBLE_DEVICES'' (py_join '','' (map show_int gpu_ids)) AIRGAP_ENV) (so_extra_env opts),
       sp_network = INFERENCE_NETWORK, sp_gpu_ids = gpu_ids, sp_shm_size = ''16g'', sp_model_id = me_id entry\<rparr>"

text \<open>What a crashed container says about its context.\<close>

fun context_of :: "string list \<Rightarrow> int option" where
  "context_of (flag # val # rest) =
     (if flag = ''--max-model-len'' \<and> val \<noteq> [] \<and> list_all is_digit val then Some (int (nat_of_digits val)) else context_of (val # rest))"
| "context_of _ = None"


section \<open>What fits\<close>

definition RUNTIME_OVERHEAD_GIB :: rat where
  "RUNTIME_OVERHEAD_GIB = 2"

definition round1 :: "rat \<Rightarrow> rat" where \<comment> \<open>\<open>round(x, 1)\<close>\<close>
  "round1 x = of_int (round_half_even (x * 10)) / 10"

definition needed_gib :: "model_entry \<Rightarrow> rat" where
  "needed_gib e = round1 (me_vram_gib e + RUNTIME_OVERHEAD_GIB)"

datatype gpu_arch = Hopper | Blackwell | Ada | Ampere | OtherArch

definition recommended_quant :: "gpu_arch \<Rightarrow> quant" where
  "recommended_quant a = (if a = Hopper \<or> a = Blackwell then Fp8 else Awq4)"

record gpu_facts =
  gf_index :: int
  gf_name :: string
  gf_arch :: gpu_arch
  gf_total_gib :: rat
  gf_free_gib :: rat

record fit_result =
  fr_fits :: bool
  fr_gpu_index :: "int option"
  fr_needed_gib :: rat
  fr_free_gib :: rat
  fr_sentence :: string

fun max_by :: "('a \<Rightarrow> 'k::linorder) \<Rightarrow> 'a \<Rightarrow> 'a list \<Rightarrow> 'a" where \<comment> \<open>\<open>max(x :: xs, key=f)\<close>: the first of the greatest\<close>
  "max_by f x [] = x"
| "max_by f x (y # ys) = max_by f (if f x < f y then y else x) ys"

definition fit :: "model_entry \<Rightarrow> gpu_facts list \<Rightarrow> fit_result" where
  "fit entry gpus =
     (let needed = needed_gib entry
      in case gpus of
        [] \<Rightarrow> \<lparr>fr_fits = False, fr_gpu_index = None, fr_needed_gib = needed, fr_free_gib = 0,
            fr_sentence = entry_label entry @ '' needs about '' @ show_g needed
              @ '' GiB of GPU memory, but no GPU was found. Install the NVIDIA driver and run `slas doctor`.''\<rparr>
      | g # gs \<Rightarrow>
         (let best = max_by gf_free_gib g gs
          in if gf_free_gib best \<ge> needed then
               \<lparr>fr_fits = True, fr_gpu_index = Some (gf_index best), fr_needed_gib = needed, fr_free_gib = gf_free_gib best,
                fr_sentence = entry_label entry @ '' needs about '' @ show_g needed @ '' GiB of GPU memory; GPU '' @ show_int (gf_index best)
                  @ '' ('' @ gf_name best @ '') has '' @ show_g (gf_free_gib best) @ '' GiB free, so it fits.''\<rparr>
             else
               \<lparr>fr_fits = False, fr_gpu_index = Some (gf_index best), fr_needed_gib = needed, fr_free_gib = gf_free_gib best,
                fr_sentence = entry_label entry @ '' needs about '' @ show_g needed @ '' GiB of GPU memory, but the most that is free is ''
                  @ show_g (gf_free_gib best) @ '' GiB on GPU '' @ show_int (gf_index best) @ '' ('' @ gf_name best @ ''), ''
                  @ show_g (round1 (needed - gf_free_gib best)) @ '' GiB short. ''
                  @ (if me_quant entry = Bf16 then ''Use the '' @ QUANT_LABELS (recommended_quant (gf_arch best)) @ '' build; BF16 is only for eval regression.''
                     else ''Free some GPU memory or pick a smaller quantisation.'')\<rparr>))"
end
