(* ===== verification/Swap.thy ===== *)
theory Swap
  imports Effects Models
begin

text \<open>
  The blue/green swap of the model that serves a role (\<open>services/model-manager/slas_model_manager/swap.py\<close>). The container runtime, the
  smoke tester and the clock are parameters that act on a world of their own; the two fakes of the sources are
  instances of them. The manager's state is its records, what serves each role, the router of the gateway, and that world. Every call of the
  runtime may raise. The record of a role is one object, mutated in place and shared with the dictionary, so that each change is written back at once.
\<close>

section \<open>State\<close>

record smoke_result =
  sm_ok :: bool
  sm_sentence :: string

datatype swap_phase = PStarting | PSmokeTesting | PSwitching | PDraining | PDone | PFailed | PRolledBack | PExpired

record swap_record =
  sr_role :: string
  sr_candidate :: model_entry
  sr_candidate_ref :: "container_ref option"
  sr_incumbent :: "model_entry option"
  sr_incumbent_ref :: "container_ref option"
  sr_phase :: swap_phase
  sr_started_at :: time
  sr_switched_at :: "time option"
  sr_rollback_until :: "time option"
  sr_progress :: "string list"

definition swap_sentence :: "swap_record \<Rightarrow> string" where
  "swap_sentence r = (if sr_progress r = [] then ''Swapping '' @ sr_role r @ ellipsis else last (sr_progress r))"

record 'w swap_env =
  se_start :: "container_spec \<Rightarrow> 'w \<Rightarrow> (string + container_ref) \<times> 'w"
  se_stop :: "container_ref \<Rightarrow> 'w \<Rightarrow> (string + unit) \<times> 'w"
  se_healthy :: "container_ref \<Rightarrow> 'w \<Rightarrow> (string + bool) \<times> 'w"
  se_smoke :: "string \<Rightarrow> 'w \<Rightarrow> smoke_result \<times> 'w"
  se_now :: "'w \<Rightarrow> time \<times> 'w"
  se_image :: string
  se_rollback_window :: time

record 'w swap_state =
  sw_records :: "(string, swap_record) dict"
  sw_serving :: "(string, model_entry \<times> container_ref) dict"
  sw_router :: role_router
  sw_world :: 'w

datatype swap_error = SwapError three_part | RuntimeFailed string | BadSpec schema_error | BadRoute routing_error

type_synonym ('w, 'a) swap_prog = "('w swap_state, swap_error, 'a) prog"

definition outside :: "('w \<Rightarrow> 'a \<times> 'w) \<Rightarrow> ('w, 'a) swap_prog" where \<comment> \<open>a call into the world\<close>
  "outside f s = (case f (sw_world s) of (x, w) \<Rightarrow> (Ret x, s\<lparr>sw_world := w\<rparr>))"

definition call_runtime :: "('w \<Rightarrow> (string + 'a) \<times> 'w) \<Rightarrow> ('w, 'a) swap_prog" where
  "call_runtime f = bind (outside f) (lift RuntimeFailed)"

definition serving :: "string \<Rightarrow> 'w swap_state \<Rightarrow> (model_entry \<times> container_ref) option" where
  "serving role s = map_of (sw_serving s) role"

definition register_serving :: "string \<Rightarrow> model_entry \<Rightarrow> container_ref \<Rightarrow> ('w, unit) swap_prog" where
  "register_serving role entry ref = modify (\<lambda>s. s\<lparr>sw_serving := AList.update role (entry, ref) (sw_serving s)\<rparr>)"

definition swap_status :: "string \<Rightarrow> 'w swap_state \<Rightarrow> string" where
  "swap_status role s =
     (case map_of (sw_records s) role of
        Some r \<Rightarrow> swap_sentence r
      | None \<Rightarrow> (case serving role s of None \<Rightarrow> ''Nothing is serving '' @ role @ ''.'' | Some (e, _) \<Rightarrow> me_display_name e @ '' is serving '' @ role @ ''.''))"

definition put_record :: "swap_record \<Rightarrow> ('w, swap_record) swap_prog" where
  "put_record r = bind (modify (\<lambda>s. s\<lparr>sw_records := AList.update (sr_role r) r (sw_records s)\<rparr>)) (\<lambda>_. ret r)"

definition say_progress :: "string \<Rightarrow> swap_record \<Rightarrow> swap_record" where
  "say_progress sentence r = r\<lparr>sr_progress := sr_progress r @ [sentence]\<rparr>"

definition switch_route :: "string \<Rightarrow> string \<Rightarrow> ('w, unit) swap_prog" where
  "switch_route role name =
     bind (gets (\<lambda>s. switch (sw_router s) role name)) (\<lambda>r.
     bind (lift BadRoute r) (\<lambda>(_, router). modify (\<lambda>s. s\<lparr>sw_router := router\<rparr>)))"


definition new_manager :: "registry \<Rightarrow> 'w \<Rightarrow> 'w swap_state" where \<comment> \<open>with the routes of the registry\<close>
  "new_manager r w = \<lparr>sw_records = [], sw_serving = [], sw_router = \<lparr>rt_routes = registry_routes r, rt_history = []\<rparr>, sw_world = w\<rparr>"


section \<open>The swap\<close>

definition cannot_serve :: "string \<Rightarrow> model_entry \<Rightarrow> three_part" where
  "cannot_serve role candidate =
     \<lparr>tp_what_happened = me_display_name candidate @ '' cannot serve '' @ role @ ''.'',
      tp_likely_cause = ''Models/models.yaml declares it for '' @ (if me_roles candidate = [] then ''no role'' else py_join '', '' (me_roles candidate)) @ ''.'',
      tp_what_to_do = ''Pick a model declared for this role, or add the role to its entry.''\<rparr>"

definition give_up :: "'w swap_env \<Rightarrow> container_ref \<Rightarrow> string \<Rightarrow> swap_record \<Rightarrow> ('w, swap_record) swap_prog" where
  "give_up E ref sentence r =
     bind (call_runtime (se_stop E ref)) (\<lambda>_. put_record (say_progress sentence (r\<lparr>sr_phase := PFailed\<rparr>)))"

text \<open>From the switch of the route on.\<close>

definition switch_over :: "'w swap_env \<Rightarrow> string \<Rightarrow> model_entry \<Rightarrow> container_ref \<Rightarrow> (model_entry \<times> container_ref) option \<Rightarrow> string \<Rightarrow> swap_record \<Rightarrow>
    ('w, swap_record) swap_prog" where
  "switch_over E role candidate ref current candidate_name r0 =
     bind (put_record (r0\<lparr>sr_phase := PSwitching\<rparr>)) (\<lambda>r1.
     bind (switch_route role candidate_name) (\<lambda>_.
     bind (outside (se_now E)) (\<lambda>now.
     let until = now + se_rollback_window E in
     bind (put_record (r1\<lparr>sr_switched_at := Some now, sr_rollback_until := Some until\<rparr>)) (\<lambda>r2.
     bind (modify (\<lambda>s. s\<lparr>sw_serving := AList.update role (candidate, ref) (sw_serving s)\<rparr>)) (\<lambda>_.
     bind (put_record (r2\<lparr>sr_phase := PDraining\<rparr>)) (\<lambda>r3.
     bind (case current of
         None \<Rightarrow> ret r3
       | Some (entry, incumbent) \<Rightarrow>
           bind (call_runtime (se_stop E incumbent)) (\<lambda>_. put_record (say_progress (me_display_name entry @ '' was drained and stopped.'') r3))) (\<lambda>r4.
     put_record (say_progress (role @ '' is now served by '' @ me_display_name candidate @ ''. ''
         @ (case current of
              Some (entry, _) \<Rightarrow> me_display_name entry @ '' can be restored until '' @ show_minute until @ ''.''
            | None \<Rightarrow> ''There was no previous model to roll back to.''))
       (r4\<lparr>sr_phase := PDone\<rparr>)))))))))"

definition candidate_name :: "string \<Rightarrow> model_entry \<Rightarrow> string" where
  "candidate_name role candidate = instance_name role @ ''-'' @ me_id candidate"

definition name_of_current :: "(model_entry \<times> container_ref) option \<Rightarrow> string" where
  "name_of_current current = (case current of None \<Rightarrow> ''nothing'' | Some (e, _) \<Rightarrow> me_display_name e)"

definition opening_record :: "string \<Rightarrow> model_entry \<Rightarrow> (model_entry \<times> container_ref) option \<Rightarrow> time \<Rightarrow> swap_record" where
  "opening_record role candidate current now =
     \<lparr>sr_role = role, sr_candidate = candidate, sr_candidate_ref = None, sr_incumbent = map_option fst current,
      sr_incumbent_ref = map_option snd current, sr_phase = PStarting, sr_started_at = now, sr_switched_at = None, sr_rollback_until = None,
      sr_progress = [''Starting '' @ me_display_name candidate @ '' alongside the current '' @ role @ '' ('' @ name_of_current current @ '')'' @ ellipsis]\<rparr>"

definition smoke_candidate :: "'w swap_env \<Rightarrow> string \<Rightarrow> model_entry \<Rightarrow> container_ref \<Rightarrow> (model_entry \<times> container_ref) option \<Rightarrow> swap_record \<Rightarrow>
    ('w, swap_record) swap_prog" where
  "smoke_candidate E role candidate ref current r1 =
     bind (put_record (say_progress (''Smoke-testing '' @ me_display_name candidate @ ellipsis) (r1\<lparr>sr_phase := PSmokeTesting\<rparr>))) (\<lambda>r2.
     bind (outside (se_smoke E (candidate_name role candidate))) (\<lambda>result.
     if \<not> sm_ok result then
       give_up E ref (''Smoke test failed: '' @ sm_sentence result @ '' '' @ me_display_name candidate @ '' was stopped and '' @ name_of_current current
         @ '' keeps serving '' @ role @ ''.'') r2
     else
       bind (put_record (say_progress (sm_sentence result) r2)) (\<lambda>r3.
       switch_over E role candidate ref current (candidate_name role candidate) r3)))"

definition start_candidate :: "'w swap_env \<Rightarrow> string \<Rightarrow> model_entry \<Rightarrow> int list \<Rightarrow> (model_entry \<times> container_ref) option \<Rightarrow> swap_record \<Rightarrow>
    ('w, swap_record) swap_prog" where
  "start_candidate E role candidate gpu_ids current r0 =
     bind (lift BadSpec (vllm_spec candidate (candidate_name role candidate) gpu_ids (se_image E) spec_defaults)) (\<lambda>spec.
     bind (call_runtime (se_start E spec)) (\<lambda>ref.
     bind (put_record (r0\<lparr>sr_candidate_ref := Some ref\<rparr>)) (\<lambda>r1.
     bind (call_runtime (se_healthy E ref)) (\<lambda>healthy.
     if \<not> healthy then
       give_up E ref (me_display_name candidate @ '' did not become healthy; it was stopped and '' @ name_of_current current @ '' keeps serving '' @ role
         @ ''. Run `slas logs '' @ candidate_name role candidate @ ''`.'') r1
     else smoke_candidate E role candidate ref current r1))))"

definition swap :: "'w swap_env \<Rightarrow> string \<Rightarrow> model_entry \<Rightarrow> int list \<Rightarrow> ('w, swap_record) swap_prog" where
  "swap E role candidate gpu_ids =
     (if role \<notin> set (me_roles candidate) then raise (SwapError (cannot_serve role candidate))
      else
        bind (gets (serving role)) (\<lambda>current.
        bind (outside (se_now E)) (\<lambda>now.
        bind (put_record (opening_record role candidate current now)) (\<lambda>r0.
        start_candidate E role candidate gpu_ids current r0))))"


section \<open>The rollback\<close>

definition no_swap_to_undo :: "string \<Rightarrow> three_part" where
  "no_swap_to_undo role =
     \<lparr>tp_what_happened = ''There is no completed swap of '' @ role @ '' to roll back.'',
      tp_likely_cause = ''Either nothing was swapped, or the swap failed and the previous model kept serving.'',
      tp_what_to_do = ''Check the Models page for what is serving the role now.''\<rparr>"

definition no_previous :: "string \<Rightarrow> swap_record \<Rightarrow> three_part" where
  "no_previous role r =
     \<lparr>tp_what_happened = role @ '' had no previous model, so there is nothing to roll back to.'',
      tp_likely_cause = me_display_name (sr_candidate r) @ '' was the first model assigned to it.'',
      tp_what_to_do = ''Swap in another model instead.''\<rparr>"

definition window_closed :: "string \<Rightarrow> time \<Rightarrow> model_entry \<Rightarrow> three_part" where
  "window_closed role until incumbent =
     \<lparr>tp_what_happened = ''The rollback window for '' @ role @ '' closed at '' @ show_minute until @ ''.'',
      tp_likely_cause = ''Rollbacks are kept for 24 hours after a swap.'',
      tp_what_to_do = ''Swap '' @ me_display_name incumbent @ '' back in as a new swap instead.''\<rparr>"

definition not_back :: "string \<Rightarrow> swap_record \<Rightarrow> model_entry \<Rightarrow> container_ref \<Rightarrow> three_part" where
  "not_back role r incumbent ref =
     \<lparr>tp_what_happened = me_display_name incumbent @ '' did not come back healthy.'',
      tp_likely_cause = ''The previous container could not start again.'',
      tp_what_to_do = me_display_name (sr_candidate r) @ '' keeps serving '' @ role @ ''; run `slas logs '' @ cr_name ref @ ''`.''\<rparr>"

definition restore :: "'w swap_env \<Rightarrow> string \<Rightarrow> swap_record \<Rightarrow> model_entry \<Rightarrow> container_ref \<Rightarrow> ('w, swap_record) swap_prog" where
  "restore E role r incumbent incumbent_ref =
     bind (call_runtime (se_start E (cr_spec incumbent_ref))) (\<lambda>restored.
     bind (call_runtime (se_healthy E restored)) (\<lambda>healthy.
     if \<not> healthy then
       bind (call_runtime (se_stop E restored)) (\<lambda>_. raise (SwapError (not_back role r incumbent incumbent_ref)))
     else
       bind (switch_route role (cr_name incumbent_ref)) (\<lambda>_.
       bind (case sr_candidate_ref r of None \<Rightarrow> ret () | Some ref \<Rightarrow> call_runtime (se_stop E ref)) (\<lambda>_.
       bind (modify (\<lambda>s. s\<lparr>sw_serving := AList.update role (incumbent, restored) (sw_serving s)\<rparr>)) (\<lambda>_.
       put_record (say_progress (''Rolled back: '' @ me_display_name incumbent @ '' is serving '' @ role @ '' again and '' @ me_display_name (sr_candidate r) @ '' was stopped.'')
         (r\<lparr>sr_phase := PRolledBack\<rparr>)))))))"

definition rollback :: "'w swap_env \<Rightarrow> string \<Rightarrow> ('w, swap_record) swap_prog" where
  "rollback E role =
     bind (gets (\<lambda>s. map_of (sw_records s) role)) (\<lambda>found.
     case found of
       None \<Rightarrow> raise (SwapError (no_swap_to_undo role))
     | Some r \<Rightarrow>
         if sr_phase r \<noteq> PDone then raise (SwapError (no_swap_to_undo role))
         else case (sr_incumbent r, sr_incumbent_ref r) of
           (Some incumbent, Some ref) \<Rightarrow>
             bind (outside (se_now E)) (\<lambda>now.
             case sr_rollback_until r of
               Some until \<Rightarrow>
                 if now > until then bind (put_record (r\<lparr>sr_phase := PExpired\<rparr>)) (\<lambda>_. raise (SwapError (window_closed role until incumbent)))
                 else restore E role r incumbent ref
             | None \<Rightarrow> restore E role r incumbent ref)
         | _ \<Rightarrow> raise (SwapError (no_previous role r)))"


section \<open>The fakes\<close>

record fake_world =
  fk_running :: "(string, container_ref) dict"
  fk_health :: "(string, bool) dict"
  fk_started :: "string list"
  fk_stopped :: "string list"
  fk_counter :: nat
  fk_results :: "(string, smoke_result) dict"
  fk_asked :: "string list"
  fk_now :: time

definition fake_start :: "container_spec \<Rightarrow> fake_world \<Rightarrow> (string + container_ref) \<times> fake_world" where
  "fake_start spec w =
     (if map_of (fk_running w) (sp_name spec) \<noteq> None then (Inl (''a container named '' @ sp_name spec @ '' is already running''), w)
      else let n = fk_counter w + 1; ref = \<lparr>cr_id = ''c'' @ zero_pad 3 (show_nat n), cr_spec = spec\<rparr>
        in (Inr ref, w\<lparr>fk_counter := n, fk_running := AList.update (sp_name spec) ref (fk_running w), fk_started := fk_started w @ [sp_name spec]\<rparr>))"

definition fake_stop :: "container_ref \<Rightarrow> fake_world \<Rightarrow> (string + unit) \<times> fake_world" where
  "fake_stop ref w = (Inr (), w\<lparr>fk_running := AList.delete (cr_name ref) (fk_running w), fk_stopped := fk_stopped w @ [cr_name ref]\<rparr>)"

definition fake_healthy :: "container_ref \<Rightarrow> fake_world \<Rightarrow> (string + bool) \<times> fake_world" where
  "fake_healthy ref w =
     (Inr (map_of (fk_running w) (cr_name ref) \<noteq> None \<and> (case map_of (fk_health w) (cr_name ref) of None \<Rightarrow> True | Some b \<Rightarrow> b)), w)"

definition fake_smoke :: "string \<Rightarrow> fake_world \<Rightarrow> smoke_result \<times> fake_world" where
  "fake_smoke name w =
     ((case map_of (fk_results w) name of Some r \<Rightarrow> r | None \<Rightarrow> \<lparr>sm_ok = True, sm_sentence = ''Smoke test passed: 3 of 3 prompts answered.''\<rparr>),
      w\<lparr>fk_asked := fk_asked w @ [name]\<rparr>)"

definition fake_env :: "string \<Rightarrow> time \<Rightarrow> fake_world swap_env" where
  "fake_env img window = \<lparr>se_start = fake_start, se_stop = fake_stop, se_healthy = fake_healthy, se_smoke = fake_smoke,
     se_now = (\<lambda>w. (fk_now w, w)), se_image = img, se_rollback_window = window\<rparr>"

end
