(* ===== verification/Placement.thy ===== *)
theory Placement
  imports Models
begin

text \<open>
  On which GPUs the instances go (\<open>placement.py\<close>) and what to start and stop (\<open>reconcile.py\<close>). A dictionary from GPU ids is an
  association list; the two the placement changes, memory left and occupants, are threaded through its loops.
\<close>

section \<open>Candidates\<close>

datatype candidate_kind = RoleKind | VoterKind

record candidate =
  ca_instance :: string
  ca_model_id :: string
  ca_kind :: candidate_kind
  ca_role :: "string option"
  ca_needed_gib :: rat
  ca_label :: string

record placed =
  pd_instance :: string
  pd_model_id :: string
  pd_gpu_ids :: "int list"

record unplaced =
  un_instance :: string
  un_model_id :: string
  un_sentence :: string

record placement_result =
  pr_placed :: "placed list"
  pr_unplaced :: "unplaced list"
  pr_free_gib :: "(int, rat) dict"
  pr_occupants :: "(int, string list) dict"

definition gpu_ids_for :: "placement_result \<Rightarrow> string \<Rightarrow> int list option" where
  "gpu_ids_for r name = map_option pd_gpu_ids (find (\<lambda>p. pd_instance p = name) (pr_placed r))"

definition sentence_for :: "placement_result \<Rightarrow> string \<Rightarrow> string option" where
  "sentence_for r name = map_option un_sentence (find (\<lambda>u. un_instance u = name) (pr_unplaced r))"

definition role_candidate :: "registry \<Rightarrow> string \<times> string \<Rightarrow> candidate option" where
  "role_candidate r = (\<lambda>(role, i). map_option (\<lambda>e. \<lparr>ca_instance = instance_name role, ca_model_id = i, ca_kind = RoleKind, ca_role = Some role,
     ca_needed_gib = needed_gib e, ca_label = entry_label e\<rparr>) (model_of r i))"

definition voter_candidate :: "registry \<Rightarrow> string \<Rightarrow> candidate option" where
  "voter_candidate r i = map_option (\<lambda>e. \<lparr>ca_instance = voter_instance_name i, ca_model_id = i, ca_kind = VoterKind, ca_role = None,
     ca_needed_gib = needed_gib e, ca_label = entry_label e\<rparr>) (model_of r i)"

definition candidate_order :: "candidate \<Rightarrow> bool \<times> rat \<times> string" where
  "candidate_order c = (ca_kind c \<noteq> RoleKind, - ca_needed_gib c, ca_instance c)"

definition candidates :: "registry \<Rightarrow> string list option \<Rightarrow> candidate list option" where
  "candidates r only =
     map_option (\<lambda>out. sort_key candidate_order (case only of None \<Rightarrow> out | Some wanted \<Rightarrow> filter (\<lambda>c. ca_instance c \<in> set wanted) out))
       (those (map (role_candidate r) (rg_roles r) @ map (voter_candidate r) (rg_voters r)))"


section \<open>The placement\<close>

definition gpu_count_for :: "rat \<Rightarrow> rat \<Rightarrow> nat" where
  "gpu_count_for needed capacity = (if capacity > 0 then nat (max 1 \<lceil>needed / capacity\<rceil>) else 1)"

definition roomy_gpus :: "rat \<Rightarrow> (int, rat) dict \<Rightarrow> int list" where \<comment> \<open>most memory left first, lowest id on a tie\<close>
  "roomy_gpus share free = map fst (filter (\<lambda>(_, left). left \<ge> share) (sort_key (\<lambda>(gpu, left). (- left, gpu)) free))"

definition choose_gpus :: "rat \<Rightarrow> (int, rat) dict \<Rightarrow> rat \<Rightarrow> int list option" where
  "choose_gpus needed free capacity =
     (if free = [] then None
      else let count = gpu_count_for needed capacity; roomy = roomy_gpus (needed / of_nat count) free
        in if length roomy < count then None else Some (sort (take count roomy)))"

definition no_room_sentence :: "candidate \<Rightarrow> (int, rat) dict \<Rightarrow> rat \<Rightarrow> string" where
  "no_room_sentence c free capacity =
     (let needed = ca_needed_gib c; count = gpu_count_for needed capacity;
          fix_it = ''Add a GPU, raise SLAS_GPU_VRAM_GIB in .env if it understates the cards, or pick a smaller build on the Models page.''
      in case free of
        [] \<Rightarrow> ca_label c @ '' needs about '' @ show_g needed @ '' GiB of GPU memory, but SLAS_GPU_IDS names no GPU; ''
            @ ca_instance c @ '' was not started. Set SLAS_GPU_IDS in .env.''
      | f # fs \<Rightarrow>
          if count = 1 then
            (let (gpu, left) = max_by (\<lambda>(g, l). (l, - g)) f fs
             in ca_label c @ '' needs about '' @ show_g needed @ '' GiB of GPU memory, but the most left on one GPU after the other models is ''
                @ show_g (max left 0) @ '' GiB (GPU '' @ show_int gpu @ ''); '' @ ca_instance c @ '' was not started. '' @ fix_it)
          else
            (let share = needed / of_nat count
             in ca_label c @ '' needs about '' @ show_g needed @ '' GiB of GPU memory, which is '' @ show_nat count @ '' GPUs of '' @ show_g capacity
                @ '' GiB in tensor parallel, but only '' @ show_nat (length (filter (\<lambda>(_, left). left \<ge> share) free)) @ '' of '' @ show_nat (length free)
                @ '' GPUs have '' @ show_g share @ '' GiB left; '' @ ca_instance c @ '' was not started. '' @ fix_it))"

record gpu_table =
  gt_free :: "(int, rat) dict"
  gt_occupants :: "(int, string list) dict"

definition dict_get :: "('k, 'v) dict \<Rightarrow> 'k \<Rightarrow> 'v \<Rightarrow> 'v" where
  "dict_get d k v = (case map_of d k of None \<Rightarrow> v | Some x \<Rightarrow> x)"

definition occupy :: "string \<Rightarrow> rat \<Rightarrow> int \<Rightarrow> gpu_table \<Rightarrow> gpu_table" where \<comment> \<open>one GPU takes one share; an unknown GPU has nothing left\<close>
  "occupy name share gpu t =
     \<lparr>gt_free = AList.update gpu (dict_get (gt_free t) gpu 0 - share) (gt_free t),
      gt_occupants = AList.update gpu (dict_get (gt_occupants t) gpu [] @ [name]) (gt_occupants t)\<rparr>"

definition occupy_all :: "string \<Rightarrow> rat \<Rightarrow> int list \<Rightarrow> gpu_table \<Rightarrow> gpu_table" where
  "occupy_all name share gpus t = fold (occupy name share) gpus t"

type_synonym pins = "(string, int list \<times> rat) dict"

definition pin :: "string \<times> int list \<times> rat \<Rightarrow> gpu_table \<Rightarrow> gpu_table" where
  "pin = (\<lambda>(name, gpus, needed). occupy_all name (needed / of_nat (max (length gpus) 1)) gpus)"

definition start_table :: "int list \<Rightarrow> rat \<Rightarrow> pins \<Rightarrow> gpu_table" where
  "start_table gpu_ids capacity pinned =
     fold pin (sort_key fst pinned)
       \<lparr>gt_free = map (\<lambda>g. (g, capacity)) (sorted_list_of_set (set gpu_ids)), gt_occupants = map (\<lambda>g. (g, [])) (sorted_list_of_set (set gpu_ids))\<rparr>"

fun place_each :: "rat \<Rightarrow> candidate list \<Rightarrow> gpu_table \<Rightarrow> placed list \<times> unplaced list \<times> gpu_table" where
  "place_each capacity [] t = ([], [], t)"
| "place_each capacity (c # cs) t =
     (case choose_gpus (ca_needed_gib c) (gt_free t) capacity of
        None \<Rightarrow>
          (let u = \<lparr>un_instance = ca_instance c, un_model_id = ca_model_id c, un_sentence = no_room_sentence c (gt_free t) capacity\<rparr>;
               (ps, us, t') = place_each capacity cs t
           in (ps, u # us, t'))
      | Some chosen \<Rightarrow>
          (let p = \<lparr>pd_instance = ca_instance c, pd_model_id = ca_model_id c, pd_gpu_ids = chosen\<rparr>;
               (ps, us, t') = place_each capacity cs (occupy_all (ca_instance c) (ca_needed_gib c / of_nat (length chosen)) chosen t)
           in (p # ps, us, t')))"

definition place :: "candidate list \<Rightarrow> int list \<Rightarrow> rat \<Rightarrow> pins \<Rightarrow> placement_result" where
  "place wanted gpu_ids capacity pinned =
     (let (ps, us, t) = place_each capacity wanted (start_table gpu_ids capacity pinned)
      in \<lparr>pr_placed = ps, pr_unplaced = us, pr_free_gib = map (\<lambda>(g, left). (g, round1 left)) (sort_key fst (gt_free t)),
          pr_occupants = sort_key fst (gt_occupants t)\<rparr>)"


section \<open>Reconciliation\<close>

datatype action_kind = Start | Stop | Keep

record model_action =
  ma_kind :: action_kind
  ma_name :: string
  ma_model_id :: "string option"
  ma_reason :: string

definition model_act :: "action_kind \<Rightarrow> string \<Rightarrow> string \<Rightarrow> string \<Rightarrow> model_action" where
  "model_act k name i reason = \<lparr>ma_kind = k, ma_name = name, ma_model_id = Some i, ma_reason = reason\<rparr>"

definition desired_instances :: "registry \<Rightarrow> (string, string) dict" where
  "desired_instances r = foldl (\<lambda>d i. AList.update (voter_instance_name i) i d)
     (foldl (\<lambda>d (role, i). AList.update (instance_name role) i d) [] (rg_roles r)) (rg_voters r)"

definition actual_instances :: "container_ref list \<Rightarrow> (string, container_ref) dict" where
  "actual_instances running = foldl (\<lambda>d ref. AList.update (cr_name ref) ref d) [] (filter (\<lambda>ref. prefix ''vllm-'' (cr_name ref)) running)"

definition is_swap_candidate :: "string \<Rightarrow> (string, string) dict \<Rightarrow> bool" where
  "is_swap_candidate name desired \<longleftrightarrow> list_ex (\<lambda>(base, _). prefix (base @ ''-'') name) desired"

definition plan_one :: "(string, container_ref) dict \<Rightarrow> (string, string) dict \<Rightarrow> string \<times> string \<Rightarrow> model_action list" where
  "plan_one actual stale = (\<lambda>(name, i).
     case map_of actual name of
       None \<Rightarrow> [model_act Start name i ''not running yet'']
     | Some ref \<Rightarrow>
         (let m = sp_model_id (cr_spec ref) in
          case (if m = i then map_of stale name else None) of
            Some reason \<Rightarrow> [model_act Stop name i reason, model_act Start name i ''started again as it should be'']
          | None \<Rightarrow>
              if m \<noteq> i then [model_act Stop name m (''serves '' @ m @ '' but the registry says '' @ i), model_act Start name i ''registry changed'']
              else [model_act Keep name i ''matches'']))"

definition plan_reconcile :: "registry \<Rightarrow> container_ref list \<Rightarrow> (string, string) dict \<Rightarrow> model_action list" where
  "plan_reconcile r running outdated =
     (let desired = desired_instances r; actual = actual_instances running
      in concat (map (plan_one actual outdated) desired)
         @ map (\<lambda>(name, ref). model_act Stop name (sp_model_id (cr_spec ref)) ''not in the registry'')
             (filter (\<lambda>(name, _). map_of desired name = None \<and> \<not> has_text ''-swap-'' name \<and> \<not> is_swap_candidate name desired)
               (sort_key fst actual)))"

definition actions_sentence :: "model_action list \<Rightarrow> string" where
  "actions_sentence actions =
     (let starts = map ma_name (filter (\<lambda>a. ma_kind a = Start) actions); stops = map ma_name (filter (\<lambda>a. ma_kind a = Stop) actions)
      in if starts = [] \<and> stops = [] then ''Every model instance matches the registry; nothing to do.''
         else ''To match the registry: ''
           @ py_join ''; '' ((if starts \<noteq> [] then [''start '' @ py_join '', '' starts] else []) @ (if stops \<noteq> [] then [''stop '' @ py_join '', '' stops] else [])) @ ''.'')"

end
