(* ===== verification/Placement_Theorems.thy ===== *)
theory Placement_Theorems
  imports Placement
begin

text \<open>What the placement and the reconciliation of the model manager bring about.\<close>

section \<open>The candidates of a registry\<close>

lemma those_map_total: "(\<And>x. x \<in> set xs \<Longrightarrow> f x = Some (g x)) \<Longrightarrow> those (map f xs) = Some (map g xs)"
  by (induction xs) auto

lemma those_append: "those xs = Some ys \<Longrightarrow> those zs = Some ws \<Longrightarrow> those (xs @ zs) = Some (ys @ ws)"
  by (induction xs arbitrary: ys) (auto split: option.splits)

lemma role_instance_no_voter: "role \<in> set ROLES \<Longrightarrow> instance_name role \<noteq> voter_instance_name i"
  by (auto simp: ROLES_def instance_name_def voter_instance_name_def)

lemma instance_name_inject [simp]: "instance_name a = instance_name b \<longleftrightarrow> a = b" "voter_instance_name c = voter_instance_name d \<longleftrightarrow> c = d"
  by (simp_all add: instance_name_def voter_instance_name_def)

lemma model_of_in: "model_of r i = Some e \<Longrightarrow> e \<in> set (rg_models r) \<and> me_id e = i"
  by (auto simp: model_of_def find_Some_iff)

lemma needed_gib_pos: "0 < me_vram_gib e \<Longrightarrow> 0 < needed_gib e"
proof -
  assume "0 < me_vram_gib e"
  then have "(20 :: int) \<le> \<lfloor>(me_vram_gib e + 2) * 10\<rfloor>" by (simp add: le_floor_iff)
  then have "20 \<le> round_half_even ((me_vram_gib e + 2) * 10)" by (simp add: round_half_even_def Let_def)
  then show ?thesis by (simp add: needed_gib_def round1_def RUNTIME_OVERHEAD_GIB_def)
qed

lemma candidates_of_registry:
  assumes ok: "registry_ok r"
  obtains wanted where "candidates r only = Some wanted" "distinct (map ca_instance wanted)" "\<forall>c \<in> set wanted. 0 < ca_needed_gib c"
proof -
  have m: "\<exists>e. model_of r i = Some e \<and> model_entry_ok e" if "(role, i) \<in> set (rg_roles r) \<or> i \<in> set (rg_voters r)" for role i
  proof -
    have "model_of r i \<noteq> None" using ok that by (auto simp: registry_ok_def list_all_iff split: option.splits)
    then obtain e where e: "model_of r i = Some e" by blast
    then show ?thesis using ok model_of_in [OF e] by (auto simp: registry_ok_def list_all_iff)
  qed
  define rc where "rc x = the (role_candidate r x)" for x
  define vc where "vc i = the (voter_candidate r i)" for i
  have rc: "role_candidate r x = Some (rc x) \<and> ca_instance (rc x) = instance_name (fst x) \<and> 0 < ca_needed_gib (rc x)" if x: "x \<in> set (rg_roles r)" for x
    using m [of "fst x" "snd x"] x by (auto simp: rc_def role_candidate_def model_entry_ok_def needed_gib_pos split_beta)
  have vc: "voter_candidate r i = Some (vc i) \<and> ca_instance (vc i) = voter_instance_name i \<and> 0 < ca_needed_gib (vc i)" if "i \<in> set (rg_voters r)" for i
    using m that by (force simp: vc_def voter_candidate_def model_entry_ok_def needed_gib_pos)
  let ?out = "map rc (rg_roles r) @ map vc (rg_voters r)"
  have t: "those (map (role_candidate r) (rg_roles r) @ map (voter_candidate r) (rg_voters r)) = Some ?out"
    using rc vc by (intro those_append those_map_total) auto
  have "map ca_instance ?out = map (instance_name \<circ> fst) (rg_roles r) @ map voter_instance_name (rg_voters r)" using rc vc by auto
  moreover have "distinct (map (instance_name \<circ> fst) (rg_roles r))" "distinct (map voter_instance_name (rg_voters r))"
    using ok by (auto simp: registry_ok_def dict_wf_def distinct_map inj_on_def)
  moreover have "instance_name (fst x) \<noteq> voter_instance_name i" if "x \<in> set (rg_roles r)" for x i
    using ok that by (intro role_instance_no_voter) (auto simp: registry_ok_def list_all_iff split_beta)
  ultimately have d: "distinct (map ca_instance ?out)" by (simp only: distinct_append set_map) auto
  define keep where "keep = (case only of None \<Rightarrow> ?out | Some w \<Rightarrow> filter (\<lambda>c. ca_instance c \<in> set w) ?out)"
  have k: "distinct (map ca_instance keep)" "set keep \<subseteq> set ?out"
    using d by (auto simp: keep_def distinct_map_filter split: option.splits)
  show ?thesis
  proof (rule that)
    show "candidates r only = Some (sort_key candidate_order keep)" by (simp add: candidates_def t keep_def)
    show "distinct (map ca_instance (sort_key candidate_order keep))" using k(1) by (auto simp: distinct_map)
    show "\<forall>c \<in> set (sort_key candidate_order keep). 0 < ca_needed_gib c" using k(2) rc vc by auto
  qed
qed


section \<open>Memory left\<close>

abbreviation left :: "gpu_table \<Rightarrow> int \<Rightarrow> rat" where
  "left t g \<equiv> dict_get (gt_free t) g 0"

abbreviation gpus_of :: "gpu_table \<Rightarrow> int set" where
  "gpus_of t \<equiv> fst ` set (gt_free t)"

lemma left_occupy: "left (occupy name share gpu t) g = left t g - (if g = gpu then share else 0)"
  by (simp add: occupy_def dict_get_def update_conv' fun_upd_def)

lemma occupy_all_table:
  "left (occupy_all name share gpus t) g = left t g - of_nat (count_list gpus g) * share"
  "gpus_of (occupy_all name share gpus t) = gpus_of t \<union> set gpus"
  "dict_wf (gt_free t) \<Longrightarrow> dict_wf (gt_free (occupy_all name share gpus t))"
proof -
  show "left (occupy_all name share gpus t) g = left t g - of_nat (count_list gpus g) * share"
    by (induction gpus arbitrary: t) (auto simp: occupy_all_def left_occupy algebra_simps)
  show "gpus_of (occupy_all name share gpus t) = gpus_of t \<union> set gpus"
    by (induction gpus arbitrary: t) (auto simp: occupy_all_def occupy_def dom_update)
  show "dict_wf (gt_free t) \<Longrightarrow> dict_wf (gt_free (occupy_all name share gpus t))"
    by (induction gpus arbitrary: t) (auto simp: occupy_all_def occupy_def)
qed

text \<open>The share of an instance on each of its GPUs, and what the running instances hold of one.\<close>

definition pinned_load :: "pins \<Rightarrow> int \<Rightarrow> rat" where
  "pinned_load pinned g = (\<Sum>(_, gpus, needed) \<leftarrow> pinned. of_nat (count_list gpus g) * (needed / of_nat (max (length gpus) 1)))"

definition need_of :: "candidate list \<Rightarrow> string \<Rightarrow> rat" where
  "need_of cs name = (case find (\<lambda>c. ca_instance c = name) cs of None \<Rightarrow> 0 | Some c \<Rightarrow> ca_needed_gib c)"

definition placed_load :: "candidate list \<Rightarrow> placed list \<Rightarrow> int \<Rightarrow> rat" where
  "placed_load cs ps g = (\<Sum>p \<leftarrow> ps. if g \<in> set (pd_gpu_ids p) then need_of cs (pd_instance p) / of_nat (length (pd_gpu_ids p)) else 0)"

lemma pins_table:
  "left (fold pin ps t) g = left t g - pinned_load ps g"
  "gpus_of t \<subseteq> gpus_of (fold pin ps t)"
  "dict_wf (gt_free t) \<Longrightarrow> dict_wf (gt_free (fold pin ps t))"
proof -
  show "left (fold pin ps t) g = left t g - pinned_load ps g"
    by (induction ps arbitrary: t) (auto simp: pinned_load_def pin_def occupy_all_table)
  show "gpus_of t \<subseteq> gpus_of (fold pin ps t)"
  proof (induction ps arbitrary: t)
    case (Cons p ps)
    have "gpus_of t \<subseteq> gpus_of (pin p t)" by (cases p) (auto simp: pin_def occupy_all_table)
    then show ?case using Cons [of "pin p t"] by auto
  qed simp
  show "dict_wf (gt_free t) \<Longrightarrow> dict_wf (gt_free (fold pin ps t))"
    by (induction ps arbitrary: t) (auto simp: pin_def occupy_all_table)
qed

lemma sum_list_insort: "sum_list (map h (insort_key f x xs)) = h x + sum_list (map h xs :: rat list)"
  by (induction xs) auto

lemma pinned_load_sort: "pinned_load (sort_key f ps) g = pinned_load ps g"
  unfolding pinned_load_def by (induction ps) (auto simp: sum_list_insort)

lemma start_table_left: "left (start_table gpu_ids capacity pinned) g = (if g \<in> set gpu_ids then capacity else 0) - pinned_load pinned g"
proof -
  have "dict_get (map (\<lambda>g. (g, capacity)) xs) g 0 = (if g \<in> set xs then capacity else 0)" for xs
    by (induction xs) (auto simp: dict_get_def)
  then show ?thesis by (simp add: start_table_def pins_table pinned_load_sort)
qed

lemma start_table_gpus: "set gpu_ids \<subseteq> gpus_of (start_table gpu_ids capacity pinned)" "dict_wf (gt_free (start_table gpu_ids capacity pinned))"
proof -
  show "set gpu_ids \<subseteq> gpus_of (start_table gpu_ids capacity pinned)"
    unfolding start_table_def by (rule order_trans [OF _ pins_table(2)]) (auto simp: image_image)
  show "dict_wf (gt_free (start_table gpu_ids capacity pinned))"
    unfolding start_table_def by (rule pins_table(3)) (simp add: dict_wf_def comp_def)
qed


section \<open>One choice\<close>

lemma gpu_count_pos [simp]: "0 < gpu_count_for needed capacity"
  by (auto simp: gpu_count_for_def)

lemma dict_get_in: "dict_wf d \<Longrightarrow> (k, v) \<in> set d \<Longrightarrow> dict_get d k x = v"
  by (simp add: dict_get_def dict_wf_def)

lemma roomy_gpus_set:
  assumes "dict_wf free"
  shows "set (roomy_gpus share free) = {g \<in> fst ` set free. dict_get free g 0 \<ge> share}" "distinct (roomy_gpus share free)"
proof -
  show "set (roomy_gpus share free) = {g \<in> fst ` set free. dict_get free g 0 \<ge> share}"
    using assms by (auto simp: roomy_gpus_def dict_get_in image_iff)
  have "distinct (map fst (sort_key (\<lambda>(gpu, left). (- left, gpu)) free))"
    using assms by (auto simp: dict_wf_def distinct_map)
  then show "distinct (roomy_gpus share free)" by (simp add: roomy_gpus_def distinct_map_filter)
qed

lemma choose_gpus_Some:
  assumes "choose_gpus needed free capacity = Some ch" "dict_wf free"
  shows "distinct ch" "length ch = gpu_count_for needed capacity" "set ch \<subseteq> {g \<in> fst ` set free. dict_get free g 0 \<ge> needed / of_nat (length ch)}"
proof -
  let ?n = "gpu_count_for needed capacity" let ?r = "roomy_gpus (needed / of_nat ?n) free"
  have c: "ch = sort (take ?n ?r)" "?n \<le> length ?r" using assms(1) by (auto simp: choose_gpus_def Let_def split: if_splits)
  show "distinct ch" using c(1) roomy_gpus_set(2) [OF assms(2)] by simp
  show l: "length ch = ?n" using c by simp
  have "set ch \<subseteq> set ?r" using c(1) by (auto dest: in_set_takeD)
  then show "set ch \<subseteq> {g \<in> fst ` set free. dict_get free g 0 \<ge> needed / of_nat (length ch)}"
    unfolding l roomy_gpus_set(1) [OF assms(2)] .
qed

lemma choose_gpus_None:
  assumes "choose_gpus needed free capacity = None" "dict_wf free"
  shows "card {g \<in> fst ` set free. dict_get free g 0 \<ge> needed / of_nat (gpu_count_for needed capacity)} < gpu_count_for needed capacity"
proof (cases "free = []")
  case False
  then show ?thesis
    using assms(1) distinct_card [OF roomy_gpus_set(2) [OF assms(2)]] roomy_gpus_set(1) [OF assms(2)]
    by (simp add: choose_gpus_def Let_def split: if_splits)
qed simp


section \<open>The whole placement\<close>

lemma need_of_head [simp]: "need_of (c # cs) (ca_instance c) = ca_needed_gib c"
  by (simp add: need_of_def)

lemma placed_load_tail:
  assumes "ca_instance c \<notin> pd_instance ` set ps"
  shows "placed_load (c # cs) ps g = placed_load cs ps g"
  unfolding placed_load_def by (rule arg_cong [where f = sum_list], rule map_cong) (use assms in \<open>auto simp: need_of_def\<close>)

lemma placed_load_head: "placed_load cs (p # ps) g =
  (if g \<in> set (pd_gpu_ids p) then need_of cs (pd_instance p) / of_nat (length (pd_gpu_ids p)) else 0) + placed_load cs ps g"
  by (simp add: placed_load_def)

lemma placed_load_nonneg: "\<forall>c \<in> set cs. 0 < ca_needed_gib c \<Longrightarrow> 0 \<le> placed_load cs ps g"
proof -
  assume "\<forall>c \<in> set cs. 0 < ca_needed_gib c"
  then have "0 \<le> need_of cs name" for name
    by (auto simp: need_of_def find_Some_iff less_imp_le split: option.splits)
  then show ?thesis unfolding placed_load_def by (intro sum_list_nonneg) auto
qed

lemma count_list_distinct: "distinct xs \<Longrightarrow> count_list xs x = (if x \<in> set xs then 1 else 0)"
  by (induction xs) auto

text \<open>One round of the loop.\<close>

lemma place_each_Cons:
  assumes "place_each capacity (c # cs) t = (ps, us, t')"
  obtains (no_room) u us' where "choose_gpus (ca_needed_gib c) (gt_free t) capacity = None" "place_each capacity cs t = (ps, us', t')"
      "us = u # us'" "un_instance u = ca_instance c"
  | (room) ch p ps' where "choose_gpus (ca_needed_gib c) (gt_free t) capacity = Some ch"
      "place_each capacity cs (occupy_all (ca_instance c) (ca_needed_gib c / of_nat (length ch)) ch t) = (ps', us, t')"
      "ps = p # ps'" "pd_instance p = ca_instance c" "pd_gpu_ids p = ch"
  using assms by (auto simp: split: option.splits prod.splits)

lemma place_each_names:
  assumes "place_each capacity cs t = (ps, us, t')" "distinct (map ca_instance cs)"
  shows "pd_instance ` set ps \<union> un_instance ` set us = ca_instance ` set cs \<and> distinct (map pd_instance ps @ map un_instance us)"
  using assms
proof (induction cs arbitrary: t ps us)
  case (Cons c cs)
  from Cons.prems(1) show ?case
  proof (cases rule: place_each_Cons)
    case (no_room u us')
    have "pd_instance ` set ps \<union> un_instance ` set us' = ca_instance ` set cs" "distinct (map pd_instance ps @ map un_instance us')"
      using Cons.IH [OF no_room(2)] Cons.prems(2) by simp_all
    moreover have "ca_instance c \<notin> ca_instance ` set cs" using Cons.prems(2) by simp
    ultimately have "ca_instance c \<notin> pd_instance ` set ps" "ca_instance c \<notin> un_instance ` set us'"
      "pd_instance ` set ps \<union> insert (ca_instance c) (un_instance ` set us') = insert (ca_instance c) (ca_instance ` set cs)"
      "distinct (map pd_instance ps @ map un_instance us')" by auto
    then show ?thesis using no_room(3,4) by simp
  next
    case (room ch p ps')
    have "pd_instance ` set ps' \<union> un_instance ` set us = ca_instance ` set cs" "distinct (map pd_instance ps' @ map un_instance us)"
      using Cons.IH [OF room(2)] Cons.prems(2) by simp_all
    moreover have "ca_instance c \<notin> ca_instance ` set cs" using Cons.prems(2) by simp
    ultimately show ?thesis using room(3,4) by auto
  qed
qed simp

text \<open>What is left afterwards is what was left before less the shares, and no share is taken where it is not left.\<close>

lemma place_each_table:
  assumes "place_each capacity cs t = (ps, us, t')" "distinct (map ca_instance cs)" "dict_wf (gt_free t)" "\<forall>c \<in> set cs. 0 < ca_needed_gib c"
  shows "(\<forall>g. left t' g = left t g - placed_load cs ps g) \<and> gpus_of t' = gpus_of t \<and> dict_wf (gt_free t') \<and>
    (\<forall>g. 0 \<le> left t g \<longrightarrow> 0 \<le> left t' g) \<and>
    (\<forall>p \<in> set ps. distinct (pd_gpu_ids p) \<and> length (pd_gpu_ids p) = gpu_count_for (need_of cs (pd_instance p)) capacity \<and>
       set (pd_gpu_ids p) \<subseteq> {g \<in> gpus_of t. 0 < left t g}) \<and>
    (\<forall>u \<in> set us. card {g \<in> gpus_of t. left t' g \<ge> need_of cs (un_instance u) / of_nat (gpu_count_for (need_of cs (un_instance u)) capacity)}
       < gpu_count_for (need_of cs (un_instance u)) capacity)"
  using assms
proof (induction cs arbitrary: t ps us)
  case Nil
  then show ?case by (simp add: placed_load_def)
next
  case (Cons c cs)
  note names = place_each_names
  have pos: "0 < ca_needed_gib c" using Cons.prems(4) by simp
  have other: "need_of (c # cs) n = need_of cs n" if "n \<in> ca_instance ` set cs" for n
    using that Cons.prems(2) by (auto simp: need_of_def)
  from Cons.prems(1) show ?case
  proof (cases rule: place_each_Cons)
    case (no_room u us')
    let ?n = "gpu_count_for (ca_needed_gib c) capacity"
    have n: "pd_instance ` set ps \<union> un_instance ` set us' = ca_instance ` set cs" using names [OF no_room(2)] Cons.prems(2) by simp
    have ds: "distinct (map ca_instance cs)" "\<forall>c \<in> set cs. 0 < ca_needed_gib c" using Cons.prems by simp_all
    note IHs = Cons.IH [OF no_room(2) ds(1) Cons.prems(3) ds(2)]
    have IH: "(\<forall>g. left t' g = left t g - placed_load cs ps g)" using IHs by (elim conjE)
    have IH': "gpus_of t' = gpus_of t" "dict_wf (gt_free t')" "\<forall>g. 0 \<le> left t g \<longrightarrow> 0 \<le> left t' g"
      "\<forall>p \<in> set ps. distinct (pd_gpu_ids p) \<and> length (pd_gpu_ids p) = gpu_count_for (need_of cs (pd_instance p)) capacity \<and>
         set (pd_gpu_ids p) \<subseteq> {g \<in> gpus_of t. 0 < left t g}"
      "\<forall>u \<in> set us'. card {g \<in> gpus_of t. left t' g \<ge> need_of cs (un_instance u) / of_nat (gpu_count_for (need_of cs (un_instance u)) capacity)}
         < gpu_count_for (need_of cs (un_instance u)) capacity" using IHs by - (elim conjE, assumption)+
    have tail: "placed_load (c # cs) ps g = placed_load cs ps g" for g using n Cons.prems(2) by (intro placed_load_tail) auto
    have "{g \<in> gpus_of t. left t' g \<ge> ca_needed_gib c / of_nat ?n} \<subseteq> {g \<in> gpus_of t. left t g \<ge> ca_needed_gib c / of_nat ?n}"
      using IH placed_load_nonneg [of cs ps] Cons.prems(4) by (auto intro: order_trans [of _ "left t' _"])
    then have "card {g \<in> gpus_of t. left t' g \<ge> ca_needed_gib c / of_nat ?n} < ?n"
      using choose_gpus_None [OF no_room(1) Cons.prems(3)] by (rule le_less_trans [OF card_mono, rotated]) simp_all
    moreover have "\<forall>p \<in> set ps. need_of (c # cs) (pd_instance p) = need_of cs (pd_instance p)"
      "\<forall>u \<in> set us'. need_of (c # cs) (un_instance u) = need_of cs (un_instance u)" using n other by blast+
    ultimately show ?thesis using IH IH' no_room(3,4) tail by simp
  next
    case (room ch p ps')
    let ?sh = "ca_needed_gib c / of_nat (length ch)" let ?t = "occupy_all (ca_instance c) ?sh ch t"
    note ch = choose_gpus_Some [OF room(1) Cons.prems(3)]
    have ne: "0 < length ch" using ch(2) by simp
    have lt: "left ?t g = left t g - (if g \<in> set ch then ?sh else 0)" for g using ch(1) by (simp add: occupy_all_table count_list_distinct)
    have g1: "gpus_of ?t = gpus_of t" "dict_wf (gt_free ?t)" using ch(3) Cons.prems(3) by (auto simp: occupy_all_table)
    have sh: "0 < ?sh" using pos ne by simp
    have n: "pd_instance ` set ps' \<union> un_instance ` set us = ca_instance ` set cs" using names [OF room(2)] Cons.prems(2) by simp
    have tail: "placed_load (c # cs) ps' g = placed_load cs ps' g" for g using n Cons.prems(2) by (intro placed_load_tail) auto
    have load: "placed_load (c # cs) ps g = (if g \<in> set ch then ?sh else 0) + placed_load cs ps' g" for g
      using room by (simp add: placed_load_head tail)
    have ds: "distinct (map ca_instance cs)" "\<forall>c \<in> set cs. 0 < ca_needed_gib c" using Cons.prems by simp_all
    note IHs = Cons.IH [OF room(2) ds(1) g1(2) ds(2), unfolded g1(1)]
    have IH: "(\<forall>g. left t' g = left ?t g - placed_load cs ps' g)" "gpus_of t' = gpus_of t" "dict_wf (gt_free t')" "\<forall>g. 0 \<le> left ?t g \<longrightarrow> 0 \<le> left t' g"
      "\<forall>p \<in> set ps'. distinct (pd_gpu_ids p) \<and> length (pd_gpu_ids p) = gpu_count_for (need_of cs (pd_instance p)) capacity \<and>
         set (pd_gpu_ids p) \<subseteq> {g \<in> gpus_of t. 0 < left ?t g}"
      "\<forall>u \<in> set us. card {g \<in> gpus_of t. left t' g \<ge> need_of cs (un_instance u) / of_nat (gpu_count_for (need_of cs (un_instance u)) capacity)}
         < gpu_count_for (need_of cs (un_instance u)) capacity"
      using IHs by - (elim conjE, assumption)+
    have nonneg: "0 \<le> left t g \<Longrightarrow> 0 \<le> left ?t g" for g using ch(3) by (auto simp: lt)
    have more: "0 < left ?t g \<Longrightarrow> 0 < left t g" for g using sh by (auto simp: lt split: if_splits)
    have "set ch \<subseteq> {g \<in> gpus_of t. 0 < left t g}" using ch(3) sh by (auto intro: less_le_trans)
    moreover have same: "\<forall>q \<in> set ps'. need_of (c # cs) (pd_instance q) = need_of cs (pd_instance q)" using n other by blast
    ultimately have "\<forall>q \<in> set ps. distinct (pd_gpu_ids q) \<and> length (pd_gpu_ids q) = gpu_count_for (need_of (c # cs) (pd_instance q)) capacity \<and>
        set (pd_gpu_ids q) \<subseteq> {g \<in> gpus_of t. 0 < left t g}"
      using IH(5) room(3,4,5) ch(1,2) more by (auto 0 4)
    moreover have "\<forall>u \<in> set us. need_of (c # cs) (un_instance u) = need_of cs (un_instance u)" using n other by blast
    ultimately show ?thesis using IH load lt nonneg by simp
  qed
qed

text \<open>
  C38. No GPU is overbooked: the instances of a valid registry that are placed take, together with what the running instances already hold,
  at most the capacity of each GPU, provided the running ones alone do; each placed instance gets as many different GPUs
  of the list as its size needs.
\<close>
theorem no_gpu_overbooked:
  assumes "registry_ok r" and pins: "\<forall>(_, _, needed) \<in> set pinned. 0 \<le> needed"
    and room: "\<forall>g \<in> set gpu_ids. pinned_load pinned g \<le> capacity"
  shows "\<exists>wanted. candidates r only = Some wanted \<and> (let ps = pr_placed (place wanted gpu_ids capacity pinned) in
    (\<forall>g \<in> set gpu_ids. pinned_load pinned g + placed_load wanted ps g \<le> capacity) \<and>
    (\<forall>p \<in> set ps. distinct (pd_gpu_ids p) \<and> set (pd_gpu_ids p) \<subseteq> set gpu_ids \<and>
       length (pd_gpu_ids p) = gpu_count_for (need_of wanted (pd_instance p)) capacity))"
proof -
  obtain wanted where w: "candidates r only = Some wanted" "distinct (map ca_instance wanted)" "\<forall>c \<in> set wanted. 0 < ca_needed_gib c"
    by (rule candidates_of_registry [OF assms(1)])
  let ?t = "start_table gpu_ids capacity pinned"
  obtain ps us t' where pe: "place_each capacity wanted ?t = (ps, us, t')" using prod_cases3 by blast
  note T = place_each_table [OF pe w(2) start_table_gpus(2) w(3)]
  have "0 \<le> pinned_load pinned g" for g
    unfolding pinned_load_def using pins by (intro sum_list_nonneg) auto
  then have only_listed: "0 < left ?t g \<Longrightarrow> g \<in> set gpu_ids" for g
    by (metis start_table_left diff_0 neg_0_less_iff_less not_less)
  have "pinned_load pinned g + placed_load wanted ps g \<le> capacity" if "g \<in> set gpu_ids" for g
  proof -
    have "0 \<le> left ?t g" using room that by (simp add: start_table_left)
    then have "0 \<le> left ?t g - placed_load wanted ps g" using T by metis
    then show ?thesis using that by (simp add: start_table_left)
  qed
  moreover have "distinct (pd_gpu_ids p) \<and> set (pd_gpu_ids p) \<subseteq> set gpu_ids \<and>
      length (pd_gpu_ids p) = gpu_count_for (need_of wanted (pd_instance p)) capacity" if "p \<in> set ps" for p
    using T that only_listed by fast
  moreover have "pr_placed (place wanted gpu_ids capacity pinned) = ps" by (simp add: place_def pe)
  ultimately show ?thesis using w(1) by (simp add: Let_def)
qed

text \<open>A small registry: a coder that fills two GPUs, a triage model, and both as voters.\<close>

definition big_model :: model_entry where
  "big_model = \<lparr>me_id = ''big'', me_display_name = ''Big'', me_family = ''A'', me_path = ''big'', me_quant = Fp8, me_vram_gib = 98, me_context = 8192, me_roles = [''coder'']\<rparr>"

definition small_model :: model_entry where
  "small_model = \<lparr>me_id = ''small'', me_display_name = ''Small'', me_family = ''B'', me_path = ''small'', me_quant = Awq4, me_vram_gib = 28, me_context = 8192, me_roles = [''triage'']\<rparr>"

definition lab_registry :: registry where
  "lab_registry = \<lparr>rg_version = 1, rg_models = [big_model, small_model], rg_roles = [(''coder'', ''big''), (''triage'', ''small'')], rg_voters = [''big'', ''small'']\<rparr>"

lemma lab_registry_ok: "registry_ok lab_registry"
  by code_simp

theorem no_gpu_overbooked_witness:
  "registry_ok lab_registry \<and> (\<exists>wanted. candidates lab_registry None = Some wanted \<and>
     (\<forall>g \<in> {0, 1, 2}. pinned_load [(''vllm-triage'', [2], 30)] g
        + placed_load wanted (pr_placed (place wanted [0, 1, 2] 80 [(''vllm-triage'', [2], 30)])) g \<le> 80))"
  using no_gpu_overbooked [of lab_registry "[(''vllm-triage'', [2], 30)]" "[0, 1, 2]" 80 None] lab_registry_ok
  by (auto simp: pinned_load_def Let_def)




section \<open>Reconciliation\<close>

text \<open>What carrying out a plan does to the instances, as a map from names to the model each serves.\<close>

fun carry_out :: "model_action list \<Rightarrow> (string \<rightharpoonup> string) \<Rightarrow> (string \<rightharpoonup> string)" where
  "carry_out [] m = m"
| "carry_out (a # as) m = carry_out as (case ma_kind a of Start \<Rightarrow> m(ma_name a := ma_model_id a) | Stop \<Rightarrow> m(ma_name a := None) | Keep \<Rightarrow> m)"

definition served :: "container_ref list \<Rightarrow> (string \<rightharpoonup> string)" where
  "served running = map_option (\<lambda>ref. sp_model_id (cr_spec ref)) \<circ> map_of (actual_instances running)"

lemma carry_out_append [simp]: "carry_out (as @ bs) m = carry_out bs (carry_out as m)"
  by (induction as arbitrary: m) auto

lemma carry_out_other: "name \<notin> ma_name ` set as \<Longrightarrow> carry_out as m name = m name"
  by (induction as arbitrary: m) (auto split: action_kind.splits)

lemma plan_one_names: "a \<in> set (plan_one actual stale x) \<Longrightarrow> ma_name a = fst x"
proof -
  assume a: "a \<in> set (plan_one actual stale x)"
  obtain name i where x: "x = (name, i)" by force
  show ?thesis
  proof (cases "map_of actual name")
    case None
    then show ?thesis using a by (simp add: x plan_one_def model_act_def)
  next
    case (Some ref)
    then show ?thesis
      using a by (cases "sp_model_id (cr_spec ref) = i"; cases "map_of stale name") (auto simp: x plan_one_def model_act_def Let_def)
  qed
qed

lemma plan_one_served:
  assumes "m (fst x) = map_option (\<lambda>ref. sp_model_id (cr_spec ref)) (map_of actual (fst x))"
  shows "carry_out (plan_one actual stale x) m (fst x) = Some (snd x)"
proof -
  obtain name i where x: "x = (name, i)" by force
  show ?thesis
  proof (cases "map_of actual name")
    case None
    then show ?thesis by (simp add: x plan_one_def model_act_def)
  next
    case (Some ref)
    then show ?thesis
      using assms by (cases "sp_model_id (cr_spec ref) = i"; cases "map_of stale name") (auto simp: x plan_one_def model_act_def Let_def)
  qed
qed

lemma carry_out_desired:
  assumes "distinct (map fst desired)" "\<And>n. m n = map_option (\<lambda>ref. sp_model_id (cr_spec ref)) (map_of actual n) \<or> n \<notin> fst ` set desired"
  shows "carry_out (concat (map (plan_one actual stale) desired)) m n = (case map_of desired n of None \<Rightarrow> m n | Some i \<Rightarrow> Some i)"
  using assms
proof (induction desired arbitrary: m)
  case (Cons x ds)
  let ?m = "carry_out (plan_one actual stale x) m"
  have other: "?m k = m k" if "k \<noteq> fst x" for k using that plan_one_names by (intro carry_out_other) blast
  have "m (fst x) = map_option (\<lambda>ref. sp_model_id (cr_spec ref)) (map_of actual (fst x))" using Cons.prems(2) [of "fst x"] by simp
  then have at: "?m (fst x) = Some (snd x)" by (rule plan_one_served)
  have "carry_out (concat (map (plan_one actual stale) ds)) ?m n = (case map_of ds n of None \<Rightarrow> ?m n | Some i \<Rightarrow> Some i)"
  proof (rule Cons.IH)
    show "distinct (map fst ds)" using Cons.prems(1) by simp
    show "?m k = map_option (\<lambda>ref. sp_model_id (cr_spec ref)) (map_of actual k) \<or> k \<notin> fst ` set ds" for k
      using Cons.prems(1) Cons.prems(2) [of k] other [of k] by (cases "k = fst x") auto
  qed
  moreover have "map_of ds (fst x) = None" using Cons.prems(1) by (simp add: map_of_eq_None_iff)
  ultimately show ?case using other at by (cases x) (auto split: option.splits)
qed simp

lemma dict_wf_desired: "dict_wf (desired_instances r)"
proof -
  have "dict_wf (foldl (\<lambda>d (x, y). AList.update (f x) y d) d xs)" if "dict_wf d" for f :: "string \<Rightarrow> string" and d xs
    using that by (induction xs arbitrary: d) auto
  moreover have "dict_wf (foldl (\<lambda>d x. AList.update (f x) x d) d xs)" if "dict_wf d" for f :: "string \<Rightarrow> string" and d xs
    using that by (induction xs arbitrary: d) auto
  ultimately show ?thesis unfolding desired_instances_def using dict_wf_Nil by blast
qed

lemma dict_wf_actual: "dict_wf (actual_instances running)"
proof -
  have "dict_wf (foldl (\<lambda>d ref. AList.update (cr_name ref) ref d) d xs)" if "dict_wf d" for d and xs :: "container_ref list"
    using that by (induction xs arbitrary: d) auto
  then show ?thesis by (simp add: actual_instances_def)
qed

text \<open>A container that reconciliation does not touch although the registry does not list it: part of a swap, by its name.\<close>

definition spared :: "(string, string) dict \<Rightarrow> string \<Rightarrow> bool" where
  "spared desired name \<longleftrightarrow> has_text ''-swap-'' name \<or> is_swap_candidate name desired"

lemma carry_out_stops:
  "carry_out (map (\<lambda>(name, ref). model_act Stop name (h ref) why) xs) m n = (if n \<in> fst ` set xs then None else m n)"
  by (induction xs arbitrary: m) (auto simp: model_act_def)

lemma plan_reconcile_outcome:
  "carry_out (plan_reconcile r running outdated) (served running) n =
    (case map_of (desired_instances r) n of Some i \<Rightarrow> Some i | None \<Rightarrow> if spared (desired_instances r) n then served running n else None)"
proof -
  let ?d = "desired_instances r" let ?a = "actual_instances running"
  let ?left = "filter (\<lambda>(name, _). map_of ?d name = None \<and> \<not> has_text ''-swap-'' name \<and> \<not> is_swap_candidate name ?d) (sort_key fst ?a)"
  have first: "carry_out (concat (map (plan_one ?a outdated) ?d)) (served running) n
      = (case map_of ?d n of None \<Rightarrow> served running n | Some i \<Rightarrow> Some i)"
    using dict_wf_desired [of r] by (intro carry_out_desired) (auto simp: served_def dict_wf_def)
  have "n \<in> fst ` set ?left \<longleftrightarrow> map_of ?d n = None \<and> \<not> spared ?d n \<and> n \<in> fst ` set ?a" by (auto simp: spared_def)
  moreover have "n \<in> fst ` set ?a \<longleftrightarrow> served running n \<noteq> None"
    by (simp add: served_def) (metis map_of_eq_None_iff not_Some_eq)
  ultimately show ?thesis
    unfolding plan_reconcile_def Let_def carry_out_append carry_out_stops first by (auto split: option.splits)
qed

text \<open>An instance that serves the right model and is not outdated is left alone.\<close>

lemma plan_reconcile_touches:
  assumes "a \<in> set (plan_reconcile r running outdated)" "ma_kind a \<noteq> Keep" "map_of (desired_instances r) (ma_name a) = Some i"
  shows "served running (ma_name a) \<noteq> Some i \<or> map_of outdated (ma_name a) \<noteq> None"
proof -
  let ?d = "desired_instances r" let ?a = "actual_instances running"
  have "a \<in> set (concat (map (plan_one ?a outdated) ?d))"
    using assms(1,3) by (auto simp: plan_reconcile_def Let_def model_act_def)
  then obtain x where x: "x \<in> set ?d" "a \<in> set (plan_one ?a outdated x)" by auto
  have n: "ma_name a = fst x" by (rule plan_one_names [OF x(2)])
  have "map_of ?d (fst x) = Some (snd x)" using x(1) dict_wf_desired [of r] by (simp add: dict_wf_def)
  then have i: "x = (ma_name a, i)" using assms(3) n by (cases x) simp
  show ?thesis
  proof (cases "map_of ?a (ma_name a)")
    case (Some ref)
    then show ?thesis
      using x(2) assms(2) unfolding i plan_one_def
      by (cases "sp_model_id (cr_spec ref) = i"; cases "map_of outdated (ma_name a)") (auto simp: served_def model_act_def Let_def, metis model_action.select_convs(1))
  qed (simp add: served_def)
qed

lemma plan_reconcile_leftover:
  assumes "a \<in> set (plan_reconcile r running outdated)" "map_of (desired_instances r) (ma_name a) = None"
  shows "\<not> spared (desired_instances r) (ma_name a) \<and> served running (ma_name a) \<noteq> None"
proof -
  have "a \<notin> set (concat (map (plan_one (actual_instances running) outdated) (desired_instances r)))"
    using assms(2) plan_one_names by (force simp: map_of_eq_None_iff)
  then obtain ref where "(ma_name a, ref) \<in> set (actual_instances running)" "\<not> spared (desired_instances r) (ma_name a)"
    using assms(1) by (auto simp: plan_reconcile_def Let_def model_act_def spared_def)
  then show ?thesis using dict_wf_actual [of running] by (simp add: served_def dict_wf_def)
qed


definition running_ref :: "string \<Rightarrow> string \<Rightarrow> container_ref" where
  "running_ref name i = \<lparr>cr_id = ''c1'', cr_spec = \<lparr>sp_name = name, sp_image = ''vllm:1'', sp_argv = [''serve''], sp_env = [], sp_network = INFERENCE_NETWORK,
     sp_gpu_ids = [0], sp_shm_size = ''16g'', sp_model_id = i\<rparr>\<rparr>"


end
