(* ===== verification/Swap_Theorems.thy ===== *)
theory Swap_Theorems
  imports Swap Placement_Theorems
begin

text \<open>
  What swaps and rollbacks keep: the container a role is routed to has been started and not been removed. The locale
  \<open>container_runtime\<close> says what the manager relies on of the runtime, the smoke tester and the clock; \<open>up\<close> is the set of names of
  the containers that exist. The fakes of the sources are an instance.
\<close>

section \<open>Routes and names\<close>

definition route :: "string \<Rightarrow> 'w swap_state \<Rightarrow> string option" where
  "route role s = map_of (ro_roles (rt_routes (sw_router s))) role"

definition owned :: "string \<Rightarrow> string \<Rightarrow> bool" where \<comment> \<open>a container name of a role\<close>
  "owned role name \<longleftrightarrow> name = instance_name role \<or> prefix (instance_name role @ ''-'') name"

lemma owned_candidate [simp]: "owned role (candidate_name role candidate)"
  by (simp add: owned_def candidate_name_def)

lemma owned_one_role: "owned a n \<Longrightarrow> owned b n \<Longrightarrow> a \<in> set ROLES \<Longrightarrow> b \<in> set ROLES \<Longrightarrow> a = b"
  by (auto simp: owned_def ROLES_def instance_name_def prefix_def)

lemma route_switch:
  "switch router role name = Inr (prev, router') \<Longrightarrow> map_of (ro_roles (rt_routes router')) k = (if k = role then Some name else map_of (ro_roles (rt_routes router)) k)"
  by (auto simp: switch_def Let_def update_conv' split: if_splits)

lemma switch_ok: "role \<in> set ROLES \<Longrightarrow> \<exists>prev router'. switch router role name = Inr (prev, router')"
  by (simp add: switch_def Let_def)

lemmas swap_simps = bind_def outside_def call_runtime_def lift_def put_record_def modify_def gets_def raise_def ret_def

lemma opening_record_sel [simp]:
  "sr_role (opening_record role candidate current now) = role" "sr_phase (opening_record role candidate current now) = PStarting"
  "sr_incumbent_ref (opening_record role candidate current now) = map_option snd current"
  "sr_incumbent (opening_record role candidate current now) = map_option fst current"
  by (simp_all add: opening_record_def)

lemma say_progress_sel [simp]:
  "sr_role (say_progress x r) = sr_role r" "sr_phase (say_progress x r) = sr_phase r" "sr_candidate_ref (say_progress x r) = sr_candidate_ref r"
  "sr_incumbent_ref (say_progress x r) = sr_incumbent_ref r" "sr_incumbent (say_progress x r) = sr_incumbent r" "sr_rollback_until (say_progress x r) = sr_rollback_until r"
  by (simp_all add: say_progress_def)

lemma vllm_spec_name: "vllm_spec entry name gpu_ids img opts = Inr spec \<Longrightarrow> sp_name spec = name"
  by (auto simp: vllm_spec_def make_spec_def split: if_splits)


section \<open>Calls that do not switch\<close>

text \<open>A call that does not switch: routes and serving entries stay, the record of the role is not a completed swap, only one name may go.\<close>

definition unswitched :: "('w \<Rightarrow> string set) \<Rightarrow> string \<Rightarrow> string \<Rightarrow> 'w swap_state \<Rightarrow> 'w swap_state \<Rightarrow> bool" where
  "unswitched up role name s s' \<longleftrightarrow> sw_serving s' = sw_serving s \<and> sw_router s' = sw_router s \<and>
     (\<forall>k. k \<noteq> role \<longrightarrow> map_of (sw_records s') k = map_of (sw_records s) k) \<and>
     (map_of (sw_records s') role = map_of (sw_records s) role \<or> (\<exists>r. map_of (sw_records s') role = Some r \<and> sr_role r = role \<and> sr_phase r \<noteq> PDone)) \<and>
     up (sw_world s) - {name} \<subseteq> up (sw_world s')"

lemma unswitched_refl [simp]: "unswitched up role name s s"
  by (simp add: unswitched_def)

lemma unswitched_trans: "unswitched up role name s t \<Longrightarrow> unswitched up role name t u \<Longrightarrow> unswitched up role name s u"
  unfolding unswitched_def by (intro conjI) (simp, simp, simp, metis, blast)

lemma unswitched_record:
  "sr_role r = role \<Longrightarrow> sr_phase r \<noteq> PDone \<Longrightarrow> unswitched up role name s (s\<lparr>sw_records := AList.update role r (sw_records s)\<rparr>)"
  by (auto simp: unswitched_def update_conv')

lemma unswitched_world: "up (sw_world s) - {name} \<subseteq> up w \<Longrightarrow> unswitched up role name s (s\<lparr>sw_world := w\<rparr>)"
  by (simp add: unswitched_def)


text \<open>A call that switches: the route, the serving entry and the record of the role are those of the new container.\<close>

definition switched_to :: "string \<Rightarrow> string \<Rightarrow> container_ref option \<Rightarrow> 'w swap_state \<Rightarrow> 'w swap_state \<Rightarrow> bool" where
  "switched_to role name incumbent s s' \<longleftrightarrow> (\<forall>k. route k s' = (if k = role then Some name else route k s)) \<and>
     (\<forall>k. k \<noteq> role \<longrightarrow> serving k s' = serving k s \<and> map_of (sw_records s') k = map_of (sw_records s) k) \<and>
     (\<exists>e ref. serving role s' = Some (e, ref) \<and> cr_name ref = name) \<and>
     (\<exists>r. map_of (sw_records s') role = Some r \<and> sr_role r = role \<and>
        (sr_phase r = PDone \<longrightarrow> sr_incumbent_ref r = incumbent \<and> (\<exists>c. sr_candidate_ref r = Some c \<and> cr_name c = name)))"


section \<open>What the manager relies on\<close>

locale container_runtime =
  fixes E :: "'w swap_env" and up :: "'w \<Rightarrow> string set"
  assumes start_up: "se_start E spec w = (r, w') \<Longrightarrow> up w - {sp_name spec} \<subseteq> up w' \<and> (\<forall>ref. r = Inr ref \<longrightarrow> cr_spec ref = spec \<and> sp_name spec \<in> up w')"
    and stop_up: "se_stop E ref w = (res, w') \<Longrightarrow> res = Inr () \<and> up w - {cr_name ref} \<subseteq> up w'"
    and healthy_up: "se_healthy E ref w = (h, w') \<Longrightarrow> up w \<subseteq> up w'"
    and smoke_up: "se_smoke E name w = (sm, w') \<Longrightarrow> up w \<subseteq> up w'"
    and now_up: "se_now E w = (t, w') \<Longrightarrow> up w \<subseteq> up w'"
begin

text \<open>
  The call ended without a switch, or it came, the candidate running, to the switch: \<open>t\<close> is the state the call was in
  then, and \<open>switch_over\<close> gives the rest.
\<close>

definition came_to_switch :: "string \<Rightarrow> model_entry \<Rightarrow> (model_entry \<times> container_ref) option \<Rightarrow> 'w swap_state \<Rightarrow> (swap_record, swap_error) outcome \<times> 'w swap_state \<Rightarrow> bool" where
  "came_to_switch role candidate current s fin \<longleftrightarrow> (let name = candidate_name role candidate in
     unswitched up role name s (snd fin) \<and> (\<forall>r. fst fin = Ret r \<longrightarrow> sr_phase r = PFailed) \<or>
     (\<exists>t ref r. unswitched up role name s t \<and> name \<in> up (sw_world t) \<and> cr_name ref = name \<and> sr_role r = role \<and> sr_candidate_ref r = Some ref \<and>
        sr_incumbent_ref r = map_option snd current \<and> sr_incumbent r = map_option fst current \<and> switch_over E role candidate ref current name r t = fin))"

lemma came_to_switch_later:
  "unswitched up role (candidate_name role candidate) s t \<Longrightarrow> came_to_switch role candidate current t z \<Longrightarrow> came_to_switch role candidate current s z"
  unfolding came_to_switch_def Let_def by (blast intro: unswitched_trans)

lemma give_up_unswitched:
  assumes "cr_name ref = name" "sr_role r = role"
  shows "unswitched up role name s (snd (give_up E ref why r s)) \<and> (\<forall>r'. fst (give_up E ref why r s) = Ret r' \<longrightarrow> sr_phase r' = PFailed)"
proof -
  obtain x w where st: "se_stop E ref (sw_world s) = (x, w)" by force
  then show ?thesis using stop_up [OF st] assms by (auto simp: give_up_def swap_simps unswitched_def update_conv')
qed

lemma smoke_candidate_outcome:
  assumes "cr_name ref = candidate_name role candidate" "candidate_name role candidate \<in> up (sw_world s)"
    and r: "sr_role r = role" "sr_candidate_ref r = Some ref" "sr_incumbent_ref r = map_option snd current" "sr_incumbent r = map_option fst current"
  shows "came_to_switch role candidate current s (smoke_candidate E role candidate ref current r s)"
proof -
  let ?name = "candidate_name role candidate"
  obtain sm w where sm: "se_smoke E ?name (sw_world s) = (sm, w)" by force
  note up = smoke_up [OF sm]
  let ?r2 = "say_progress (''Smoke-testing '' @ me_display_name candidate @ ellipsis) (r\<lparr>sr_phase := PSmokeTesting\<rparr>)"
  let ?t = "s\<lparr>sw_records := AList.update role ?r2 (sw_records s), sw_world := w\<rparr>"
  let ?r3 = "say_progress (sm_sentence sm) ?r2" let ?u = "?t\<lparr>sw_records := AList.update role ?r3 (sw_records ?t)\<rparr>"
  have t: "unswitched up role ?name s ?t" using up r(1) by (auto simp: unswitched_def update_conv')
  have u: "unswitched up role ?name s ?u" using up r(1) by (auto simp: unswitched_def update_conv')
  show ?thesis
  proof (cases "sm_ok sm")
    case False
    then obtain why where "smoke_candidate E role candidate ref current r s = give_up E ref why ?r2 ?t"
      using sm r(1) by (simp add: smoke_candidate_def swap_simps)
    then show ?thesis
      using unswitched_trans [OF t] give_up_unswitched [OF assms(1), of ?r2 role ?t why] r(1) by (simp add: came_to_switch_def Let_def)
  next
    case True
    then have "smoke_candidate E role candidate ref current r s = switch_over E role candidate ref current ?name ?r3 ?u"
      using sm r(1) by (simp add: smoke_candidate_def swap_simps)
    moreover have "?name \<in> up (sw_world ?u)" using up assms(2) by auto
    ultimately show ?thesis
      unfolding came_to_switch_def Let_def using u assms(1) r by (intro disjI2 exI [of _ ?u] exI [of _ ref] exI [of _ ?r3]) (simp add:)
  qed
qed

lemma start_candidate_outcome:
  assumes r: "sr_role r = role" "sr_incumbent_ref r = map_option snd current" "sr_phase r \<noteq> PDone" "sr_incumbent r = map_option fst current"
  shows "came_to_switch role candidate current s (start_candidate E role candidate gpu_ids current r s)"
proof (cases "vllm_spec candidate (candidate_name role candidate) gpu_ids (se_image E) spec_defaults")
  case (Inl e)
  then show ?thesis by (simp add: start_candidate_def swap_simps came_to_switch_def Let_def)
next
  case spec: (Inr spec)
  let ?name = "candidate_name role candidate"
  have sn: "sp_name spec = ?name" by (rule vllm_spec_name [OF spec])
  obtain st w2 where st: "se_start E spec (sw_world s) = (st, w2)" by force
  note up2 = start_up [OF st, unfolded sn]
  show ?thesis
  proof (cases st)
    case (Inl e)
    then show ?thesis using up2 spec st by (simp add: start_candidate_def swap_simps came_to_switch_def Let_def unswitched_world)
  next
    case ref: (Inr ref)
    have rn: "cr_name ref = ?name" "?name \<in> up w2" using up2 ref sn by (auto simp: cr_name_def)
    let ?r1 = "r\<lparr>sr_candidate_ref := Some ref\<rparr>"
    obtain h w3 where h: "se_healthy E ref w2 = (h, w3)" by force
    note up3 = healthy_up [OF h]
    let ?t = "s\<lparr>sw_records := AList.update role ?r1 (sw_records s), sw_world := w3\<rparr>"
    have t: "unswitched up role ?name s ?t" using up2 up3 r(1,3) by (auto simp: unswitched_def update_conv')
    show ?thesis
    proof (rule came_to_switch_later [OF t])
      consider e where "h = Inl e" | "h = Inr False" | "h = Inr True" by (cases h) auto
      then show "came_to_switch role candidate current ?t (start_candidate E role candidate gpu_ids current r s)"
      proof cases
        case 1
        then have "start_candidate E role candidate gpu_ids current r s = (Raise (RuntimeFailed e), ?t)" using spec st ref h r(1) by (simp add: start_candidate_def swap_simps)
        then show ?thesis by (simp add: came_to_switch_def Let_def)
      next
        case 2
        then obtain why where "start_candidate E role candidate gpu_ids current r s = give_up E ref why ?r1 ?t"
          using spec st ref h r(1) by (simp add: start_candidate_def swap_simps)
        then show ?thesis using give_up_unswitched [OF rn(1), of ?r1 role ?t why] r(1) by (simp add: came_to_switch_def Let_def)
      next
        case 3
        then have "start_candidate E role candidate gpu_ids current r s = smoke_candidate E role candidate ref current ?r1 ?t"
          using spec st ref h r(1) by (simp add: start_candidate_def swap_simps)
        moreover have "?name \<in> up (sw_world ?t)" using rn(2) up3 by auto
        ultimately show ?thesis using smoke_candidate_outcome [of ref role candidate ?t ?r1 current] rn(1) r by simp
      qed
    qed
  qed
qed

lemma swap_outcome: "came_to_switch role candidate (serving role s) s (swap E role candidate gpu_ids s)"
proof (cases "role \<in> set (me_roles candidate)")
  case False
  then show ?thesis by (simp add: swap_def raise_def came_to_switch_def Let_def)
next
  case True
  obtain now w1 where n: "se_now E (sw_world s) = (now, w1)" by force
  let ?r = "opening_record role candidate (serving role s) now"
  let ?t = "s\<lparr>sw_world := w1, sw_records := AList.update role ?r (sw_records s)\<rparr>"
  have "unswitched up role (candidate_name role candidate) s ?t"
    using now_up [OF n] by (auto simp: unswitched_def update_conv')
  moreover have "swap E role candidate gpu_ids s = start_candidate E role candidate gpu_ids (serving role s) ?r ?t"
    using True n by (simp add: swap_def swap_simps)
  ultimately show ?thesis
    using came_to_switch_later start_candidate_outcome [of ?r role "serving role s" candidate ?t gpu_ids] by (simp add:)
qed

text \<open>The switch itself: it raises for a name that is no role.\<close>

lemma switch_over_outcome:
  assumes r: "sr_role r = role" "sr_candidate_ref r = Some ref" "sr_incumbent_ref r = map_option snd current" "cr_name ref = name"
    and run: "switch_over E role candidate ref current name r s = (res, s')"
  shows "if role \<in> set ROLES then (\<exists>r'. res = Ret r') \<and> switched_to role name (map_option snd current) s s' \<and>
       up (sw_world s) - (case current of None \<Rightarrow> {} | Some (_, c) \<Rightarrow> {cr_name c}) \<subseteq> up (sw_world s')
     else unswitched up role name s s'"
proof (cases "role \<in> set ROLES")
  case False
  then show ?thesis using run r(1) by (auto simp: switch_over_def swap_simps switch_route_def switch_def unswitched_def update_conv')
next
  case True
  then obtain prev router' where sw: "switch (sw_router s) role name = Inr (prev, router')" using switch_ok by blast
  obtain now w1 where n: "se_now E (sw_world s) = (now, w1)" by force
  note up1 = now_up [OF n]
  show ?thesis
  proof (cases current)
    case None
    then show ?thesis
      using run r up1 True by (auto simp: switch_over_def swap_simps switch_route_def sw n Let_def switched_to_def update_conv' route_def serving_def route_switch [OF sw])
  next
    case (Some c)
    obtain x w2 where st: "se_stop E (snd c) w1 = (x, w2)" by force
    note up2 = stop_up [OF st]
    show ?thesis
      using run r up1 up2 True Some st
      by (auto simp: switch_over_def swap_simps switch_route_def sw n Let_def switched_to_def update_conv' route_def serving_def route_switch [OF sw] split_beta)
  qed
qed

lemma restore_outcome:
  assumes r: "sr_role r = role" "sr_candidate_ref r = Some c" "role \<in> set ROLES" "cr_name iref \<noteq> cr_name c"
    and run: "restore E role r incumbent iref s = (res, s')"
  shows "unswitched up role (cr_name iref) s s' \<or>
    switched_to role (cr_name iref) i s s' \<and> cr_name iref \<in> up (sw_world s') \<and> up (sw_world s) - {cr_name iref, cr_name c} \<subseteq> up (sw_world s')"
proof -
  obtain st w1 where st: "se_start E (cr_spec iref) (sw_world s) = (st, w1)" by force
  note up1 = start_up [OF st, folded cr_name_def]
  show ?thesis
  proof (cases st)
    case (Inl e)
    then show ?thesis using run st up1 by (auto simp: restore_def swap_simps unswitched_def)
  next
    case ref: (Inr ref)
    have rn: "cr_name ref = cr_name iref" "cr_name iref \<in> up w1" using up1 ref by (auto simp: cr_name_def)
    obtain h w2 where h: "se_healthy E ref w1 = (h, w2)" by force
    note up2 = healthy_up [OF h]
    obtain x w3 where x: "se_stop E ref w2 = (x, w3)" by force
    note up3 = stop_up [OF x, unfolded rn(1)]
    obtain y w4 where y: "se_stop E c w2 = (y, w4)" by force
    note up4 = stop_up [OF y]
    obtain prev router' where sw: "switch (sw_router s) role (cr_name iref) = Inr (prev, router')" using switch_ok [OF r(3)] by blast
    consider e where "h = Inl e" | "h = Inr False" | "h = Inr True" by (cases h) auto
    then show ?thesis
    proof cases
      case 1
      then show ?thesis using run st up1 up2 ref h by (auto simp: restore_def swap_simps unswitched_def)
    next
      case 2
      have "up (sw_world s) - {cr_name iref} \<subseteq> up w3" using up1 up2 up3 by auto
      moreover have "s' = s\<lparr>sw_world := w3\<rparr>" using run st up3 ref h x 2 by (simp add: restore_def swap_simps)
      ultimately show ?thesis by (simp add: unswitched_world)
    next
      case 3
      have "cr_name iref \<in> up w4" using up2 up4 rn(2) r(4) by auto
      then have "switched_to role (cr_name iref) i s s' \<and> sw_world s' = w4"
        using run st ref h 3 y up4 r rn
        by (auto simp: restore_def swap_simps switch_route_def sw switched_to_def update_conv' route_def serving_def route_switch [OF sw])
      then show ?thesis using up1 up2 up4 \<open>cr_name iref \<in> up w4\<close> by auto
    qed
  qed
qed

end


section \<open>The invariant\<close>

definition role_ok :: "('w \<Rightarrow> string set) \<Rightarrow> string \<Rightarrow> 'w swap_state \<Rightarrow> bool" where
  "role_ok up role s \<longleftrightarrow>
     (\<forall>n. route role s = Some n \<longrightarrow> n \<in> up (sw_world s) \<and> owned role n) \<and>
     (\<forall>e ref. serving role s = Some (e, ref) \<longrightarrow> route role s = Some (cr_name ref)) \<and>
     (\<forall>r. map_of (sw_records s) role = Some r \<longrightarrow> sr_role r = role \<and>
        (sr_phase r = PDone \<longrightarrow> (\<forall>i. sr_incumbent_ref r = Some i \<longrightarrow> owned role (cr_name i) \<and>
           (\<exists>c. sr_candidate_ref r = Some c \<and> route role s = Some (cr_name c) \<and> cr_name i \<noteq> cr_name c))))"

definition manager_ok :: "('w \<Rightarrow> string set) \<Rightarrow> string set \<Rightarrow> 'w swap_state \<Rightarrow> bool" where
  "manager_ok up rs s \<longleftrightarrow> (\<forall>role \<in> set ROLES. role_ok up role s) \<and> (\<forall>role. role \<notin> set ROLES \<longrightarrow> map_of (sw_records s) role = None) \<and> (\<forall>role \<in> rs. route role s \<noteq> None)"

lemma unswitched_ok:
  assumes "unswitched up role name s s'" "manager_ok up rs s" "role \<in> set ROLES" "owned role name" "route role s \<noteq> Some name"
  shows "manager_ok up rs s'"
proof -
  have "role_ok up k s'" if k: "k \<in> set ROLES" for k
  proof -
    have ok: "role_ok up k s" using assms(2) k by (simp add: manager_ok_def)
    have same: "route k s' = route k s" "serving k s' = serving k s" using assms(1) by (simp_all add: unswitched_def route_def serving_def)
    have "n \<noteq> name" if "route k s = Some n" for n
      using ok that assms(3-5) owned_one_role [of k n role] k by (cases "k = role") (auto simp: role_ok_def)
    then have up': "n \<in> up (sw_world s')" if "route k s = Some n" for n
      using ok that assms(1) by (auto simp: role_ok_def unswitched_def)
    have "map_of (sw_records s') k = map_of (sw_records s) k \<or> (\<exists>r. map_of (sw_records s') k = Some r \<and> sr_role r = k \<and> sr_phase r \<noteq> PDone)"
      using assms(1) by (cases "k = role") (simp_all add: unswitched_def)
    then show ?thesis
    proof (elim disjE exE conjE)
      assume "map_of (sw_records s') k = map_of (sw_records s) k"
      then show ?thesis using ok up' by (simp add: role_ok_def same)
    next
      fix r assume "map_of (sw_records s') k = Some r" "sr_role r = k" "sr_phase r \<noteq> PDone"
      then show ?thesis using ok up' by (simp add: role_ok_def same)
    qed
  qed
  moreover have "map_of (sw_records s') k = None" if "k \<notin> set ROLES" for k
  proof -
    have "k \<noteq> role" using that assms(3) by blast
    then show ?thesis using assms(1,2) that by (simp add: manager_ok_def unswitched_def)
  qed
  moreover have "\<forall>k \<in> rs. route k s' \<noteq> None" using assms(1,2) by (simp add: manager_ok_def unswitched_def route_def)
  ultimately show ?thesis by (simp add: manager_ok_def)
qed

lemma switched_ok:
  assumes "switched_to role name incumbent s s'" "manager_ok up rs s" "role \<in> set ROLES" "owned role name" "name \<in> up (sw_world s')"
    and gone: "up (sw_world s) - gone \<subseteq> up (sw_world s')" "\<forall>n \<in> gone. owned role n"
    and old: "\<forall>i. incumbent = Some i \<longrightarrow> owned role (cr_name i) \<and> cr_name i \<noteq> name"
  shows "manager_ok up rs s'"
proof -
  have "role_ok up k s'" if k: "k \<in> set ROLES" for k
  proof (cases "k = role")
    case True
    then show ?thesis using assms(1,4,5) old by (auto simp: role_ok_def switched_to_def)
  next
    case False
    have ok: "role_ok up k s" using assms(2) k by (simp add: manager_ok_def)
    have "n \<in> up (sw_world s')" if "route k s = Some n" for n
      using ok that gone owned_one_role [of k n role] k assms(3) False by (auto simp: role_ok_def)
    then show ?thesis using ok assms(1) False by (auto simp: role_ok_def switched_to_def)
  qed
  moreover have "map_of (sw_records s') k = None" if "k \<notin> set ROLES" for k
  proof -
    have "k \<noteq> role" using that assms(3) by blast
    then show ?thesis using assms(1,2) that by (simp add: manager_ok_def switched_to_def)
  qed
  moreover have "\<forall>k \<in> rs. route k s' \<noteq> None" using assms(1,2) by (simp add: manager_ok_def switched_to_def)
  ultimately show ?thesis by (simp add: manager_ok_def)
qed

context container_runtime
begin

lemma swap_keeps_ok:
  assumes "manager_ok up rs s" "model_entry_ok candidate" "route role s \<noteq> Some (candidate_name role candidate)"
  shows "manager_ok up rs (snd (swap E role candidate gpu_ids s))"
proof (cases "role \<in> set (me_roles candidate)")
  case False
  then show ?thesis using assms(1) by (simp add: swap_def raise_def)
next
  case True
  then have role: "role \<in> set ROLES" using assms(2) by (auto simp: model_entry_ok_def)
  let ?name = "candidate_name role candidate"
  obtain res s' where run: "swap E role candidate gpu_ids s = (res, s')" by force
  consider "unswitched up role ?name s s'"
    | t ref r where "unswitched up role ?name s t" "?name \<in> up (sw_world t)" "cr_name ref = ?name" "sr_role r = role" "sr_candidate_ref r = Some ref"
      "sr_incumbent_ref r = map_option snd (serving role s)" "sr_incumbent r = map_option fst (serving role s)" "switch_over E role candidate ref (serving role s) ?name r t = (res, s')"
    using swap_outcome [of role candidate s gpu_ids] unfolding run came_to_switch_def Let_def by auto
  then show ?thesis
  proof cases
    case 1
    then show ?thesis using unswitched_ok assms(1,3) role run by (metis owned_candidate snd_conv)
  next
    case 2
    have t: "manager_ok up rs t" using unswitched_ok [OF 2(1) assms(1) role _ assms(3)] by simp
    note o = switch_over_outcome [OF 2(4,5,6,3,8)]
    have served: "owned role (cr_name c) \<and> cr_name c \<noteq> ?name" if "serving role s = Some (e, c)" for e c
      using assms(1,3) role that by (auto simp: manager_ok_def role_ok_def)
    have "manager_ok up rs s'"
    proof (rule switched_ok [OF _ t role])
      show "switched_to role ?name (map_option snd (serving role s)) t s'" using o role by simp
      show "up (sw_world t) - (case serving role s of None \<Rightarrow> {} | Some (_, c) \<Rightarrow> {cr_name c}) \<subseteq> up (sw_world s')" using o role by simp
      then show "?name \<in> up (sw_world s')" using 2(2) served by (auto split: option.splits)
      show "\<forall>n \<in> (case serving role s of None \<Rightarrow> {} | Some (_, c) \<Rightarrow> {cr_name c}). owned role n" using served by (auto split: option.splits)
      show "\<forall>i. map_option snd (serving role s) = Some i \<longrightarrow> owned role (cr_name i) \<and> cr_name i \<noteq> ?name" using served by auto
    qed simp
    then show ?thesis by (simp add: run)
  qed
qed

lemma rollback_keeps_ok:
  assumes "manager_ok up rs s"
  shows "manager_ok up rs (snd (rollback E role s))"
proof -
  obtain now w1 where n: "se_now E (sw_world s) = (now, w1)" by force
  let ?t = "s\<lparr>sw_world := w1\<rparr>"
  have sub: "up (sw_world s) \<subseteq> up w1" by (rule now_up [OF n])
  have t: "manager_ok up rs ?t"
    using assms sub by (fastforce simp: manager_ok_def role_ok_def route_def serving_def)
  show ?thesis
  proof (cases "map_of (sw_records s) role")
    case None
    then show ?thesis using assms by (simp add: rollback_def swap_simps)
  next
    case (Some r)
    then have role: "role \<in> set ROLES" using assms by (auto simp: manager_ok_def)
    show ?thesis
    proof (cases "sr_phase r = PDone \<and> sr_incumbent r \<noteq> None \<and> sr_incumbent_ref r \<noteq> None")
      case False
      then have "snd (rollback E role s) = s"
        using Some by (cases "sr_incumbent r"; cases "sr_incumbent_ref r") (auto simp: rollback_def swap_simps)
      then show ?thesis using assms by simp
    next
      case True
      then obtain e i where ei: "sr_incumbent r = Some e" "sr_incumbent_ref r = Some i" by auto
      have ok: "role_ok up role s" using assms role by (simp add: manager_ok_def)
      then obtain c where c: "sr_role r = role" "sr_candidate_ref r = Some c" "route role s = Some (cr_name c)" "cr_name i \<noteq> cr_name c"
        "owned role (cr_name i)" "owned role (cr_name c)"
        using Some True ei(2) unfolding role_ok_def by blast
      have rt: "route role ?t = Some (cr_name c)" using c(3) by (simp add: route_def)
      have "manager_ok up rs (snd (restore E role r e i ?t))"
      proof -
        obtain res s' where run: "restore E role r e i ?t = (res, s')" by force
        from restore_outcome [OF c(1,2) role c(4) run, of None] show ?thesis
        proof (elim disjE conjE)
          assume "unswitched up role (cr_name i) ?t s'"
          then show ?thesis using unswitched_ok [OF _ t role c(5)] rt c(4) run by simp
        next
          assume "switched_to role (cr_name i) None ?t s'" "cr_name i \<in> up (sw_world s')" "up (sw_world ?t) - {cr_name i, cr_name c} \<subseteq> up (sw_world s')"
          then show ?thesis using switched_ok [OF _ t role c(5)] c(5,6) run by simp
        qed
      qed
      moreover have "manager_ok up rs (?t\<lparr>sw_records := AList.update role (r\<lparr>sr_phase := PExpired\<rparr>) (sw_records ?t)\<rparr>)"
        using unswitched_ok [OF unswitched_record t role c(5), of "r\<lparr>sr_phase := PExpired\<rparr>"] c(1,4) rt by simp
      ultimately show ?thesis
        using Some True ei n c(1) by (auto simp: rollback_def swap_simps split: option.splits)
    qed
  qed
qed

text \<open>A swap that returned a completed record: the record is the stored one and tells what was there before.\<close>

lemma switch_over_Done:
  assumes "switch_over E role candidate ref current name r s = (res, s')" "role \<in> set ROLES" "sr_role r = role"
  shows "\<exists>r'. res = Ret r' \<and> map_of (sw_records s') role = Some r' \<and> sr_role r' = role \<and> sr_candidate_ref r' = sr_candidate_ref r \<and>
    sr_incumbent r' = sr_incumbent r \<and> sr_incumbent_ref r' = sr_incumbent_ref r \<and> sr_rollback_until r' \<noteq> None"
proof -
  obtain prev router' where sw: "switch (sw_router s) role name = Inr (prev, router')" using switch_ok [OF assms(2)] by blast
  obtain now w1 where n: "se_now E (sw_world s) = (now, w1)" by force
  show ?thesis
  proof (cases current)
    case None
    then show ?thesis using assms by (auto simp: switch_over_def swap_simps switch_route_def sw n Let_def)
  next
    case (Some c)
    obtain x w2 where st: "se_stop E (snd c) w1 = (x, w2)" by force
    then show ?thesis
      using assms Some stop_up [OF st] by (auto simp: switch_over_def swap_simps switch_route_def sw n Let_def split_beta)
  qed
qed

lemma swap_Done:
  assumes run: "swap E role candidate gpu_ids s = (Ret r, t)" and d: "sr_phase r = PDone" and role: "role \<in> set ROLES"
  shows "map_of (sw_records t) role = Some r \<and> sr_role r = role \<and> sr_incumbent_ref r = map_option snd (serving role s) \<and> sr_incumbent r = map_option fst (serving role s) \<and>
    (\<exists>c until. sr_candidate_ref r = Some c \<and> sr_rollback_until r = Some until) \<and> (\<forall>k. k \<noteq> role \<longrightarrow> route k t = route k s)"
proof -
  let ?name = "candidate_name role candidate"
  obtain u ref r0 where u: "unswitched up role ?name s u" "cr_name ref = ?name" "sr_role r0 = role" "sr_candidate_ref r0 = Some ref"
      "sr_incumbent_ref r0 = map_option snd (serving role s)" "sr_incumbent r0 = map_option fst (serving role s)"
      "switch_over E role candidate ref (serving role s) ?name r0 u = (Ret r, t)"
    using swap_outcome [of role candidate s gpu_ids] d unfolding run came_to_switch_def Let_def by auto
  have "switched_to role ?name (map_option snd (serving role s)) u t" using switch_over_outcome [OF u(3,4,5,2,7)] role by simp
  then have "\<forall>k. k \<noteq> role \<longrightarrow> route k t = route k s" using u(1) by (simp add: switched_to_def unswitched_def route_def)
  moreover obtain r' where "Ret r = (Ret r' :: (swap_record, swap_error) outcome)" "map_of (sw_records t) role = Some r'" "sr_role r' = role"
      "sr_candidate_ref r' = Some ref" "sr_incumbent r' = sr_incumbent r0" "sr_incumbent_ref r' = sr_incumbent_ref r0" "sr_rollback_until r' \<noteq> None"
    using switch_over_Done [OF u(7) role u(3)] u(4) by auto
  ultimately show ?thesis using u(5,6) by auto
qed

end



section \<open>Sequences of calls\<close>

datatype swap_op = DoSwap string model_entry "int list" | DoRollback string | DoRegister string model_entry container_ref

fun run_op :: "'w swap_env \<Rightarrow> swap_op \<Rightarrow> 'w swap_state \<Rightarrow> 'w swap_state" where
  "run_op E (DoSwap role candidate gpu_ids) s = snd (swap E role candidate gpu_ids s)"
| "run_op E (DoRollback role) s = snd (rollback E role s)"
| "run_op E (DoRegister role entry ref) s = snd (register_serving role entry ref s :: (unit, swap_error) outcome \<times> 'w swap_state)"

text \<open>What the callers keep to: candidates are entries of a registry, no role is swapped to the container it is routed to, and what is registered as serving is what is routed.\<close>

fun op_allowed :: "swap_op \<Rightarrow> 'w swap_state \<Rightarrow> bool" where
  "op_allowed (DoSwap role candidate gpu_ids) s \<longleftrightarrow> model_entry_ok candidate \<and> route role s \<noteq> Some (candidate_name role candidate)"
| "op_allowed (DoRollback role) s \<longleftrightarrow> True"
| "op_allowed (DoRegister role entry ref) s \<longleftrightarrow> route role s = Some (cr_name ref)"

fun run_ops :: "'w swap_env \<Rightarrow> swap_op list \<Rightarrow> 'w swap_state \<Rightarrow> 'w swap_state" where
  "run_ops E [] s = s"
| "run_ops E (op # ops) s = run_ops E ops (run_op E op s)"

fun all_allowed :: "'w swap_env \<Rightarrow> swap_op list \<Rightarrow> 'w swap_state \<Rightarrow> bool" where
  "all_allowed E [] s \<longleftrightarrow> True"
| "all_allowed E (op # ops) s \<longleftrightarrow> op_allowed op s \<and> all_allowed E ops (run_op E op s)"

lemma register_keeps_ok:
  assumes "manager_ok up rs s" "route role s = Some (cr_name ref)"
  shows "manager_ok up rs (s\<lparr>sw_serving := AList.update role (entry, ref) (sw_serving s)\<rparr>)"
proof -
  let ?s = "s\<lparr>sw_serving := AList.update role (entry, ref) (sw_serving s)\<rparr>"
  have same: "route k ?s = route k s" "serving k ?s = (if k = role then Some (entry, ref) else serving k s)" for k
    by (simp_all add: route_def serving_def update_conv')
  have "role_ok up k ?s" if "k \<in> set ROLES" for k
    using assms that unfolding manager_ok_def role_ok_def same by auto
  then show ?thesis using assms(1) by (simp add: manager_ok_def same)
qed

context container_runtime
begin

lemma run_op_ok: "manager_ok up rs s \<Longrightarrow> op_allowed op s \<Longrightarrow> manager_ok up rs (run_op E op s)"
  by (cases op) (auto simp: swap_keeps_ok rollback_keeps_ok register_serving_def modify_def register_keeps_ok)

lemma run_ops_ok: "manager_ok up rs s \<Longrightarrow> all_allowed E ops s \<Longrightarrow> manager_ok up rs (run_ops E ops s)"
  by (induction ops arbitrary: s) (auto simp: run_op_ok)

end

lemma new_manager_ok:
  assumes "registry_ok r" "\<forall>role \<in> fst ` set (rg_roles r). instance_name role \<in> up w"
  shows "manager_ok up (fst ` set (rg_roles r)) (new_manager r w)"
proof -
  have rt: "route role (new_manager r w) = (if role \<in> fst ` set (rg_roles r) then Some (instance_name role) else None)" for role
  proof -
    have "map_of (map (\<lambda>(role, _). (role, instance_name role)) xs) role = (if role \<in> fst ` set xs then Some (instance_name role) else None)" for xs :: "(string \<times> string) list"
      by (induction xs) auto
    then show ?thesis by (simp add: route_def new_manager_def registry_routes_def)
  qed
  then show ?thesis
    using assms by (auto simp: manager_ok_def role_ok_def rt owned_def new_manager_def serving_def split: if_splits)
qed



section \<open>The fakes\<close>

definition fake_up :: "fake_world \<Rightarrow> string set" where
  "fake_up w = dom (map_of (fk_running w))"

interpretation fake: container_runtime "fake_env img window" fake_up for img window
  by unfold_locales (auto simp: fake_env_def fake_start_def fake_stop_def fake_healthy_def fake_smoke_def fake_up_def update_conv' delete_conv' cr_name_def Let_def split: if_splits)

definition other_coder :: model_entry where
  "other_coder = \<lparr>me_id = ''kimi'', me_display_name = ''Kimi'', me_family = ''C'', me_path = ''kimi'', me_quant = Awq4, me_vram_gib = 28, me_context = 8192, me_roles = [''coder'']\<rparr>"

definition lab_env :: "fake_world swap_env" where
  "lab_env = fake_env ''vllm:1'' 86400"

definition lab_world :: fake_world where
  "lab_world = \<lparr>fk_running = [(''vllm-coder'', running_ref ''vllm-coder'' ''big''), (''vllm-triage'', running_ref ''vllm-triage'' ''small'')],
     fk_health = [], fk_started = [], fk_stopped = [], fk_counter = 0, fk_results = [], fk_asked = [], fk_now = 0\<rparr>"

definition lab_manager :: "fake_world swap_state" where
  "lab_manager = new_manager lab_registry lab_world"

definition coder_registered :: "fake_world swap_state" where
  "coder_registered = run_op lab_env (DoRegister ''coder'' big_model (running_ref ''vllm-coder'' ''big'')) lab_manager"

lemma kimi_spec:
  "\<exists>spec. vllm_spec other_coder ''vllm-coder-kimi'' [1] ''vllm:1'' spec_defaults = Inr spec \<and> sp_name spec = ''vllm-coder-kimi''"
proof -
  have "spec_name_ok ''vllm-coder-kimi''" "image_pinned ''vllm:1''" by code_simp+
  moreover have "airgap_missing \<lparr>sp_name = n, sp_image = i, sp_argv = v, sp_env = update_all (AList.update ''CUDA_VISIBLE_DEVICES'' g AIRGAP_ENV) [],
      sp_network = net, sp_gpu_ids = gs, sp_shm_size = z, sp_model_id = m\<rparr> = []" for n i v g net gs z m
    by (simp add: airgap_missing_def AIRGAP_ENV_def update_all_def)
  ultimately show ?thesis
    by (simp add: vllm_spec_def make_spec_def spec_ok_def other_coder_def vllm_argv_def spec_defaults_def Let_def)
qed

lemma kimi_name: "candidate_name ''coder'' other_coder = ''vllm-coder-kimi''"
  by (simp add: candidate_name_def instance_name_def other_coder_def)

lemmas lab_simps = lab_env_def fake_env_def fake_start_def fake_stop_def fake_healthy_def fake_smoke_def lab_manager_def new_manager_def lab_world_def
  registry_routes_def lab_registry_def instance_name_def running_ref_def cr_name_def coder_registered_def register_serving_def

lemma lab_swap:
  "\<exists>r t. swap lab_env ''coder'' other_coder [1] coder_registered = (Ret r, t) \<and> sr_phase r = PDone \<and> sr_rollback_until r = Some 86400 \<and>
     map_of (fk_running (sw_world t)) ''vllm-coder'' = None \<and> fk_health (sw_world t) = [] \<and> fk_now (sw_world t) = 0 \<and> route ''coder'' t = Some ''vllm-coder-kimi''"
proof -
  obtain spec where "vllm_spec other_coder ''vllm-coder-kimi'' [1] ''vllm:1'' spec_defaults = Inr spec" "sp_name spec = ''vllm-coder-kimi''"
    using kimi_spec by blast
  moreover have "''coder'' \<in> set (me_roles other_coder)" by (simp add: other_coder_def)
  ultimately show ?thesis
    by (simp add: swap_def start_candidate_def smoke_candidate_def switch_over_def switch_route_def switch_def ROLES_def kimi_name swap_simps Let_def serving_def
      route_def lab_simps opening_record_def say_progress_def)
qed




section \<open>Where the promise is not kept\<close>

text \<open>
  The runtime of the product replaces a container of the same name when it starts one (\<open>driver.py\<close>), and removes by name. So a swap
  of a role to the model it is already routed to starts the container anew, routes to it, and then stops the incumbent, which has the same name.
\<close>

definition replacing_env :: "string list swap_env" where
  "replacing_env = \<lparr>se_start = (\<lambda>spec names. (Inr \<lparr>cr_id = ''id'', cr_spec = spec\<rparr>, sp_name spec # removeAll (sp_name spec) names)),
     se_stop = (\<lambda>ref names. (Inr (), removeAll (cr_name ref) names)), se_healthy = (\<lambda>ref names. (Inr (cr_name ref \<in> set names), names)),
     se_smoke = (\<lambda>name names. (\<lparr>sm_ok = name \<in> set names, sm_sentence = ''answered''\<rparr>, names)), se_now = (\<lambda>names. (0, names)),
     se_image = ''vllm:1'', se_rollback_window = 86400\<rparr>"

interpretation replacing: container_runtime replacing_env set
  by unfold_locales (auto simp: replacing_env_def)

definition kimi_serves :: "string list swap_state" where
  "kimi_serves = \<lparr>sw_records = [], sw_serving = [(''coder'', other_coder, running_ref ''vllm-coder-kimi'' ''kimi'')],
     sw_router = \<lparr>rt_routes = \<lparr>ro_roles = [(''coder'', ''vllm-coder-kimi'')], ro_voters = []\<rparr>, rt_history = []\<rparr>, sw_world = [''vllm-coder-kimi'']\<rparr>"

lemma swap_to_itself_removes_the_container:
  "\<exists>r t. swap replacing_env ''coder'' other_coder [1] kimi_serves = (Ret r, t) \<and> sr_phase r = PDone \<and> route ''coder'' t = Some ''vllm-coder-kimi'' \<and> sw_world t = []"
proof -
  obtain spec where "vllm_spec other_coder ''vllm-coder-kimi'' [1] ''vllm:1'' spec_defaults = Inr spec" "sp_name spec = ''vllm-coder-kimi''"
    using kimi_spec by blast
  moreover have "''coder'' \<in> set (me_roles other_coder)" by (simp add: other_coder_def)
  ultimately show ?thesis
    by (simp add: swap_def start_candidate_def smoke_candidate_def switch_over_def switch_route_def switch_def ROLES_def kimi_name swap_simps Let_def serving_def
      route_def replacing_env_def kimi_serves_def running_ref_def cr_name_def opening_record_def say_progress_def)
qed

text \<open>A swap whose candidate does not get healthy overwrites the record of a completed swap before it, whose rollback is refused from then on.\<close>

lemma failed_swap_loses_rollback:
  assumes "role \<in> set (me_roles candidate)" "vllm_spec candidate (candidate_name role candidate) gpu_ids (se_image E) spec_defaults = Inr spec"
    and "se_now E (sw_world s) = (now, w1)" "se_start E spec w1 = (Inr ref, w2)" "se_healthy E ref w2 = (Inr False, w3)"
  shows "fst (rollback E role (snd (swap E role candidate gpu_ids s))) = Raise (SwapError (no_swap_to_undo role))"
proof -
  obtain x w4 where "se_stop E ref w3 = (x, w4)" by force
  then show ?thesis
    using assms by (cases x) (simp_all add: swap_def start_candidate_def give_up_def swap_simps rollback_def opening_record_def say_progress_def)
qed

text \<open>The candidate of an embedding role is started with the flags of a chat model, where reconciliation gives it those of its task.\<close>

lemma swap_gives_generate_flags:
  "set [''--enable-prefix-caching'', ''--structured-outputs-config''] \<subseteq> set (vllm_argv entry gpu_ids spec_defaults)"
  "POOLING_FLAGS (task_for_role (Some ''embed'')) = [''--runner'', ''pooling'', ''--convert'', ''embed'']"
  by (simp_all add: vllm_argv_def spec_defaults_def Let_def task_for_role_def)

end
