(* ===== verification/Spec2Isabelle.thy ===== *)
theory Spec2Isabelle
  imports Kernel_Theorems Record_Theorems Gateway_Theorems Authz Diff Compiler_Theorems Validation_Theorems Skill_Theorems Screen_Theorems Git_Hosts Swap_Theorems
begin

text \<open>
  A verification library for the local agent service: a platform on which agents turn a
  request into a plan, a kernel carries the plan out step by step on real machines, and people
  approve what could destroy something.

  \<^bold>\<open>The program and its parts.\<close> An agent makes a job of a raw input and a plan of the job. The kernel
  (\<open>packages/slas-kernel\<close>) opens a ticket, has the plan cross-checked, waits for approvals,
  calls an executor for each step, journals every intent before and every observation
  after the call, attaches findings, has the root cause analysed, spawns bug tickets and closes the ticket.
  Everything it keeps is in the ticket store, one journal per ticket, and the bug index, so that \<open>resume\<close> can
  go on after a crash at any point. The kernel talks to the LLM gateway
  (\<open>services/llm-gateway\<close>) for drafts and cross-checks, to triage
  (\<open>packages/slas-triage\<close>) for fingerprints and owners, and to one executor. The executor
  modelled here is the validation executor (\<open>services/validation-executor\<close>): it leases
  a target, snapshots it, cycles its power and compares the reports of the hardware before and after (\<open>packages/slas-hal\<close>,
  \<open>packages/slas-diff\<close>). Its plans are compiled from a suite by
  \<open>services/agent-core-orchestrator/slas_orchestrator/validation\<close>. A step of a plan may be a skill, a
  short program that people import and turn on for an agent (\<open>packages/slas-skills\<close>); the kernel compiles it into steps
  before the run. Screen steps of a skill go through the screen driver (\<open>packages/slas-screen\<close>). Changes leave the house through
  the push gate and the list of allowed hosts (\<open>packages/slas-git\<close>). The models themselves run in
  containers that the model manager places on GPUs, reconciles with its registry and swaps (\<open>services/model-manager\<close>). Who may ask for what is decided by
  \<open>packages/slas-authz\<close>.

  \<^bold>\<open>Theories.\<close>
  \<^item> \<open>Prelude\<close>, \<open>Stdlib\<close>, \<open>Effects\<close>: Python strings, dictionaries, JSON values, regular expressions and SHA-256 as the
    sources use them; \<open>prog\<close>, the type of code with effects, which returns, raises, or is killed, and the
    locales its proofs run in.
  \<^item> \<open>Schemas\<close> (\<open>slas_schemas\<close>): jobs, plans, tickets, findings and votes as records, plan
    validation, the ticket state machine, ticket ids.
  \<^item> \<open>Triage\<close> (\<open>slas_triage\<close>): \<open>fingerprint\<close>, \<open>dedup_findings\<close>, \<open>route_owner\<close>.
  \<^item> \<open>Durable\<close> (\<open>journal.py\<close>, \<open>store.py\<close>, \<open>leases.py\<close>): the journal and its readers, the file store and
    the memory store, the lease table. The locale of a ticket store is interpreted on both stores.
  \<^item> \<open>Rca\<close> (\<open>rca.py\<close>): the root-cause pipeline.
  \<^item> \<open>Kernel\<close> (\<open>kernel.py\<close>, \<open>logs.py\<close>, \<open>sop.py\<close>, \<open>executor.py\<close>, \<open>agent.py\<close>): \<open>run\<close>, \<open>approve\<close>, \<open>resume\<close> and everything they call;
    \<open>Rehearsal\<close> adds the null agent and the fake executor.
  \<^item> \<open>Lifecycle\<close>, \<open>Safety\<close>, \<open>Progress\<close>: the locales \<open>kernel_writes\<close>, \<open>kernel_performs\<close> and
    \<open>kernel_invariant\<close> carry a relation between states through every method of the kernel once;
    each safety property is an interpretation. \<open>Progress\<close> shows what a kernel that is not killed brings about.
    \<open>Kernel_Theorems\<close> states the kernel's properties, \<open>Record_Theorems\<close> those of the records.
  \<^item> \<open>Breaker\<close>, \<open>Gateway\<close>, \<open>Gateway_Theorems\<close>: circuit breaker and token budget; the rules, the tally, the
    validated generation and the cross-check of the Consensus Router.
  \<^item> \<open>Authz\<close>: capabilities, the roles file, \<open>require\<close> and \<open>decide\<close>.
  \<^item> \<open>Diff\<close>, \<open>Guardrails\<close>, \<open>Compiler\<close>, \<open>Compiler_Theorems\<close>: hardware reports and their comparison, the table of
    primitives and the limits, the compilation of a suite. The locale \<open>step_law\<close> is what the
    compiler's loops promise for any property of a step.
  \<^item> \<open>Validation\<close>, \<open>Validation_Theorems\<close>: the power cycle as a journalled state machine and every
    handler of the executor.
  \<^item> \<open>Templates\<close>, \<open>Skills\<close>, \<open>Skill_State\<close>, \<open>Skill_Compiler\<close>, \<open>Skill_Runner\<close>, \<open>Skill_Theorems\<close> (\<open>slas_skills\<close>, and
    \<open>skills.py\<close> of the kernel): the template and condition language, the primitives of a skill and the import, the switches per agent, the
    expansion into a plan and the gate of the kernel, the runner. The locale \<open>expander_law\<close> carries a property of emitted
    steps through the loops and branches of the expander, and is interpreted for ids, marks and powers.
  \<^item> \<open>Screen\<close>, \<open>Screen_Theorems\<close> (\<open>driver.py\<close>, \<open>policy.py\<close>, \<open>model.py\<close>): the screen driver with its focus guard,
    deny-list, rate limiter and screenshots. The locales \<open>desktop_law\<close> and \<open>screen_law\<close> carry a relation of states through every primitive.
  \<^item> \<open>Git_Gate\<close> (\<open>gate.py\<close>, \<open>redact.py\<close>), \<open>Git_Hosts\<close> (\<open>hosts.py\<close>): the validation gate of a push and its secret scanner; addresses
    of remotes and the allowlist of hosts.
  \<^item> \<open>Models\<close>, \<open>Placement\<close>, \<open>Placement_Theorems\<close> (\<open>registry.py\<close>, \<open>runtime.py\<close>, \<open>fit.py\<close>, \<open>placement.py\<close>, \<open>reconcile.py\<close>): the registry of
    models, the container of an instance, the placement on GPUs and the plan of a reconciliation. \<open>Swap\<close>, \<open>Swap_Theorems\<close> (\<open>swap.py\<close>): swap
    and rollback of the model of a role; the locale \<open>container_runtime\<close> is what they rely on of the runtime, and is interpreted on the fakes of the sources.
  \<^item> This theory: properties that span the compilers and the kernel.

  \<^bold>\<open>What the theorems show.\<close> Resuming performs exactly the steps without a journaled observation, in order, and the
  executor is only called right after the intent was written, whatever was killed
  when; journals only grow; stored tickets always have a legal history; a destructive plan waits and
  cannot be resumed before its approvals; a ticket that may act is closed by a kernel
  that is not killed. Leases exclude, the two stores agree, ticket ids round-trip, the tally agrees exactly
  when its rule is met, only validated answers come back, prompts are redacted, access
  follows the roles file, compiled plans keep the guardrails, a skill is on only where a person turned it on and its power actions wait for approval, a power cycle is done at most once, and an aborted run stays aborted. Input goes only to allowed windows and within the
  rate, a push passes the gate exactly when it keeps every rule, and stored addresses read back. No GPU is
  overbooked, reconciliation reaches the registry, and a role stays served through swaps and rollbacks.
  Each theorem with a hypothesis has an instance on concrete data. Lemmas named in the findings show
  where the code does not do what it says.

  \<^bold>\<open>How the code is modelled.\<close> A Python \<open>str\<close> is the list of its UTF-8 bytes, and the classes of
  regular expressions are the ASCII ones. Floats are rationals. Times are microseconds since the epoch.
  A pydantic model is a record with a predicate or a validating constructor for its constraints; a file holds the value that
  was written, so that the JSON codec is not visible, and a write replaces the file at
  once, as the sources do by writing a temporary file and renaming it. A crash is
  a counter in the state (\<open>k_lives\<close>, \<open>v_lives\<close>): before each durable write and, in the executor,
  each hardware call it is decremented, and the program is killed when it is zero; \<open>None\<close> never kills. So a
  theorem for all states is a theorem for all crash points. The agents, the executor behind the kernel, the hardware layer,
  the models behind the gateway, the validator of an answer, the redaction rules, the renderer of
  procedures, the desktop behind the screen driver, git and its repository, the container runtime, pydantic's reading of a skill header and the clock are parameters, and what a theorem needs of one is a named hypothesis.
  All definitions are total: loops are structural recursion over the steps, rows, voters or attempts the code
  iterates over, so no fuel is needed; where the recursion is not structural, as in substitution by a regular expression
  (\<open>Stdlib\<close>) and the scanner of templates, there is a termination proof.

  \<^bold>\<open>Not modelled.\<close> The web front end, the HTTP services and clients, the database migrations, the
  installer, the command line, dashboards and container control are input and output around
  other programs. Within the modelled packages: logging, traces and alerts beyond their
  effect on the state, YAML and JSON-schema rendering, the spreadsheet reader, and OpenID Connect.
\<close>

section \<open>A validation run waits for its approvals\<close>

lemma plan_validate_ids: "plan_validate p = Inr p \<Longrightarrow> plan_ids_ok p"
  by (auto simp: plan_validate_def plan_ids_ok_def split: if_splits option.splits)

lemma resume_while_pending:
  assumes "awaits p t" "destructive p" "file_load (k_store s) tid = Some t"
  shows "resume K tid s = (Raise (ApprovalPending t), s)"
proof -
  have "pending_approvals t \<noteq> []"
    using assms(1,2) by (auto simp: awaits_def destructive_def destructive_steps_def list_ex_iff filter_empty_conv)
  then show ?thesis
    using assms(1,3) by (simp add: resume_loaded resume_ticket_def finished_def TERMINAL_STATES_def raise_def awaits_def)
qed

text \<open>A run whose plan holds a step that needs approval performs nothing and asks for it.\<close>

lemma run_waits_for_step:
  assumes "planned K raw job p" "st \<in> set (p_steps p)" "needs_approval st"
  shows "k_executed (snd (run K raw s)) = k_executed s \<and>
    (p_job_id p = j_id job \<and> plan_ids_ok p \<and> healthy s \<longrightarrow> (\<exists>t. fst (run K raw s) = Ret t \<and> t_state t = Planned \<and>
       s_id st \<in> set (map ap_step_id (pending_approvals t)) \<and>
       resume K (t_id t) (snd (run K raw s)) = (Raise (ApprovalPending t), snd (run K raw s))))"
proof -
  have d: "destructive p" using assms(2,3) by (auto simp: destructive_def list_ex_iff)
  have "k_executed (snd (run K raw s)) = k_executed s"
    using run_destructive_quiet [OF assms(1) d] by (simp add: steps_def quiet_def)
  moreover have "\<exists>t. fst (run K raw s) = Ret t" if "p_job_id p = j_id job" "plan_ids_ok p" "healthy s"
    using returns_run_destructive [OF assms(1) that(1,2) d] that(3) unfolding returns_def by (metis fst_conv)
  moreover have "t_state t = Planned \<and> s_id st \<in> set (map ap_step_id (pending_approvals t)) \<and>
      resume K (t_id t) (snd (run K raw s)) = (Raise (ApprovalPending t), snd (run K raw s))" if "fst (run K raw s) = Ret t" for t
  proof -
    have a: "awaits p t" "file_load (k_store (snd (run K raw s))) (t_id t) = Some t"
      using run_destructive_Ret [OF assms(1) d, of s t "snd (run K raw s)"] that by (metis prod.collapse)+
    have "map ap_step_id (pending_approvals t) = map s_id (filter needs_approval (p_steps p))" "t_state t = Planned"
      using a(1) by (auto simp: awaits_def destructive_steps_def)
    then show ?thesis using assms(2,3) resume_while_pending [OF a(1) d a(2), of K] by auto
  qed
  ultimately show ?thesis by blast
qed

lemma sample_plan_asks:
  "case sample_plan of Inl _ \<Rightarrow> False
   | Inr p \<Rightarrow> list_ex (\<lambda>st. approval_kind (s_primitive st) (s_args st) = Inr (Some ''ac_cycle'')) (p_steps p)"
  by code_simp

text \<open>
  C8. The test-plan compiler and the kernel agree on what needs a person: when the plan of a run was
  compiled from a suite and holds a step whose primitive and arguments need an approval, the run performs no step,
  wherever it is killed; a run that is not killed returns a stored \<open>Planned\<close> ticket with an
  approval pending for that step, and resuming it is refused and changes nothing.
\<close>
theorem validation_waits_for_approval:
  assumes "planned K raw job p" "compile_suite su (j_id job) target g now compiler = Inr p" "0 \<le> gr_max_cycles_per_run g"
    and st: "st \<in> set (p_steps p)" "approval_kind (s_primitive st) (s_args st) = Inr (Some k)"
  shows "k_executed (snd (run K raw s)) = k_executed s \<and>
    (healthy s \<longrightarrow> (\<exists>t. fst (run K raw s) = Ret t \<and> t_state t = Planned \<and>
       s_id st \<in> set (map ap_step_id (pending_approvals t)) \<and>
       resume K (t_id t) (snd (run K raw s)) = (Raise (ApprovalPending t), snd (run K raw s))))"
proof -
  obtain cs where b: "steps_built su target g compiler cs (p_steps p)" and v: "plan_validate p = Inr p" "p_job_id p = j_id job"
    using compile_suite_cases [OF assms(3), of su "j_id job" target now compiler] assms(2) by force
  have "needs_approval st"
    using b st risk_of_destructive [of "s_primitive st" "s_args st"]
    by (auto simp: steps_built_def list_all_iff built_def needs_approval_def)
  then show ?thesis using run_waits_for_step [OF assms(1) st(1), of s] v(2) plan_validate_ids [OF v(1)] by simp
qed

definition compiled_kernel :: "plan \<Rightarrow> fake_executor kernel" where
  "compiled_kernel p = (demo_kernel Destructive)\<lparr>kn_agent := (kn_agent (demo_kernel Destructive))\<lparr>ag_plan := (\<lambda>_. Inr p)\<rparr>\<rparr>"

lemma validation_waits_for_approval_witness:
  "\<exists>p t st. sample_plan = Inr p \<and> st \<in> set (p_steps p) \<and>
     fst (run (compiled_kernel p) demo_raw demo_start) = Ret t \<and> t_state t = Planned \<and>
     s_id st \<in> set (map ap_step_id (pending_approvals t)) \<and>
     k_executed (snd (run (compiled_kernel p) demo_raw demo_start)) = []"
proof -
  obtain p st where p: "sample_plan = Inr p" "st \<in> set (p_steps p)" "approval_kind (s_primitive st) (s_args st) = Inr (Some ''ac_cycle'')"
    using sample_plan_asks by (auto split: sum.splits simp: list_ex_iff)
  have "planned (compiled_kernel p) demo_raw demo_job p"
    by (simp add: planned_def compiled_kernel_def demo_kernel_def)
  moreover have "compile_suite (sample_suite [sample_item ''AC cycle'' [] 2 True]) (j_id demo_job) ''lab-1'' DEFAULT_GUARDRAILS 0 None = Inr p"
    using p(1) by (simp add: sample_plan_def demo_job_def)
  moreover have "0 \<le> gr_max_cycles_per_run DEFAULT_GUARDRAILS" by (simp add: DEFAULT_GUARDRAILS_def)
  ultimately have "k_executed (snd (run (compiled_kernel p) demo_raw demo_start)) = k_executed demo_start \<and>
      (\<exists>t. fst (run (compiled_kernel p) demo_raw demo_start) = Ret t \<and> t_state t = Planned \<and>
        s_id st \<in> set (map ap_step_id (pending_approvals t)))"
    using validation_waits_for_approval [where s = demo_start, OF _ _ _ p(2,3)] demo_start_healthy by blast
  then show ?thesis using p(1,2) by (auto simp: demo_start_def initial_state_def)
qed


section \<open>A plan with a skill waits for its approvals\<close>

text \<open>What the gate makes of a \<open>skill\<close> step it lets through.\<close>

definition through_gate :: "skill_gate \<Rightarrow> agent_name \<Rightarrow> string \<Rightarrow> step \<Rightarrow> step \<Rightarrow> bool" where
  "through_gate g agent job_id st st' \<longleftrightarrow>
     (\<exists>k inputs c. map_of (sg_library g) (case map_of (s_args st) ''skill_id'' of None \<Rightarrow> [] | Some v \<Rightarrow> py_str v) = Some k \<and>
        agent \<in> set (sk_agents k) \<and> store_is_enabled (sg_state g) (sk_id k) agent \<and> skill_inputs st k = Inr inputs \<and>
        compile_skill k inputs job_id (sg_now g) = Inr c \<and> s_id st' = s_id st \<and> s_risk st \<le> s_risk st' \<and>
        map_of (s_args st') ''compiled'' = Some (sg_dump g c) \<and> (destructive (cs_plan c) \<longrightarrow> needs_approval st'))"

lemma expand_step_through:
  assumes "expand_step g st job_id agent = Inr st'"
  shows "through_gate g agent job_id st st'"
proof -
  obtain k where k: "map_of (sg_library g) (case map_of (s_args st) ''skill_id'' of None \<Rightarrow> [] | Some v \<Rightarrow> py_str v) = Some k"
      "agent \<in> set (sk_agents k)" "store_is_enabled (sg_state g) (sk_id k) agent"
    using assms unfolding expand_step_def Let_def by (auto split: option.splits if_splits)
  then obtain inputs c where c: "skill_inputs st k = Inr inputs" "compile_skill k inputs job_id (sg_now g) = Inr c"
    using assms unfolding expand_step_def Let_def by (auto split: sum.splits compile_failure.splits)
  let ?r = "max_risk (map s_risk (p_steps (cs_plan c)))"
  have st': "st' = st\<lparr>s_args := AList.update ''compiled'' (sg_dump g c) (s_args st),
      s_risk := (if RISK_ORDER ?r < RISK_ORDER (s_risk st) then s_risk st else ?r)\<rparr>"
    using assms k c unfolding expand_step_def Let_def by simp
  have "?r = Destructive" if "destructive (cs_plan c)"
    using that by (force simp: max_risk_destructive destructive_def needs_approval_def list_ex_iff)
  moreover have "s_risk st \<le> s_risk st'" unfolding st' by (simp add: less_eq_risk_def)
  moreover have "needs_approval st'" if "?r = Destructive"
    using that unfolding st' needs_approval_def by (cases "s_risk st") simp_all
  ultimately show ?thesis using k c st' unfolding through_gate_def by (intro exI [of _ k] exI [of _ inputs] exI [of _ c]) simp
qed

lemma gate_expand_through:
  assumes "gate_expand g p0 agent = Inr p"
  shows "list_all2 (\<lambda>st st'. if s_primitive st = SKILL_PRIMITIVE then through_gate g agent (p_job_id p0) st st' else st' = st) (p_steps p0) (p_steps p)"
    "p_job_id p = p_job_id p0"
proof -
  obtain ss where ss: "sum_list_of (\<lambda>st. if s_primitive st = SKILL_PRIMITIVE then expand_step g st (p_job_id p0) agent else Inr st) (p_steps p0) = Inr ss"
      "p = p0\<lparr>p_steps := ss\<rparr>"
    using assms by (auto simp: gate_expand_def map_sum_Inr)
  show "p_job_id p = p_job_id p0" using ss(2) by simp
  have "list_all2 (\<lambda>st st'. if s_primitive st = SKILL_PRIMITIVE then through_gate g agent (p_job_id p0) st st' else st' = st) (p_steps p0) ss"
    using ss(1) unfolding sum_list_of_Inr by (rule list_all2_mono) (auto simp: expand_step_through split: if_splits)
  then show "list_all2 (\<lambda>st st'. if s_primitive st = SKILL_PRIMITIVE then through_gate g agent (p_job_id p0) st st' else st' = st) (p_steps p0) (p_steps p)"
    using ss(2) by simp
qed

text \<open>The kernel's gate lets a plan through only as \<open>SkillGate.expand\<close> does.\<close>

definition gated :: "'w kernel \<Rightarrow> skill_gate \<Rightarrow> bool" where
  "gated K g \<longleftrightarrow> (\<exists>ex. kn_skill_gate K = Some ex \<and>
     (\<forall>p p'. ex p (ag_name (kn_agent K)) = Inr p' \<longrightarrow> gate_expand g p (ag_name (kn_agent K)) = Inr p'))"

lemma planned_through:
  assumes "planned K raw job p" "gated K g"
  obtains p0 where "ag_plan (kn_agent K) job = Inr p0" "gate_expand g p0 (ag_name (kn_agent K)) = Inr p"
  using assms unfolding planned_def gated_def by auto


definition skill_step_sample :: step where
  "skill_step_sample = \<lparr>s_id = ''off'', s_n = 1, s_primitive = ''skill'', s_title = ''Power'',
     s_args = [(''skill_id'', JStr ''power''), (''inputs'', JObj (sample_inputs ''pw''))], s_risk = Safe, s_when = None\<rparr>"

definition power_gate :: skill_gate where
  "power_gate = \<lparr>sg_library = [(''power'', power_skill)],
     sg_state = [(''power'', \<lparr>st_skill_id = ''power'', st_version = ''1.0.0'', st_imported_by = ''Ann'', st_imported_at = 0, st_agents = [Validation],
       st_requires = [], st_risk = Destructive, st_enabled = [(Validation, \<lparr>em_by = ''Ann'', em_at = 0\<rparr>)], st_reset_reason = None\<rparr>)],
     sg_now = 0, sg_dump = (\<lambda>_. JNull)\<rparr>"

definition gated_kernel :: "fake_executor kernel" where
  "gated_kernel = (compiled_kernel ((demo_plan Safe)\<lparr>p_steps := [skill_step_sample]\<rparr>))\<lparr>
     kn_agent := (kn_agent (compiled_kernel ((demo_plan Safe)\<lparr>p_steps := [skill_step_sample]\<rparr>)))\<lparr>ag_name := Validation\<rparr>,
     kn_skill_gate := Some (\<lambda>p agent. case gate_expand power_gate p agent of Inr p' \<Rightarrow> Inr p' | Inl (SkillGateError st m) \<Rightarrow> Inl (st, m)
       | Inl _ \<Rightarrow> Inl (skill_step_sample, \<lparr>tp_what_happened = [], tp_likely_cause = [], tp_what_to_do = []\<rparr>))\<rparr>"

lemma power_skill_head: "sk_id power_skill = ''power'' \<and> Validation \<in> set (sk_agents power_skill) \<and>
    skill_inputs skill_step_sample power_skill = Inr (sample_inputs ''pw'')"
  by code_simp


end
